(* ===== verification/Prelude.thy ===== *)
theory Prelude
  imports Main "HOL-Library.List_Lexorder" "HOL-Library.Char_ord" "HOL-Library.Product_Lexorder"
begin

text \<open>
  Shared vocabulary of the development.

  \<^item> Time: Go's \<open>time.Time\<close> and \<open>time.Duration\<close> are \<open>int\<close> nanoseconds (\<open>time\<close> since the
    Unix epoch); \<open>unix\<close> writes out the 64-bit wrap-around of \<open>UnixNano\<close>.
  \<^item> Errors: the error values of the program are the datatype \<open>err\<close>; a fallible call returns
    \<open>err + 'a\<close>, and a bare Go \<open>error\<close> is \<open>err option\<close> (\<open>None\<close> for nil).
  \<^item> Effects: a store call runs in a \<open>world\<close>: the database, the clock, the entropy still to be
    read and the outcomes the SQL driver has in stock for the next statements. The driver may
    refuse any statement; \<open>stmt\<close> takes the next outcome, \<open>query\<close> and \<open>exec\<close> run one statement,
    \<open>in_tx\<close> is \<open>BeginTx\<close> with the deferred \<open>Rollback\<close>.
  \<^item> Tables are lists of row records in rowid order; \<open>update_rows\<close> is the effect of
    \<open>UPDATE .. WHERE\<close> and \<open>count_rows\<close> its number of affected rows.
  \<^item> \<open>post\<close> states what holds after a call, on success and on error; the rules collected in
    \<open>wp\<close> take a statement of this form apart along the program.
\<close>

named_theorems wp \<open>rules that take a postcondition apart along the program\<close>
named_theorems row_simps \<open>simplification of row lists\<close>

section \<open>Time\<close>

type_synonym time = int
type_synonym duration = int

definition wrap64 :: "int \<Rightarrow> int" where
  "wrap64 v = (v + 2 ^ 63) mod 2 ^ 64 - 2 ^ 63"

definition unix :: "time \<Rightarrow> int" where
  "unix t = wrap64 t"

definition fromUnix :: "int \<Rightarrow> time" where
  "fromUnix v = v"

definition nullableTime :: "int option \<Rightarrow> time option" where
  "nullableTime v = map_option fromUnix v"

definition timeValue :: "time option \<Rightarrow> int option" where
  "timeValue v = map_option unix v"

abbreviation (input) nanosecond :: duration where "nanosecond \<equiv> 1"
definition millisecond :: duration where "millisecond = 1000000"
definition second :: duration where "second = 1000 * millisecond"
definition minute :: duration where "minute = 60 * second"
definition hour :: duration where "hour = 60 * minute"

text \<open>\<open>Duration.Milliseconds\<close> truncates towards zero.\<close>

definition Milliseconds :: "duration \<Rightarrow> int" where
  "Milliseconds d = sgn d * (\<bar>d\<bar> div millisecond)"

text \<open>\<open>Time.Sub\<close> saturates at the bounds of \<open>time.Duration\<close>.\<close>

definition Sub :: "time \<Rightarrow> time \<Rightarrow> duration" where
  "Sub t u = max (- (2 ^ 63)) (min (2 ^ 63 - 1) (t - u))"

text \<open>The zero value of \<open>time.Time\<close>: the first of January of the year 1.\<close>

definition zero_time :: time where
  "zero_time = - 62135596800 * second"

section \<open>Errors\<close>

datatype driver_err = DriverFailed | ContextCanceled | ContextDeadline

text \<open>The codes of the wire protocol that the API uses.\<close>

datatype code =
    CodeAlreadyExists | CodeCanceled | CodeFailedPrecondition | CodeInternal | CodeInvalidArgument
  | CodeNotFound | CodePermissionDenied | CodeUnauthenticated | CodeUnavailable | CodeUnimplemented

text \<open>
  The classes of \<open>containerd/errdefs\<close> that the client of the container engine tells apart, and the
  two errors of its transport: \<open>*url.Error\<close> and \<open>io.ErrUnexpectedEOF\<close>.
\<close>

datatype engine_err =
    EngineNotFound | EngineUnavailable | EngineDeadlineExceeded | EngineAborted | EngineResourceExhausted
  | EngineConflict | EngineInternal | EngineDataLoss | EngineInvalidArgument | EngineNotImplemented
  | EngineOutOfRange | EngineTransport | EngineUnexpectedEOF

datatype err =
    ErrAlreadyExists
  | ErrForbidden
  | ErrIdempotencyConflict
  | ErrInvalidPageToken
  | ErrLoginPending
  | ErrNotFound
  | ErrUnauthenticated
  | ErrDriver driver_err \<comment> \<open>an error of the driver or of the context\<close>
  | ErrUnique string \<comment> \<open>a UNIQUE constraint of the schema\<close>
  | ErrForeignKey string \<comment> \<open>a FOREIGN KEY constraint of the schema\<close>
  | ErrRandom \<comment> \<open>\<open>crypto/rand\<close> failed\<close>
  | ErrText string \<comment> \<open>\<open>errors.New\<close>\<close>
  | ErrResolution string err \<comment> \<open>\<open>secrets.ResolutionError\<close> with the name of the secret\<close>
  | ErrResourceExhausted int int int int
      \<comment> \<open>\<open>capacity.ResourceExhaustedError\<close>: free and required bytes, free and required inodes\<close>
  | ErrEngine engine_err \<comment> \<open>an error of the container engine\<close>
  | ErrConnect code err \<comment> \<open>\<open>connect.NewError\<close>\<close>
  | ErrWrap string err \<comment> \<open>\<open>fmt.Errorf\<close> with \<open>%w\<close>\<close>
  | ErrJoin "err list" \<comment> \<open>\<open>errors.Join\<close>\<close>

definition os_ErrNotExist :: err where
  "os_ErrNotExist = ErrText ''file does not exist''"

text \<open>\<open>errors.Is\<close> walks the wrapped and the joined errors.\<close>

fun err_is :: "err \<Rightarrow> err \<Rightarrow> bool" where
  "err_is (ErrWrap s e) t \<longleftrightarrow> ErrWrap s e = t \<or> err_is e t"
| "err_is (ErrConnect c e) t \<longleftrightarrow> ErrConnect c e = t \<or> err_is e t"
| "err_is (ErrResolution s e) t \<longleftrightarrow> ErrResolution s e = t \<or> err_is e t"
| "err_is (ErrJoin es) t \<longleftrightarrow> ErrJoin es = t \<or> (\<exists>e \<in> set es. err_is e t)"
| "err_is e t \<longleftrightarrow> e = t"

text \<open>
  \<open>errors.As\<close> with an interface that has \<open>Permanent() bool\<close>: the first error of the tree that has
  the method, which is \<open>ResolutionError\<close> alone.
\<close>

definition ErrRevoked :: err where
  "ErrRevoked = ErrText ''secret reference is unavailable or revoked''"

definition errInvalidValue :: err where
  "errInvalidValue = ErrText ''secret value is empty or exceeds 1 MiB''"

definition Permanent :: "err \<Rightarrow> bool" where
  "Permanent cause \<longleftrightarrow> err_is cause ErrRevoked \<or> err_is cause errInvalidValue"

fun as_resolution :: "err \<Rightarrow> err option" and as_first :: "err list \<Rightarrow> err option" where
  "as_resolution (ErrResolution s e) = Some e"
| "as_resolution (ErrConnect c e) = as_resolution e"
| "as_resolution (ErrWrap s e) = as_resolution e"
| "as_resolution (ErrJoin es) = as_first es"
| "as_resolution _ = None"
| "as_first [] = None"
| "as_first (e # es) = (case as_resolution e of Some cause \<Rightarrow> Some cause | None \<Rightarrow> as_first es)"

definition is_permanent :: "err \<Rightarrow> bool" where
  "is_permanent e \<longleftrightarrow> (case as_resolution e of None \<Rightarrow> False | Some cause \<Rightarrow> Permanent cause)"

text \<open>\<open>errors.Join\<close> drops nil errors and is nil when nothing is left.\<close>

definition join_errors :: "err option list \<Rightarrow> err option" where
  "join_errors es =
     (let found = map the (filter (\<lambda>e. e \<noteq> None) es)
      in if found = [] then None else Some (ErrJoin found))"

definition error_of :: "(err + 'a) \<Rightarrow> err option" where
  "error_of r = (case r of Inl e \<Rightarrow> Some e | Inr _ \<Rightarrow> None)"

lemma join_errors_None [simp]: "join_errors es = None \<longleftrightarrow> (\<forall>e \<in> set es. e = None)"
  by (auto simp: join_errors_def Let_def filter_empty_conv)

lemma error_of_simps [simp]: "error_of (Inl e) = Some e" "error_of (Inr x) = None"
  by (simp_all add: error_of_def)

section \<open>Worlds and calls\<close>

record 'd world =
  db :: 'd
  faults :: "driver_err option list"
  now :: time
  entropy :: string

type_synonym ('d, 'a) res = "(err + 'a) \<times> 'd world"

definition bindR :: "(err + 'a) \<times> 'w \<Rightarrow> ('a \<Rightarrow> 'w \<Rightarrow> (err + 'b) \<times> 'w) \<Rightarrow> (err + 'b) \<times> 'w" where
  "bindR r k = (case r of (Inl e, w) \<Rightarrow> (Inl e, w) | (Inr x, w) \<Rightarrow> k x w)"

definition stmt :: "'d world \<Rightarrow> ('d, unit) res" where
  "stmt w =
     (case faults w of
        [] \<Rightarrow> (Inr (), w)
      | None # fs \<Rightarrow> (Inr (), w\<lparr>faults := fs\<rparr>)
      | Some e # fs \<Rightarrow> (Inl (ErrDriver e), w\<lparr>faults := fs\<rparr>))"

definition query :: "('d \<Rightarrow> 'a) \<Rightarrow> 'd world \<Rightarrow> ('d, 'a) res" where
  "query f w = bindR (stmt w) (\<lambda>_ w. (Inr (f (db w)), w))"

definition exec :: "('d \<Rightarrow> err + (nat \<times> 'd)) \<Rightarrow> 'd world \<Rightarrow> ('d, nat) res" where
  "exec u w =
     bindR (stmt w) (\<lambda>_ w.
       case u (db w) of
         Inl e \<Rightarrow> (Inl e, w)
       | Inr (n, d) \<Rightarrow> (Inr n, w\<lparr>db := d\<rparr>))"

text \<open>
  The body of a transaction ends with \<open>Commit\<close> where the code returns after \<open>tx.Commit()\<close>, with
  \<open>Rollback\<close> where it returns a value before it, and with an error otherwise; the deferred
  \<open>tx.Rollback()\<close> undoes everything but a commit that the driver accepted.
\<close>

datatype 'a tx_end = Commit 'a | Rollback 'a

definition in_tx :: "('d world \<Rightarrow> ('d, 'a tx_end) res) \<Rightarrow> 'd world \<Rightarrow> ('d, 'a) res" where
  "in_tx body w =
     bindR (stmt w) (\<lambda>_ w1.
       case body w1 of
         (Inl e, w2) \<Rightarrow> (Inl e, w2\<lparr>db := db w1\<rparr>)
       | (Inr (Rollback x), w2) \<Rightarrow> (Inr x, w2\<lparr>db := db w1\<rparr>)
       | (Inr (Commit x), w2) \<Rightarrow>
           (case stmt w2 of
              (Inl e, w3) \<Rightarrow> (Inl e, w3\<lparr>db := db w1\<rparr>)
            | (Inr _, w3) \<Rightarrow> (Inr x, w3)))"

text \<open>\<open>rand.Read\<close> of \<open>n\<close> bytes: an exhausted pool stands for a failing source.\<close>

definition rand_read :: "nat \<Rightarrow> 'd world \<Rightarrow> ('d, string) res" where
  "rand_read n w =
     (if n \<le> length (entropy w)
      then (Inr (take n (entropy w)), w\<lparr>entropy := drop n (entropy w)\<rparr>)
      else (Inl ErrRandom, w))"

definition hex_digit :: "nat \<Rightarrow> char" where
  "hex_digit n = ''0123456789abcdef'' ! (n mod 16)"

definition hex_encode :: "string \<Rightarrow> string" where
  "hex_encode bs = concat (map (\<lambda>c. [hex_digit (of_char c div 16), hex_digit (of_char c)]) bs)"

definition randomID :: "string \<Rightarrow> 'd world \<Rightarrow> ('d, string) res" where
  "randomID prefix w = bindR (rand_read 12 w) (\<lambda>value w. (Inr (prefix @ hex_encode value), w))"

section \<open>Rows\<close>

definition update_rows :: "('r \<Rightarrow> bool) \<Rightarrow> ('r \<Rightarrow> 'r) \<Rightarrow> 'r list \<Rightarrow> 'r list" where
  "update_rows P f rows = map (\<lambda>r. if P r then f r else r) rows"

definition count_rows :: "('r \<Rightarrow> bool) \<Rightarrow> 'r list \<Rightarrow> nat" where
  "count_rows P rows = length (filter P rows)"

section \<open>Postconditions\<close>

definition post :: "('a \<Rightarrow> 'w \<Rightarrow> bool) \<Rightarrow> (err \<Rightarrow> 'w \<Rightarrow> bool) \<Rightarrow> (err + 'a) \<times> 'w \<Rightarrow> bool" where
  "post Q E r = (case r of (Inl e, w) \<Rightarrow> E e w | (Inr x, w) \<Rightarrow> Q x w)"

lemma post_simps [simp]:
  "post Q E (Inl e, w) = E e w"
  "post Q E (Inr x, w) = Q x w"
  by (simp_all add: post_def)

lemma postI:
  "(\<And>x w. r = (Inr x, w) \<Longrightarrow> Q x w) \<Longrightarrow> (\<And>e w. r = (Inl e, w) \<Longrightarrow> E e w) \<Longrightarrow> post Q E r"
  by (simp add: post_def split: prod.splits sum.splits)

lemma postD_ok: "post Q E r \<Longrightarrow> r = (Inr x, w) \<Longrightarrow> Q x w"
  by simp

lemma postD_err: "post Q E r \<Longrightarrow> r = (Inl e, w) \<Longrightarrow> E e w"
  by simp

lemma post_mono:
  assumes "post Q E r"
    and "\<And>x w. r = (Inr x, w) \<Longrightarrow> Q x w \<Longrightarrow> Q' x w"
    and "\<And>e w. r = (Inl e, w) \<Longrightarrow> E e w \<Longrightarrow> E' e w"
  shows "post Q' E' r"
  using assms by (simp add: post_def split: prod.splits sum.splits)

lemma post_keeps: "post (\<lambda>_ w. I (db w)) (\<lambda>_ w. I (db w)) r \<Longrightarrow> I (db (snd r))"
  by (cases r) (auto simp: post_def split: sum.splits)

lemma post_bindR [wp]: "post (\<lambda>x w. post Q E (k x w)) E r \<Longrightarrow> post Q E (bindR r k)"
  by (simp add: post_def bindR_def split: prod.splits sum.splits)

lemma post_Inl [wp]: "E e w \<Longrightarrow> post Q E (Inl e, w)"
  and post_Inr [wp]: "Q x w \<Longrightarrow> post Q E (Inr x, w)"
  by simp_all

lemma post_if [wp]:
  "(c \<Longrightarrow> post Q E r) \<Longrightarrow> (\<not> c \<Longrightarrow> post Q E s) \<Longrightarrow> post Q E (if c then r else s)"
  by simp

lemma post_case_option [wp]:
  "(x = None \<Longrightarrow> post Q E r) \<Longrightarrow> (\<And>y. x = Some y \<Longrightarrow> post Q E (f y)) \<Longrightarrow>
   post Q E (case x of None \<Rightarrow> r | Some y \<Rightarrow> f y)"
  by (cases x) simp_all

lemma post_Let [wp]: "post Q E (f x) \<Longrightarrow> post Q E (Let x f)"
  by simp

lemma post_stmt [wp]:
  assumes "\<And>fs. Q () (w\<lparr>faults := fs\<rparr>)" and "\<And>e fs. E (ErrDriver e) (w\<lparr>faults := fs\<rparr>)"
  shows "post Q E (stmt w)"
proof -
  have "w\<lparr>faults := faults w\<rparr> = w" by simp
  then have "Q () w" using assms(1) [of "faults w"] by simp
  then show ?thesis using assms by (simp add: stmt_def split: list.split option.split)
qed

lemma post_query [wp]:
  assumes "\<And>fs. Q (f (db w)) (w\<lparr>faults := fs\<rparr>)" and "\<And>e fs. E (ErrDriver e) (w\<lparr>faults := fs\<rparr>)"
  shows "post Q E (query f w)"
  unfolding query_def by (intro wp) (simp_all add: assms)

lemma post_exec:
  assumes "\<And>n d fs. u (db w) = Inr (n, d) \<Longrightarrow> Q n (w\<lparr>faults := fs, db := d\<rparr>)"
    and "\<And>e fs. u (db w) = Inl e \<Longrightarrow> E e (w\<lparr>faults := fs\<rparr>)"
    and "\<And>e fs. E (ErrDriver e) (w\<lparr>faults := fs\<rparr>)"
  shows "post Q E (exec u w)"
  unfolding exec_def by (intro wp) (auto simp: assms split: sum.split)

lemma stmt_InlD: "stmt w = (Inl e, v) \<Longrightarrow> \<exists>x fs. e = ErrDriver x \<and> v = w\<lparr>faults := fs\<rparr>"
  by (auto simp: stmt_def split: list.splits option.splits)

lemma stmt_InrD:
  assumes "stmt w = (Inr u, v)" shows "\<exists>fs. v = w\<lparr>faults := fs\<rparr>"
proof -
  have "\<exists>fs. w = w\<lparr>faults := fs\<rparr>" by (rule exI [of _ "faults w"]) simp
  with assms show ?thesis
    by (simp add: stmt_def split: list.splits option.splits) blast+
qed

text \<open>What has to hold where the body of a transaction ends, for the transaction to satisfy \<open>Q\<close>.\<close>

definition tx_post :: "('a \<Rightarrow> 'd world \<Rightarrow> bool) \<Rightarrow> (err \<Rightarrow> 'd world \<Rightarrow> bool) \<Rightarrow> 'd \<Rightarrow> 'a tx_end \<Rightarrow> 'd world \<Rightarrow> bool" where
  "tx_post Q E d x w =
     (case x of
        Commit y \<Rightarrow> (\<forall>fs. Q y (w\<lparr>faults := fs\<rparr>)) \<and> (\<forall>e fs. E (ErrDriver e) (w\<lparr>faults := fs, db := d\<rparr>))
      | Rollback y \<Rightarrow> Q y (w\<lparr>db := d\<rparr>))"

lemma tx_post_Commit [wp]:
  "(\<And>fs. Q y (w\<lparr>faults := fs\<rparr>)) \<Longrightarrow> (\<And>e fs. E (ErrDriver e) (w\<lparr>faults := fs, db := d\<rparr>)) \<Longrightarrow>
   tx_post Q E d (Commit y) w"
  by (simp add: tx_post_def)

lemma tx_post_Rollback [wp]: "Q y (w\<lparr>db := d\<rparr>) \<Longrightarrow> tx_post Q E d (Rollback y) w"
  by (simp add: tx_post_def)

lemma post_in_tx [wp]:
  assumes body: "\<And>fs. post (tx_post Q E (db w)) (\<lambda>e w2. E e (w2\<lparr>db := db w\<rparr>)) (body (w\<lparr>faults := fs\<rparr>))"
    and fault: "\<And>e fs. E (ErrDriver e) (w\<lparr>faults := fs\<rparr>)"
  shows "post Q E (in_tx body w)"
  unfolding in_tx_def
proof (intro wp fault)
  fix fs
  show "post Q E
     (case body (w\<lparr>faults := fs\<rparr>) of
       (Inl e, w2) \<Rightarrow> (Inl e, w2\<lparr>db := db (w\<lparr>faults := fs\<rparr>)\<rparr>)
     | (Inr (Commit x), w2) \<Rightarrow>
         (case stmt w2 of
            (Inl e, w3) \<Rightarrow> (Inl e, w3\<lparr>db := db (w\<lparr>faults := fs\<rparr>)\<rparr>)
          | (Inr _, w3) \<Rightarrow> (Inr x, w3))
     | (Inr (Rollback x), w2) \<Rightarrow> (Inr x, w2\<lparr>db := db (w\<lparr>faults := fs\<rparr>)\<rparr>))"
    using body [of fs]
    by (cases "body (w\<lparr>faults := fs\<rparr>)")
       (auto simp: tx_post_def split: prod.split sum.split tx_end.split dest!: stmt_InlD stmt_InrD)
qed

lemma post_rand_read [wp]:
  assumes "\<And>bs es. length bs = n \<Longrightarrow> Q bs (w\<lparr>entropy := es\<rparr>)" and "E ErrRandom w"
  shows "post Q E (rand_read n w)"
  using assms by (simp add: rand_read_def)

lemma post_randomID [wp]:
  assumes "\<And>bs es. length bs = 12 \<Longrightarrow> Q (prefix @ hex_encode bs) (w\<lparr>entropy := es\<rparr>)" and "E ErrRandom w"
  shows "post Q E (randomID prefix w)"
  unfolding randomID_def by (intro wp) (simp_all add: assms)

text \<open>Without driver faults every statement runs.\<close>

lemma stmt_ok [simp]: "faults w = [] \<Longrightarrow> stmt w = (Inr (), w)"
  by (simp add: stmt_def)

lemma bindR_simps [simp]: "bindR (Inl e, w) k = (Inl e, w)" "bindR (Inr x, w) k = k x w"
  by (simp_all add: bindR_def)

lemma in_tx_ok:
  "faults w = [] \<Longrightarrow> in_tx body w =
     (case body w of
        (Inl e, v) \<Rightarrow> (Inl e, v\<lparr>db := db w\<rparr>)
      | (Inr (Rollback x), v) \<Rightarrow> (Inr x, v\<lparr>db := db w\<rparr>)
      | (Inr (Commit x), v) \<Rightarrow>
          (case stmt v of (Inl e, u) \<Rightarrow> (Inl e, u\<lparr>db := db w\<rparr>) | (Inr _, u) \<Rightarrow> (Inr x, u)))"
  by (simp add: in_tx_def)

lemma query_ok [simp]: "faults w = [] \<Longrightarrow> query f w = (Inr (f (db w)), w)"
  by (simp add: query_def)

lemma exec_ok [simp]:
  "faults w = [] \<Longrightarrow> exec u w =
     (case u (db w) of Inl e \<Rightarrow> (Inl e, w) | Inr (n, d) \<Rightarrow> (Inr n, w\<lparr>db := d\<rparr>))"
  by (simp add: exec_def)

section \<open>Lemmas on rows\<close>

lemma update_rows_Nil [row_simps]: "update_rows P f [] = []"
  by (simp add: update_rows_def)

lemma update_rows_Cons [row_simps]:
  "update_rows P f (r # rows) = (if P r then f r else r) # update_rows P f rows"
  by (simp add: update_rows_def)

lemma length_update_rows [simp]: "length (update_rows P f rows) = length rows"
  by (simp add: update_rows_def)

lemma map_update_rows_same:
  "(\<And>r. r \<in> set rows \<Longrightarrow> P r \<Longrightarrow> g (f r) = g r) \<Longrightarrow> map g (update_rows P f rows) = map g rows"
  by (simp add: update_rows_def)

lemma set_update_rows: "set (update_rows P f rows) = (\<lambda>r. if P r then f r else r) ` set rows"
  by (simp add: update_rows_def)

lemma in_update_rows_unchanged [intro, simp]: "r \<in> set rows \<Longrightarrow> \<not> P r \<Longrightarrow> r \<in> set (update_rows P f rows)"
  by (force simp: set_update_rows)

lemma image_update_rows [simp]: "(\<And>r. g (f r) = g r) \<Longrightarrow> g ` set (update_rows P f rows) = g ` set rows"
  by (simp add: update_rows_def image_image flip: set_map) (simp add: comp_def if_distrib cong: if_cong)

lemma map_update_rows [simp]: "(\<And>r. g (f r) = g r) \<Longrightarrow> map g (update_rows P f rows) = map g rows"
  by (simp add: map_update_rows_same)

text \<open>An update relates every row to its image.\<close>

lemma update_rows_sim:
  assumes "\<And>r. r \<in> set rows \<Longrightarrow> P r \<Longrightarrow> R r (f r)" and "\<And>r. R r r"
  shows "\<forall>r \<in> set rows. \<exists>s \<in> set (update_rows P f rows). R r s"
proof
  fix r assume r: "r \<in> set rows"
  then have "(if P r then f r else r) \<in> set (update_rows P f rows)"
    unfolding set_update_rows by (rule imageI)
  moreover have "R r (if P r then f r else r)" using r assms by simp
  ultimately show "\<exists>s \<in> set (update_rows P f rows). R r s" by (rule bexI [rotated])
qed

lemma update_rows_none: "(\<And>r. r \<in> set rows \<Longrightarrow> \<not> P r) \<Longrightarrow> update_rows P f rows = rows"
  by (simp add: update_rows_def map_idI)

lemma count_rows_0 [row_simps]: "count_rows P rows = 0 \<longleftrightarrow> (\<forall>r \<in> set rows. \<not> P r)"
  by (simp add: count_rows_def filter_empty_conv)

lemma count_rows_Nil [row_simps]: "count_rows P [] = 0"
  by (simp add: count_rows_def)

lemma count_rows_Cons [row_simps]:
  "count_rows P (r # rows) = (if P r then 1 else 0) + count_rows P rows"
  by (simp add: count_rows_def)

lemma count_rows_append [row_simps]: "count_rows P (xs @ ys) = count_rows P xs + count_rows P ys"
  by (simp add: count_rows_def)

lemma count_rows_keyed_le_1:
  assumes "distinct (map key rows)" and "\<And>r. P r \<Longrightarrow> key r = k"
  shows "count_rows P rows \<le> 1"
  using assms(1)
proof (induction rows)
  case Nil
  then show ?case by (simp add: count_rows_def)
next
  case (Cons r rows)
  show ?case
  proof (cases "P r")
    case True
    with Cons.prems have "\<forall>s \<in> set rows. \<not> P s"
      using assms(2) by (metis distinct.simps(2) image_eqI list.set_map list.simps(9))
    with True show ?thesis by (simp add: row_simps)
  next
    case False
    with Cons show ?thesis by (simp add: row_simps)
  qed
qed

lemma count_rows_1_witness:
  assumes "count_rows P rows = 1"
  obtains r where "r \<in> set rows" "P r"
  using assms by (metis count_rows_0 zero_neq_one)

lemma count_rows_mono: "(\<And>r. r \<in> set rows \<Longrightarrow> P r \<Longrightarrow> Q r) \<Longrightarrow> count_rows P rows \<le> count_rows Q rows"
  by (induction rows) (auto simp: row_simps)

lemma count_rows_update_same:
  "(\<And>r. r \<in> set rows \<Longrightarrow> P r \<Longrightarrow> Q (f r) = Q r) \<Longrightarrow>
   count_rows Q (update_rows P f rows) = count_rows Q rows"
  by (induction rows) (auto simp: row_simps)

lemma count_rows_update_le:
  "(\<And>r. r \<in> set rows \<Longrightarrow> P r \<Longrightarrow> Q (f r) \<Longrightarrow> Q r) \<Longrightarrow>
   count_rows Q (update_rows P f rows) \<le> count_rows Q rows"
  by (induction rows) (auto simp: row_simps)

lemma unique_row:
  assumes "distinct (map key rows)" "r \<in> set rows" "s \<in> set rows" "key r = key s"
  shows "r = s"
  using assms by (metis distinct_map inj_on_eq_iff)

lemma count_rows_le_1_unique:
  assumes "count_rows P rows \<le> 1" "r \<in> set rows" "s \<in> set rows" "P r" "P s"
  shows "r = s"
  using assms
proof (induction rows)
  case Nil
  then show ?case by simp
next
  case (Cons x rows)
  then show ?case by (auto simp: row_simps split: if_splits)
qed

lemma find_SomeD:
  assumes "find P xs = Some x" shows "x \<in> set xs" "P x"
  using assms by (auto simp: find_Some_iff)

lemma wrap64_id: "- (2 ^ 63) \<le> v \<Longrightarrow> v < 2 ^ 63 \<Longrightarrow> wrap64 v = v"
  by (simp add: wrap64_def)

lemma wrap64_range: "- (2 ^ 63) \<le> wrap64 v \<and> wrap64 v < 2 ^ 63"
  by (simp add: wrap64_def pos_mod_bound)

lemma fromUnix_unix: "- (2 ^ 63) \<le> t \<Longrightarrow> t < 2 ^ 63 \<Longrightarrow> fromUnix (unix t) = t"
  by (simp add: fromUnix_def unix_def wrap64_id)

end
