(* ===== verification/Control_Model.thy ===== *)
theory Control_Model
  imports Prelude
begin

text \<open>
  The data of the control plane: the types of \<open>internal/control/model.go\<close> and
  \<open>internal/protocol/types.go\<close>, and the tables that \<open>Store.migrate\<close> of
  \<open>internal/control/sqlite/store.go\<close> creates.

  Go structs and table rows are separate records: a row holds the columns as they are stored
  (instants as 64-bit nanoseconds, the timeout in milliseconds), the struct what \<open>scanJob\<close> and
  its kin rebuild from them. Columns that hold JSON texts hold the encoded value itself. The
  \<open>cpus\<close> and \<open>memory\<close> columns of jobs, which the code only fills with empty texts, are left out.
\<close>

section \<open>Job and build status\<close>

datatype status =
    StatusPreparing | StatusQueued | StatusRunning | StatusSucceeded
  | StatusFailed | StatusCancelled | StatusTimedOut | StatusLost

fun Terminal :: "status \<Rightarrow> bool" where
  "Terminal StatusSucceeded = True"
| "Terminal StatusFailed = True"
| "Terminal StatusCancelled = True"
| "Terminal StatusTimedOut = True"
| "Terminal StatusLost = True"
| "Terminal _ = False"

datatype build_status = BuildQueued | BuildRunning | BuildSucceeded | BuildFailed | BuildCancelled

datatype operation_kind = OperationJob | OperationBuild

datatype operation_state =
    OperationQueued | OperationAdmitting | OperationActive
  | OperationTerminalizing | OperationCleaning | OperationReleased

text \<open>The life of an operation orders its states.\<close>

instantiation operation_state :: linorder
begin

fun stage :: "operation_state \<Rightarrow> nat" where
  "stage OperationQueued = 0"
| "stage OperationAdmitting = 1"
| "stage OperationActive = 2"
| "stage OperationTerminalizing = 3"
| "stage OperationCleaning = 4"
| "stage OperationReleased = 5"

definition less_eq_operation_state :: "operation_state \<Rightarrow> operation_state \<Rightarrow> bool" where
  "less_eq_operation_state a b \<longleftrightarrow> stage a \<le> stage b"

definition less_operation_state :: "operation_state \<Rightarrow> operation_state \<Rightarrow> bool" where
  "less_operation_state a b \<longleftrightarrow> stage a < stage b"

instance
proof
  fix a b :: operation_state
  assume "a \<le> b" "b \<le> a"
  then show "a = b" by (cases a; cases b) (simp_all add: less_eq_operation_state_def)
qed (auto simp: less_eq_operation_state_def less_operation_state_def)

end

datatype principal_kind = PrincipalDevice | PrincipalGitHub | PrincipalBrowser | PrincipalSystem

section \<open>Structs\<close>

record principal =
  p_kind :: principal_kind
  p_token_id :: string
  p_user_id :: string
  p_project_id :: string
  p_admin :: bool
  p_subject :: string

record cache_mount =
  cache_name :: string
  cache_target :: string

record secret_binding =
  secret_name :: string
  secret_environment :: string
  secret_file :: string

record job =
  job_id :: string
  job_project_id :: string
  job_image :: string
  job_command :: "string list"
  job_working_directory :: string
  job_environment :: "(string \<times> string) list"
  job_root_digest :: string
  job_status :: status
  job_timeout :: duration
  job_created_at :: time
  job_started_at :: "time option"
  job_finished_at :: "time option"
  job_exit_code :: "int option"
  job_error_message :: string
  job_cancel_requested :: bool
  job_worker_id :: string
  job_caches :: "cache_mount list"
  job_secrets :: "secret_binding list"

record prepare_job =
  prep_project_id :: string
  prep_image :: string
  prep_command :: "string list"
  prep_working_directory :: string
  prep_environment :: "(string \<times> string) list"
  prep_timeout :: duration
  prep_caches :: "cache_mount list"
  prep_secrets :: "secret_binding list"

record idempotency =
  idem_key :: string
  idem_request_hash :: string

text \<open>\<open>protocol.Job\<close>: a job as the Swarm adapter reports it.\<close>

record remote_job =
  r_id :: string
  r_project_id :: string
  r_image :: string
  r_command :: "string list"
  r_root_digest :: string
  r_status :: status
  r_worker_id :: string
  r_created_at :: time
  r_started_at :: "time option"
  r_finished_at :: "time option"
  r_timeout_seconds :: int
  r_cancel_requested :: bool
  r_exit_code :: "int option"
  r_error_message :: string

record build =
  build_id :: string
  build_project_id :: string
  build_status :: build_status
  build_created_at :: time
  build_finished_at :: "time option"
  build_exit_code :: "int option"

record operation =
  op_kind :: operation_kind
  op_id :: string
  op_state :: operation_state
  op_accepted_at :: time
  op_leased_at :: "time option"
  op_cleanup_attempts :: int
  op_cleanup_error :: string
  op_cleanup_updated_at :: "time option"

record resource_set =
  rs_services :: "string list"
  rs_containers :: "string list"
  rs_networks :: "string list"
  rs_volumes :: "string list"

section \<open>Tables\<close>

record user_row =
  u_id :: string
  u_name :: string
  u_admin :: bool
  u_created_at :: int

record project_row =
  pr_id :: string
  pr_slug :: string
  pr_name :: string
  pr_active_image :: string
  pr_previous_image :: string
  pr_allow_image_overrides :: bool
  pr_created_at :: int

record member_row =
  m_project_id :: string
  m_user_id :: string
  m_created_at :: int

record identity_row =
  i_provider :: string
  i_subject :: string
  i_login :: string
  i_user_id :: string
  i_created_at :: int
  i_last_authenticated_at :: "int option"

record token_row =
  t_id :: string
  t_kind :: principal_kind
  t_user_id :: "string option"
  t_project_id :: "string option"
  t_name :: string
  t_subject :: string
  t_digest :: string
  t_created_at :: int
  t_expires_at :: "int option"
  t_last_used_at :: "int option"
  t_revoked_at :: "int option"

record enrollment_row =
  e_id :: string
  e_user_id :: string
  e_device_name :: string
  e_digest :: string
  e_created_at :: int
  e_expires_at :: int
  e_consumed_at :: "int option"
  e_failed_attempts :: int
  e_max_attempts :: int

record oauth_row =
  o_id :: string
  o_digest :: string
  o_return_to :: string
  o_code_verifier :: string
  o_created_at :: int
  o_expires_at :: int
  o_consumed_at :: "int option"

record device_login_row =
  d_id :: string
  d_user_code :: string
  d_device_name :: string
  d_digest :: string
  d_user_id :: "string option"
  d_created_at :: int
  d_expires_at :: int
  d_approved_at :: "int option"
  d_consumed_at :: "int option"

record trust_row =
  g_id :: string
  g_project_id :: string
  g_repository_owner_id :: string
  g_repository_id :: string
  g_workflow_ref :: string
  g_ref :: string
  g_environment :: string
  g_events :: "string list"
  g_created_at :: int
  g_revoked_at :: "int option"

record audit_row =
  a_id :: nat
  a_actor_kind :: principal_kind
  a_actor_id :: string
  a_project_id :: "string option"
  a_action :: string
  a_target_id :: string
  a_created_at :: int
  a_metadata :: "(string \<times> string) list"

record image_event_row =
  ie_id :: string
  ie_project_id :: string
  ie_action :: string
  ie_image :: string
  ie_replaced_image :: string
  ie_actor :: string
  ie_created_at :: int

record job_row =
  j_id :: string
  j_project_id :: string
  j_image :: string
  j_command :: "string list"
  j_working_directory :: string
  j_environment :: "(string \<times> string) list"
  j_secrets :: "secret_binding list"
  j_caches :: "cache_mount list"
  j_root_digest :: string
  j_status :: status
  j_timeout_millis :: int
  j_created_at :: int
  j_started_at :: "int option"
  j_finished_at :: "int option"
  j_exit_code :: "int option"
  j_error_message :: string
  j_cancel_requested :: bool
  j_worker_id :: string
  j_idempotency_key :: string
  j_request_hash :: string

record build_row =
  b_id :: string
  b_project_id :: string
  b_status :: build_status
  b_created_at :: int
  b_finished_at :: "int option"
  b_exit_code :: "int option"
  b_idempotency_key :: string
  b_request_hash :: string

record queue_row =
  q_sequence :: nat
  q_kind :: operation_kind
  q_operation_id :: string
  q_state :: operation_state
  q_accepted_at :: int
  q_leased_at :: "int option"
  q_cleanup_attempts :: int
  q_cleanup_error :: string
  q_cleanup_updated_at :: int

record baseline_row =
  bl_kind :: operation_kind
  bl_operation_id :: string
  bl_resources :: resource_set
  bl_captured_at :: int

text \<open>
  The database: one list of rows per table, and for the tables with an \<open>AUTOINCREMENT\<close> key the
  next key to hand out.
\<close>

record database =
  users :: "user_row list"
  projects :: "project_row list"
  members :: "member_row list"
  identities :: "identity_row list"
  tokens :: "token_row list"
  enrollments :: "enrollment_row list"
  oauth_states :: "oauth_row list"
  device_logins :: "device_login_row list"
  trusts :: "trust_row list"
  audits :: "audit_row list"
  next_audit :: nat
  image_events :: "image_event_row list"
  jobs :: "job_row list"
  builds :: "build_row list"
  queue :: "queue_row list"
  next_sequence :: nat
  baselines :: "baseline_row list"

type_synonym cworld = "database world"
type_synonym 'a cres = "(database, 'a) res"

definition empty_database :: database where
  "empty_database =
     \<lparr>users = [], projects = [], members = [], identities = [], tokens = [], enrollments = [],
      oauth_states = [], device_logins = [], trusts = [], audits = [], next_audit = 1,
      image_events = [], jobs = [], builds = [], queue = [], next_sequence = 1, baselines = []\<rparr>"

section \<open>Statements on the queue, jobs and builds\<close>

text \<open>
  The states in the partial index \<open>control_queue_one_reserved_idx\<close>: a row in one of them owns the
  single worker.
\<close>

fun reserved :: "operation_state \<Rightarrow> bool" where
  "reserved OperationAdmitting = True"
| "reserved OperationActive = True"
| "reserved OperationTerminalizing = True"
| "reserved OperationCleaning = True"
| "reserved _ = False"

definition q_reserved :: "queue_row \<Rightarrow> bool" where
  "q_reserved r \<longleftrightarrow> reserved (q_state r)"

definition q_key :: "queue_row \<Rightarrow> operation_kind \<times> string" where
  "q_key r = (q_kind r, q_operation_id r)"

text \<open>\<open>UPDATE control_queue SET .. WHERE ..\<close>, refused when two rows would be reserved.\<close>

definition update_queue ::
  "(queue_row \<Rightarrow> bool) \<Rightarrow> (queue_row \<Rightarrow> queue_row) \<Rightarrow> database \<Rightarrow> err + (nat \<times> database)" where
  "update_queue P f d =
     (let rows = update_rows P f (queue d)
      in if count_rows q_reserved rows > 1
         then Inl (ErrUnique ''control_queue_one_reserved_idx'')
         else Inr (count_rows P (queue d), d\<lparr>queue := rows\<rparr>))"

text \<open>\<open>INSERT INTO control_queue\<close>: the row gets the next \<open>sequence\<close>.\<close>

definition insert_queue ::
  "operation_kind \<Rightarrow> string \<Rightarrow> operation_state \<Rightarrow> int \<Rightarrow> int option \<Rightarrow> database \<Rightarrow> err + (nat \<times> database)" where
  "insert_queue kind i state accepted leased d =
     (let row = \<lparr>q_sequence = next_sequence d, q_kind = kind, q_operation_id = i, q_state = state,
                 q_accepted_at = accepted, q_leased_at = leased, q_cleanup_attempts = 0,
                 q_cleanup_error = [], q_cleanup_updated_at = 0\<rparr>
      in if (kind, i) \<in> set (map q_key (queue d))
         then Inl (ErrUnique ''control_queue.kind, control_queue.operation_id'')
         else if count_rows q_reserved (queue d @ [row]) > 1
         then Inl (ErrUnique ''control_queue_one_reserved_idx'')
         else Inr (1, d\<lparr>queue := queue d @ [row], next_sequence := next_sequence d + 1\<rparr>))"

definition update_jobs ::
  "(job_row \<Rightarrow> bool) \<Rightarrow> (job_row \<Rightarrow> job_row) \<Rightarrow> database \<Rightarrow> err + (nat \<times> database)" where
  "update_jobs P f d = Inr (count_rows P (jobs d), d\<lparr>jobs := update_rows P f (jobs d)\<rparr>)"

definition insert_job :: "job_row \<Rightarrow> database \<Rightarrow> err + (nat \<times> database)" where
  "insert_job r d =
     (if j_id r \<in> set (map j_id (jobs d)) then Inl (ErrUnique ''control_jobs.id'')
      else if j_idempotency_key r \<noteq> [] \<and>
        (\<exists>s \<in> set (jobs d). j_project_id s = j_project_id r \<and> j_idempotency_key s = j_idempotency_key r)
      then Inl (ErrUnique ''control_jobs.project_id, control_jobs.idempotency_key'')
      else if j_project_id r \<notin> set (map pr_id (projects d)) then Inl (ErrForeignKey ''control_jobs.project_id'')
      else Inr (1, d\<lparr>jobs := jobs d @ [r]\<rparr>))"

definition update_builds ::
  "(build_row \<Rightarrow> bool) \<Rightarrow> (build_row \<Rightarrow> build_row) \<Rightarrow> database \<Rightarrow> err + (nat \<times> database)" where
  "update_builds P f d = Inr (count_rows P (builds d), d\<lparr>builds := update_rows P f (builds d)\<rparr>)"

definition insert_build :: "build_row \<Rightarrow> database \<Rightarrow> err + (nat \<times> database)" where
  "insert_build r d =
     (if b_id r \<in> set (map b_id (builds d)) then Inl (ErrUnique ''control_builds.id'')
      else if b_idempotency_key r \<noteq> [] \<and>
        (\<exists>s \<in> set (builds d). b_project_id s = b_project_id r \<and> b_idempotency_key s = b_idempotency_key r)
      then Inl (ErrUnique ''control_builds.project_id, control_builds.idempotency_key'')
      else if b_project_id r \<notin> set (map pr_id (projects d)) then Inl (ErrForeignKey ''control_builds.project_id'')
      else Inr (1, d\<lparr>builds := builds d @ [r]\<rparr>))"

lemma Terminal_iff:
  "Terminal s \<longleftrightarrow>
     s \<in> {StatusSucceeded, StatusFailed, StatusCancelled, StatusTimedOut, StatusLost}"
  by (cases s) simp_all

lemma not_Terminal_iff: "\<not> Terminal s \<longleftrightarrow> s \<in> {StatusPreparing, StatusQueued, StatusRunning}"
  by (cases s) simp_all

lemma reserved_iff:
  "reserved s \<longleftrightarrow>
     s \<in> {OperationAdmitting, OperationActive, OperationTerminalizing, OperationCleaning}"
  by (cases s) simp_all

section \<open>Statements as program steps\<close>

lemma post_update_queue [wp]:
  assumes "\<And>fs. count_rows q_reserved (update_rows P f (queue (db w))) \<le> 1 \<Longrightarrow>
      Q (count_rows P (queue (db w)))
        (w\<lparr>faults := fs, db := (db w)\<lparr>queue := update_rows P f (queue (db w))\<rparr>\<rparr>)"
    and "\<And>fs. count_rows q_reserved (update_rows P f (queue (db w))) > 1 \<Longrightarrow>
      E (ErrUnique ''control_queue_one_reserved_idx'') (w\<lparr>faults := fs\<rparr>)"
    and "\<And>e fs. E (ErrDriver e) (w\<lparr>faults := fs\<rparr>)"
  shows "post Q E (exec (update_queue P f) w)"
  by (rule post_exec) (use assms in \<open>auto simp: update_queue_def Let_def split: if_splits\<close>)

lemma post_update_jobs [wp]:
  assumes "\<And>fs. Q (count_rows (P (db w)) (jobs (db w)))
        (w\<lparr>faults := fs, db := (db w)\<lparr>jobs := update_rows (P (db w)) (f (db w)) (jobs (db w))\<rparr>\<rparr>)"
    and "\<And>e fs. E (ErrDriver e) (w\<lparr>faults := fs\<rparr>)"
  shows "post Q E (exec (\<lambda>d. update_jobs (P d) (f d) d) w)"
  by (rule post_exec) (use assms in \<open>auto simp: update_jobs_def\<close>)

lemma post_update_builds [wp]:
  assumes "\<And>fs. Q (count_rows P (builds (db w)))
        (w\<lparr>faults := fs, db := (db w)\<lparr>builds := update_rows P f (builds (db w))\<rparr>\<rparr>)"
    and "\<And>e fs. E (ErrDriver e) (w\<lparr>faults := fs\<rparr>)"
  shows "post Q E (exec (update_builds P f) w)"
  by (rule post_exec) (use assms in \<open>auto simp: update_builds_def\<close>)

lemma post_insert_job [wp]:
  assumes "\<And>fs. j_id r \<notin> set (map j_id (jobs (db w))) \<Longrightarrow>
      j_project_id r \<in> set (map pr_id (projects (db w))) \<Longrightarrow>
      j_idempotency_key r = [] \<or> (\<forall>s \<in> set (jobs (db w)).
        j_project_id s = j_project_id r \<longrightarrow> j_idempotency_key s \<noteq> j_idempotency_key r) \<Longrightarrow>
      Q 1 (w\<lparr>faults := fs, db := (db w)\<lparr>jobs := jobs (db w) @ [r]\<rparr>\<rparr>)"
    and "\<And>e fs. E e (w\<lparr>faults := fs\<rparr>)"
  shows "post Q E (exec (insert_job r) w)"
  by (rule post_exec) (use assms in \<open>auto simp: insert_job_def split: if_splits\<close>)

lemma post_insert_build [wp]:
  assumes "\<And>fs. b_id r \<notin> set (map b_id (builds (db w))) \<Longrightarrow>
      b_project_id r \<in> set (map pr_id (projects (db w))) \<Longrightarrow>
      b_idempotency_key r = [] \<or> (\<forall>s \<in> set (builds (db w)).
        b_project_id s = b_project_id r \<longrightarrow> b_idempotency_key s \<noteq> b_idempotency_key r) \<Longrightarrow>
      Q 1 (w\<lparr>faults := fs, db := (db w)\<lparr>builds := builds (db w) @ [r]\<rparr>\<rparr>)"
    and "\<And>e fs. E e (w\<lparr>faults := fs\<rparr>)"
  shows "post Q E (exec (insert_build r) w)"
  by (rule post_exec) (use assms in \<open>auto simp: insert_build_def split: if_splits\<close>)

text \<open>The row that an accepted \<open>INSERT INTO control_queue\<close> appends.\<close>

definition queued_row ::
  "nat \<Rightarrow> operation_kind \<Rightarrow> string \<Rightarrow> operation_state \<Rightarrow> int \<Rightarrow> int option \<Rightarrow> queue_row" where
  "queued_row n kind i state accepted leased =
     \<lparr>q_sequence = n, q_kind = kind, q_operation_id = i, q_state = state,
      q_accepted_at = accepted, q_leased_at = leased, q_cleanup_attempts = 0,
      q_cleanup_error = [], q_cleanup_updated_at = 0\<rparr>"

lemma queued_row_simps [simp]:
  "q_sequence (queued_row n kind i state accepted leased) = n"
  "q_kind (queued_row n kind i state accepted leased) = kind"
  "q_operation_id (queued_row n kind i state accepted leased) = i"
  "q_state (queued_row n kind i state accepted leased) = state"
  "q_leased_at (queued_row n kind i state accepted leased) = leased"
  by (simp_all add: queued_row_def)

lemma post_insert_queue [wp]:
  assumes "\<And>fs row. row = queued_row (next_sequence (db w)) kind i state accepted leased \<Longrightarrow>
      (kind, i) \<notin> set (map q_key (queue (db w))) \<Longrightarrow>
      count_rows q_reserved (queue (db w) @ [row]) \<le> 1 \<Longrightarrow>
      Q 1 (w\<lparr>faults := fs, db := (db w)\<lparr>queue := queue (db w) @ [row],
        next_sequence := next_sequence (db w) + 1\<rparr>\<rparr>)"
    and "\<And>e fs. E e (w\<lparr>faults := fs\<rparr>)"
  shows "post Q E (exec (insert_queue kind i state accepted leased) w)"
  by (rule post_exec)
     (use assms in \<open>auto simp: insert_queue_def queued_row_def Let_def split: if_splits\<close>)

end
