(* ===== verification/Control_Queue.thy ===== *)
theory Control_Queue
  imports Control_Model
begin

text \<open>
  The durable FIFO queue and its single worker reservation: the operations of
  \<open>internal/control/sqlite/store.go\<close> that work on the table \<open>control_queue\<close>, each a transaction
  or a single statement on the one connection of the store (\<open>SetMaxOpenConns(1)\<close>). Two readings
  of the clock within one operation are taken to be equal.

  \<open>queue_inv\<close> is the invariant of the table; under it an update guarded by the kind and the id of
  an operation touches at most one row.
\<close>

section \<open>Operations\<close>

definition is_op :: "operation_kind \<Rightarrow> string \<Rightarrow> queue_row \<Rightarrow> bool" where
  "is_op kind i r \<longleftrightarrow> q_kind r = kind \<and> q_operation_id r = i"

definition scanOperation :: "queue_row \<Rightarrow> operation" where
  "scanOperation r =
     \<lparr>op_kind = q_kind r, op_id = q_operation_id r, op_state = q_state r,
      op_accepted_at = fromUnix (q_accepted_at r), op_leased_at = nullableTime (q_leased_at r),
      op_cleanup_attempts = q_cleanup_attempts r, op_cleanup_error = q_cleanup_error r,
      op_cleanup_updated_at =
        (if q_cleanup_updated_at r \<noteq> 0 then Some (fromUnix (q_cleanup_updated_at r)) else None)\<rparr>"

definition AcquireNextOperation :: "cworld \<Rightarrow> operation option cres" where
  "AcquireNextOperation = in_tx (\<lambda>w.
     bindR (query (\<lambda>d. count_rows q_reserved (queue d)) w) (\<lambda>active w.
     if active > 0 then (Inr (Rollback None), w)
     else
     bindR (query (\<lambda>d. find (\<lambda>r. q_state r = OperationQueued) (queue d)) w) (\<lambda>row w.
     case row of
       None \<Rightarrow> (Inr (Rollback None), w)
     | Some r \<Rightarrow>
         let leasedAt = now w in
         bindR (exec (update_queue
             (\<lambda>s. is_op (q_kind r) (q_operation_id r) s \<and> q_state s = OperationQueued)
             (\<lambda>s. s\<lparr>q_state := OperationAdmitting, q_leased_at := Some (unix leasedAt)\<rparr>)) w) (\<lambda>count w.
         if count \<noteq> 1 then (Inl (ErrText ''operation was concurrently admitted''), w)
         else (Inr (Commit (Some
           \<lparr>op_kind = q_kind r, op_id = q_operation_id r, op_state = OperationAdmitting,
            op_accepted_at = fromUnix (q_accepted_at r), op_leased_at = Some leasedAt,
            op_cleanup_attempts = 0, op_cleanup_error = [], op_cleanup_updated_at = None\<rparr>)), w)))))"

definition WorkerBusy :: "cworld \<Rightarrow> bool cres" where
  "WorkerBusy w = query (\<lambda>d. count_rows q_reserved (queue d) > 0) w"

definition RequeueAdmittingOperation :: "operation_kind \<Rightarrow> string \<Rightarrow> cworld \<Rightarrow> unit cres" where
  "RequeueAdmittingOperation kind i w =
     bindR (exec (update_queue (\<lambda>r. is_op kind i r \<and> q_state r = OperationAdmitting)
       (\<lambda>r. r\<lparr>q_state := OperationQueued, q_leased_at := None\<rparr>)) w) (\<lambda>count w.
     if count \<noteq> 1 then (Inl ErrNotFound, w) else (Inr (), w))"

definition ActivateOperation :: "operation_kind \<Rightarrow> string \<Rightarrow> cworld \<Rightarrow> unit cres" where
  "ActivateOperation kind i = in_tx (\<lambda>w.
     bindR (exec (update_queue (\<lambda>r. is_op kind i r \<and> q_state r = OperationAdmitting)
       (\<lambda>r. r\<lparr>q_state := OperationActive\<rparr>)) w) (\<lambda>count w.
     if count \<noteq> 1 then (Inl ErrNotFound, w)
     else if kind = OperationBuild then
       bindR (exec (update_builds (\<lambda>b. b_id b = i \<and> b_status b = BuildQueued)
         (\<lambda>b. b\<lparr>b_status := BuildRunning\<rparr>)) w) (\<lambda>count w.
       if count \<noteq> 1 then (Inl (ErrText ''queued build is missing''), w)
       else (Inr (Commit ()), w))
     else (Inr (Commit ()), w)))"

definition OperationState :: "operation_kind \<Rightarrow> string \<Rightarrow> cworld \<Rightarrow> operation_state cres" where
  "OperationState kind i w =
     bindR (query (\<lambda>d. find (is_op kind i) (queue d)) w) (\<lambda>row w.
     case row of None \<Rightarrow> (Inl ErrNotFound, w) | Some r \<Rightarrow> (Inr (q_state r), w))"

definition Operation :: "operation_kind \<Rightarrow> string \<Rightarrow> cworld \<Rightarrow> operation cres" where
  "Operation kind i w =
     bindR (query (\<lambda>d. find (is_op kind i) (queue d)) w) (\<lambda>row w.
     case row of None \<Rightarrow> (Inl ErrNotFound, w) | Some r \<Rightarrow> (Inr (scanOperation r), w))"

definition BeginOperationCleanup :: "operation_kind \<Rightarrow> string \<Rightarrow> cworld \<Rightarrow> unit cres" where
  "BeginOperationCleanup kind i w =
     bindR (exec (update_queue
       (\<lambda>r. is_op kind i r \<and> q_state r \<in> {OperationQueued, OperationAdmitting, OperationActive})
       (\<lambda>r. r\<lparr>q_state := OperationTerminalizing, q_cleanup_updated_at := unix (now w)\<rparr>)) w) (\<lambda>count w.
     if count = 1 then (Inr (), w)
     else
     bindR (OperationState kind i w) (\<lambda>state w.
     if state \<in> {OperationTerminalizing, OperationCleaning, OperationReleased} then (Inr (), w)
     else (Inl (ErrText ''operation cannot begin cleanup from its state''), w)))"

definition ClaimOperationCleanup :: "cworld \<Rightarrow> operation option cres" where
  "ClaimOperationCleanup = in_tx (\<lambda>w.
     bindR (query (\<lambda>d. find (\<lambda>r. q_state r \<in> {OperationTerminalizing, OperationCleaning}) (queue d)) w) (\<lambda>row w.
     case row of
       None \<Rightarrow> (Inr (Rollback None), w)
     | Some r \<Rightarrow>
         let operation = scanOperation r; updatedAt = now w in
         bindR (exec (update_queue
             (\<lambda>s. is_op (op_kind operation) (op_id operation) s \<and>
                  q_state s \<in> {OperationTerminalizing, OperationCleaning})
             (\<lambda>s. s\<lparr>q_state := OperationCleaning, q_cleanup_attempts := q_cleanup_attempts s + 1,
                    q_cleanup_error := [], q_cleanup_updated_at := unix updatedAt\<rparr>)) w) (\<lambda>count w.
         if count \<noteq> 1 then (Inl (ErrText ''operation cleanup was concurrently claimed''), w)
         else (Inr (Commit (Some (operation
           \<lparr>op_state := OperationCleaning, op_cleanup_attempts := op_cleanup_attempts operation + 1,
            op_cleanup_error := [], op_cleanup_updated_at := Some updatedAt\<rparr>))), w))))"

definition RecordOperationCleanupFailure ::
  "operation_kind \<Rightarrow> string \<Rightarrow> string \<Rightarrow> cworld \<Rightarrow> unit cres" where
  "RecordOperationCleanupFailure kind i message w =
     bindR (exec (update_queue (\<lambda>r. is_op kind i r \<and> q_state r = OperationCleaning)
       (\<lambda>r. r\<lparr>q_cleanup_error := message, q_cleanup_updated_at := unix (now w)\<rparr>)) w) (\<lambda>count w.
     if count \<noteq> 1 then (Inl ErrNotFound, w) else (Inr (), w))"

definition CompleteOperationCleanup :: "operation_kind \<Rightarrow> string \<Rightarrow> cworld \<Rightarrow> unit cres" where
  "CompleteOperationCleanup kind i w =
     bindR (exec (update_queue
       (\<lambda>r. is_op kind i r \<and> q_state r \<in> {OperationTerminalizing, OperationCleaning})
       (\<lambda>r. r\<lparr>q_state := OperationReleased, q_cleanup_error := [],
              q_cleanup_updated_at := unix (now w)\<rparr>)) w) (\<lambda>count w.
     if count = 1 then (Inr (), w)
     else
     bindR (OperationState kind i w) (\<lambda>state w.
     if state = OperationReleased then (Inr (), w)
     else (Inl (ErrText ''operation cannot complete cleanup from its state''), w)))"

definition CancelQueuedOperation :: "operation_kind \<Rightarrow> string \<Rightarrow> cworld \<Rightarrow> bool cres" where
  "CancelQueuedOperation kind i w =
     bindR (exec (update_queue (\<lambda>r. is_op kind i r \<and> q_state r = OperationQueued)
       (\<lambda>r. r\<lparr>q_state := OperationReleased, q_cleanup_updated_at := unix (now w)\<rparr>)) w) (\<lambda>count w.
     (Inr (count = 1), w))"

definition RenewOperationLease :: "operation_kind \<Rightarrow> string \<Rightarrow> cworld \<Rightarrow> unit cres" where
  "RenewOperationLease kind i w =
     bindR (exec (update_queue
       (\<lambda>r. is_op kind i r \<and> q_state r \<in> {OperationQueued, OperationAdmitting, OperationActive})
       (\<lambda>r. r\<lparr>q_leased_at := Some (unix (now w))\<rparr>)) w) (\<lambda>count w.
     if count \<noteq> 1 then (Inl ErrNotFound, w) else (Inr (), w))"

section \<open>The invariant of the queue table\<close>

definition queue_ok :: "queue_row list \<Rightarrow> nat \<Rightarrow> bool" where
  "queue_ok rows n \<longleftrightarrow>
     distinct (map q_key rows) \<and>
     count_rows q_reserved rows \<le> 1 \<and>
     sorted_wrt (<) (map q_sequence rows) \<and>
     (\<forall>r \<in> set rows. q_sequence r < n)"

definition queue_inv :: "database \<Rightarrow> bool" where
  "queue_inv d \<longleftrightarrow> queue_ok (queue d) (next_sequence d)"

lemma is_op_key: "is_op kind i r \<longleftrightarrow> q_key r = (kind, i)"
  by (auto simp: is_op_def q_key_def)

lemma q_key_update [simp]:
  "q_key (r\<lparr>q_state := s\<rparr>) = q_key r" "q_key (r\<lparr>q_leased_at := l\<rparr>) = q_key r"
  "q_key (r\<lparr>q_cleanup_attempts := a\<rparr>) = q_key r" "q_key (r\<lparr>q_cleanup_error := m\<rparr>) = q_key r"
  "q_key (r\<lparr>q_cleanup_updated_at := t\<rparr>) = q_key r"
  by (simp_all add: q_key_def)

lemma is_op_update [simp]:
  "is_op k i (r\<lparr>q_state := s\<rparr>) = is_op k i r" "is_op k i (r\<lparr>q_leased_at := l\<rparr>) = is_op k i r"
  "is_op k i (r\<lparr>q_cleanup_attempts := a\<rparr>) = is_op k i r" "is_op k i (r\<lparr>q_cleanup_error := m\<rparr>) = is_op k i r"
  "is_op k i (r\<lparr>q_cleanup_updated_at := t\<rparr>) = is_op k i r"
  by (simp_all add: is_op_def)

lemma queued_row_key [simp]:
  "q_key (queued_row n kind i state accepted leased) = (kind, i)"
  "is_op k j (queued_row n kind i state accepted leased) \<longleftrightarrow> k = kind \<and> j = i"
  by (auto simp: q_key_def is_op_def)

text \<open>
  An update that keeps keys and sequence numbers keeps the invariant: the schema itself refuses
  a second reservation.
\<close>

lemma queue_ok_update [simp]:
  assumes "queue_ok rows n" and "count_rows q_reserved (update_rows P f rows) \<le> Suc 0"
    and "\<And>r. q_kind (f r) = q_kind r" "\<And>r. q_operation_id (f r) = q_operation_id r"
    and "\<And>r. q_sequence (f r) = q_sequence r"
  shows "queue_ok (update_rows P f rows) n"
proof -
  have "map q_key (update_rows P f rows) = map q_key rows"
    "map q_sequence (update_rows P f rows) = map q_sequence rows"
    using assms(3-5) by (simp_all add: map_update_rows_same q_key_def)
  then show ?thesis
    using assms by (auto simp: queue_ok_def set_update_rows)
qed

lemma queue_ok_append [simp]:
  assumes "queue_ok rows n" "(kind, i) \<notin> q_key ` set rows"
    "count_rows q_reserved (rows @ [queued_row n kind i state accepted leased]) \<le> Suc 0"
  shows "queue_ok (rows @ [queued_row n kind i state accepted leased]) (Suc n)"
  using assms by (auto simp: queue_ok_def q_key_def sorted_wrt_append less_SucI)

text \<open>Under the invariant a guarded update of one operation touches at most one row.\<close>

lemma queue_inv_key_unique:
  assumes "queue_inv d" "r \<in> set (queue d)" "s \<in> set (queue d)" "q_key r = q_key s"
  shows "r = s"
  using assms unique_row [of q_key "queue d" r s] by (simp add: queue_inv_def queue_ok_def)

lemma queue_inv_reserved_unique:
  assumes "queue_inv d" "r \<in> set (queue d)" "s \<in> set (queue d)" "q_reserved r" "q_reserved s"
  shows "r = s"
  using assms count_rows_le_1_unique [of q_reserved "queue d" r s] by (simp add: queue_inv_def queue_ok_def)

lemma find_is_op:
  assumes "queue_inv d" "r \<in> set (queue d)" "is_op kind i r"
  shows "find (is_op kind i) (queue d) = Some r"
proof -
  obtain s where s: "find (is_op kind i) (queue d) = Some s"
    using assms by (metis find_None_iff not_None_eq)
  then have "s \<in> set (queue d)" "is_op kind i s" by (auto dest: find_SomeD)
  with assms have "s = r" by (metis is_op_key queue_inv_key_unique)
  with s show ?thesis by simp
qed

lemma count_is_op_le_1: "queue_inv d \<Longrightarrow> count_rows (\<lambda>r. is_op kind i r \<and> P r) (queue d) \<le> 1"
  by (rule count_rows_keyed_le_1 [of q_key]) (auto simp: queue_inv_def queue_ok_def is_op_key)

lemma count_is_op_1:
  assumes "queue_inv d" "r \<in> set (queue d)" "is_op kind i r" "P r"
  shows "count_rows (\<lambda>r. is_op kind i r \<and> P r) (queue d) = 1"
proof -
  have "count_rows (\<lambda>r. is_op kind i r \<and> P r) (queue d) \<noteq> 0"
    using assms by (auto simp: row_simps)
  with count_is_op_le_1 [OF assms(1), of kind i P] show ?thesis by simp
qed


end
