(* ===== verification/Control_Jobs.thy ===== *)
theory Control_Jobs
  imports Control_Queue
begin

text \<open>
  Jobs, builds and resource baselines: the operations of \<open>internal/control/sqlite/store.go\<close> on the
  tables \<open>control_jobs\<close>, \<open>control_builds\<close> and \<open>operation_resource_baselines\<close>, most of them
  together with the queue in one transaction.
\<close>

section \<open>Jobs\<close>

definition scanJob :: "job_row \<Rightarrow> job" where
  "scanJob r =
     \<lparr>job_id = j_id r, job_project_id = j_project_id r, job_image = j_image r,
      job_command = j_command r, job_working_directory = j_working_directory r,
      job_environment = j_environment r, job_root_digest = j_root_digest r,
      job_status = j_status r, job_timeout = j_timeout_millis r * millisecond,
      job_created_at = fromUnix (j_created_at r), job_started_at = nullableTime (j_started_at r),
      job_finished_at = nullableTime (j_finished_at r), job_exit_code = j_exit_code r,
      job_error_message = j_error_message r, job_cancel_requested = j_cancel_requested r,
      job_worker_id = j_worker_id r, job_caches = j_caches r, job_secrets = j_secrets r\<rparr>"

definition new_job :: "prepare_job \<Rightarrow> string \<Rightarrow> time \<Rightarrow> job" where
  "new_job input i created =
     \<lparr>job_id = i, job_project_id = prep_project_id input, job_image = prep_image input,
      job_command = prep_command input, job_working_directory = prep_working_directory input,
      job_environment = prep_environment input, job_root_digest = [],
      job_status = StatusPreparing, job_timeout = prep_timeout input, job_created_at = created,
      job_started_at = None, job_finished_at = None, job_exit_code = None,
      job_error_message = [], job_cancel_requested = False, job_worker_id = [],
      job_caches = prep_caches input, job_secrets = prep_secrets input\<rparr>"

definition new_job_row :: "job \<Rightarrow> idempotency \<Rightarrow> job_row" where
  "new_job_row job idem =
     \<lparr>j_id = job_id job, j_project_id = job_project_id job, j_image = job_image job,
      j_command = job_command job, j_working_directory = job_working_directory job,
      j_environment = job_environment job, j_secrets = job_secrets job, j_caches = job_caches job,
      j_root_digest = [], j_status = job_status job,
      j_timeout_millis = Milliseconds (job_timeout job), j_created_at = unix (job_created_at job),
      j_started_at = None, j_finished_at = None, j_exit_code = None, j_error_message = [],
      j_cancel_requested = False, j_worker_id = [],
      j_idempotency_key = idem_key idem, j_request_hash = idem_request_hash idem\<rparr>"

definition CreatePreparedJob :: "prepare_job \<Rightarrow> idempotency \<Rightarrow> cworld \<Rightarrow> (job \<times> bool) cres" where
  "CreatePreparedJob input idem = in_tx (\<lambda>w.
     bindR (query (\<lambda>d. find (\<lambda>r. j_project_id r = prep_project_id input \<and>
       j_idempotency_key r = idem_key idem) (jobs d)) w) (\<lambda>row w.
     case row of
       Some r \<Rightarrow>
         if j_request_hash r \<noteq> idem_request_hash idem then (Inl ErrIdempotencyConflict, w)
         else (Inr (Rollback (scanJob r, True)), w)
     | None \<Rightarrow>
         bindR (randomID ''job'' w) (\<lambda>i w.
         let created = now w; job = new_job input i created in
         bindR (exec (insert_job (new_job_row job idem)) w) (\<lambda>_ w.
         bindR (exec (insert_queue OperationJob (job_id job) OperationQueued
           (unix created) (Some (unix created))) w) (\<lambda>_ w.
         (Inr (Commit (job, False)), w))))))"

definition Job :: "string \<Rightarrow> cworld \<Rightarrow> job cres" where
  "Job i w =
     bindR (query (\<lambda>d. find (\<lambda>r. j_id r = i) (jobs d)) w) (\<lambda>row w.
     case row of None \<Rightarrow> (Inl ErrNotFound, w) | Some r \<Rightarrow> (Inr (scanJob r), w))"

definition QueueJob :: "string \<Rightarrow> string \<Rightarrow> cworld \<Rightarrow> job cres" where
  "QueueJob i rootDigest w0 =
     bindR (in_tx (\<lambda>w.
       bindR (exec (update_jobs (\<lambda>r. j_id r = i \<and> j_status r = StatusPreparing)
         (\<lambda>r. r\<lparr>j_root_digest := rootDigest, j_status := StatusQueued\<rparr>)) w) (\<lambda>count w.
       if count \<noteq> 1 then (Inl ErrNotFound, w)
       else
       bindR (exec (update_queue
         (\<lambda>r. is_op OperationJob i r \<and> q_state r \<in> {OperationQueued, OperationAdmitting})
         (\<lambda>r. r\<lparr>q_state := OperationQueued, q_leased_at := None\<rparr>)) w) (\<lambda>count w.
       if count \<noteq> 1 then (Inl ErrNotFound, w)
       else (Inr (Commit ()), w)))) w0)
     (\<lambda>_ w. Job i w)"

definition StartJob :: "string \<Rightarrow> string \<Rightarrow> cworld \<Rightarrow> job cres" where
  "StartJob i rootDigest w = QueueJob i rootDigest w"

definition ScheduledJobs :: "cworld \<Rightarrow> job list cres" where
  "ScheduledJobs w =
     query (\<lambda>d. map scanJob (sort_key (\<lambda>j. (j_created_at j, j_id j))
       [j. j \<leftarrow> jobs d, q \<leftarrow> queue d,
           is_op OperationJob (j_id j) q \<and> q_state q \<in> {OperationAdmitting, OperationActive} \<and>
           j_status j \<in> {StatusQueued, StatusRunning}])) w"

definition StalePreparingJobs :: "time \<Rightarrow> cworld \<Rightarrow> job list cres" where
  "StalePreparingJobs before w =
     query (\<lambda>d. map (scanJob \<circ> snd) (sort_key fst
       [((case q_leased_at q of Some l \<Rightarrow> l | None \<Rightarrow> q_accepted_at q, q_sequence q), j).
          j \<leftarrow> jobs d, q \<leftarrow> queue d,
          is_op OperationJob (j_id j) q \<and> q_state q \<in> {OperationQueued, OperationAdmitting} \<and>
          j_status j = StatusPreparing \<and>
          (case q_leased_at q of Some l \<Rightarrow> l | None \<Rightarrow> q_accepted_at q) < unix before])) w"

definition SyncJob :: "string \<Rightarrow> remote_job \<Rightarrow> cworld \<Rightarrow> job cres" where
  "SyncJob i remote w0 =
     bindR (in_tx (\<lambda>w.
       bindR (exec (update_jobs (\<lambda>r. j_id r = i \<and> \<not> Terminal (j_status r))
         (\<lambda>r. r\<lparr>j_status := r_status remote, j_started_at := timeValue (r_started_at remote),
                j_finished_at := timeValue (r_finished_at remote), j_exit_code := r_exit_code remote,
                j_error_message := r_error_message remote,
                j_cancel_requested := r_cancel_requested remote,
                j_worker_id := r_worker_id remote\<rparr>)) w) (\<lambda>_ w.
       if Terminal (r_status remote) then
         bindR (exec (update_queue
           (\<lambda>r. is_op OperationJob i r \<and> q_state r \<in> {OperationAdmitting, OperationActive})
           (\<lambda>r. r\<lparr>q_state := OperationTerminalizing, q_cleanup_updated_at := unix (now w)\<rparr>)) w) (\<lambda>_ w.
         (Inr (Commit ()), w))
       else (Inr (Commit ()), w))) w0)
     (\<lambda>_ w. Job i w)"

text \<open>
  The \<open>CASE\<close> expressions of the update read the row and the queue as they were before it.
\<close>

definition RequestJobCancellation :: "string \<Rightarrow> cworld \<Rightarrow> job cres" where
  "RequestJobCancellation i w0 =
     bindR (in_tx (\<lambda>w.
       bindR (exec (\<lambda>d. update_jobs (\<lambda>r. j_id r = i \<and> \<not> Terminal (j_status r))
         (\<lambda>r. let stop = (j_status r = StatusPreparing \<or>
                  j_status r = StatusQueued \<and>
                  \<not> (\<exists>q \<in> set (queue d). is_op OperationJob i q \<and>
                       q_state q \<in> {OperationAdmitting, OperationActive}))
              in r\<lparr>j_cancel_requested := True,
                   j_status := if stop then StatusCancelled else j_status r,
                   j_finished_at := if stop then Some (unix (now w)) else j_finished_at r\<rparr>) d) w) (\<lambda>count w.
       if count \<noteq> 1 then (Inl ErrNotFound, w)
       else
       bindR (exec (update_queue (\<lambda>r. is_op OperationJob i r \<and> q_state r = OperationQueued)
         (\<lambda>r. r\<lparr>q_state := OperationReleased, q_cleanup_updated_at := unix (now w)\<rparr>)) w) (\<lambda>_ w.
       (Inr (Commit ()), w)))) w0)
     (\<lambda>_ w. Job i w)"

definition FailJob :: "string \<Rightarrow> string \<Rightarrow> cworld \<Rightarrow> job cres" where
  "FailJob i message w0 =
     bindR (in_tx (\<lambda>w.
       bindR (exec (update_jobs (\<lambda>r. j_id r = i \<and> j_status r \<in> {StatusPreparing, StatusQueued})
         (\<lambda>r. r\<lparr>j_status := StatusFailed, j_finished_at := Some (unix (now w)),
                j_exit_code := Some 1, j_error_message := message\<rparr>)) w) (\<lambda>count w.
       if count \<noteq> 1 then (Inl ErrNotFound, w)
       else
       bindR (exec (update_queue
         (\<lambda>r. is_op OperationJob i r \<and>
              q_state r \<in> {OperationQueued, OperationAdmitting, OperationActive})
         (\<lambda>r. r\<lparr>q_state := OperationTerminalizing, q_cleanup_updated_at := unix (now w)\<rparr>)) w) (\<lambda>_ w.
       (Inr (Commit ()), w)))) w0)
     (\<lambda>_ w. Job i w)"

definition TerminalJobIDsBefore :: "time \<Rightarrow> cworld \<Rightarrow> string list cres" where
  "TerminalJobIDsBefore before w =
     query (\<lambda>d. map j_id (sort_key (\<lambda>j. (the (j_finished_at j), j_id j))
       (filter (\<lambda>j. (case j_finished_at j of None \<Rightarrow> False | Some f \<Rightarrow> f < unix before) \<and>
         Terminal (j_status j)) (jobs d)))) w"

section \<open>Builds\<close>

definition scanBuild :: "build_row \<Rightarrow> build" where
  "scanBuild r =
     \<lparr>build_id = b_id r, build_project_id = b_project_id r, build_status = b_status r,
      build_created_at = fromUnix (b_created_at r),
      build_finished_at = nullableTime (b_finished_at r), build_exit_code = b_exit_code r\<rparr>"

definition CreateBuild :: "string \<Rightarrow> idempotency \<Rightarrow> cworld \<Rightarrow> (build \<times> bool) cres" where
  "CreateBuild projectID idem = in_tx (\<lambda>w.
     bindR (query (\<lambda>d. find (\<lambda>r. b_project_id r = projectID \<and>
       b_idempotency_key r = idem_key idem) (builds d)) w) (\<lambda>row w.
     case row of
       Some r \<Rightarrow>
         if b_request_hash r \<noteq> idem_request_hash idem then (Inl ErrIdempotencyConflict, w)
         else (Inr (Rollback (scanBuild r, True)), w)
     | None \<Rightarrow>
         bindR (randomID ''bld'' w) (\<lambda>i w.
         let created = now w;
             build = \<lparr>build_id = i, build_project_id = projectID, build_status = BuildQueued,
                      build_created_at = created, build_finished_at = None, build_exit_code = None\<rparr> in
         bindR (exec (insert_build
           \<lparr>b_id = i, b_project_id = projectID, b_status = BuildQueued,
            b_created_at = unix created, b_finished_at = None, b_exit_code = None,
            b_idempotency_key = idem_key idem, b_request_hash = idem_request_hash idem\<rparr>) w) (\<lambda>_ w.
         bindR (exec (insert_queue OperationBuild i OperationQueued (unix created) None) w) (\<lambda>_ w.
         (Inr (Commit (build, False)), w))))))"

definition Build :: "string \<Rightarrow> cworld \<Rightarrow> build cres" where
  "Build i w =
     bindR (query (\<lambda>d. find (\<lambda>r. b_id r = i) (builds d)) w) (\<lambda>row w.
     case row of None \<Rightarrow> (Inl ErrNotFound, w) | Some r \<Rightarrow> (Inr (scanBuild r), w))"

definition StaleBuilds :: "time \<Rightarrow> cworld \<Rightarrow> build list cres" where
  "StaleBuilds before w =
     query (\<lambda>d. map (scanBuild \<circ> snd) (sort_key fst
       [(case q_leased_at q of Some l \<Rightarrow> l | None \<Rightarrow> q_accepted_at q, b).
          b \<leftarrow> builds d, q \<leftarrow> queue d,
          is_op OperationBuild (b_id b) q \<and>
          q_state q \<in> {OperationQueued, OperationAdmitting, OperationActive} \<and>
          b_status b \<in> {BuildQueued, BuildRunning} \<and>
          (case q_leased_at q of Some l \<Rightarrow> l | None \<Rightarrow> q_accepted_at q) < unix before])) w"

definition FinishBuild :: "string \<Rightarrow> build_status \<Rightarrow> int \<Rightarrow> cworld \<Rightarrow> build cres" where
  "FinishBuild i status exitCode w0 =
     (if status \<notin> {BuildSucceeded, BuildFailed, BuildCancelled}
      then (Inl (ErrText ''build status is not terminal''), w0)
      else
      bindR (in_tx (\<lambda>w.
        bindR (exec (update_builds (\<lambda>r. b_id r = i \<and> b_status r \<in> {BuildQueued, BuildRunning})
          (\<lambda>r. r\<lparr>b_status := status, b_finished_at := Some (unix (now w)),
                 b_exit_code := Some exitCode\<rparr>)) w) (\<lambda>count w.
        if count \<noteq> 1 then (Inl ErrNotFound, w)
        else
        bindR (exec (update_queue
          (\<lambda>r. is_op OperationBuild i r \<and>
               q_state r \<in> {OperationQueued, OperationAdmitting, OperationActive})
          (\<lambda>r. r\<lparr>q_state := if q_state r = OperationQueued then OperationReleased else OperationTerminalizing,
                 q_cleanup_updated_at := unix (now w)\<rparr>)) w) (\<lambda>_ w.
        (Inr (Commit ()), w)))) w0)
      (\<lambda>_ w. Build i w))"

definition ListBuilds :: "string \<Rightarrow> int \<Rightarrow> cworld \<Rightarrow> build list cres" where
  "ListBuilds projectID limit w =
     (if limit < 1 \<or> limit > 100 then (Inl (ErrText ''build limit must be between 1 and 100''), w)
      else query (\<lambda>d. map scanBuild (take (nat limit) (rev (sort_key (\<lambda>b. (b_created_at b, b_id b))
        (filter (\<lambda>b. b_project_id b = projectID) (builds d)))))) w)"

section \<open>Emergencies and activity\<close>

definition EmergencyStopActiveOperation :: "string \<Rightarrow> cworld \<Rightarrow> operation option cres" where
  "EmergencyStopActiveOperation message = in_tx (\<lambda>w.
     bindR (query (\<lambda>d. find (\<lambda>r. q_state r \<in> {OperationAdmitting, OperationActive}) (queue d)) w) (\<lambda>row w.
     case row of
       None \<Rightarrow> (Inr (Rollback None), w)
     | Some r \<Rightarrow>
         let operation =
               \<lparr>op_kind = q_kind r, op_id = q_operation_id r, op_state = q_state r,
                op_accepted_at = fromUnix (q_accepted_at r),
                op_leased_at = nullableTime (q_leased_at r),
                op_cleanup_attempts = 0, op_cleanup_error = [], op_cleanup_updated_at = None\<rparr>;
             nowUnix = unix (now w);
             finish = (\<lambda>w. bindR (exec (update_queue (is_op (op_kind operation) (op_id operation))
               (\<lambda>s. s\<lparr>q_state := OperationTerminalizing, q_cleanup_updated_at := unix (now w)\<rparr>)) w)
               (\<lambda>_ w. (Inr (Commit (Some operation)), w))) in
         case op_kind operation of
           OperationJob \<Rightarrow>
             bindR (exec (update_jobs
               (\<lambda>j. j_id j = op_id operation \<and>
                    j_status j \<in> {StatusPreparing, StatusQueued, StatusRunning})
               (\<lambda>j. j\<lparr>j_status := StatusFailed, j_finished_at := Some nowUnix, j_exit_code := Some 137,
                      j_error_message := message, j_cancel_requested := True\<rparr>)) w) (\<lambda>count w.
             if count \<noteq> 1 then (Inl (ErrText ''active emergency job is missing''), w)
             else finish w)
         | OperationBuild \<Rightarrow>
             bindR (exec (update_builds
               (\<lambda>b. b_id b = op_id operation \<and> b_status b \<in> {BuildQueued, BuildRunning})
               (\<lambda>b. b\<lparr>b_status := BuildCancelled, b_finished_at := Some nowUnix,
                      b_exit_code := Some 130\<rparr>)) w) (\<lambda>count w.
             if count \<noteq> 1 then (Inl (ErrText ''active emergency build is missing''), w)
             else finish w)))"

text \<open>
  \<open>OperationActive\<close> of the store: the mTLS proxies admit a job certificate while the job is being
  prepared and a build certificate while the build runs; every error means no.
\<close>

definition OperationActiveFor :: "string \<Rightarrow> string \<Rightarrow> cworld \<Rightarrow> bool" where
  "OperationActiveFor kind i w =
     (if kind = ''job'' then
        (case Job i w of (Inl _, _) \<Rightarrow> False | (Inr j, _) \<Rightarrow> job_status j = StatusPreparing)
      else if kind = ''build'' then
        (case Build i w of (Inl _, _) \<Rightarrow> False | (Inr b, _) \<Rightarrow> build_status b = BuildRunning)
      else False)"

section \<open>Resource baselines\<close>

definition is_baseline :: "operation_kind \<Rightarrow> string \<Rightarrow> baseline_row \<Rightarrow> bool" where
  "is_baseline kind i r \<longleftrightarrow> bl_kind r = kind \<and> bl_operation_id r = i"

definition insert_baseline :: "baseline_row \<Rightarrow> database \<Rightarrow> err + (nat \<times> database)" where
  "insert_baseline r d =
     (if \<exists>s \<in> set (baselines d). is_baseline (bl_kind r) (bl_operation_id r) s then Inr (0, d)
      else Inr (1, d\<lparr>baselines := baselines d @ [r]\<rparr>))"

definition SaveResourceBaseline :: "operation_kind \<Rightarrow> string \<Rightarrow> resource_set \<Rightarrow> cworld \<Rightarrow> unit cres" where
  "SaveResourceBaseline kind i resources w =
     bindR (exec (insert_baseline
       \<lparr>bl_kind = kind, bl_operation_id = i, bl_resources = resources,
        bl_captured_at = unix (now w)\<rparr>) w) (\<lambda>_ w. (Inr (), w))"

definition ResourceBaseline :: "operation_kind \<Rightarrow> string \<Rightarrow> cworld \<Rightarrow> resource_set cres" where
  "ResourceBaseline kind i w =
     bindR (query (\<lambda>d. find (is_baseline kind i) (baselines d)) w) (\<lambda>row w.
     case row of None \<Rightarrow> (Inl ErrNotFound, w) | Some r \<Rightarrow> (Inr (bl_resources r), w))"

lemma post_insert_baseline [wp]:
  assumes "\<And>fs. (\<exists>s \<in> set (baselines (db w)). is_baseline (bl_kind r) (bl_operation_id r) s) \<Longrightarrow>
      Q 0 (w\<lparr>faults := fs\<rparr>)"
    and "\<And>fs. \<not> (\<exists>s \<in> set (baselines (db w)). is_baseline (bl_kind r) (bl_operation_id r) s) \<Longrightarrow>
      Q 1 (w\<lparr>faults := fs, db := (db w)\<lparr>baselines := baselines (db w) @ [r]\<rparr>\<rparr>)"
    and "\<And>e fs. E (ErrDriver e) (w\<lparr>faults := fs\<rparr>)"
  shows "post Q E (exec (insert_baseline r) w)"
  by (rule post_exec) (use assms in \<open>auto simp: insert_baseline_def split: if_splits\<close>)

lemma post_case_kind [wp]:
  "(k = OperationJob \<Longrightarrow> post Q E r) \<Longrightarrow> (k = OperationBuild \<Longrightarrow> post Q E s) \<Longrightarrow>
   post Q E (case k of OperationJob \<Rightarrow> r | OperationBuild \<Rightarrow> s)"
  by (cases k) simp_all

end
