(* ===== verification/Store_Steps.thy ===== *)
theory Store_Steps
  imports Control_Jobs
begin

text \<open>
  The store as a transition system. A \<open>call\<close> is one state-changing operation of the store with its
  arguments, \<open>run_call\<close> its effect on the world, \<open>store_step\<close> one call with any arguments under any
  driver behaviour. \<open>protocol_step\<close> restricts the calls to those in the order that the dispatcher,
  the reconciler and the API keep between them: cleanup is requested for finished operations only,
  a job is activated after its preparation, an admission is withdrawn before the job runs, the
  runtime never reports a job as preparing and reports a job that has not finished only when its
  operation has left the queue, and nothing calls \<open>CancelQueuedOperation\<close>.
\<close>

datatype call =
    CallAcquire
  | CallRequeue operation_kind string
  | CallActivate operation_kind string
  | CallBegin operation_kind string
  | CallClaim
  | CallRecordFailure operation_kind string string
  | CallComplete operation_kind string
  | CallCancelQueued operation_kind string
  | CallRenew operation_kind string
  | CallPrepareJob prepare_job idempotency
  | CallQueueJob string string
  | CallSyncJob string remote_job
  | CallCancelJob string
  | CallFailJob string string
  | CallCreateBuild string idempotency
  | CallFinishBuild string build_status int
  | CallEmergency string
  | CallSaveBaseline operation_kind string resource_set

fun run_call :: "call \<Rightarrow> cworld \<Rightarrow> cworld" where
  "run_call CallAcquire w = snd (AcquireNextOperation w)"
| "run_call (CallRequeue k i) w = snd (RequeueAdmittingOperation k i w)"
| "run_call (CallActivate k i) w = snd (ActivateOperation k i w)"
| "run_call (CallBegin k i) w = snd (BeginOperationCleanup k i w)"
| "run_call CallClaim w = snd (ClaimOperationCleanup w)"
| "run_call (CallRecordFailure k i m) w = snd (RecordOperationCleanupFailure k i m w)"
| "run_call (CallComplete k i) w = snd (CompleteOperationCleanup k i w)"
| "run_call (CallCancelQueued k i) w = snd (CancelQueuedOperation k i w)"
| "run_call (CallRenew k i) w = snd (RenewOperationLease k i w)"
| "run_call (CallPrepareJob p idem) w = snd (CreatePreparedJob p idem w)"
| "run_call (CallQueueJob i dig) w = snd (QueueJob i dig w)"
| "run_call (CallSyncJob i r) w = snd (SyncJob i r w)"
| "run_call (CallCancelJob i) w = snd (RequestJobCancellation i w)"
| "run_call (CallFailJob i m) w = snd (FailJob i m w)"
| "run_call (CallCreateBuild p idem) w = snd (CreateBuild p idem w)"
| "run_call (CallFinishBuild i s x) w = snd (FinishBuild i s x w)"
| "run_call (CallEmergency m) w = snd (EmergencyStopActiveOperation m w)"
| "run_call (CallSaveBaseline k i rs) w = snd (SaveResourceBaseline k i rs w)"

definition build_terminal :: "build_status \<Rightarrow> bool" where
  "build_terminal s \<longleftrightarrow> s \<in> {BuildSucceeded, BuildFailed, BuildCancelled}"

fun disciplined :: "call \<Rightarrow> database \<Rightarrow> bool" where
  "disciplined (CallBegin OperationJob i) d = (\<forall>j \<in> set (jobs d). j_id j = i \<longrightarrow> Terminal (j_status j))"
| "disciplined (CallBegin OperationBuild i) d = (\<forall>b \<in> set (builds d). b_id b = i \<longrightarrow> build_terminal (b_status b))"
| "disciplined (CallRequeue OperationJob i) d = (\<forall>j \<in> set (jobs d). j_id j = i \<longrightarrow> j_status j \<noteq> StatusRunning)"
| "disciplined (CallActivate OperationJob i) d = (\<forall>j \<in> set (jobs d). j_id j = i \<longrightarrow> j_status j \<noteq> StatusPreparing)"
| "disciplined (CallSyncJob i r) d =
     (r_status r \<noteq> StatusPreparing \<and>
      (Terminal (r_status r) \<or>
       (\<forall>q \<in> set (queue d). is_op OperationJob i q \<longrightarrow> q_state q \<noteq> OperationQueued)))"
| "disciplined (CallCancelQueued k i) d = False"
| "disciplined _ d = True"

inductive store_step :: "database \<Rightarrow> database \<Rightarrow> bool" where
  call: "store_step (db w) (db (run_call c w))"

inductive protocol_step :: "database \<Rightarrow> database \<Rightarrow> bool" where
  call: "disciplined c (db w) \<Longrightarrow> protocol_step (db w) (db (run_call c w))"

text \<open>
  The databases that any sequence of calls can produce from one that has no operations yet; the
  projects that jobs and builds refer to may already be there.
\<close>

definition fresh :: "database \<Rightarrow> bool" where
  "fresh d \<longleftrightarrow> jobs d = [] \<and> builds d = [] \<and> queue d = []"

inductive store_reachable :: "database \<Rightarrow> bool" where
  start: "fresh d \<Longrightarrow> store_reachable d"
| step: "store_reachable d \<Longrightarrow> store_step d d' \<Longrightarrow> store_reachable d'"

inductive protocol_reachable :: "database \<Rightarrow> bool" where
  start: "fresh d \<Longrightarrow> protocol_reachable d"
| step: "protocol_reachable d \<Longrightarrow> protocol_step d d' \<Longrightarrow> protocol_reachable d'"

inductive_cases store_stepE: "store_step d d'"
inductive_cases protocol_stepE: "protocol_step d d'"

lemmas call_defs =
  AcquireNextOperation_def RequeueAdmittingOperation_def ActivateOperation_def
  BeginOperationCleanup_def ClaimOperationCleanup_def RecordOperationCleanupFailure_def
  CompleteOperationCleanup_def CancelQueuedOperation_def RenewOperationLease_def
  CreatePreparedJob_def QueueJob_def SyncJob_def RequestJobCancellation_def FailJob_def
  CreateBuild_def FinishBuild_def EmergencyStopActiveOperation_def SaveResourceBaseline_def
  OperationState_def Job_def Build_def

lemma protocol_step_store_step: "protocol_step d d' \<Longrightarrow> store_step d d'"
  by (auto elim!: protocol_stepE intro: store_step.call)

section \<open>The single worker reservation\<close>

lemma run_call_queue_inv: "queue_inv (db w) \<Longrightarrow> queue_inv (db (run_call c w))"
  by (cases c; simp only: run_call.simps call_defs; rule post_keeps; intro wp;
      simp add: queue_inv_def)

lemma store_step_queue_inv: "store_step d d' \<Longrightarrow> queue_inv d \<Longrightarrow> queue_inv d'"
  by (erule store_stepE) (simp add: run_call_queue_inv)

lemma store_reachable_queue_inv: "store_reachable d \<Longrightarrow> queue_inv d"
proof (induction rule: store_reachable.induct)
  case (start d)
  then show ?case by (simp add: fresh_def queue_inv_def queue_ok_def row_simps)
next
  case (step d d')
  then show ?case by (blast intro: store_step_queue_inv)
qed

section \<open>Finished records are final\<close>

definition keeps_finished :: "database \<Rightarrow> database \<Rightarrow> bool" where
  "keeps_finished d d' \<longleftrightarrow>
     (\<forall>j \<in> set (jobs d). Terminal (j_status j) \<longrightarrow> j \<in> set (jobs d')) \<and>
     (\<forall>b \<in> set (builds d). build_terminal (b_status b) \<longrightarrow> b \<in> set (builds d'))"

lemma run_call_keeps_finished: "keeps_finished (db w) (db (run_call c w))"
  by (cases c; simp only: run_call.simps call_defs; rule post_keeps; intro wp;
      auto simp: keeps_finished_def build_terminal_def)

lemma store_step_keeps_finished: "store_step d d' \<Longrightarrow> keeps_finished d d'"
  by (erule store_stepE) (simp add: run_call_keeps_finished)

section \<open>The life of an operation\<close>

text \<open>
  An operation never goes back, except that an admission may be withdrawn, and it keeps its place
  in the order of acceptance.
\<close>

definition moves :: "operation_state \<Rightarrow> operation_state \<Rightarrow> bool" where
  "moves a b \<longleftrightarrow> a \<le> b \<or> a = OperationAdmitting \<and> b = OperationQueued"

definition advances :: "queue_row list \<Rightarrow> queue_row list \<Rightarrow> bool" where
  "advances rows rows' \<longleftrightarrow>
     (\<forall>q \<in> set rows. \<exists>q' \<in> set rows'. q_key q' = q_key q \<and>
        q_sequence q' = q_sequence q \<and> moves (q_state q) (q_state q'))"

lemma moves_refl [simp]: "moves a a"
  by (simp add: moves_def)

lemma moves_Queued [simp]: "moves OperationQueued b"
  and moves_Admitting [simp]: "moves OperationAdmitting b"
  and moves_Released [simp]: "moves b OperationReleased"
  by (cases b; simp add: moves_def less_eq_operation_state_def)+

lemma moves_simps [simp]:
  "moves OperationActive OperationTerminalizing"
  "moves OperationTerminalizing OperationCleaning"
  by (simp_all add: moves_def less_eq_operation_state_def)

lemma advances_update:
  assumes "\<And>r. q_kind (f r) = q_kind r" "\<And>r. q_operation_id (f r) = q_operation_id r"
    and "\<And>r. q_sequence (f r) = q_sequence r"
    and "\<And>r. r \<in> set rows \<Longrightarrow> P r \<Longrightarrow> moves (q_state r) (q_state (f r))"
  shows "advances rows (update_rows P f rows)"
  unfolding advances_def
  by (rule update_rows_sim) (use assms in \<open>simp_all add: q_key_def\<close>)

lemma advances_same [simp]: "advances rows rows" and advances_append [simp]: "advances rows (rows @ new)"
  by (auto simp: advances_def)

lemma found_row_unique:
  assumes "find P (queue d) = Some r" "queue_inv d" "s \<in> set (queue d)"
    "is_op k (q_operation_id r) s" "q_kind r = k"
  shows "s = r \<and> P s"
proof -
  have "r \<in> set (queue d)" "P r" using assms(1) by (auto dest: find_SomeD)
  moreover have "q_key r = q_key s" using assms(4,5) by (simp add: is_op_def q_key_def)
  ultimately show ?thesis using queue_inv_key_unique [OF assms(2)] assms(3) by blast
qed

definition lifecycle_ok :: "database \<Rightarrow> database \<Rightarrow> bool" where
  "lifecycle_ok d d' \<longleftrightarrow> advances (queue d) (queue d')"

lemma run_call_lifecycle: "queue_inv (db w) \<Longrightarrow> lifecycle_ok (db w) (db (run_call c w))"
  by (cases c; simp only: run_call.simps call_defs; rule post_keeps; intro wp; simp add: lifecycle_ok_def;
      rule advances_update; (simp; fail)?; (elim conjE disjE; simp; fail)?;
      drule (4) found_row_unique; elim conjE disjE; simp)

lemma store_step_lifecycle: "store_step d d' \<Longrightarrow> queue_inv d \<Longrightarrow> lifecycle_ok d d'"
  by (erule store_stepE) (simp add: run_call_lifecycle)
end
