(* ===== verification/Store_Agreement.thy ===== *)
theory Store_Agreement
  imports Store_Steps
begin

text \<open>
  What the tables say about one another: every job and every build has exactly one row in the
  queue (\<open>links_ok\<close>), and its status agrees with the state of that row (\<open>jobs_ok\<close>, \<open>builds_ok\<close>).
  Every call of the store keeps the first, every call that the components issue in their order
  keeps the others.
\<close>

section \<open>Jobs and builds agree with the queue\<close>

fun job_agrees :: "status \<Rightarrow> operation_state \<Rightarrow> bool" where
  "job_agrees StatusPreparing s \<longleftrightarrow> s \<in> {OperationQueued, OperationAdmitting}"
| "job_agrees StatusQueued s \<longleftrightarrow> s \<in> {OperationQueued, OperationAdmitting, OperationActive}"
| "job_agrees StatusRunning s \<longleftrightarrow> s \<in> {OperationAdmitting, OperationActive}"
| "job_agrees _ s \<longleftrightarrow> True"

fun build_agrees :: "build_status \<Rightarrow> operation_state \<Rightarrow> bool" where
  "build_agrees BuildQueued s \<longleftrightarrow> s \<in> {OperationQueued, OperationAdmitting}"
| "build_agrees BuildRunning s \<longleftrightarrow> s = OperationActive"
| "build_agrees _ s \<longleftrightarrow> s \<in> {OperationTerminalizing, OperationCleaning, OperationReleased}"

definition linked :: "job_row list \<Rightarrow> build_row list \<Rightarrow> queue_row list \<Rightarrow> bool" where
  "linked js bs rows \<longleftrightarrow>
     distinct (map j_id js) \<and> distinct (map b_id bs) \<and>
     q_key ` set rows = Pair OperationJob ` j_id ` set js \<union> Pair OperationBuild ` b_id ` set bs"

definition agree ::
  "operation_kind \<Rightarrow> ('x \<Rightarrow> string) \<Rightarrow> ('x \<Rightarrow> 's) \<Rightarrow> ('s \<Rightarrow> operation_state \<Rightarrow> bool) \<Rightarrow> 'x list \<Rightarrow> queue_row list \<Rightarrow> bool" where
  "agree kind ident stat A xs rows \<longleftrightarrow>
     (\<forall>x \<in> set xs. \<forall>r \<in> set rows. is_op kind (ident x) r \<longrightarrow> A (stat x) (q_state r))"

definition links_ok :: "database \<Rightarrow> bool" where
  "links_ok d \<longleftrightarrow> linked (jobs d) (builds d) (queue d)"

lemma new_job_simps [simp]:
  "job_id (new_job p i t) = i" "job_status (new_job p i t) = StatusPreparing"
  by (simp_all add: new_job_def)

lemma new_job_row_simps [simp]:
  "j_id (new_job_row job idem) = job_id job" "j_status (new_job_row job idem) = job_status job"
  by (simp_all add: new_job_row_def)

lemma run_call_links: "links_ok (db w) \<Longrightarrow> links_ok (db (run_call c w))"
  by (cases c; simp only: run_call.simps call_defs; rule post_keeps; intro wp;
      simp add: links_ok_def linked_def Let_def)

lemma job_agrees_iff:
  "job_agrees s q \<longleftrightarrow>
     (s = StatusPreparing \<longrightarrow> q \<in> {OperationQueued, OperationAdmitting}) \<and>
     (s = StatusQueued \<longrightarrow> q \<in> {OperationQueued, OperationAdmitting, OperationActive}) \<and>
     (s = StatusRunning \<longrightarrow> q \<in> {OperationAdmitting, OperationActive})"
  by (cases s) simp_all

lemma build_agrees_iff:
  "build_agrees s q \<longleftrightarrow>
     (s = BuildQueued \<longrightarrow> q \<in> {OperationQueued, OperationAdmitting}) \<and>
     (s = BuildRunning \<longrightarrow> q = OperationActive) \<and>
     (build_terminal s \<longrightarrow> q \<in> {OperationTerminalizing, OperationCleaning, OperationReleased})"
  by (cases s) (simp_all add: build_terminal_def)

lemma agree_update:
  assumes "agree kind ident stat A xs rows"
    and "\<And>x. ident (f x) = ident x" "\<And>k i r. is_op k i (g r) = is_op k i r"
    and "\<And>x r. x \<in> set xs \<Longrightarrow> r \<in> set rows \<Longrightarrow> is_op kind (ident x) r \<Longrightarrow> A (stat x) (q_state r) \<Longrightarrow>
      P x \<Longrightarrow> R r \<Longrightarrow> A (stat (f x)) (q_state (g r))"
    and "\<And>x r. x \<in> set xs \<Longrightarrow> r \<in> set rows \<Longrightarrow> is_op kind (ident x) r \<Longrightarrow> A (stat x) (q_state r) \<Longrightarrow>
      P x \<Longrightarrow> \<not> R r \<Longrightarrow> A (stat (f x)) (q_state r)"
    and "\<And>x r. x \<in> set xs \<Longrightarrow> r \<in> set rows \<Longrightarrow> is_op kind (ident x) r \<Longrightarrow> A (stat x) (q_state r) \<Longrightarrow>
      \<not> P x \<Longrightarrow> R r \<Longrightarrow> A (stat x) (q_state (g r))"
  shows "agree kind ident stat A (update_rows P f xs) (update_rows R g rows)"
  unfolding agree_def set_update_rows ball_simps
proof (intro ballI impI)
  fix x r
  assume xr: "x \<in> set xs" "r \<in> set rows"
    and op: "is_op kind (ident (if P x then f x else x)) (if R r then g r else r)"
  have "is_op kind (ident x) r" using op assms(2,3) by (simp split: if_splits)
  with xr assms(1,4-6) show "A (stat (if P x then f x else x)) (q_state (if R r then g r else r))"
    by (simp add: agree_def)
qed

lemma agree_rows:
  assumes "agree kind ident stat A xs rows" "\<And>k i r. is_op k i (g r) = is_op k i r"
    and "\<And>x r. x \<in> set xs \<Longrightarrow> r \<in> set rows \<Longrightarrow> is_op kind (ident x) r \<Longrightarrow> A (stat x) (q_state r) \<Longrightarrow>
      R r \<Longrightarrow> A (stat x) (q_state (g r))"
  shows "agree kind ident stat A xs (update_rows R g rows)"
proof -
  have "agree kind ident stat A (update_rows (\<lambda>_. False) id xs) (update_rows R g rows)"
    by (rule agree_update [OF assms(1)]) (use assms(2,3) in simp_all)
  then show ?thesis by (simp add: update_rows_none)
qed

lemma agree_records:
  assumes "agree kind ident stat A xs rows" "\<And>x. ident (f x) = ident x"
    and "\<And>x r. x \<in> set xs \<Longrightarrow> r \<in> set rows \<Longrightarrow> is_op kind (ident x) r \<Longrightarrow> A (stat x) (q_state r) \<Longrightarrow>
      P x \<Longrightarrow> A (stat (f x)) (q_state r)"
  shows "agree kind ident stat A (update_rows P f xs) rows"
proof -
  have "agree kind ident stat A (update_rows P f xs) (update_rows (\<lambda>_. False) id rows)"
    by (rule agree_update [OF assms(1)]) (use assms(2,3) in simp_all)
  then show ?thesis by (simp add: update_rows_none)
qed

lemma agree_insert [simp]:
  assumes "agree kind ident stat A xs rows" "(kind, ident x) \<notin> q_key ` set rows"
    "ident x \<notin> ident ` set xs" "is_op kind (ident x) r \<longrightarrow> A (stat x) (q_state r)" "\<And>k i. is_op k i r \<longleftrightarrow> k = kind \<and> i = ident x"
  shows "agree kind ident stat A (xs @ [x]) (rows @ [r])"
  using assms by (auto simp: agree_def is_op_key image_iff)

lemma agree_other [simp]:
  assumes "agree kind ident stat A xs rows" "\<And>i. \<not> is_op kind i r"
  shows "agree kind ident stat A xs (rows @ [r])"
  using assms by (auto simp: agree_def)

definition builds_ok :: "database \<Rightarrow> bool" where
  "builds_ok d \<longleftrightarrow> agree OperationBuild b_id b_status build_agrees (builds d) (queue d)"

definition jobs_ok :: "database \<Rightarrow> bool" where
  "jobs_ok d \<longleftrightarrow> agree OperationJob j_id j_status job_agrees (jobs d) (queue d)"

lemma counted_op:
  assumes "count_rows (\<lambda>r. is_op k i r \<and> Q r) (queue d) = Suc 0" "queue_inv d"
    "r \<in> set (queue d)" "is_op k j r" "j = i"
  shows "Q r"
proof -
  obtain s where s: "s \<in> set (queue d)" "is_op k i s" "Q s"
    using assms(1) by (metis (mono_tags, lifting) count_rows_0 nat.distinct(1))
  with assms queue_inv_key_unique [of d r s] have "r = s" by (simp add: is_op_key)
  with s show ?thesis by simp
qed

lemma counted_job:
  assumes "count_rows (\<lambda>r. j_id r = i \<and> Q r) (jobs d) = Suc 0" "links_ok d"
    "j \<in> set (jobs d)" "is_op k (j_id j) r" "is_op k i r"
  shows "j_id j = i \<and> Q j"
proof -
  obtain s where s: "s \<in> set (jobs d)" "j_id s = i" "Q s"
    using assms(1) by (metis (mono_tags, lifting) count_rows_0 nat.distinct(1))
  with assms unique_row [of j_id "jobs d" j s] have "j = s"
    by (simp add: links_ok_def linked_def is_op_def)
  with s show ?thesis by simp
qed

lemma build_terminal_simps [simp]:
  "\<not> build_terminal BuildQueued" "\<not> build_terminal BuildRunning" "build_terminal BuildSucceeded"
  "build_terminal BuildFailed" "build_terminal BuildCancelled"
  by (simp_all add: build_terminal_def)

lemma Terminal_neq [simp]:
  assumes "Terminal s"
  shows "s \<noteq> StatusPreparing" "s \<noteq> StatusQueued" "s \<noteq> StatusRunning"
  using assms by (auto simp: Terminal_iff)

lemma run_call_builds:
  "builds_ok (db w) \<Longrightarrow> queue_inv (db w) \<Longrightarrow> disciplined c (db w) \<Longrightarrow> builds_ok (db (run_call c w))"
  apply (cases c; simp only: run_call.simps call_defs; rule post_keeps; intro wp;
     (simp add: builds_ok_def)?; (rule agree_update | rule agree_rows | rule agree_records)?;
     (simp add: is_op_def build_agrees_iff; fail)?;
     (elim conjE disjE; simp add: is_op_def build_agrees_iff; fail)?)
  by (elim conjE, drule (4) counted_op, simp add: is_op_def)

lemma same_row:
  assumes "queue_inv d" "r \<in> set (queue d)" "q \<in> set (queue d)" "q_kind r = k" "q_kind q = k"
    "q_operation_id r = i" "q_operation_id q = i"
  shows "r = q"
  using queue_inv_key_unique [OF assms(1-3)] assms(4-) by (simp add: q_key_def)

text \<open>
  A cancellation stops a job whose operation waits in the queue, and releases that operation.
\<close>

lemma RequestJobCancellation_jobs_ok:
  assumes ok: "jobs_ok (db w)" and inv: "queue_inv (db w)"
  shows "jobs_ok (db (snd (RequestJobCancellation i w)))"
proof -
  have step: "agree OperationJob j_id j_status job_agrees
     (update_rows (\<lambda>r. j_id r = i \<and> \<not> Terminal (j_status r))
        (\<lambda>r. let stop = (j_status r = StatusPreparing \<or> j_status r = StatusQueued \<and>
                  (\<forall>q \<in> set (queue (db w)). is_op OperationJob i q \<longrightarrow>
                      q_state q \<noteq> OperationAdmitting \<and> q_state q \<noteq> OperationActive))
             in r\<lparr>j_cancel_requested := True, j_status := if stop then StatusCancelled else j_status r,
                  j_finished_at := if stop then Some t else j_finished_at r\<rparr>) (jobs (db w)))
     (update_rows (\<lambda>r. is_op OperationJob i r \<and> q_state r = OperationQueued)
        (\<lambda>r. r\<lparr>q_state := OperationReleased, q_cleanup_updated_at := u\<rparr>) (queue (db w)))" for t u
  proof (rule agree_update [OF ok [unfolded jobs_ok_def]], goal_cases)
    case (3 j r)
    then have "\<forall>q \<in> set (queue (db w)). is_op OperationJob i q \<longrightarrow> q = r"
      using same_row [OF inv] by (simp add: is_op_def)
    moreover have "j_status j = StatusPreparing \<or> j_status j = StatusQueued"
      using 3(4,5,6) by (cases "j_status j") simp_all
    ultimately show ?case using 3(6) by (auto simp: Let_def)
  next
    case (4 j r)
    then have "\<forall>s. job_agrees (if s then StatusCancelled else j_status j) (q_state r)" by simp
    then show ?case by (simp add: Let_def)
  next
    case (5 j r)
    then have "Terminal (j_status j)" by (auto simp: is_op_def)
    then show ?case by (simp add: job_agrees_iff)
  qed (simp_all add: Let_def)
  show ?thesis
    unfolding RequestJobCancellation_def Job_def
    apply (rule post_keeps; intro wp; simp add: jobs_ok_def ok [unfolded jobs_ok_def] step)
    done
qed

lemma run_call_jobs:
  "jobs_ok (db w) \<Longrightarrow> queue_inv (db w) \<Longrightarrow> links_ok (db w) \<Longrightarrow> disciplined c (db w) \<Longrightarrow> jobs_ok (db (run_call c w))"
  apply (cases "\<exists>i. c = CallCancelJob i")
   apply (auto simp: RequestJobCancellation_jobs_ok)[1]
  by (cases c; (simp; fail)?; simp only: run_call.simps call_defs; rule post_keeps; intro wp;
     (simp add: jobs_ok_def)?; (rule agree_update | rule agree_rows | rule agree_records)?;
     (simp add: is_op_def job_agrees_iff; fail)?;
     (elim conjE disjE; simp add: is_op_def job_agrees_iff; fail)?;
     (elim conjE; drule (4) counted_job; simp; fail)?;
     (simp only: not_Terminal_iff insert_iff empty_iff; elim conjE disjE; simp add: is_op_def job_agrees_iff; fail)?)

definition consistent :: "database \<Rightarrow> bool" where
  "consistent d \<longleftrightarrow> queue_inv d \<and> links_ok d \<and> jobs_ok d \<and> builds_ok d"

lemma protocol_step_consistent: "protocol_step d d' \<Longrightarrow> consistent d \<Longrightarrow> consistent d'"
  by (erule protocol_stepE)
     (simp add: consistent_def run_call_queue_inv run_call_links run_call_jobs run_call_builds)

lemma protocol_reachable_consistent: "protocol_reachable d \<Longrightarrow> consistent d"
proof (induction rule: protocol_reachable.induct)
  case (start d)
  then show ?case
    by (simp add: fresh_def consistent_def queue_inv_def queue_ok_def links_ok_def linked_def
        jobs_ok_def builds_ok_def agree_def row_simps)
next
  case (step d d')
  then show ?case by (blast intro: protocol_step_consistent)
qed

lemma store_step_links: "store_step d d' \<Longrightarrow> links_ok d \<Longrightarrow> links_ok d'"
  by (erule store_stepE) (simp add: run_call_links)

end
