(* ===== verification/Lease.thy ===== *)
theory Lease
  imports Store_Steps "HOL-Library.Sublist"
begin

text \<open>
  What the queue promises: a lease on the one worker. The specification \<open>lease_step\<close> knows the order
  of acceptance, the operations that wait, and the one that holds the worker; a lease is granted to
  the first that waits when the worker is free. \<open>lease_of\<close> reads this off the table
  \<open>control_queue\<close>; every call of the store is a step of the specification (\<open>run_call_lease\<close>).
  The locale \<open>lease_server\<close> draws the consequences for every system that refines the
  specification, and is interpreted on the store.
\<close>

section \<open>The specification\<close>

type_synonym op_key = "operation_kind \<times> string"

record lease =
  order :: "op_key list"
  waiting :: "op_key list"
  holder :: "op_key option"

text \<open>
  \<open>give_back\<close> is a withdrawn admission: the operation returns to its place in the order of
  acceptance. \<open>seize\<close> is the cleanup of an operation that was never admitted, which takes the
  worker out of turn.
\<close>

inductive lease_step :: "lease \<Rightarrow> lease \<Rightarrow> bool" where
  submit: "k \<notin> set (order l) \<Longrightarrow>
    lease_step l (l\<lparr>order := order l @ [k], waiting := waiting l @ [k]\<rparr>)"
| grant: "holder l = None \<Longrightarrow> waiting l = k # ks \<Longrightarrow>
    lease_step l (l\<lparr>holder := Some k, waiting := ks\<rparr>)"
| give_back: "holder l = Some k \<Longrightarrow>
    lease_step l (l\<lparr>holder := None, waiting := filter (\<lambda>x. x = k \<or> x \<in> set (waiting l)) (order l)\<rparr>)"
| withdraw: "k \<in> set (waiting l) \<Longrightarrow> lease_step l (l\<lparr>waiting := removeAll k (waiting l)\<rparr>)"
| seize: "holder l = None \<Longrightarrow> k \<in> set (waiting l) \<Longrightarrow>
    lease_step l (l\<lparr>holder := Some k, waiting := removeAll k (waiting l)\<rparr>)"
| release: "holder l = Some k \<Longrightarrow> lease_step l (l\<lparr>holder := None\<rparr>)"
| stutter: "lease_step l l"

section \<open>The abstraction\<close>

definition lease_of :: "queue_row list \<Rightarrow> lease" where
  "lease_of rows =
     \<lparr>order = map q_key rows,
      waiting = map q_key (filter (\<lambda>r. q_state r = OperationQueued) rows),
      holder = map_option q_key (find q_reserved rows)\<rparr>"

definition refines_lease :: "database \<Rightarrow> database \<Rightarrow> bool" where
  "refines_lease d d' \<longleftrightarrow> lease_step (lease_of (queue d)) (lease_of (queue d'))"

section \<open>Every call of the store is a step\<close>

lemma update_one:
  assumes "distinct (map key rows)" and P: "\<And>r. P r \<Longrightarrow> key r = k"
  shows "update_rows P f rows = rows \<or>
    (\<exists>xs r ys. rows = xs @ r # ys \<and> P r \<and> update_rows P f rows = xs @ f r # ys)"
proof (cases "\<exists>r \<in> set rows. P r")
  case True
  then obtain r xs ys where r: "P r" "rows = xs @ r # ys" by (metis split_list)
  have "\<not> P s" if "s \<in> set xs \<union> set ys" for s
    using assms(1) r that P [of s] P [OF r(1)] by auto (metis rev_image_eqI)+
  then have "update_rows P f xs = xs" "update_rows P f ys = ys" by (auto intro!: update_rows_none)
  then show ?thesis using r by (auto simp: update_rows_def)
next
  case False
  then show ?thesis by (simp add: update_rows_none)
qed

lemma find_append: "find P (xs @ ys) = (case find P xs of None \<Rightarrow> find P ys | Some x \<Rightarrow> Some x)"
  by (induction xs) auto

lemma count_0_find: "count_rows P xs = 0 \<longleftrightarrow> find P xs = None"
  by (auto simp: row_simps find_None_iff)

lemma find_split:
  assumes "find P rows = Some r"
  shows "\<exists>xs ys. rows = xs @ r # ys \<and> P r \<and> filter P xs = []"
  using assms by (induction rows) (auto split: if_splits intro: exI [of _ "[]"], metis append_Cons filter.simps(2))

lemma update_at:
  assumes "distinct (map key (xs @ r # ys))" "\<And>s. P s \<Longrightarrow> key s = key r" "P r"
  shows "update_rows P f (xs @ r # ys) = xs @ f r # ys"
proof -
  have "\<not> P s" if "s \<in> set xs \<union> set ys" for s
    using assms(1) that assms(2) [of s] by (auto simp: image_iff)
  then have "update_rows P f xs = xs" "update_rows P f ys = ys" by (auto intro!: update_rows_none)
  then show ?thesis using assms(3) by (simp add: update_rows_def)
qed

lemma lease_change:
  assumes ok: "distinct (map q_key (xs @ r # ys))" "count_rows q_reserved (xs @ r # ys) \<le> 1"
    and ok': "count_rows q_reserved (xs @ r' # ys) \<le> 1" and key: "q_key r' = q_key r"
    and move: "q_state r' = q_state r \<or> q_reserved r \<or> 
      q_state r = OperationQueued \<and> q_state r' \<in> {OperationTerminalizing, OperationReleased}"
  shows "lease_step (lease_of (xs @ r # ys)) (lease_of (xs @ r' # ys))"
proof -
  let ?k = "q_key r"
  have fresh: "?k \<notin> q_key ` set xs" "?k \<notin> q_key ` set ys" using ok(1) by auto
  have alone: "find q_reserved xs = None \<and> find q_reserved ys = None" if "q_reserved r \<or> q_reserved r'"
    using that ok(2) ok' by (auto simp: row_simps count_0_find [symmetric])
  let ?ws = "\<lambda>zs. map q_key (filter (\<lambda>r. q_state r = OperationQueued) zs)"
  have others: "removeAll ?k (?ws xs) = ?ws xs" "removeAll ?k (?ws ys) = ?ws ys"
    using fresh by (auto intro!: removeAll_id)
  have kept: "filter (\<lambda>x. x = ?k \<or> x \<in> set (?ws (xs @ r # ys))) (map q_key zs) = ?ws zs"
    if "zs = xs \<or> zs = ys" for zs
  proof -
    have "(q_key z = ?k \<or> q_key z \<in> set (?ws (xs @ r # ys))) = (q_state z = OperationQueued)"
      if z: "z \<in> set zs" for z
    proof -
      have "z \<in> set (xs @ r # ys)" "q_key z \<noteq> ?k"
        using z fresh \<open>zs = xs \<or> zs = ys\<close> by (auto simp: image_iff)
      then show ?thesis using unique_row [OF ok(1)] by auto
    qed
    then show ?thesis by (simp add: filter_map comp_def cong: filter_cong)
  qed
  consider (same) "q_state r' = q_state r" | (sort) "q_state r' \<noteq> q_state r" "q_reserved r" "q_reserved r'"
    | (ret) "q_reserved r" "q_state r' = OperationQueued"
    | (rel) "q_reserved r" "q_state r' = OperationReleased"
    | (seize) "q_state r = OperationQueued" "q_state r' = OperationTerminalizing"
    | (wd) "q_state r = OperationQueued" "q_state r' = OperationReleased"
    using move by (cases "q_state r'") (auto simp: q_reserved_def)
  then show ?thesis
  proof cases
    case same
    then have "lease_of (xs @ r' # ys) = lease_of (xs @ r # ys)"
      using key by (simp add: lease_of_def find_append q_reserved_def split: option.split)
    then show ?thesis by (simp add: lease_step.stutter)
  next
    case sort
    then have "lease_of (xs @ r' # ys) = lease_of (xs @ r # ys)"
      using key alone by (auto simp: lease_of_def find_append q_reserved_def reserved_iff)
    then show ?thesis by (simp add: lease_step.stutter)
  next
    case ret
    have "lease_of (xs @ r' # ys) = (lease_of (xs @ r # ys))\<lparr>holder := None, waiting :=
      filter (\<lambda>x. x = ?k \<or> x \<in> set (waiting (lease_of (xs @ r # ys)))) (order (lease_of (xs @ r # ys)))\<rparr>"
      using ret key alone kept [of xs] kept [of ys] by (simp add: lease_of_def find_append q_reserved_def)
    moreover have "holder (lease_of (xs @ r # ys)) = Some ?k" 
      using ret alone by (simp add: lease_of_def find_append)
    ultimately show ?thesis by (simp add: lease_step.give_back)
  next
    case rel
    have "lease_of (xs @ r' # ys) = (lease_of (xs @ r # ys))\<lparr>holder := None\<rparr>"
      using rel key alone by (auto simp: lease_of_def find_append q_reserved_def reserved_iff)
    moreover have "holder (lease_of (xs @ r # ys)) = Some ?k" 
      using rel alone by (simp add: lease_of_def find_append)
    ultimately show ?thesis by (simp add: lease_step.release)
  next
    case seize
    have "lease_of (xs @ r' # ys) = (lease_of (xs @ r # ys))\<lparr>holder := Some ?k, 
       waiting := removeAll ?k (waiting (lease_of (xs @ r # ys)))\<rparr>"
      using seize key alone others by (simp add: lease_of_def find_append q_reserved_def reserved_iff)
    moreover have "holder (lease_of (xs @ r # ys)) = None" "?k \<in> set (waiting (lease_of (xs @ r # ys)))"
      using seize alone by (simp_all add: lease_of_def find_append q_reserved_def)
    ultimately show ?thesis by (simp add: lease_step.seize)
  next
    case wd
    have "lease_of (xs @ r' # ys) = (lease_of (xs @ r # ys))\<lparr>
       waiting := removeAll ?k (waiting (lease_of (xs @ r # ys)))\<rparr>"
      using wd key others by (simp add: lease_of_def find_append q_reserved_def split: option.split)
    moreover have "?k \<in> set (waiting (lease_of (xs @ r # ys)))"
      using wd by (simp add: lease_of_def)
    ultimately show ?thesis by (simp add: lease_step.withdraw)
  qed
qed


lemma lease_update:
  assumes "queue_inv d" and rows: "rows = queue d"
    and "count_rows q_reserved (update_rows (\<lambda>r. is_op k i r \<and> Q r) f rows) \<le> Suc 0"
    and "\<And>r. q_kind (f r) = q_kind r" "\<And>r. q_operation_id (f r) = q_operation_id r"
    and "\<And>r. r \<in> set rows \<Longrightarrow> is_op k i r \<Longrightarrow> Q r \<Longrightarrow> q_state (f r) = q_state r \<or> q_reserved r \<or> 
      q_state r = OperationQueued \<and> q_state (f r) \<in> {OperationTerminalizing, OperationReleased}"
  shows "lease_step (lease_of rows) (lease_of (update_rows (\<lambda>r. is_op k i r \<and> Q r) f rows))"
proof -
  have "distinct (map q_key rows)" using assms(1,2) by (simp add: queue_inv_def queue_ok_def)
  then consider "update_rows (\<lambda>r. is_op k i r \<and> Q r) f rows = rows"
    | xs r ys where "rows = xs @ r # ys" "is_op k i r" "Q r"
      "update_rows (\<lambda>r. is_op k i r \<and> Q r) f rows = xs @ f r # ys"
    using update_one [of q_key rows "\<lambda>r. is_op k i r \<and> Q r" "(k, i)" f] by (auto simp: is_op_key)
  then show ?thesis
  proof cases
    case 1
    then show ?thesis by (simp add: lease_step.stutter)
  next
    case 2
    have "lease_step (lease_of (xs @ r # ys)) (lease_of (xs @ f r # ys))"
      by (rule lease_change) (use 2 assms in \<open>auto simp: queue_inv_def queue_ok_def q_key_def\<close>)
    with 2 show ?thesis by simp
  qed
qed

lemma lease_append:
  assumes "(kind, i) \<notin> q_key ` set rows"
  shows "lease_step (lease_of rows) (lease_of (rows @ [queued_row n kind i OperationQueued a l]))"
proof -
  have "lease_of (rows @ [queued_row n kind i OperationQueued a l]) =
    (lease_of rows)\<lparr>order := order (lease_of rows) @ [(kind, i)], waiting := waiting (lease_of rows) @ [(kind, i)]\<rparr>"
    by (simp add: lease_of_def find_append q_reserved_def split: option.split)
  moreover have "(kind, i) \<notin> set (order (lease_of rows))" using assms by (simp add: lease_of_def)
  ultimately show ?thesis by (simp add: lease_step.submit)
qed

lemma lease_grant:
  assumes "queue_inv d" "rows = queue d" "count_rows q_reserved rows = 0"
    "find (\<lambda>r. q_state r = OperationQueued) rows = Some r"
  shows "lease_step (lease_of rows) (lease_of (update_rows
    (\<lambda>s. is_op (q_kind r) (q_operation_id r) s \<and> q_state s = OperationQueued)
    (\<lambda>s. s\<lparr>q_state := OperationAdmitting, q_leased_at := t\<rparr>) rows))"
    (is "lease_step _ (lease_of (update_rows ?P ?f rows))")
proof -
  obtain xs ys where rows: "rows = xs @ r # ys" "q_state r = OperationQueued"
    "filter (\<lambda>r. q_state r = OperationQueued) xs = []"
    using find_split [OF assms(4)] by auto
  have "update_rows ?P ?f rows = xs @ ?f r # ys"
    unfolding rows(1) by (rule update_at [of q_key])
       (use assms(1,2) rows in \<open>auto simp: queue_inv_def queue_ok_def is_op_def q_key_def\<close>)
  moreover have "find q_reserved xs = None" "find q_reserved ys = None"
    using assms(3) rows by (auto simp: row_simps count_0_find [symmetric])
  ultimately have "lease_of (update_rows ?P ?f rows) =
     (lease_of rows)\<lparr>holder := Some (q_key r), waiting := map q_key (filter (\<lambda>r. q_state r = OperationQueued) ys)\<rparr>"
    using rows by (simp add: lease_of_def find_append q_reserved_def)
  moreover have "holder (lease_of rows) = None"
    using assms(3) by (simp add: lease_of_def count_0_find)
  moreover have "waiting (lease_of rows) = q_key r # map q_key (filter (\<lambda>r. q_state r = OperationQueued) ys)"
    using rows by (simp add: lease_of_def)
  ultimately show ?thesis by (simp add: lease_step.grant)
qed

lemmas lease_update_all = lease_update [where Q = "\<lambda>_. True", simplified]

lemma run_call_lease: "queue_inv (db w) \<Longrightarrow> refines_lease (db w) (db (run_call c w))"
  by (cases c; simp only: run_call.simps call_defs; rule post_keeps; intro wp;
     (simp add: refines_lease_def lease_step.stutter lease_append lease_grant)?;
     (rule lease_update | rule lease_update_all)?; (simp; fail)?; (simp add: q_reserved_def; fail)?; (elim disjE; simp add: q_reserved_def; fail)?;
     (drule (4) found_row_unique; elim conjE disjE; simp add: q_reserved_def; fail)?)

section \<open>Consequences\<close>

definition lease_wf :: "lease \<Rightarrow> bool" where
  "lease_wf l \<longleftrightarrow> distinct (order l) \<and> subseq (waiting l) (order l) \<and>
     (\<forall>k. holder l = Some k \<longrightarrow> k \<in> set (order l) \<and> k \<notin> set (waiting l))"

definition gone :: "lease \<Rightarrow> op_key \<Rightarrow> bool" where
  "gone l k \<longleftrightarrow> k \<in> set (order l) \<and> k \<notin> set (waiting l) \<and> holder l \<noteq> Some k"

inductive_cases lease_stepE: "lease_step l l'"

lemma lease_step_holder:
  "lease_step l l' \<Longrightarrow> holder l = Some k \<Longrightarrow> holder l' \<in> {Some k, None}"
  by (erule lease_stepE) auto

lemma lease_step_order: "lease_step l l' \<Longrightarrow> prefix (order l) (order l')"
  by (erule lease_stepE) auto

lemma lease_step_gone: "lease_step l l' \<Longrightarrow> gone l k \<Longrightarrow> gone l' k"
  by (erule lease_stepE) (auto simp: gone_def)

locale lease_server =
  fixes view :: "'s \<Rightarrow> lease" and inv :: "'s \<Rightarrow> bool" and step :: "'s \<Rightarrow> 's \<Rightarrow> bool"
  assumes keeps: "inv s \<Longrightarrow> step s t \<Longrightarrow> inv t"
    and refines: "inv s \<Longrightarrow> step s t \<Longrightarrow> lease_step (view s) (view t)"
    and wf: "inv s \<Longrightarrow> lease_wf (view s)"
begin

lemma runs_keep: "step\<^sup>*\<^sup>* s t \<Longrightarrow> inv s \<Longrightarrow> inv t"
  by (induction rule: rtranclp_induct) (auto intro: keeps)

lemma order_is_kept: "step\<^sup>*\<^sup>* s t \<Longrightarrow> inv s \<Longrightarrow> prefix (order (view s)) (order (view t))"
proof (induction rule: rtranclp_induct)
  case (step t u)
  then show ?case using refines lease_step_order runs_keep prefix_order.trans by metis
qed simp

lemma gone_for_good: "step\<^sup>*\<^sup>* s t \<Longrightarrow> inv s \<Longrightarrow> gone (view s) k \<Longrightarrow> gone (view t) k"
proof (induction rule: rtranclp_induct)
  case (step t u)
  then show ?case using refines lease_step_gone runs_keep by metis
qed

lemma not_stolen: "step s t \<Longrightarrow> inv s \<Longrightarrow> holder (view s) = Some k \<Longrightarrow> holder (view t) \<in> {Some k, None}"
  using refines lease_step_holder by metis

end

lemma lease_of_wf: "queue_inv d \<Longrightarrow> lease_wf (lease_of (queue d))"
  unfolding lease_wf_def
proof (intro conjI allI impI)
  assume inv: "queue_inv d"
  then show "distinct (order (lease_of (queue d)))" by (simp add: lease_of_def queue_inv_def queue_ok_def)
  show "subseq (waiting (lease_of (queue d))) (order (lease_of (queue d)))"
    by (simp add: lease_of_def subseq_map)
  fix k assume "holder (lease_of (queue d)) = Some k"
  then obtain r where r: "r \<in> set (queue d)" "q_reserved r" "k = q_key r"
    by (auto simp: lease_of_def dest: find_SomeD)
  then show "k \<in> set (order (lease_of (queue d)))" by (simp add: lease_of_def)
  show "k \<notin> set (waiting (lease_of (queue d)))"
  proof
    assume "k \<in> set (waiting (lease_of (queue d)))"
    then obtain s where "s \<in> set (queue d)" "q_state s = OperationQueued" "q_key s = q_key r"
      using r(3) by (auto simp: lease_of_def)
    moreover then have "s = r" using queue_inv_key_unique [OF inv] r(1) by blast
    ultimately show False using r(2) by (simp add: q_reserved_def)
  qed
qed

interpretation store_lease: lease_server "\<lambda>d. lease_of (queue d)" queue_inv store_step
proof
  fix d d' assume "queue_inv d" "store_step d d'"
  then show "queue_inv d'" by (rule store_step_queue_inv [rotated])
  show "lease_step (lease_of (queue d)) (lease_of (queue d'))"
    using \<open>store_step d d'\<close> \<open>queue_inv d\<close> run_call_lease
    by (auto elim!: store_stepE simp: refines_lease_def)
qed (rule lease_of_wf)

end
