(* ===== verification/Store_Specs.thy ===== *)
theory Store_Specs
  imports Store_Agreement Lease
begin

text \<open>
  What the operations of the store do to the states of the operations (\<open>op_states\<close>), on success and
  on error, whatever the driver does. The components above the store rely on these facts through
  the contracts of their own interfaces.
\<close>

section \<open>One statement on one operation\<close>

definition set_row :: "queue_row \<Rightarrow> (queue_row \<Rightarrow> queue_row) \<Rightarrow> database \<Rightarrow> database" where
  "set_row r f d = d\<lparr>queue := update_rows (\<lambda>s. s = r) f (queue d)\<rparr>"

lemma update_rows_cong: "(\<And>r. r \<in> set rows \<Longrightarrow> P r = Q r) \<Longrightarrow> (\<And>r. r \<in> set rows \<Longrightarrow> Q r \<Longrightarrow> f r = g r) \<Longrightarrow>
  update_rows P f rows = update_rows Q g rows"
  by (simp add: update_rows_def)

lemma count_rows_update_add:
  "count_rows Q (update_rows P f rows) \<le> count_rows P rows + count_rows Q rows"
  by (induction rows) (auto simp: row_simps)

lemma guard_is_row:
  assumes "queue_inv d" "r \<in> set (queue d)" "is_op k i r" "Q r" "s \<in> set (queue d)"
  shows "(is_op k i s \<and> Q s) = (s = r)"
  using queue_inv_key_unique [OF assms(1,2,5)] assms(3,4) by (auto simp: is_op_key)

lemma guarded_row:
  assumes "queue_inv d" "r \<in> set (queue d)" "is_op k i r" "Q r"
  shows "update_rows (\<lambda>s. is_op k i s \<and> Q s) f (queue d) = update_rows (\<lambda>s. s = r) f (queue d)"
  by (rule update_rows_cong) (use guard_is_row [of d r k i Q] assms in simp_all)

lemma update_queue_row:
  assumes inv: "queue_inv d" and r: "r \<in> set (queue d)" "is_op k i r" "Q r"
    and free: "q_reserved (f r) \<Longrightarrow> \<not> q_reserved r \<Longrightarrow> \<forall>s \<in> set (queue d). \<not> q_reserved s"
  shows "update_queue (\<lambda>s. is_op k i s \<and> Q s) f d = Inr (1, set_row r f d)"
proof -
  have "count_rows q_reserved (update_rows (\<lambda>s. s = r) f (queue d)) \<le> 1"
  proof (cases "q_reserved (f r) \<and> \<not> q_reserved r")
    case True
    then have "count_rows q_reserved (queue d) = 0" using free by (simp add: row_simps)
    moreover have "count_rows (\<lambda>s. s = r) (queue d) \<le> 1"
      using inv by (intro count_rows_keyed_le_1 [of q_key _ _ "q_key r"]) (simp_all add: queue_inv_def queue_ok_def)
    ultimately show ?thesis using count_rows_update_add [of q_reserved "\<lambda>s. s = r" f "queue d"] by simp
  next
    case False
    then have "count_rows q_reserved (update_rows (\<lambda>s. s = r) f (queue d)) \<le> count_rows q_reserved (queue d)"
      by (intro count_rows_update_le) auto
    then show ?thesis using inv by (simp add: queue_inv_def queue_ok_def)
  qed
  then show ?thesis
    using guarded_row [of d r k i Q f, OF inv r] count_is_op_1 [of d r k i Q, OF inv r] by (simp add: update_queue_def Let_def set_row_def)
qed

lemma update_queue_blocked:
  assumes inv: "queue_inv d" and r: "r \<in> set (queue d)" "is_op k i r" "Q r"
    and "\<not> q_reserved r" "q_reserved (f r)" "q_key (f r) = q_key r" and s: "s \<in> set (queue d)" "q_reserved s"
  shows "update_queue (\<lambda>s. is_op k i s \<and> Q s) f d = Inl (ErrUnique ''control_queue_one_reserved_idx'')"
proof -
  let ?rows = "update_rows (\<lambda>s. s = r) f (queue d)"
  have "\<not> count_rows q_reserved ?rows \<le> 1"
  proof
    assume one: "count_rows q_reserved ?rows \<le> 1"
    have "r \<noteq> s" using assms by auto
    then have "s \<in> set ?rows" using s by (auto intro: in_update_rows_unchanged)
    moreover have "f r \<in> set ?rows" using r(1) by (force simp: set_update_rows)
    ultimately have "s = f r" using count_rows_le_1_unique [OF one] assms by blast
    then show False using queue_inv_key_unique [OF inv r(1) s(1)] assms(7) \<open>r \<noteq> s\<close> by simp
  qed
  then show ?thesis by (simp add: update_queue_def Let_def guarded_row [of d r k i Q f, OF inv r])
qed

lemma update_queue_none:
  assumes "queue_inv d" "\<And>r. r \<in> set (queue d) \<Longrightarrow> is_op k i r \<Longrightarrow> \<not> Q r"
  shows "update_queue (\<lambda>s. is_op k i s \<and> Q s) f d = Inr (0, d)"
proof -
  have "update_rows (\<lambda>s. is_op k i s \<and> Q s) f (queue d) = queue d"
    using assms(2) by (intro update_rows_none) auto
  moreover have "count_rows (\<lambda>s. is_op k i s \<and> Q s) (queue d) = 0" using assms(2) by (auto simp: row_simps)
  ultimately show ?thesis using assms(1) by (simp add: update_queue_def Let_def queue_inv_def queue_ok_def)
qed


section \<open>The states of the operations\<close>

definition states_of :: "queue_row list \<Rightarrow> (op_key \<rightharpoonup> operation_state)" where
  "states_of rows = map_of (map (\<lambda>r. (q_key r, q_state r)) rows)"

lemma states_of_row:
  assumes "queue_inv d" "r \<in> set (queue d)"
  shows "states_of (queue d) (q_key r) = Some (q_state r)"
proof -
  have "distinct (map fst (map (\<lambda>r. (q_key r, q_state r)) (queue d)))"
    using assms(1) by (simp add: queue_inv_def queue_ok_def comp_def)
  then show ?thesis unfolding states_of_def by (rule map_of_is_SomeI) (use assms(2) in auto)
qed

lemma states_of_SomeD:
  "states_of rows k = Some s \<Longrightarrow> \<exists>r \<in> set rows. q_key r = k \<and> q_state r = s"
  by (auto simp: states_of_def dest!: map_of_SomeD)

lemma states_of_None: "states_of rows k = None \<longleftrightarrow> k \<notin> q_key ` set rows"
  by (auto simp: states_of_def map_of_eq_None_iff image_image)

lemma states_of_split:
  "q_key r \<notin> q_key ` set xs \<Longrightarrow>
   states_of (xs @ r # ys) = (states_of ys ++ states_of xs)(q_key r \<mapsto> q_state r)"
  using states_of_None [of xs "q_key r"] by (simp add: states_of_def map_add_upd_left domIff)

lemma states_of_update:
  assumes inv: "queue_inv d" and f: "\<And>r. q_key (f r) = q_key r" "\<And>r. Q r \<Longrightarrow> q_state (f r) = s"
  shows "states_of (update_rows (\<lambda>r. is_op k i r \<and> Q r) f (queue d)) =
    (if \<exists>r \<in> set (queue d). is_op k i r \<and> Q r then (states_of (queue d))((k, i) \<mapsto> s)
     else states_of (queue d))"
proof (cases "\<exists>r \<in> set (queue d). is_op k i r \<and> Q r")
  case True
  then obtain r where r: "r \<in> set (queue d)" "is_op k i r" "Q r" by blast
  then obtain xs ys where split: "queue d = xs @ r # ys" by (meson split_list)
  have dist: "distinct (map q_key (xs @ r # ys))" using inv split by (simp add: queue_inv_def queue_ok_def)
  have "update_rows (\<lambda>r. is_op k i r \<and> Q r) f (queue d) = xs @ f r # ys"
    unfolding split by (rule update_at [OF dist]) (use r in \<open>auto simp: is_op_key\<close>)
  moreover have "(k, i) = q_key r" using r by (simp add: is_op_key)
  moreover have "states_of (xs @ f r # ys) = (states_of (xs @ r # ys))(q_key r \<mapsto> s)"
    using states_of_split [of r xs ys] states_of_split [of "f r" xs ys] dist f r by simp
  ultimately show ?thesis using True split by simp
next
  case False
  then have "update_rows (\<lambda>r. is_op k i r \<and> Q r) f (queue d) = queue d" by (intro update_rows_none) auto
  with False show ?thesis by auto
qed


abbreviation op_states :: "cworld \<Rightarrow> op_key \<rightharpoonup> operation_state" where
  "op_states w \<equiv> states_of (queue (db w))"

lemma states_of_iff:
  assumes "queue_inv d"
  shows "(\<exists>r \<in> set (queue d). is_op k i r \<and> q_state r \<in> S) \<longleftrightarrow> states_of (queue d) (k, i) \<in> Some ` S"
proof
  assume "\<exists>r \<in> set (queue d). is_op k i r \<and> q_state r \<in> S"
  then obtain r where "r \<in> set (queue d)" "q_key r = (k, i)" "q_state r \<in> S" by (auto simp: is_op_key)
  then show "states_of (queue d) (k, i) \<in> Some ` S" using states_of_row [OF assms, of r] by simp
next
  assume "states_of (queue d) (k, i) \<in> Some ` S"
  then show "\<exists>r \<in> set (queue d). is_op k i r \<and> q_state r \<in> S"
    by (auto simp: is_op_key dest!: states_of_SomeD)
qed

lemma states_of_set:
  assumes "queue_inv d" "\<And>r. q_key (f r) = q_key r" "\<And>r. q_state r \<in> S \<Longrightarrow> q_state (f r) = s"
  shows "states_of (update_rows (\<lambda>r. is_op k i r \<and> q_state r \<in> S) f (queue d)) =
    (if states_of (queue d) (k, i) \<in> Some ` S then (states_of (queue d))((k, i) \<mapsto> s)
     else states_of (queue d))"
  using states_of_update [of d f "\<lambda>r. q_state r \<in> S" s k i] assms states_of_iff [OF assms(1), of k i S] by simp

lemma count_is_op:
  assumes "queue_inv d"
  shows "count_rows (\<lambda>r. is_op k i r \<and> q_state r \<in> S) (queue d) =
    (if states_of (queue d) (k, i) \<in> Some ` S then 1 else 0)"
  using states_of_iff [OF assms, of k i S] count_is_op_1 [OF assms, where P = "\<lambda>r. q_state r \<in> S"]
  by (auto simp: row_simps)

lemma find_is_op_state:
  assumes "queue_inv d"
  shows "map_option q_state (find (is_op k i) (queue d)) = states_of (queue d) (k, i)"
proof (cases "find (is_op k i) (queue d)")
  case None
  then show ?thesis using states_of_None [of "queue d" "(k, i)"] by (auto simp: find_None_iff is_op_key)
next
  case (Some r)
  then have "r \<in> set (queue d)" "q_key r = (k, i)" by (auto simp: is_op_key dest: find_SomeD)
  then show ?thesis using Some states_of_row [OF assms, of r] by simp
qed

lemma post_set_state:
  assumes inv: "queue_inv (db w)"
    and f: "\<And>r. q_kind (f r) = q_kind r" "\<And>r. q_operation_id (f r) = q_operation_id r"
      "\<And>r. q_sequence (f r) = q_sequence r" "\<And>r. q_state r \<in> S \<Longrightarrow> q_state (f r) = s"
    and hit: "\<And>v. op_states w (k, i) \<in> Some ` S \<Longrightarrow> op_states v = (op_states w)((k, i) \<mapsto> s) \<Longrightarrow>
      queue_inv (db v) \<Longrightarrow> jobs (db v) = jobs (db w) \<Longrightarrow> builds (db v) = builds (db w) \<Longrightarrow> Q 1 v"
    and miss: "\<And>v. op_states w (k, i) \<notin> Some ` S \<Longrightarrow> db v = db w \<Longrightarrow> Q 0 v"
    and err: "\<And>e v. db v = db w \<Longrightarrow> E e v"
  shows "post Q E (exec (update_queue (\<lambda>r. is_op k i r \<and> q_state r \<in> S) f) w)"
proof (rule post_update_queue)
  fix fs
  let ?rows = "update_rows (\<lambda>r. is_op k i r \<and> q_state r \<in> S) f (queue (db w))"
  let ?v = "w\<lparr>faults := fs, db := (db w)\<lparr>queue := ?rows\<rparr>\<rparr>"
  assume one: "count_rows q_reserved ?rows \<le> 1"
  have key: "q_key (f r) = q_key r" for r using f(1,2) by (simp add: q_key_def)
  show "Q (count_rows (\<lambda>r. is_op k i r \<and> q_state r \<in> S) (queue (db w))) ?v"
  proof (cases "op_states w (k, i) \<in> Some ` S")
    case True
    have "Q 1 ?v"
      using inv one f key True by (intro hit) (auto simp: states_of_set queue_inv_def)
    then show ?thesis using True by (simp add: count_is_op [OF inv])
  next
    case False
    then have "?rows = queue (db w)" using states_of_iff [OF inv, of k i S] by (intro update_rows_none) blast
    then have "Q 0 ?v" using False by (intro miss) simp_all
    then show ?thesis using False by (simp add: count_is_op [OF inv])
  qed
qed (simp_all add: err)

lemma post_set_state_from:
  "\<lbrakk>queue_inv (db w);
    \<And>r. q_kind (f r) = q_kind r; \<And>r. q_operation_id (f r) = q_operation_id r;
    \<And>r. q_sequence (f r) = q_sequence r; \<And>r. q_state r = s0 \<Longrightarrow> q_state (f r) = s;
    \<And>v. op_states w (k, i) = Some s0 \<Longrightarrow> op_states v = (op_states w)((k, i) \<mapsto> s) \<Longrightarrow>
      queue_inv (db v) \<Longrightarrow> jobs (db v) = jobs (db w) \<Longrightarrow> builds (db v) = builds (db w) \<Longrightarrow> Q 1 v;
    \<And>v. op_states w (k, i) \<noteq> Some s0 \<Longrightarrow> db v = db w \<Longrightarrow> Q 0 v;
    \<And>e v. db v = db w \<Longrightarrow> E e v\<rbrakk> \<Longrightarrow>
   post Q E (exec (update_queue (\<lambda>r. is_op k i r \<and> q_state r = s0) f) w)"
  using post_set_state [of w f "{s0}" s k i Q E] by simp

lemmas wp_core = post_bindR post_Inl post_Inr post_if post_case_option post_Let post_query
  tx_post_Commit tx_post_Rollback post_in_tx

lemma OperationState_post:
  assumes "queue_inv (db w)"
    and "\<And>s v. op_states w (k, i) = Some s \<Longrightarrow> db v = db w \<Longrightarrow> Q s v" and "\<And>e v. db v = db w \<Longrightarrow> E e v"
  shows "post Q E (OperationState k i w)"
  unfolding OperationState_def
  by (intro wp_core) (use assms find_is_op_state [OF assms(1), of k i] in auto)

section \<open>The cleanup operations\<close>

lemma BeginOperationCleanup_spec:
  assumes inv: "queue_inv (db w)"
  shows "post (\<lambda>_ v. queue_inv (db v) \<and>
      (if op_states w (k, i) \<in> Some ` {OperationQueued, OperationAdmitting, OperationActive}
       then op_states v = (op_states w)((k, i) \<mapsto> OperationTerminalizing)
       else op_states w (k, i) \<in> Some ` {OperationTerminalizing, OperationCleaning, OperationReleased} \<and> db v = db w))
    (\<lambda>e v. db v = db w) (BeginOperationCleanup k i w)"
  unfolding BeginOperationCleanup_def
  by (intro wp_core post_set_state inv OperationState_post) (simp_all add: inv)

lemma found_state:
  assumes "queue_inv (db w)" "find P (queue (db w)) = Some r"
  shows "op_states w (q_kind r, q_operation_id r) = Some (q_state r)" "P r"
  using states_of_row [OF assms(1), of r] assms(2) by (auto simp: q_key_def dest: find_SomeD)

lemma find_no_state:
  "find (\<lambda>r. Q (q_state r)) rows = None \<Longrightarrow> states_of rows k = Some s \<Longrightarrow> \<not> Q s"
  by (auto simp: find_None_iff dest!: states_of_SomeD)

lemma ClaimOperationCleanup_spec:
  assumes inv: "queue_inv (db w)"
  shows "post (\<lambda>operation v. queue_inv (db v) \<and> (case operation of
      None \<Rightarrow> db v = db w \<and> (\<forall>k. op_states w k \<notin> Some ` {OperationTerminalizing, OperationCleaning})
    | Some op \<Rightarrow> op_states w (op_kind op, op_id op) \<in> Some ` {OperationTerminalizing, OperationCleaning} \<and>
        op_state op = OperationCleaning \<and>
        op_states v = (op_states w)((op_kind op, op_id op) \<mapsto> OperationCleaning)))
    (\<lambda>e v. db v = db w) (ClaimOperationCleanup w)"
  unfolding ClaimOperationCleanup_def
  by (intro wp_core post_set_state) (auto simp: inv scanOperation_def found_state find_None_iff
      dest!: states_of_SomeD)

lemma RecordOperationCleanupFailure_spec:
  assumes inv: "queue_inv (db w)"
  shows "post (\<lambda>_ v. queue_inv (db v) \<and> op_states w (k, i) = Some OperationCleaning \<and> op_states v = op_states w)
    (\<lambda>e v. db v = db w) (RecordOperationCleanupFailure k i m w)"
  unfolding RecordOperationCleanupFailure_def
  by (intro wp_core post_set_state_from) (auto simp: inv)

lemma CompleteOperationCleanup_spec:
  assumes inv: "queue_inv (db w)"
  shows "post (\<lambda>_ v. queue_inv (db v) \<and>
      op_states w (k, i) \<in> Some ` {OperationTerminalizing, OperationCleaning, OperationReleased} \<and>
      op_states v = (op_states w)((k, i) \<mapsto> OperationReleased))
    (\<lambda>e v. db v = db w) (CompleteOperationCleanup k i w)"
  unfolding CompleteOperationCleanup_def
  by (intro wp_core post_set_state OperationState_post) (auto simp: inv)

section \<open>The admission operations\<close>

definition idle :: "(op_key \<rightharpoonup> operation_state) \<Rightarrow> bool" where
  "idle st \<longleftrightarrow> (\<forall>k s. st k = Some s \<longrightarrow> \<not> reserved s)"

lemma idle_iff: "queue_inv d \<Longrightarrow> idle (states_of (queue d)) \<longleftrightarrow> (\<forall>r \<in> set (queue d). \<not> q_reserved r)"
  unfolding idle_def q_reserved_def by (metis states_of_row states_of_SomeD)

lemma waiting_head:
  "find (\<lambda>r. q_state r = OperationQueued) rows = Some r \<Longrightarrow>
   \<exists>ks. waiting (lease_of rows) = (q_kind r, q_operation_id r) # ks"
  by (drule find_split) (auto simp: lease_of_def q_key_def)

lemma waiting_empty:
  "find (\<lambda>r. q_state r = OperationQueued) rows = None \<Longrightarrow> waiting (lease_of rows) = []"
  by (auto simp: find_None_iff lease_of_def filter_empty_conv)

lemma AcquireNextOperation_spec:
  assumes inv: "queue_inv (db w)"
  shows "post (\<lambda>operation v. queue_inv (db v) \<and> (case operation of
      None \<Rightarrow> db v = db w \<and> (idle (op_states w) \<longrightarrow> waiting (lease_of (queue (db w))) = [])
    | Some op \<Rightarrow> idle (op_states w) \<and> op_state op = OperationAdmitting \<and>
        (\<exists>ks. waiting (lease_of (queue (db w))) = (op_kind op, op_id op) # ks) \<and>
        jobs (db v) = jobs (db w) \<and> builds (db v) = builds (db w) \<and>
        op_states v = (op_states w)((op_kind op, op_id op) \<mapsto> OperationAdmitting)))
    (\<lambda>e v. db v = db w) (AcquireNextOperation w)"
  unfolding AcquireNextOperation_def
  by (intro wp_core post_set_state_from)
     (auto simp: inv idle_iff waiting_head waiting_empty count_rows_0 simp flip: neq0_conv)

lemma RequeueAdmittingOperation_spec:
  assumes inv: "queue_inv (db w)"
  shows "post (\<lambda>_ v. queue_inv (db v) \<and> op_states w (k, i) = Some OperationAdmitting \<and>
      op_states v = (op_states w)((k, i) \<mapsto> OperationQueued))
    (\<lambda>e v. db v = db w) (RequeueAdmittingOperation k i w)"
  unfolding RequeueAdmittingOperation_def
  by (intro wp_core post_set_state_from) (auto simp: inv)

lemma ActivateOperation_spec:
  assumes inv: "queue_inv (db w)"
  shows "post (\<lambda>_ v. queue_inv (db v) \<and> op_states w (k, i) = Some OperationAdmitting \<and>
      op_states v = (op_states w)((k, i) \<mapsto> OperationActive))
    (\<lambda>e v. db v = db w) (ActivateOperation k i w)"
  unfolding ActivateOperation_def
  by (intro wp_core post_set_state_from post_update_builds) (auto simp: inv inv [unfolded queue_inv_def] queue_inv_def)

lemma Job_spec:
  "post (\<lambda>j v. db v = db w \<and> (\<exists>r \<in> set (jobs (db w)). j_id r = i \<and> j = scanJob r))
    (\<lambda>e v. db v = db w) (Job i w)"
  unfolding Job_def by (intro wp_core) (auto dest: find_SomeD)

definition failed_states :: "string \<Rightarrow> (op_key \<rightharpoonup> operation_state) \<Rightarrow> (op_key \<rightharpoonup> operation_state)" where
  "failed_states i st =
     (if st (OperationJob, i) \<in> Some ` {OperationQueued, OperationAdmitting, OperationActive}
      then st((OperationJob, i) \<mapsto> OperationTerminalizing) else st)"

lemma FailJob_spec:
  assumes inv: "queue_inv (db w)"
  shows "post (\<lambda>_ v. queue_inv (db v) \<and> op_states v = failed_states i (op_states w))
    (\<lambda>e v. queue_inv (db v) \<and> op_states v \<in> {op_states w, failed_states i (op_states w)}) (FailJob i m w)"
  unfolding FailJob_def Job_def
  by (intro wp_core post_set_state post_update_jobs)
     (auto simp: inv inv [unfolded queue_inv_def] queue_inv_def failed_states_def)

section \<open>Calls that the driver does not disturb\<close>

lemma AcquireNextOperation_runs:
  assumes inv: "queue_inv (db w)" and ok: "faults w = []"
  shows "\<exists>operation v. AcquireNextOperation w = (Inr operation, v) \<and> faults v = []"
proof (cases "count_rows q_reserved (queue (db w)) > 0")
  case True
  then show ?thesis using ok by (simp add: AcquireNextOperation_def in_tx_ok)
next
  case False
  then have free: "\<forall>r \<in> set (queue (db w)). \<not> q_reserved r" by (simp add: row_simps)
  show ?thesis
  proof (cases "find (\<lambda>r. q_state r = OperationQueued) (queue (db w))")
    case None
    then show ?thesis using False ok by (simp add: AcquireNextOperation_def in_tx_ok)
  next
    case (Some r)
    have r: "r \<in> set (queue (db w))" "is_op (q_kind r) (q_operation_id r) r" "q_state r = OperationQueued"
      using Some by (auto simp: is_op_def dest: find_SomeD)
    then show ?thesis
      using False Some ok update_queue_row [OF inv, of r "q_kind r" "q_operation_id r" "\<lambda>s. q_state s = OperationQueued"] free
      by (simp add: AcquireNextOperation_def in_tx_ok Let_def)
  qed
qed

lemma ActivateOperation_runs:
  assumes inv: "queue_inv (db w)" and ok: "faults w = []" and "op_states w (OperationJob, i) = Some OperationAdmitting"
  shows "\<exists>v. ActivateOperation OperationJob i w = (Inr (), v) \<and> faults v = [] \<and> jobs (db v) = jobs (db w)"
proof -
  obtain r where r: "r \<in> set (queue (db w))" "is_op OperationJob i r" "q_state r = OperationAdmitting"
    using states_of_SomeD [OF assms(3)] by (auto simp: is_op_key)
  then show ?thesis
    using ok update_queue_row [OF inv r(1,2), of "\<lambda>s. q_state s = OperationAdmitting"]
    by (simp add: ActivateOperation_def in_tx_ok q_reserved_def set_row_def)
qed

lemma Job_runs:
  assumes "faults w = []" "distinct (map j_id (jobs (db w)))" "r \<in> set (jobs (db w))" "j_id r = i"
  shows "Job i w = (Inr (scanJob r), w)"
proof -
  obtain s where s: "find (\<lambda>r. j_id r = i) (jobs (db w)) = Some s"
    using assms by (metis (mono_tags) find_None_iff not_None_eq)
  then have "s \<in> set (jobs (db w))" "j_id s = i" by (auto dest: find_SomeD)
  then have "s = r" using unique_row [OF assms(2,3), of s] assms(4) by simp
  with s show ?thesis using assms(1) by (simp add: Job_def)
qed

end
