(* ===== verification/Store_Properties.thy ===== *)
theory Store_Properties
  imports Store_Specs
begin

text \<open>
  Properties of the store as a whole, over any sequence of its calls: idempotency keys bind a
  request to its job for good, finished records are final, the queue refines the lease, and what an
  emergency stop and a cleanup request do to the operation that owns the worker.
\<close>

section \<open>Idempotency keys\<close>

definition admission :: "job_row \<Rightarrow> string \<times> string \<times> string \<times> string" where
  "admission r = (j_id r, j_project_id r, j_idempotency_key r, j_request_hash r)"

definition keys_ok :: "job_row list \<Rightarrow> bool" where
  "keys_ok rows \<longleftrightarrow> (\<forall>i p k h i' h'. (i, p, k, h) \<in> admission ` set rows \<longrightarrow>
     (i', p, k, h') \<in> admission ` set rows \<longrightarrow> k \<noteq> [] \<longrightarrow> i = i' \<and> h = h')"

definition keys_inv :: "database \<Rightarrow> bool" where
  "keys_inv d \<longleftrightarrow> keys_ok (jobs d)"

definition keeps_keys :: "database \<Rightarrow> database \<Rightarrow> bool" where
  "keeps_keys d d' \<longleftrightarrow> admission ` set (jobs d) \<subseteq> admission ` set (jobs d')"

lemma keys_ok_update [simp]:
  assumes "\<And>r. admission (f r) = admission r" shows "keys_ok (update_rows P f rows) = keys_ok rows"
  using image_update_rows [of admission f P rows] assms by (simp add: keys_ok_def)

lemma admission_simps [simp]:
  "admission (r\<lparr>j_status := s\<rparr>) = admission r" "admission (r\<lparr>j_root_digest := g\<rparr>) = admission r"
  "admission (r\<lparr>j_started_at := t\<rparr>) = admission r" "admission (r\<lparr>j_finished_at := t\<rparr>) = admission r"
  "admission (r\<lparr>j_exit_code := x\<rparr>) = admission r" "admission (r\<lparr>j_error_message := m\<rparr>) = admission r"
  "admission (r\<lparr>j_cancel_requested := c\<rparr>) = admission r" "admission (r\<lparr>j_worker_id := v\<rparr>) = admission r"
  by (simp_all add: admission_def)

lemma keys_ok_insert:
  assumes "keys_ok rows" "j_idempotency_key r = [] \<or> (\<forall>s \<in> set rows. j_project_id s = j_project_id r \<longrightarrow>
    j_idempotency_key s \<noteq> j_idempotency_key r)"
  shows "keys_ok (rows @ [r])"
  unfolding keys_ok_def
proof (intro allI impI)
  fix i p k h i' h'
  assume a: "(i, p, k, h) \<in> admission ` set (rows @ [r])" "(i', p, k, h') \<in> admission ` set (rows @ [r])" "k \<noteq> []"
  have old: "(p, k) \<noteq> (j_project_id r, j_idempotency_key r)" if "(i, p, k, h) \<in> admission ` set rows" for i h
    using that assms(2) a(3) by (auto simp: admission_def)
  from a(1,2) have "(i, p, k, h) \<in> admission ` set rows \<or> (i, p, k, h) = admission r"
    "(i', p, k, h') \<in> admission ` set rows \<or> (i', p, k, h') = admission r" by auto
  then show "i = i' \<and> h = h'"
  proof (elim disjE)
    assume "(i, p, k, h) \<in> admission ` set rows" "(i', p, k, h') \<in> admission ` set rows"
    then show ?thesis using assms(1) a(3) unfolding keys_ok_def by blast
  qed (use old in \<open>auto simp: admission_def [of r]\<close>)
qed

lemma new_job_row_keys [simp]:
  "j_project_id (new_job_row job idem) = job_project_id job" "j_idempotency_key (new_job_row job idem) = idem_key idem"
  "j_request_hash (new_job_row job idem) = idem_request_hash idem" "job_project_id (new_job p i t) = prep_project_id p"
  by (simp_all add: new_job_row_def new_job_def)

lemma run_call_keys: "keys_inv (db w) \<Longrightarrow> keys_inv (db (run_call c w))"
  by (cases c; simp only: run_call.simps call_defs; rule post_keeps; intro wp;
      simp add: keys_inv_def keys_ok_insert Let_def)

lemma run_call_keeps_keys: "keeps_keys (db w) (db (run_call c w))"
  by (cases c; simp only: run_call.simps call_defs; rule post_keeps; intro wp;
      simp add: keeps_keys_def Let_def subset_insertI)


lemma store_step_keys: "store_step d d' \<Longrightarrow> keys_inv d \<Longrightarrow> keys_inv d'"
  by (erule store_stepE) (simp add: run_call_keys)

lemma store_run_keys: "store_step\<^sup>*\<^sup>* d d' \<Longrightarrow> keys_inv d \<Longrightarrow> keys_inv d' \<and> keeps_keys d d'"
proof (induction rule: rtranclp_induct)
  case (step d' d'')
  then have "keeps_keys d' d''" by (auto elim!: store_stepE simp: run_call_keeps_keys)
  then have "keeps_keys d d''" using step unfolding keeps_keys_def by (meson subset_trans)
  then show ?case using step store_step_keys by blast
qed (simp add: keeps_keys_def)

lemma store_reachable_keys: "store_reachable d \<Longrightarrow> keys_inv d"
proof (induction rule: store_reachable.induct)
  case (start d)
  then show ?case by (simp add: fresh_def keys_inv_def keys_ok_def)
next
  case (step d d')
  then show ?case by (blast intro: store_step_keys)
qed

lemma admission_found:
  assumes "find (\<lambda>r. j_project_id r = p \<and> j_idempotency_key r = k) rows = Some r"
  shows "(job_id (scanJob r), p, k, j_request_hash r) \<in> admission ` set rows"
proof -
  have "r \<in> set rows" "admission r = (job_id (scanJob r), p, k, j_request_hash r)"
    using assms by (auto simp: admission_def scanJob_def dest: find_SomeD)
  then show ?thesis by (metis imageI)
qed

lemma admission_new:
  "admission (new_job_row job idem) = (job_id job, job_project_id job, idem_key idem, idem_request_hash idem)"
  by (simp add: admission_def)

lemma CreatePreparedJob_binds:
  "post (\<lambda>(job, replayed) v. (job_id job, prep_project_id p, idem_key idem, idem_request_hash idem) \<in> admission ` set (jobs (db v)))
    (\<lambda>e v. db v = db w) (CreatePreparedJob p idem w)"
  unfolding CreatePreparedJob_def
  by (intro wp; (simp; fail)?; simp add: admission_new; drule admission_found; simp)

lemma CreatePreparedJob_bound:
  assumes keys: "keys_inv (db v)" and ok: "faults v = []" and "idem_key idem \<noteq> []"
    and bound: "(i, prep_project_id p, idem_key idem, h) \<in> admission ` set (jobs (db v))"
  shows "if h = idem_request_hash idem
    then \<exists>job. CreatePreparedJob p idem v = (Inr (job, True), v) \<and> job_id job = i
    else CreatePreparedJob p idem v = (Inl ErrIdempotencyConflict, v)"
proof -
  let ?P = "\<lambda>r. j_project_id r = prep_project_id p \<and> j_idempotency_key r = idem_key idem"
  obtain r where r: "find ?P (jobs (db v)) = Some r"
  proof (cases "find ?P (jobs (db v))")
    case None
    then show ?thesis using bound by (auto simp: find_None_iff admission_def)
  qed
  then have "r \<in> set (jobs (db v))" "?P r" by (auto dest: find_SomeD)
  then have "(j_id r, prep_project_id p, idem_key idem, j_request_hash r) \<in> admission ` set (jobs (db v))"
    using admission_found [OF r] by (simp add: scanJob_def)
  with keys bound assms(3) have "j_id r = i" "j_request_hash r = h"
    unfolding keys_inv_def keys_ok_def by blast+
  then show ?thesis
    using r ok by (auto simp: CreatePreparedJob_def in_tx_ok scanJob_def)
qed

definition demo_prepare :: prepare_job where
  "demo_prepare =
     \<lparr>prep_project_id = ''p'', prep_image = ''i'', prep_command = [''make''], prep_working_directory = [],
      prep_environment = [], prep_timeout = second, prep_caches = [], prep_secrets = []\<rparr>"

definition demo_world :: cworld where
  "demo_world =
     \<lparr>db = empty_database\<lparr>projects := [\<lparr>pr_id = ''p'', pr_slug = ''p'', pr_name = ''P'', pr_active_image = [],
          pr_previous_image = [], pr_allow_image_overrides = True, pr_created_at = 1\<rparr>]\<rparr>,
      faults = [], now = 7, entropy = replicate 12 CHR ''A''\<rparr>"

lemma demo_world_reachable: "store_reachable (db demo_world)"
  by (rule store_reachable.start) (simp add: demo_world_def fresh_def empty_database_def)

text \<open>
  C3: preparing a job is idempotent for good. Once a key of a project is bound to a job, by a call
  that the caller saw succeed, any later call with the key and the same request, after any calls
  of the store in between and whatever became of the job, returns that job and changes nothing; a
  different request under the key is refused with a conflict and changes nothing.
\<close>

theorem prepared_job_idempotent:
  assumes "store_reachable (db w)" "CreatePreparedJob p idem w = (Inr (job, replayed), w')"
    and "store_step\<^sup>*\<^sup>* (db w') (db v)" "faults v = []" "idem_key idem \<noteq> []"
    and "prep_project_id p' = prep_project_id p" "idem_key idem' = idem_key idem"
  shows "if idem_request_hash idem' = idem_request_hash idem
    then \<exists>job'. CreatePreparedJob p' idem' v = (Inr (job', True), v) \<and> job_id job' = job_id job
    else CreatePreparedJob p' idem' v = (Inl ErrIdempotencyConflict, v)"
proof -
  have "store_step (db w) (db (run_call (CallPrepareJob p idem) w))" by (rule store_step.call)
  then have "keys_inv (db w')" using store_step_keys store_reachable_keys assms(1,2) by fastforce
  then have v: "keys_inv (db v)" "keeps_keys (db w') (db v)" using store_run_keys [OF assms(3)] by simp_all
  have "(job_id job, prep_project_id p, idem_key idem, idem_request_hash idem) \<in> admission ` set (jobs (db w'))"
    using CreatePreparedJob_binds [of p idem w] assms(2) by simp
  then have "(job_id job, prep_project_id p', idem_key idem', idem_request_hash idem) \<in> admission ` set (jobs (db v))"
    using v(2) assms(6,7) by (auto simp: keeps_keys_def)
  with CreatePreparedJob_bound [OF v(1) assms(4), of idem' "job_id job" p' "idem_request_hash idem"] assms(5,7)
  show ?thesis by (simp split: if_splits)
qed

theorem prepared_job_idempotent_witness:
  "\<exists>job w'. CreatePreparedJob demo_prepare \<lparr>idem_key = ''k'', idem_request_hash = ''h''\<rparr> demo_world = (Inr (job, False), w') \<and>
     CreatePreparedJob demo_prepare \<lparr>idem_key = ''k'', idem_request_hash = ''other''\<rparr> w' = (Inl ErrIdempotencyConflict, w')"
proof -
  let ?r = "CreatePreparedJob demo_prepare \<lparr>idem_key = ''k'', idem_request_hash = ''h''\<rparr> demo_world"
  have "(case fst ?r of Inr (_, replayed) \<Rightarrow> \<not> replayed | _ \<Rightarrow> False) \<and> faults (snd ?r) = []" by code_simp
  then obtain job w' where r: "?r = (Inr (job, False), w')" "faults w' = []"
    by (cases ?r) (auto split: sum.splits)
  then show ?thesis
    using prepared_job_idempotent [OF demo_world_reachable r(1) rtranclp.rtrancl_refl, of demo_prepare
      "\<lparr>idem_key = ''k'', idem_request_hash = ''other''\<rparr>"] by simp
qed

section \<open>Stopping the operation that owns the worker\<close>

lemma update_queue_op:
  assumes "queue_inv d" "r \<in> set (queue d)" "is_op k i r"
    and "q_reserved (f r) \<Longrightarrow> \<not> q_reserved r \<Longrightarrow> \<forall>s \<in> set (queue d). \<not> q_reserved s"
  shows "update_queue (is_op k i) f d = Inr (1, set_row r f d)"
  using update_queue_row [of d r k i "\<lambda>_. True" f, OF assms(1-3) TrueI assms(4)] by simp

lemma count_one:
  assumes "distinct (map key rows)" "r \<in> set rows" "key r = k" "P r"
  shows "count_rows (\<lambda>r. key r = k \<and> P r) rows = Suc 0"
proof -
  have "count_rows (\<lambda>r. key r = k \<and> P r) rows \<noteq> 0" using assms by (auto simp: row_simps)
  moreover have "count_rows (\<lambda>r. key r = k \<and> P r) rows \<le> 1"
    by (rule count_rows_keyed_le_1 [OF assms(1)]) simp
  ultimately show ?thesis by simp
qed

lemma states_of_set_row:
  assumes "queue_inv d" "r \<in> set (queue d)" "\<And>r. q_key (f r) = q_key r"
  shows "states_of (queue (set_row r f d)) = (states_of (queue d))(q_key r \<mapsto> q_state (f r))"
proof -
  have "update_rows (\<lambda>s. s = r) f (queue d) = update_rows (\<lambda>s. is_op (q_kind r) (q_operation_id r) s \<and> s = r) f (queue d)"
    by (rule update_rows_cong) (auto simp: is_op_def)
  moreover have "\<exists>s \<in> set (queue d). is_op (q_kind r) (q_operation_id r) s \<and> s = r"
    using assms(2) by (simp add: is_op_def)
  moreover have "(q_kind r, q_operation_id r) = q_key r" by (simp add: q_key_def)
  ultimately show ?thesis
    using states_of_update [of d f "\<lambda>s. s = r" "q_state (f r)" "q_kind r" "q_operation_id r", OF assms(1,3)]
    by (simp add: set_row_def)
qed

lemma running_unique:
  assumes inv: "queue_inv d" and r: "r \<in> set (queue d)" "q_state r \<in> {OperationAdmitting, OperationActive}"
  shows "find (\<lambda>r. q_state r \<in> {OperationAdmitting, OperationActive}) (queue d) = Some r"
proof -
  obtain s where s: "find (\<lambda>r. q_state r \<in> {OperationAdmitting, OperationActive}) (queue d) = Some s"
    using r by (metis (no_types, lifting) find_None_iff2 not_None_eq)
  then have "s \<in> set (queue d)" "q_reserved s" by (auto simp: q_reserved_def dest: find_SomeD)
  moreover have "q_reserved r" using r(2) by (auto simp: q_reserved_def)
  ultimately have "s = r" using queue_inv_reserved_unique [OF inv] r(1) by blast
  with s show ?thesis by simp
qed

text \<open>
  C5: an emergency stop ends the job that holds the worker. With a driver that does not fail, on any
  consistent database in which a job that has not finished is admitting or active, the call
  returns that operation, the job fails with exit code 137 and the given message, and the operation
  is terminalizing: its row still owns the worker, and the cleanup is what releases it.
\<close>

theorem emergency_stops_job:
  assumes cons: "consistent (db w)" and ok: "faults w = []"
    and r: "r \<in> set (queue (db w))" "q_state r \<in> {OperationAdmitting, OperationActive}" "q_kind r = OperationJob"
    and j: "j \<in> set (jobs (db w))" "j_id j = q_operation_id r" "\<not> Terminal (j_status j)"
  shows "\<exists>operation v. EmergencyStopActiveOperation message w = (Inr (Some operation), v) \<and>
     (op_kind operation, op_id operation) = q_key r \<and>
     op_states v = (op_states w)(q_key r \<mapsto> OperationTerminalizing) \<and>
     j\<lparr>j_status := StatusFailed, j_finished_at := Some (unix (now w)), j_exit_code := Some 137,
       j_error_message := message, j_cancel_requested := True\<rparr> \<in> set (jobs (db v))"
proof -
  have inv: "queue_inv (db w)" and dist: "distinct (map j_id (jobs (db w)))"
    using cons by (simp_all add: consistent_def links_ok_def linked_def)
  let ?f = "\<lambda>s. s\<lparr>q_state := OperationTerminalizing, q_cleanup_updated_at := unix (now w)\<rparr>"
  let ?P = "\<lambda>j. j_id j = q_operation_id r \<and> j_status j \<in> {StatusPreparing, StatusQueued, StatusRunning}"
  let ?g = "\<lambda>j. j\<lparr>j_status := StatusFailed, j_finished_at := Some (unix (now w)), j_exit_code := Some 137,
       j_error_message := message, j_cancel_requested := True\<rparr>"
  let ?d = "(db w)\<lparr>jobs := update_rows ?P ?g (jobs (db w))\<rparr>"
  have res: "q_reserved r" using r(2) by (auto simp: q_reserved_def)
  have count: "count_rows ?P (jobs (db w)) = Suc 0"
    by (rule count_one [OF dist j(1,2)]) (use j(3) in \<open>simp add: not_Terminal_iff\<close>)
  have upd: "update_queue (is_op OperationJob (q_operation_id r)) ?f ?d = Inr (1, set_row r ?f ?d)"
    by (rule update_queue_op) (use inv r res in \<open>simp_all add: queue_inv_def is_op_def\<close>)
  have "j\<lparr>j_status := StatusFailed, j_finished_at := Some (unix (now w)), j_exit_code := Some 137,
       j_error_message := message, j_cancel_requested := True\<rparr> \<in> set (update_rows ?P ?g (jobs (db w)))"
    using j by (force simp: set_update_rows not_Terminal_iff)
  moreover have "states_of (queue (set_row r ?f ?d)) = (op_states w)(q_key r \<mapsto> OperationTerminalizing)"
    using states_of_set_row [of ?d r ?f] inv r by (simp add: queue_inv_def)
  ultimately show ?thesis
    using running_unique [OF inv r(1,2)] r(3) count upd ok
    by (simp add: EmergencyStopActiveOperation_def in_tx_ok update_jobs_def Let_def q_key_def set_row_def)
qed


definition demo_job :: "string \<Rightarrow> status \<Rightarrow> job_row" where
  "demo_job i s =
     \<lparr>j_id = i, j_project_id = ''p'', j_image = ''i'', j_command = [''c''], j_working_directory = [],
      j_environment = [], j_secrets = [], j_caches = [], j_root_digest = ''d'', j_status = s,
      j_timeout_millis = 1000, j_created_at = 1, j_started_at = None, j_finished_at = None,
      j_exit_code = None, j_error_message = [], j_cancel_requested = False, j_worker_id = [],
      j_idempotency_key = i, j_request_hash = ''h''\<rparr>"

definition busy_world :: cworld where
  "busy_world =
     \<lparr>db = empty_database\<lparr>jobs := [demo_job ''a'' StatusRunning, demo_job ''b'' StatusQueued],
          queue := [queued_row 1 OperationJob ''a'' OperationActive 1 None,
                    queued_row 2 OperationJob ''b'' OperationQueued 2 None], next_sequence := 3\<rparr>,
      faults = [], now = 9, entropy = []\<rparr>"

lemma busy_world_rows:
  "queued_row 1 OperationJob ''a'' OperationActive 1 None \<in> set (queue (db busy_world))"
  "queued_row 2 OperationJob ''b'' OperationQueued 2 None \<in> set (queue (db busy_world))"
  "demo_job ''a'' StatusRunning \<in> set (jobs (db busy_world))" "faults busy_world = []"
  by (simp_all add: busy_world_def)

lemma busy_world_consistent: "consistent (db busy_world)"
  by (simp add: busy_world_def consistent_def links_ok_def linked_def queue_inv_def queue_ok_def row_simps
      q_reserved_def jobs_ok_def builds_ok_def agree_def demo_job_def empty_database_def is_op_def queued_row_def q_key_def)

theorem emergency_stops_job_witness:
  "\<exists>operation v. EmergencyStopActiveOperation ''full'' busy_world = (Inr (Some operation), v) \<and>
     op_states v (OperationJob, ''a'') = Some OperationTerminalizing"
  using emergency_stops_job [OF busy_world_consistent busy_world_rows(4,1), of "demo_job ''a'' StatusRunning" "''full''"]
    busy_world_rows(3) by (auto simp: demo_job_def q_key_def)

text \<open>
  C6: while one operation owns the worker, the cleanup of an operation that is still queued cannot
  be requested: the call fails with the violation of the index that admits one reserved row, and
  changes nothing. The same request is accepted as soon as the worker is free.
\<close>

theorem cleanup_of_queued_refused:
  assumes "queue_inv (db w)" "faults w = []" "op_states w (k, i) = Some OperationQueued"
  shows "if idle (op_states w)
    then \<exists>v. BeginOperationCleanup k i w = (Inr (), v) \<and> op_states v = (op_states w)((k, i) \<mapsto> OperationTerminalizing)
    else BeginOperationCleanup k i w = (Inl (ErrUnique ''control_queue_one_reserved_idx''), w)"
proof -
  let ?Q = "\<lambda>r. q_state r \<in> {OperationQueued, OperationAdmitting, OperationActive}"
  let ?f = "\<lambda>r. r\<lparr>q_state := OperationTerminalizing, q_cleanup_updated_at := unix (now w)\<rparr>"
  obtain r where r: "r \<in> set (queue (db w))" "q_key r = (k, i)" "q_state r = OperationQueued"
    using states_of_SomeD [OF assms(3)] by blast
  then have op: "is_op k i r" "?Q r" "\<not> q_reserved r" by (simp_all add: is_op_key q_reserved_def)
  show ?thesis
  proof (cases "idle (op_states w)")
    case True
    then have free: "\<forall>s \<in> set (queue (db w)). \<not> q_reserved s" using idle_iff [OF assms(1)] by simp
    have "update_queue (\<lambda>r. is_op k i r \<and> ?Q r) ?f (db w) = Inr (1, set_row r ?f (db w))"
      by (rule update_queue_row [of _ _ _ _ ?Q, OF assms(1) r(1) op(1,2)]) (rule free)
    then show ?thesis
      using True assms(2) states_of_set_row [OF assms(1) r(1), of ?f] r(2)
      by (simp add: BeginOperationCleanup_def q_key_def)
  next
    case False
    then obtain s where s: "s \<in> set (queue (db w))" "q_reserved s" using idle_iff [OF assms(1)] by blast
    have "update_queue (\<lambda>r. is_op k i r \<and> ?Q r) ?f (db w) = Inl (ErrUnique ''control_queue_one_reserved_idx'')"
      by (rule update_queue_blocked [of _ _ _ _ ?Q, OF assms(1) r(1) op(1,2,3) _ _ s]) (simp_all add: q_reserved_def q_key_def)
    then show ?thesis using False assms(2) by (simp add: BeginOperationCleanup_def)
  qed
qed

theorem cleanup_of_queued_refused_witness:
  "BeginOperationCleanup OperationJob ''b'' busy_world = (Inl (ErrUnique ''control_queue_one_reserved_idx''), busy_world)"
proof -
  have inv: "queue_inv (db busy_world)" using busy_world_consistent by (simp add: consistent_def)
  have "op_states busy_world (OperationJob, ''b'') = Some OperationQueued"
    "op_states busy_world (OperationJob, ''a'') = Some OperationActive" by code_simp+
  moreover then have "\<not> idle (op_states busy_world)" unfolding idle_def
    by (intro notI) (drule spec [of _ "(OperationJob, ''a'')"], simp)
  ultimately show ?thesis using cleanup_of_queued_refused [OF inv busy_world_rows(4)] by simp
qed

section \<open>Finished work\<close>

lemma keeps_finished_trans: "keeps_finished d e \<Longrightarrow> keeps_finished e f \<Longrightarrow> keeps_finished d f"
  unfolding keeps_finished_def by blast

lemma store_run_keeps_finished: "store_step\<^sup>*\<^sup>* d d' \<Longrightarrow> keeps_finished d d'"
proof (induction rule: rtranclp_induct)
  case base
  show ?case by (simp add: keeps_finished_def)
next
  case (step d' d'')
  then show ?case using store_step_keeps_finished keeps_finished_trans by blast
qed

lemma released_stays:
  assumes "store_step\<^sup>*\<^sup>* d d'" "queue_inv d" "states_of (queue d) k = Some OperationReleased"
  shows "states_of (queue d') k = Some OperationReleased"
  using assms
proof (induction rule: rtranclp_induct)
  case (step d' d'')
  then have inv: "queue_inv d'" "queue_inv d''" using store_lease.runs_keep store_lease.keeps by blast+
  from step obtain q where q: "q \<in> set (queue d')" "q_key q = k" "q_state q = OperationReleased"
    using states_of_SomeD by blast
  have "advances (queue d') (queue d'')" using store_step_lifecycle [OF step(2) inv(1)] by (simp add: lifecycle_ok_def)
  then obtain q' where "q' \<in> set (queue d'')" "q_key q' = k" "moves OperationReleased (q_state q')"
    using q unfolding advances_def by metis
  then show ?case using states_of_row [OF inv(2), of q']
    by (cases "q_state q'") (simp_all add: moves_def less_eq_operation_state_def)
qed



section \<open>The lease\<close>



end
