(* ===== verification/Cleanup.thy ===== *)
theory Cleanup
  imports Store_Specs
begin

text \<open>
  The cleanup of finished operations: \<open>internal/operation/cleanup\<close>. \<open>Lifecycle_Prepare\<close> and
  \<open>Lifecycle_Cleanup\<close> model \<open>chain.go\<close>, the \<open>rm_\<close> definitions and the functions on resource sets
  \<open>resources.go\<close>, the \<open>Coordinator_\<close> definitions \<open>coordinator.go\<close>. The interfaces \<open>Store\<close>,
  \<open>ResourceBaselineStore\<close>, \<open>ResourceRuntime\<close> and \<open>Cleaner\<close> are records of functions over a world
  \<open>'w\<close>; the container runtime is a parameter. What the coordinator and the resource manager rely on
  is the contracts \<open>cleanup_contract\<close> and \<open>baseline_contract\<close>, which the store of the control plane
  meets. Deadlines and the end of a context appear as errors that any call may return.
\<close>

section \<open>Lifecycle chains\<close>

type_synonym 'w hook = "operation \<Rightarrow> 'w \<Rightarrow> err option \<times> 'w"

fun Lifecycle_Prepare :: "'w hook option list \<Rightarrow> 'w hook" where
  "Lifecycle_Prepare [] operation w = (None, w)"
| "Lifecycle_Prepare (None # preparers) operation w = Lifecycle_Prepare preparers operation w"
| "Lifecycle_Prepare (Some preparer # preparers) operation w =
     (case preparer operation w of
        (Some e, w) \<Rightarrow> (Some e, w)
      | (None, w) \<Rightarrow> Lifecycle_Prepare preparers operation w)"

fun cleanup_errors :: "'w hook option list \<Rightarrow> operation \<Rightarrow> 'w \<Rightarrow> err option list \<times> 'w" where
  "cleanup_errors [] operation w = ([], w)"
| "cleanup_errors (None # cleaners) operation w = cleanup_errors cleaners operation w"
| "cleanup_errors (Some cleaner # cleaners) operation w =
     (let (e, w) = cleaner operation w; (es, w) = cleanup_errors cleaners operation w in (e # es, w))"

definition Lifecycle_Cleanup :: "'w hook option list \<Rightarrow> 'w hook" where
  "Lifecycle_Cleanup cleaners operation w =
     (let (es, w) = cleanup_errors cleaners operation w in (join_errors es, w))"

section \<open>Resource sets\<close>

definition subtract :: "string list \<Rightarrow> string list \<Rightarrow> string list" where
  "subtract current baseline = filter (\<lambda>i. i \<notin> set baseline \<and> i \<noteq> []) current"

fun first_seen :: "string list \<Rightarrow> string list \<Rightarrow> string list" where
  "first_seen seen [] = []"
| "first_seen seen (v # vs) =
     (if v = [] then first_seen seen vs
      else if v \<in> set seen then first_seen seen vs
      else v # first_seen (v # seen) vs)"

definition uniqueSorted :: "string list \<Rightarrow> string list" where
  "uniqueSorted values = sort (first_seen [] values)"

definition normalize_resources :: "resource_set \<Rightarrow> resource_set" where
  "normalize_resources r =
     \<lparr>rs_services = uniqueSorted (rs_services r), rs_containers = uniqueSorted (rs_containers r),
      rs_networks = uniqueSorted (rs_networks r), rs_volumes = uniqueSorted (rs_volumes r)\<rparr>"

definition difference :: "resource_set \<Rightarrow> resource_set \<Rightarrow> resource_set" where
  "difference current baseline = normalize_resources
     \<lparr>rs_services = subtract (rs_services current) (rs_services baseline),
      rs_containers = subtract (rs_containers current) (rs_containers baseline),
      rs_networks = subtract (rs_networks current) (rs_networks baseline),
      rs_volumes = subtract (rs_volumes current) (rs_volumes baseline)\<rparr>"

definition rs_empty :: "resource_set \<Rightarrow> bool" where
  "rs_empty r \<longleftrightarrow> rs_services r = [] \<and> rs_containers r = [] \<and> rs_networks r = [] \<and> rs_volumes r = []"

section \<open>The resource manager\<close>

record 'w baseline_store =
  get_baseline :: "operation_kind \<Rightarrow> string \<Rightarrow> 'w \<Rightarrow> (err + resource_set) \<times> 'w"
  save_baseline :: "operation_kind \<Rightarrow> string \<Rightarrow> resource_set \<Rightarrow> 'w \<Rightarrow> (err + unit) \<times> 'w"

record 'w resource_runtime =
  Inventory :: "'w \<Rightarrow> (err + resource_set) \<times> 'w"
  RemoveService :: "string \<Rightarrow> 'w \<Rightarrow> err option \<times> 'w"
  RemoveContainer :: "string \<Rightarrow> 'w \<Rightarrow> err option \<times> 'w"
  RemoveNetwork :: "string \<Rightarrow> 'w \<Rightarrow> err option \<times> 'w"
  RemoveVolume :: "string \<Rightarrow> 'w \<Rightarrow> err option \<times> 'w"

record 'w resource_manager =
  rm_store :: "'w baseline_store option"
  rm_runtime :: "'w resource_runtime option"
  rm_grace :: duration
  rm_timeout :: duration
  rm_wait :: "duration \<Rightarrow> 'w \<Rightarrow> err option \<times> 'w"

definition NewResourceManager :: "'w resource_manager \<Rightarrow> 'w resource_manager" where
  "NewResourceManager config =
     config\<lparr>rm_grace := if rm_grace config \<le> 0 then 10 * second else rm_grace config,
            rm_timeout := if rm_timeout config \<le> 0 then 2 * minute else rm_timeout config\<rparr>"

definition rm_validate :: "'w resource_manager \<Rightarrow> err + ('w baseline_store \<times> 'w resource_runtime)" where
  "rm_validate m =
     (case (rm_store m, rm_runtime m) of
        (Some s, Some r) \<Rightarrow> Inr (s, r)
      | _ \<Rightarrow> Inl (ErrText ''resource cleanup store and runtime are required''))"

definition rm_Prepare :: "'w resource_manager \<Rightarrow> 'w hook" where
  "rm_Prepare m operation w =
     (case rm_validate m of
        Inl e \<Rightarrow> (Some e, w)
      | Inr (store, runtime) \<Rightarrow>
          (case get_baseline store (op_kind operation) (op_id operation) w of
             (Inr _, w) \<Rightarrow> (None, w)
           | (Inl e, w) \<Rightarrow>
               if \<not> err_is e ErrNotFound then (Some (ErrWrap ''read resource baseline'' e), w)
               else
               (case Inventory runtime w of
                  (Inl e, w) \<Rightarrow> (Some (ErrWrap ''inventory Docker resources'' e), w)
                | (Inr resources, w) \<Rightarrow>
                    (case save_baseline store (op_kind operation) (op_id operation) (normalize_resources resources) w of
                       (Inl e, w) \<Rightarrow> (Some (ErrWrap ''save resource baseline'' e), w)
                     | (Inr _, w) \<Rightarrow> (None, w)))))"

fun remove_each :: "string \<Rightarrow> (string \<Rightarrow> 'w \<Rightarrow> err option \<times> 'w) \<Rightarrow> string list \<Rightarrow> 'w \<Rightarrow> err list \<times> 'w" where
  "remove_each what remove [] w = ([], w)"
| "remove_each what remove (i # ids) w =
     (let (e, w) = remove i w;
          (es, w) = remove_each what remove ids w
      in ((case e of None \<Rightarrow> es | Some e \<Rightarrow> ErrWrap (''remove '' @ what @ '' '' @ i) e # es), w))"

text \<open>The texts that list the resources which remain are left out of the last error.\<close>

definition rm_Cleanup :: "'w resource_manager \<Rightarrow> 'w hook" where
  "rm_Cleanup m operation w =
     (case rm_validate m of
        Inl e \<Rightarrow> (Some e, w)
      | Inr (store, runtime) \<Rightarrow>
          (case get_baseline store (op_kind operation) (op_id operation) w of
             (Inl e, w) \<Rightarrow>
               if err_is e ErrNotFound then (None, w)
               else (Some (ErrWrap ''read resource baseline'' e), w)
           | (Inr baseline, w) \<Rightarrow>
               (let (waited, w) =
                      (if op_kind operation = OperationJob then rm_wait m (rm_grace m) w else (None, w))
                in case waited of
                     Some e \<Rightarrow> (Some e, w)
                   | None \<Rightarrow>
                       (case Inventory runtime w of
                          (Inl e, w) \<Rightarrow> (Some (ErrWrap ''inventory Docker resources'' e), w)
                        | (Inr current, w) \<Rightarrow>
                            (let owned = difference current baseline;
                                 (es1, w) = remove_each ''service'' (RemoveService runtime) (rs_services owned) w;
                                 (es2, w) = remove_each ''container'' (RemoveContainer runtime) (rs_containers owned) w;
                                 (es3, w) = remove_each ''network'' (RemoveNetwork runtime) (rs_networks owned) w;
                                 (es4, w) = remove_each ''volume'' (RemoveVolume runtime) (rs_volumes owned) w;
                                 (remaining, w) = Inventory runtime w;
                                 es5 = (case remaining of
                                          Inl e \<Rightarrow> [ErrWrap ''verify Docker resource cleanup'' e]
                                        | Inr remaining \<Rightarrow>
                                            if rs_empty (difference remaining baseline) then []
                                            else [ErrText ''operation-owned Docker resources remain''])
                             in (join_errors (map Some (es1 @ es2 @ es3 @ es4 @ es5)), w))))))"

section \<open>The coordinator\<close>

record 'w cleanup_store =
  begin_cleanup :: "operation_kind \<Rightarrow> string \<Rightarrow> 'w \<Rightarrow> (err + unit) \<times> 'w"
  claim_cleanup :: "'w \<Rightarrow> (err + operation option) \<times> 'w"
  record_failure :: "operation_kind \<Rightarrow> string \<Rightarrow> string \<Rightarrow> 'w \<Rightarrow> (err + unit) \<times> 'w"
  complete_cleanup :: "operation_kind \<Rightarrow> string \<Rightarrow> 'w \<Rightarrow> (err + unit) \<times> 'w"

text \<open>
  \<open>co_cancelled\<close> is \<open>ctx.Err() != nil\<close>, \<open>co_text\<close> the method \<open>Error\<close> of an error, and
  \<open>co_completed\<close> the effect of the handler \<open>onCompleted\<close>.
\<close>

record 'w coordinator =
  co_store :: "'w cleanup_store"
  co_cleaner :: "'w hook"
  co_cancelled :: "'w \<Rightarrow> bool"
  co_text :: "err \<Rightarrow> string"
  co_completed :: "operation \<Rightarrow> 'w \<Rightarrow> 'w"

definition isContextCancellation :: "('w \<Rightarrow> bool) \<Rightarrow> err \<Rightarrow> 'w \<Rightarrow> bool" where
  "isContextCancellation cancelled e w \<longleftrightarrow>
     cancelled w \<and> (err_is e (ErrDriver ContextCanceled) \<or> err_is e (ErrDriver ContextDeadline))"

fun kind_text :: "operation_kind \<Rightarrow> string" where
  "kind_text OperationJob = ''job''"
| "kind_text OperationBuild = ''build''"

definition Coordinator_RunOnce :: "'w coordinator \<Rightarrow> 'w \<Rightarrow> (bool \<times> err option) \<times> 'w" where
  "Coordinator_RunOnce c w =
     (case claim_cleanup (co_store c) w of
        (Inl e, w) \<Rightarrow> ((False, Some e), w)
      | (Inr None, w) \<Rightarrow> ((False, None), w)
      | (Inr (Some operation), w) \<Rightarrow>
          (case co_cleaner c operation w of
             (Some e, w) \<Rightarrow>
               if isContextCancellation (co_cancelled c) e w then ((True, Some e), w)
               else
               (let (recorded, w) = record_failure (co_store c) (op_kind operation) (op_id operation) (co_text c e) w
                in ((True, join_errors
                      [Some (ErrWrap (''clean '' @ kind_text (op_kind operation) @ '' '' @ op_id operation) e),
                       error_of recorded]), w))
           | (None, w) \<Rightarrow>
               (case complete_cleanup (co_store c) (op_kind operation) (op_id operation) w of
                  (Inl e, w) \<Rightarrow>
                    ((True, Some (ErrWrap (''complete cleanup for '' @ kind_text (op_kind operation) @ '' '' @ op_id operation) e)), w)
                | (Inr _, w) \<Rightarrow>
                    ((True, None), co_completed c
                       (operation\<lparr>op_state := OperationReleased, op_cleanup_error := []\<rparr>) w))))"

definition Coordinator_Request ::
  "'w cleanup_store \<Rightarrow> ('w \<Rightarrow> 'w) \<Rightarrow> operation_kind \<Rightarrow> string \<Rightarrow> 'w \<Rightarrow> err option \<times> 'w" where
  "Coordinator_Request store advance kind i w =
     (case begin_cleanup store kind i w of
        (Inl e, w) \<Rightarrow> (Some e, w)
      | (Inr _, w) \<Rightarrow> (None, advance w))"

text \<open>
  The goroutine of \<open>Advance\<close> and the flags that coalesce the wakeups. \<open>loc\<close> is the place of the
  goroutine: not running, before the flag \<open>pending\<close> is taken back, in \<open>RunOnce\<close>, or before the
  decision to stop. \<open>ended\<close> records that the goroutine gave up because its context ended.
\<close>

datatype loc = Parked | Turn | Working | Deciding

record flags =
  running :: bool
  pending :: bool
  draining :: bool
  loc :: loc
  ended :: bool

definition Coordinator_Advance :: "flags \<Rightarrow> flags" where
  "Coordinator_Advance s =
     (if draining s then s
      else if running s then s\<lparr>pending := True\<rparr>
      else s\<lparr>pending := True, running := True, loc := Turn\<rparr>)"

definition Coordinator_Drain :: "flags \<Rightarrow> flags" where
  "Coordinator_Drain s = s\<lparr>draining := True\<rparr>"

datatype turn = TurnFailed | TurnCancelled | TurnClaimed | TurnIdle

text \<open>One iteration of \<open>advance\<close>, cut at the points where the mutex is free.\<close>

fun Coordinator_advance :: "turn \<Rightarrow> flags \<Rightarrow> flags" where
  "Coordinator_advance result s =
     (case loc s of
        Parked \<Rightarrow> s
      | Turn \<Rightarrow> s\<lparr>pending := False, loc := Working\<rparr>
      | Working \<Rightarrow>
          (case result of
             TurnFailed \<Rightarrow> s\<lparr>loc := Turn\<rparr>
           | TurnCancelled \<Rightarrow> s\<lparr>running := False, loc := Parked, ended := True\<rparr>
           | TurnClaimed \<Rightarrow> s\<lparr>loc := Turn\<rparr>
           | TurnIdle \<Rightarrow> s\<lparr>loc := Deciding\<rparr>)
      | Deciding \<Rightarrow>
          if pending s then s\<lparr>loc := Turn\<rparr>
          else s\<lparr>running := False, loc := Parked\<rparr>)"

inductive coordinator_step :: "flags \<Rightarrow> flags \<Rightarrow> bool" where
  wake: "coordinator_step s (Coordinator_Advance s)"
| drain: "coordinator_step s (Coordinator_Drain s)"
| work: "coordinator_step s (Coordinator_advance result s)"

inductive_cases coordinator_stepE: "coordinator_step s t"

section \<open>Lemmas on resource sets\<close>

lemma set_first_seen: "set (first_seen seen vs) = set vs - {[]} - set seen"
  by (induction seen vs rule: first_seen.induct) auto

lemma distinct_first_seen: "distinct (first_seen seen vs)"
  by (induction seen vs rule: first_seen.induct) (auto simp: set_first_seen)

lemma uniqueSorted_spec [simp]:
  "set (uniqueSorted vs) = set vs - {[]}" "distinct (uniqueSorted vs)" "sorted (uniqueSorted vs)"
  by (simp_all add: uniqueSorted_def set_first_seen distinct_first_seen)

lemma uniqueSorted_fixed: "sorted vs \<Longrightarrow> distinct vs \<Longrightarrow> [] \<notin> set vs \<Longrightarrow> uniqueSorted vs = vs"
  by (rule sorted_distinct_set_unique) simp_all

lemma normalize_resources_idem [simp]: "normalize_resources (normalize_resources r) = normalize_resources r"
  by (simp add: normalize_resources_def uniqueSorted_fixed)

lemma set_subtract [simp]: "set (subtract cur base) = set cur - set base - {[]}"
  by (auto simp: subtract_def)

definition within :: "resource_set \<Rightarrow> resource_set \<Rightarrow> bool" where
  "within r s \<longleftrightarrow> set (rs_services r) - {[]} \<subseteq> set (rs_services s) \<and>
     set (rs_containers r) - {[]} \<subseteq> set (rs_containers s) \<and>
     set (rs_networks r) - {[]} \<subseteq> set (rs_networks s) \<and> set (rs_volumes r) - {[]} \<subseteq> set (rs_volumes s)"

lemma uniqueSorted_Nil: "uniqueSorted vs = [] \<longleftrightarrow> set vs \<subseteq> {[]}"
  using uniqueSorted_spec(1) [of vs] by (metis Diff_eq_empty_iff set_empty)

lemma rs_empty_difference: "rs_empty (difference cur base) \<longleftrightarrow> within cur base"
  by (auto simp: rs_empty_def difference_def normalize_resources_def within_def uniqueSorted_Nil)

lemma rm_Cleanup_success:
  assumes "rm_Cleanup m operation w = (None, v)"
  obtains store runtime where "rm_validate m = Inr (store, runtime)"
    and "(\<exists>e. get_baseline store (op_kind operation) (op_id operation) w = (Inl e, v) \<and> err_is e ErrNotFound) \<or>
      (\<exists>baseline u remaining u'. get_baseline store (op_kind operation) (op_id operation) w = (Inr baseline, u) \<and>
        Inventory runtime u' = (Inr remaining, v) \<and> within remaining baseline)"
  using assms
  by (force simp: rm_Cleanup_def Let_def rs_empty_difference split: sum.splits prod.splits if_splits option.splits)

section \<open>Wakeups\<close>

definition flags_inv :: "flags \<Rightarrow> bool" where
  "flags_inv s \<longleftrightarrow> (running s \<longleftrightarrow> loc s \<noteq> Parked) \<and> (pending s \<longrightarrow> running s \<or> ended s)"

definition flags_start :: flags where
  "flags_start = \<lparr>running = False, pending = False, draining = False, loc = Parked, ended = False\<rparr>"

lemma coordinator_step_flags_inv: "coordinator_step s t \<Longrightarrow> flags_inv s \<Longrightarrow> flags_inv t"
  by (erule coordinator_stepE)
     (auto simp: flags_inv_def Coordinator_Advance_def Coordinator_Drain_def split: loc.splits turn.splits)

lemma coordinator_run_flags_inv: "coordinator_step\<^sup>*\<^sup>* flags_start s \<Longrightarrow> flags_inv s"
  by (induction rule: rtranclp_induct)
     (auto simp: flags_start_def flags_inv_def [of flags_start] intro: coordinator_step_flags_inv,
      simp add: flags_inv_def)

section \<open>The contract of the cleanup store\<close>

abbreviation cleanup_key :: "operation \<Rightarrow> op_key" where
  "cleanup_key operation \<equiv> (op_kind operation, op_id operation)"

text \<open>
  \<open>outside\<close>: a call that leaves the store alone. \<open>converged\<close>: what a run of the coordinator may have
  done, by what it returns. An operation is released only after the cleaner, called in the state
  cleaning, returned without an error.
\<close>

definition outside :: "('w \<Rightarrow> bool) \<Rightarrow> ('w \<Rightarrow> op_key \<rightharpoonup> operation_state) \<Rightarrow> ('w \<Rightarrow> 'w) \<Rightarrow> bool" where
  "outside ok states f \<longleftrightarrow> (\<forall>w. ok w \<longrightarrow> ok (f w) \<and> states (f w) = states w)"

definition converged :: "('w \<Rightarrow> bool) \<Rightarrow> ('w \<Rightarrow> op_key \<rightharpoonup> operation_state) \<Rightarrow> 'w coordinator \<Rightarrow> 'w \<Rightarrow>
    bool \<times> err option \<Rightarrow> 'w \<Rightarrow> bool" where
  "converged ok states c w r v \<longleftrightarrow> ok v \<and>
     (case r of
        (False, None) \<Rightarrow> states v = states w \<and> (\<forall>k. states w k \<notin> Some ` {OperationTerminalizing, OperationCleaning})
      | (False, Some e) \<Rightarrow> states v = states w
      | (True, None) \<Rightarrow> (\<exists>op u u'. states w (cleanup_key op) \<in> Some ` {OperationTerminalizing, OperationCleaning} \<and>
          co_cleaner c op u = (None, u') \<and> states u = (states w)(cleanup_key op \<mapsto> OperationCleaning) \<and>
          states v = (states w)(cleanup_key op \<mapsto> OperationReleased))
      | (True, Some e) \<Rightarrow> (\<exists>op. states w (cleanup_key op) \<in> Some ` {OperationTerminalizing, OperationCleaning} \<and>
          states v = (states w)(cleanup_key op \<mapsto> OperationCleaning)))"

locale cleanup_contract =
  fixes S :: "'w cleanup_store" and states :: "'w \<Rightarrow> op_key \<rightharpoonup> operation_state" and inv :: "'w \<Rightarrow> bool"
  assumes begin_law: "inv w \<Longrightarrow> post (\<lambda>_ v. inv v \<and>
        (if states w (k, i) \<in> Some ` {OperationQueued, OperationAdmitting, OperationActive}
         then states v = (states w)((k, i) \<mapsto> OperationTerminalizing)
         else states w (k, i) \<in> Some ` {OperationTerminalizing, OperationCleaning, OperationReleased} \<and> states v = states w))
      (\<lambda>e v. inv v \<and> states v = states w) (begin_cleanup S k i w)"
    and claim_law: "inv w \<Longrightarrow> post (\<lambda>operation v. inv v \<and> (case operation of
        None \<Rightarrow> states v = states w \<and> (\<forall>k. states w k \<notin> Some ` {OperationTerminalizing, OperationCleaning})
      | Some op \<Rightarrow> states w (cleanup_key op) \<in> Some ` {OperationTerminalizing, OperationCleaning} \<and>
          states v = (states w)(cleanup_key op \<mapsto> OperationCleaning)))
      (\<lambda>e v. inv v \<and> states v = states w) (claim_cleanup S w)"
    and record_law: "inv w \<Longrightarrow> post (\<lambda>_ v. inv v \<and> states v = states w) (\<lambda>e v. inv v \<and> states v = states w)
      (record_failure S k i m w)"
    and complete_law: "inv w \<Longrightarrow> post (\<lambda>_ v. inv v \<and> states v = (states w)((k, i) \<mapsto> OperationReleased))
      (\<lambda>e v. inv v \<and> states v = states w) (complete_cleanup S k i w)"
begin

lemma RunOnce_converges:
  assumes inv: "inv w" and c: "co_store c = S"
    and cleaner: "\<And>op. outside inv states (\<lambda>w. snd (co_cleaner c op w))" and completed: "\<And>op. outside inv states (co_completed c op)"
  shows "case Coordinator_RunOnce c w of (r, v) \<Rightarrow> converged inv states c w r v"
proof -
  obtain r u where claim: "claim_cleanup S w = (r, u)" by (cases "claim_cleanup S w")
  show ?thesis
  proof (cases r)
    case (Inl e)
    then show ?thesis using claim claim_law [OF inv] c by (simp add: Coordinator_RunOnce_def converged_def)
  next
    case (Inr x)
    show ?thesis
    proof (cases x)
      case None
      then show ?thesis using claim Inr claim_law [OF inv] c by (simp add: Coordinator_RunOnce_def converged_def)
    next
      case (Some op)
      have u: "inv u" "states w (cleanup_key op) \<in> Some ` {OperationTerminalizing, OperationCleaning}"
        "states u = (states w)(cleanup_key op \<mapsto> OperationCleaning)"
        using claim_law [OF inv] claim Inr Some by auto
      obtain e u' where clean: "co_cleaner c op u = (e, u')" by (cases "co_cleaner c op u")
      then have u': "inv u'" "states u' = states u" using cleaner [of op] u(1) unfolding outside_def
        by (metis snd_conv)+
      show ?thesis
      proof (cases e)
        case None
        obtain t v where compl: "complete_cleanup S (op_kind op) (op_id op) u' = (t, v)"
          by (cases "complete_cleanup S (op_kind op) (op_id op) u'")
        show ?thesis
          using compl claim Inr Some clean None c u u' complete_law [OF u'(1), of "op_kind op" "op_id op"] completed
          by (cases t) (auto simp: Coordinator_RunOnce_def converged_def outside_def)
      next
        case (Some e')
        obtain t v where rec: "record_failure S (op_kind op) (op_id op) (co_text c e') u' = (t, v)"
          by (cases "record_failure S (op_kind op) (op_id op) (co_text c e') u'")
        show ?thesis
          using rec claim Inr \<open>x = Some op\<close> clean Some c u u' record_law [OF u'(1), of "op_kind op" "op_id op" "co_text c e'"]
          by (cases t) (auto simp: Coordinator_RunOnce_def converged_def join_errors_def)
      qed
    qed
  qed
qed

end

section \<open>The store of the control plane as a cleanup store\<close>

text \<open>The state of the whole process: the store, the runtime below it, and the end of its context.\<close>

record 'r system =
  sys_store :: cworld
  sys_runtime :: 'r
  sys_cancelled :: bool

definition on_store :: "(cworld \<Rightarrow> 'a cres) \<Rightarrow> 'r system \<Rightarrow> (err + 'a) \<times> 'r system" where
  "on_store f s = (let (r, w) = f (sys_store s) in (r, s\<lparr>sys_store := w\<rparr>))"

text \<open>A call of what lies below the store.\<close>

definition on_machine :: "('r \<Rightarrow> 'a \<times> 'r) \<Rightarrow> 'r system \<Rightarrow> 'a \<times> 'r system" where
  "on_machine f s = (let (x, r) = f (sys_runtime s) in (x, s\<lparr>sys_runtime := r\<rparr>))"

lemma on_machine_store [simp]: "sys_store (snd (on_machine f s)) = sys_store s"
  by (simp add: on_machine_def split: prod.split)

definition sqlite_cleanup :: "'r system cleanup_store" where
  "sqlite_cleanup =
     \<lparr>begin_cleanup = \<lambda>k i. on_store (BeginOperationCleanup k i),
      claim_cleanup = on_store ClaimOperationCleanup,
      record_failure = \<lambda>k i m. on_store (RecordOperationCleanupFailure k i m),
      complete_cleanup = \<lambda>k i. on_store (CompleteOperationCleanup k i)\<rparr>"

abbreviation sys_states :: "'r system \<Rightarrow> op_key \<rightharpoonup> operation_state" where
  "sys_states s \<equiv> op_states (sys_store s)"

abbreviation sys_inv :: "'r system \<Rightarrow> bool" where
  "sys_inv s \<equiv> queue_inv (db (sys_store s))"

lemma post_on_store:
  "post (\<lambda>x w. Q x (s\<lparr>sys_store := w\<rparr>)) (\<lambda>e w. E e (s\<lparr>sys_store := w\<rparr>)) (f (sys_store s)) \<Longrightarrow>
   post Q E (on_store f s)"
  by (simp add: on_store_def post_def split: prod.splits sum.splits)

interpretation sqlite_cleanup: cleanup_contract sqlite_cleanup sys_states sys_inv
proof
  fix s :: "'a system" and k i m
  assume inv: "sys_inv s"
  show "post (\<lambda>_ v. sys_inv v \<and>
        (if sys_states s (k, i) \<in> Some ` {OperationQueued, OperationAdmitting, OperationActive}
         then sys_states v = (sys_states s)((k, i) \<mapsto> OperationTerminalizing)
         else sys_states s (k, i) \<in> Some ` {OperationTerminalizing, OperationCleaning, OperationReleased} \<and>
           sys_states v = sys_states s))
      (\<lambda>e v. sys_inv v \<and> sys_states v = sys_states s) (begin_cleanup sqlite_cleanup k i s)"
    unfolding sqlite_cleanup_def cleanup_store.simps
    by (rule post_on_store, rule post_mono [OF BeginOperationCleanup_spec [OF inv]]) (auto simp: inv split: if_splits)
  show "post (\<lambda>operation v. sys_inv v \<and> (case operation of
        None \<Rightarrow> sys_states v = sys_states s \<and>
          (\<forall>k. sys_states s k \<notin> Some ` {OperationTerminalizing, OperationCleaning})
      | Some op \<Rightarrow> sys_states s (cleanup_key op) \<in> Some ` {OperationTerminalizing, OperationCleaning} \<and>
          sys_states v = (sys_states s)(cleanup_key op \<mapsto> OperationCleaning)))
      (\<lambda>e v. sys_inv v \<and> sys_states v = sys_states s) (claim_cleanup sqlite_cleanup s)"
    unfolding sqlite_cleanup_def cleanup_store.simps
    by (rule post_on_store, rule post_mono [OF ClaimOperationCleanup_spec [OF inv]])
       (auto simp: inv split: option.splits)
  show "post (\<lambda>_ v. sys_inv v \<and> sys_states v = sys_states s) (\<lambda>e v. sys_inv v \<and> sys_states v = sys_states s)
      (record_failure sqlite_cleanup k i m s)"
    unfolding sqlite_cleanup_def cleanup_store.simps
    by (rule post_on_store, rule post_mono [OF RecordOperationCleanupFailure_spec [OF inv]]) (auto simp: inv)
  show "post (\<lambda>_ v. sys_inv v \<and> sys_states v = (sys_states s)((k, i) \<mapsto> OperationReleased))
      (\<lambda>e v. sys_inv v \<and> sys_states v = sys_states s) (complete_cleanup sqlite_cleanup k i s)"
    unfolding sqlite_cleanup_def cleanup_store.simps
    by (rule post_on_store, rule post_mono [OF CompleteOperationCleanup_spec [OF inv]]) (auto simp: inv)
qed

section \<open>Resource baselines\<close>

definition saved_of :: "baseline_row list \<Rightarrow> (op_key \<rightharpoonup> resource_set)" where
  "saved_of rows k = map_option bl_resources (find (\<lambda>r. is_baseline (fst k) (snd k) r) rows)"

definition keeps_saved :: "('w \<Rightarrow> op_key \<rightharpoonup> resource_set) \<Rightarrow> 'w resource_runtime \<Rightarrow> bool" where
  "keeps_saved saved runtime \<longleftrightarrow> (\<forall>w. saved (snd (Inventory runtime w)) = saved w)"

locale baseline_contract =
  fixes B :: "'w baseline_store" and saved :: "'w \<Rightarrow> op_key \<rightharpoonup> resource_set"
  assumes get_law: "post (\<lambda>r v. saved v = saved w \<and> saved w (k, i) = Some r)
      (\<lambda>e v. saved v = saved w \<and> (err_is e ErrNotFound \<longrightarrow> saved w (k, i) = None)) (get_baseline B k i w)"
    and save_law: "post (\<lambda>_ v. saved v = (if saved w (k, i) = None then (saved w)((k, i) \<mapsto> r) else saved w))
      (\<lambda>e v. saved v = saved w) (save_baseline B k i r w)"
begin

lemma Prepare_saves:
  assumes "rm_store m = Some B" "rm_runtime m = Some runtime" "keeps_saved saved runtime"
    and run: "rm_Prepare m operation w = (e, v)"
  shows "(case saved w (cleanup_key operation) of
      Some b \<Rightarrow> saved v = saved w
    | None \<Rightarrow> if e = None
        then \<exists>u resources u'. Inventory runtime u = (Inr resources, u') \<and>
          saved v = (saved w)(cleanup_key operation \<mapsto> normalize_resources resources)
        else saved v = saved w)"
proof -
  have run: "(e, v) = (case get_baseline B (op_kind operation) (op_id operation) w of
     (Inr _, w) \<Rightarrow> (None, w)
   | (Inl e, w) \<Rightarrow>
       if \<not> err_is e ErrNotFound then (Some (ErrWrap ''read resource baseline'' e), w)
       else
       (case Inventory runtime w of
          (Inl e, w) \<Rightarrow> (Some (ErrWrap ''inventory Docker resources'' e), w)
        | (Inr resources, w) \<Rightarrow>
            (case save_baseline B (op_kind operation) (op_id operation) (normalize_resources resources) w of
               (Inl e, w) \<Rightarrow> (Some (ErrWrap ''save resource baseline'' e), w)
             | (Inr _, w) \<Rightarrow> (None, w))))"
    using assms by (simp add: rm_Prepare_def rm_validate_def)
  obtain r u where get: "get_baseline B (op_kind operation) (op_id operation) w = (r, u)"
    by (cases "get_baseline B (op_kind operation) (op_id operation) w")
  obtain x u1 where inv: "Inventory runtime u = (x, u1)" by (cases "Inventory runtime u")
  have kept: "saved u1 = saved u" using assms(3) inv unfolding keeps_saved_def by (metis snd_conv)
  show ?thesis
  proof (cases r)
    case (Inr b)
    then show ?thesis using run get get_law [of w "op_kind operation" "op_id operation"] by simp
  next
    case (Inl e')
    show ?thesis
    proof (cases x)
      case (Inl e'')
      then show ?thesis
        using run get \<open>r = Inl e'\<close> get_law [of w "op_kind operation" "op_id operation"] inv kept
        by (auto split: option.splits if_splits)
    next
      case (Inr resources)
      obtain t u2 where save: "save_baseline B (op_kind operation) (op_id operation) (normalize_resources resources) u1 = (t, u2)"
        by (cases "save_baseline B (op_kind operation) (op_id operation) (normalize_resources resources) u1")
      have "saved u1 = saved w" using get Inl get_law [of w "op_kind operation" "op_id operation"] kept by simp
      then show ?thesis
        using run get Inl Inr inv save get_law [of w "op_kind operation" "op_id operation"]
          save_law [of u1 "op_kind operation" "op_id operation" "normalize_resources resources"]
        by (cases t) (auto split: option.splits if_splits)
    qed
  qed
qed

end

definition sqlite_baselines :: "'r system baseline_store" where
  "sqlite_baselines =
     \<lparr>get_baseline = \<lambda>k i. on_store (ResourceBaseline k i),
      save_baseline = \<lambda>k i r. on_store (SaveResourceBaseline k i r)\<rparr>"

abbreviation sys_saved :: "'r system \<Rightarrow> op_key \<rightharpoonup> resource_set" where
  "sys_saved s \<equiv> saved_of (baselines (db (sys_store s)))"

lemma saved_of_insert:
  assumes "\<not> (\<exists>s \<in> set rows. is_baseline k i s)" "is_baseline k i r"
  shows "saved_of (rows @ [r]) = (saved_of rows)((k, i) \<mapsto> bl_resources r)"
proof
  fix x
  have other: "\<not> is_baseline k' i' r" if "(k', i') \<noteq> (k, i)" for k' i'
    using assms(2) that by (auto simp: is_baseline_def)
  show "saved_of (rows @ [r]) x = ((saved_of rows)((k, i) \<mapsto> bl_resources r)) x"
  proof (cases "x = (k, i)")
    case True
    then have "find (\<lambda>r. is_baseline (fst x) (snd x) r) rows = None" using assms(1) by (auto simp: find_None_iff)
    with True assms(2) show ?thesis by (simp add: saved_of_def find_append)
  next
    case False
    then have "\<not> is_baseline (fst x) (snd x) r" using other [of "fst x" "snd x"] by simp
    with False show ?thesis by (simp add: saved_of_def find_append split: option.split)
  qed
qed

interpretation sqlite_baselines: baseline_contract sqlite_baselines sys_saved
proof
  fix s :: "'a system" and k i r
  show "post (\<lambda>r v. sys_saved v = sys_saved s \<and> sys_saved s (k, i) = Some r)
      (\<lambda>e v. sys_saved v = sys_saved s \<and> (err_is e ErrNotFound \<longrightarrow> sys_saved s (k, i) = None))
      (get_baseline sqlite_baselines k i s)"
    unfolding sqlite_baselines_def baseline_store.simps ResourceBaseline_def
    by (rule post_on_store, intro wp) (auto simp: saved_of_def)
  show "post (\<lambda>_ v. sys_saved v = (if sys_saved s (k, i) = None then (sys_saved s)((k, i) \<mapsto> r) else sys_saved s))
      (\<lambda>e v. sys_saved v = sys_saved s) (save_baseline sqlite_baselines k i r s)"
    unfolding sqlite_baselines_def baseline_store.simps SaveResourceBaseline_def
    by (rule post_on_store, intro wp)
       (auto simp: saved_of_insert [unfolded is_baseline_def] saved_of_def is_baseline_def find_None_iff)
qed

section \<open>Properties\<close>

text \<open>
  C7: a run of the cleanup coordinator on the store releases an operation only after the cleaner
  returned without an error for it; a run that fails after the claim leaves the operation in the
  state cleaning, where the next run finds it again; a run that finds nothing changes nothing, and
  then no operation waits for its cleanup. The cleaner and the completion handler work outside the
  store.
\<close>

theorem coordinator_releases_cleaned:
  assumes "sys_inv s" "co_store c = sqlite_cleanup"
    and "\<And>op. outside sys_inv sys_states (\<lambda>w. snd (co_cleaner c op w))"
    and "\<And>op. outside sys_inv sys_states (co_completed c op)"
  shows "case Coordinator_RunOnce c s of (r, v) \<Rightarrow> converged sys_inv sys_states c s r v"
  by (rule sqlite_cleanup.RunOnce_converges) (use assms in simp_all)

definition finished_job_system :: "unit system" where
  "finished_job_system =
     \<lparr>sys_store = \<lparr>db = empty_database\<lparr>queue :=
          [queued_row 1 OperationJob ''j'' OperationTerminalizing 3 None,
           queued_row 2 OperationBuild ''b'' OperationQueued 4 None], next_sequence := 3\<rparr>,
        faults = [], now = 9, entropy = []\<rparr>,
      sys_runtime = (), sys_cancelled = False\<rparr>"

definition idle_coordinator :: "unit system coordinator" where
  "idle_coordinator =
     \<lparr>co_store = sqlite_cleanup, co_cleaner = \<lambda>operation w. (None, w), co_cancelled = sys_cancelled,
      co_text = \<lambda>e. [], co_completed = \<lambda>operation w. w\<rparr>"

theorem coordinator_releases_cleaned_witness:
  "fst (Coordinator_RunOnce idle_coordinator finished_job_system) = (True, None) \<and>
   (case Coordinator_RunOnce idle_coordinator finished_job_system of
      (r, v) \<Rightarrow> converged sys_inv sys_states idle_coordinator finished_job_system r v)"
proof
  show "fst (Coordinator_RunOnce idle_coordinator finished_job_system) = (True, None)"
    by code_simp
  show "case Coordinator_RunOnce idle_coordinator finished_job_system of
      (r, v) \<Rightarrow> converged sys_inv sys_states idle_coordinator finished_job_system r v"
    by (rule coordinator_releases_cleaned)
       (simp_all add: idle_coordinator_def outside_def finished_job_system_def queue_inv_def queue_ok_def
          row_simps q_reserved_def q_key_def)
qed

text \<open>
  C13: wakeups of the coordinator are not lost and workers do not multiply. In every state that
  \<open>Advance\<close>, \<open>Drain\<close> and the worker can reach, the flag \<open>running\<close> says exactly whether the worker
  exists, and a pending wakeup has a worker unless the context ended; such a worker begins another
  run of \<open>RunOnce\<close>, which clears the flag, within three of its own steps.
\<close>

theorem coordinator_wakeup_served:
  assumes "coordinator_step\<^sup>*\<^sup>* flags_start s" "\<not> ended s" "pending s" "result \<noteq> TurnCancelled"
  shows "running s \<and> (\<exists>n \<in> {1, 2, 3}. loc ((Coordinator_advance result ^^ n) s) = Working \<and>
    \<not> pending ((Coordinator_advance result ^^ n) s))"
proof -
  have "flags_inv s" using assms(1) by (rule coordinator_run_flags_inv)
  with assms(2,3) have "running s" "loc s \<noteq> Parked" by (auto simp: flags_inv_def)
  then show ?thesis
    using assms(3,4) by (cases "loc s"; cases result) (auto simp: eval_nat_numeral)
qed

theorem coordinator_wakeup_served_witness:
  "running (Coordinator_Advance flags_start) \<and>
   (\<exists>n \<in> {1, 2, 3}. loc ((Coordinator_advance TurnIdle ^^ n) (Coordinator_Advance flags_start)) = Working \<and>
     \<not> pending ((Coordinator_advance TurnIdle ^^ n) (Coordinator_Advance flags_start)))"
proof (rule coordinator_wakeup_served)
  show "coordinator_step\<^sup>*\<^sup>* flags_start (Coordinator_Advance flags_start)"
    by (rule r_into_rtranclp) (rule coordinator_step.wake)
qed (simp_all add: Coordinator_Advance_def flags_start_def)

text \<open>
  C12: the resource baseline of an operation is written once. Preparing an operation that has a
  baseline keeps it, whatever happens; preparing one that has none stores the normalized inventory
  of the runtime when it succeeds, and stores nothing when it fails.
\<close>

theorem prepare_keeps_first_baseline:
  assumes "rm_store m = Some sqlite_baselines" "rm_runtime m = Some runtime" "keeps_saved sys_saved runtime"
    and "rm_Prepare m operation s = (e, v)"
  shows "case sys_saved s (cleanup_key operation) of
      Some b \<Rightarrow> sys_saved v = sys_saved s
    | None \<Rightarrow> if e = None
        then \<exists>u resources u'. Inventory runtime u = (Inr resources, u') \<and>
          sys_saved v = (sys_saved s)(cleanup_key operation \<mapsto> normalize_resources resources)
        else sys_saved v = sys_saved s"
  by (rule sqlite_baselines.Prepare_saves) (use assms in simp_all)

definition still_runtime :: "resource_set \<Rightarrow> 'w resource_runtime" where
  "still_runtime r =
     \<lparr>Inventory = \<lambda>w. (Inr r, w), RemoveService = \<lambda>i w. (None, w), RemoveContainer = \<lambda>i w. (None, w),
      RemoveNetwork = \<lambda>i w. (None, w), RemoveVolume = \<lambda>i w. (None, w)\<rparr>"

definition two_containers :: resource_set where
  "two_containers = \<lparr>rs_services = [], rs_containers = [''c2'', ''c1'', ''c2''], rs_networks = [], rs_volumes = []\<rparr>"

definition still_manager :: "unit system resource_manager" where
  "still_manager =
     \<lparr>rm_store = Some sqlite_baselines, rm_runtime = Some (still_runtime two_containers),
      rm_grace = 0, rm_timeout = 0, rm_wait = \<lambda>d w. (None, w)\<rparr>"

definition job_j :: operation where
  "job_j = \<lparr>op_kind = OperationJob, op_id = ''j'', op_state = OperationAdmitting, op_accepted_at = 0,
     op_leased_at = None, op_cleanup_attempts = 0, op_cleanup_error = [], op_cleanup_updated_at = None\<rparr>"

lemma still_manager_simps:
  "rm_store still_manager = Some sqlite_baselines"
  "rm_runtime still_manager = Some (still_runtime two_containers)"
  "keeps_saved sys_saved (still_runtime two_containers)" "cleanup_key job_j = (OperationJob, ''j'')"
  by (simp_all add: still_manager_def keeps_saved_def still_runtime_def job_j_def)

theorem prepare_keeps_first_baseline_witness:
  "\<exists>(u :: unit system) resources u'. Inventory (still_runtime two_containers) u = (Inr resources, u') \<and>
     sys_saved (snd (rm_Prepare still_manager job_j finished_job_system)) =
       (sys_saved finished_job_system)((OperationJob, ''j'') \<mapsto> normalize_resources resources)"
proof -
  have none: "sys_saved finished_job_system (cleanup_key job_j) = None" by code_simp
  have "fst (rm_Prepare still_manager job_j finished_job_system) = None" by code_simp
  then have "rm_Prepare still_manager job_j finished_job_system =
      (None, snd (rm_Prepare still_manager job_j finished_job_system))" by (metis prod.collapse)
  from prepare_keeps_first_baseline [OF still_manager_simps(1-3) this] none
  show ?thesis by (simp only: still_manager_simps option.case if_True refl simp_thms)
qed

text \<open>
  C11: a cleanup of the resource manager that reports success leaves nothing behind: the operation
  never got a baseline, or the last inventory of the runtime shows no service, container, network
  or volume beyond the baseline that was saved before the operation started.
\<close>

theorem cleanup_success_leaves_nothing:
  assumes "rm_Cleanup m operation s = (None, v)" "rm_store m = Some sqlite_baselines" "rm_runtime m = Some runtime"
  shows "sys_saved s (cleanup_key operation) = None \<or>
    (\<exists>baseline u remaining. sys_saved s (cleanup_key operation) = Some baseline \<and>
      Inventory runtime u = (Inr remaining, v) \<and> within remaining baseline)"
proof -
  obtain store run where "rm_validate m = Inr (store, run)"
    and or: "(\<exists>e. get_baseline store (op_kind operation) (op_id operation) s = (Inl e, v) \<and> err_is e ErrNotFound) \<or>
      (\<exists>baseline u remaining u'. get_baseline store (op_kind operation) (op_id operation) s = (Inr baseline, u) \<and>
        Inventory run u' = (Inr remaining, v) \<and> within remaining baseline)"
    using rm_Cleanup_success [OF assms(1)] by blast
  then have eq: "store = sqlite_baselines" "run = runtime" using assms(2,3) by (simp_all add: rm_validate_def)
  show ?thesis
    using or sqlite_baselines.get_law [of s "op_kind operation" "op_id operation"] unfolding eq by auto
qed

theorem cleanup_success_leaves_nothing_witness:
  "let s = snd (rm_Prepare still_manager job_j finished_job_system) in
   sys_saved s (OperationJob, ''j'') \<noteq> None \<and>
   (\<exists>baseline u remaining. sys_saved s (OperationJob, ''j'') = Some baseline \<and>
      Inventory (still_runtime two_containers) u = (Inr remaining, snd (rm_Cleanup still_manager job_j s)) \<and>
      within remaining baseline)"
proof -
  let ?s = "snd (rm_Prepare still_manager job_j finished_job_system)"
  have some: "sys_saved ?s (OperationJob, ''j'') \<noteq> None" by code_simp
  have "fst (rm_Cleanup still_manager job_j ?s) = None" by code_simp
  then have "rm_Cleanup still_manager job_j ?s = (None, snd (rm_Cleanup still_manager job_j ?s))"
    by (metis prod.collapse)
  from cleanup_success_leaves_nothing [OF this still_manager_simps(1,2)] some
  show ?thesis by (simp only: still_manager_simps Let_def simp_thms)
qed

end
