(* ===== verification/Dispatcher.thy ===== *)
theory Dispatcher
  imports Cleanup
begin

text \<open>
  Admission: \<open>internal/control/dispatcher/dispatcher.go\<close>. \<open>runOnce\<close> is one admission over the
  interfaces \<open>Store\<close>, \<open>Scheduler\<close>, \<open>Capacity\<close> and \<open>AdmissionPreparer\<close>, which are functions over a
  world \<open>'w\<close>; \<open>Dispatcher_Advance\<close>, \<open>Dispatcher_Drain\<close> and \<open>Dispatcher_advance\<close> are the goroutine
  that runs it and the flags that coalesce its wakeups. The contract \<open>dispatcher_contract\<close> extends
  the one of the cleanup store; the store of the control plane meets it.
\<close>

section \<open>Admission\<close>

record 'w dispatcher_store =
  ds_cleanup :: "'w cleanup_store"
  acquire_next :: "'w \<Rightarrow> (err + operation option) \<times> 'w"
  requeue_admitting :: "operation_kind \<Rightarrow> string \<Rightarrow> 'w \<Rightarrow> (err + unit) \<times> 'w"
  activate :: "operation_kind \<Rightarrow> string \<Rightarrow> 'w \<Rightarrow> (err + unit) \<times> 'w"
  read_job :: "string \<Rightarrow> 'w \<Rightarrow> (err + job) \<times> 'w"
  fail_job :: "string \<Rightarrow> string \<Rightarrow> 'w \<Rightarrow> (err + job) \<times> 'w"

text \<open>
  \<open>di_create\<close> and \<open>di_cancel\<close> are the scheduler, \<open>di_capacity\<close> is \<open>Capacity.Admit\<close>, \<open>di_wake\<close> the
  \<open>Advance\<close> of the cleanup coordinator, \<open>di_draining\<close> and \<open>di_cancelled\<close> read the flag \<open>draining\<close>
  and \<open>ctx.Err()\<close>, \<open>di_text\<close> is the method \<open>Error\<close>.
\<close>

record 'w dispatcher =
  di_store :: "'w dispatcher_store"
  di_create :: "job \<Rightarrow> 'w \<Rightarrow> err option \<times> 'w"
  di_cancel :: "string \<Rightarrow> 'w \<Rightarrow> err option \<times> 'w"
  di_capacity :: "(('w \<Rightarrow> err option \<times> 'w) \<Rightarrow> 'w \<Rightarrow> err option \<times> 'w) option"
  di_preparer :: "'w hook option"
  di_wake :: "'w \<Rightarrow> 'w"
  di_draining :: "'w \<Rightarrow> bool"
  di_cancelled :: "'w \<Rightarrow> bool"
  di_text :: "err \<Rightarrow> string"

definition ErrDraining :: err where
  "ErrDraining = ErrText ''dispatcher is draining''"

definition Release :: "'w dispatcher \<Rightarrow> operation_kind \<Rightarrow> string \<Rightarrow> 'w \<Rightarrow> err option \<times> 'w" where
  "Release d kind i w = Coordinator_Request (ds_cleanup (di_store d)) (di_wake d) kind i w"

definition fail_admission :: "'w dispatcher \<Rightarrow> operation \<Rightarrow> err \<Rightarrow> err \<Rightarrow> 'w \<Rightarrow> err option \<times> 'w" where
  "fail_admission d operation admission e w =
     (case fail_job (di_store d) (op_id operation) (di_text d e) w of
        (Inl failErr, w) \<Rightarrow> (join_errors [Some admission, Some failErr], w)
      | (Inr _, w) \<Rightarrow>
          (let (releaseErr, w) =
             Coordinator_Request (ds_cleanup (di_store d)) (di_wake d) OperationJob (op_id operation) w
           in (join_errors [Some admission, releaseErr], w)))"

definition start_job :: "'w dispatcher \<Rightarrow> operation \<Rightarrow> job \<Rightarrow> 'w \<Rightarrow> err option \<times> 'w" where
  "start_job d operation job w =
     (case di_create d job w of
        (Some e, w) \<Rightarrow>
          if isContextCancellation (di_cancelled d) e w then (join_errors [Some e], w)
          else fail_admission d operation (ErrWrap (''admit job '' @ op_id operation) e) e w
      | (None, w) \<Rightarrow>
          (case activate (di_store d) (op_kind operation) (op_id operation) w of
             (Inl e, w) \<Rightarrow> (join_errors [Some (ErrWrap (''activate job '' @ op_id operation) e)], w)
           | (Inr _, w) \<Rightarrow>
               (case read_job (di_store d) (op_id operation) w of
                  (Inl e, w) \<Rightarrow> (join_errors [Some (ErrWrap (''read active job '' @ op_id operation) e)], w)
                | (Inr job, w) \<Rightarrow>
                    if job_cancel_requested job then
                      (case di_cancel d (op_id operation) w of
                         (Some e, w) \<Rightarrow> (join_errors [Some (ErrWrap (''cancel admitted job '' @ op_id operation) e)], w)
                       | (None, w) \<Rightarrow> (None, w))
                    else (None, w))))"

definition prepare :: "'w dispatcher \<Rightarrow> 'w hook" where
  "prepare d operation w = (case di_preparer d of None \<Rightarrow> (None, w) | Some preparer \<Rightarrow> preparer operation w)"

definition admit :: "'w dispatcher \<Rightarrow> operation \<Rightarrow> job option \<Rightarrow> 'w \<Rightarrow> err option \<times> 'w" where
  "admit d operation job w =
     (case prepare d operation w of
        (Some e, w) \<Rightarrow>
          if is_permanent e \<and> op_kind operation = OperationJob
          then fail_admission d operation (ErrWrap (''prepare operation '' @ op_id operation) e) e w
          else
          (let (requeued, w) = requeue_admitting (di_store d) (op_kind operation) (op_id operation) w
           in (join_errors [Some (ErrWrap (''prepare operation '' @ op_id operation @ '' resources'') e),
                            error_of requeued], w))
      | (None, w) \<Rightarrow>
          (case job of
             None \<Rightarrow>
               (case activate (di_store d) (op_kind operation) (op_id operation) w of
                  (Inl e, w) \<Rightarrow> (join_errors [Some (ErrWrap (''activate build '' @ op_id operation) e)], w)
                | (Inr _, w) \<Rightarrow> (None, w))
           | Some job \<Rightarrow> start_job d operation job w))"

text \<open>
  \<open>runOnce\<close>: every branch of the body of its loop returns, so the loop runs once and the list
  \<open>admissionErrors\<close> holds at most the error of this admission. The job is read for operations of
  kind job only; \<open>admit\<close> gets no job for a build.
\<close>

definition runOnce :: "'w dispatcher \<Rightarrow> 'w \<Rightarrow> err option \<times> 'w" where
  "runOnce d w =
     (if di_draining d w then (Some ErrDraining, w)
      else
      (case acquire_next (di_store d) w of
         (Inl e, w) \<Rightarrow> (join_errors [Some e], w)
       | (Inr None, w) \<Rightarrow> (None, w)
       | (Inr (Some operation), w) \<Rightarrow>
           if op_kind operation = OperationJob then
             (case read_job (di_store d) (op_id operation) w of
                (Inl e, w) \<Rightarrow> (join_errors [Some (ErrWrap (''read admitted job '' @ op_id operation) e)], w)
              | (Inr job, w) \<Rightarrow>
                  if job_status job = StatusPreparing then (None, w)
                  else admit d operation (Some job) w)
           else admit d operation None w))"

definition Dispatcher_RunOnce :: "'w dispatcher \<Rightarrow> 'w \<Rightarrow> err option \<times> 'w" where
  "Dispatcher_RunOnce d w =
     (if di_draining d w then (Some ErrDraining, w)
      else (case di_capacity d of None \<Rightarrow> runOnce d w | Some admission \<Rightarrow> admission (runOnce d) w))"

section \<open>The wakeups of the dispatcher\<close>

datatype dloc = DParked | DTurn | DWorking | DRetrying | DDeciding

record dflags =
  advancing :: bool
  advancePending :: bool
  advanceWake :: bool
  ddraining :: bool
  dloc :: dloc
  dended :: bool

definition Dispatcher_Advance :: "dflags \<Rightarrow> dflags" where
  "Dispatcher_Advance s =
     (if ddraining s then s
      else if advancing s then s\<lparr>advancePending := True, advanceWake := True\<rparr>
      else s\<lparr>advancePending := True, advancing := True, dloc := DTurn\<rparr>)"

definition Dispatcher_Drain :: "dflags \<Rightarrow> dflags" where
  "Dispatcher_Drain s = s\<lparr>ddraining := True\<rparr>"

text \<open>
  What the goroutine sees next: \<open>RunOnce\<close> was refused because of draining or the end of the context,
  failed, or returned; while it waits after a failure, a wakeup, the timer, or the end of the context.
\<close>

datatype dturn = DStop | DFailed | DDone | DWoken | DTimer

fun Dispatcher_advance :: "dturn \<Rightarrow> dflags \<Rightarrow> dflags" where
  "Dispatcher_advance result s =
     (case dloc s of
        DParked \<Rightarrow> s
      | DTurn \<Rightarrow> s\<lparr>advancePending := False, dloc := DWorking\<rparr>
      | DWorking \<Rightarrow>
          (case result of
             DStop \<Rightarrow> s\<lparr>advancing := False, dloc := DParked, dended := True\<rparr>
           | DFailed \<Rightarrow> s\<lparr>dloc := DRetrying\<rparr>
           | DDone \<Rightarrow> s\<lparr>dloc := DDeciding\<rparr>
           | _ \<Rightarrow> s)
      | DRetrying \<Rightarrow>
          (case result of
             DStop \<Rightarrow> s\<lparr>advancing := False, dloc := DParked, dended := True\<rparr>
           | DWoken \<Rightarrow> if advanceWake s then s\<lparr>advanceWake := False, dloc := DTurn\<rparr> else s
           | DTimer \<Rightarrow> s\<lparr>dloc := DTurn\<rparr>
           | _ \<Rightarrow> s)
      | DDeciding \<Rightarrow>
          if advancePending s then s\<lparr>dloc := DTurn\<rparr>
          else s\<lparr>advancing := False, dloc := DParked\<rparr>)"

inductive dispatcher_step :: "dflags \<Rightarrow> dflags \<Rightarrow> bool" where
  wake: "dispatcher_step s (Dispatcher_Advance s)"
| drain: "dispatcher_step s (Dispatcher_Drain s)"
| work: "dispatcher_step s (Dispatcher_advance result s)"

inductive_cases dispatcher_stepE: "dispatcher_step s t"

section \<open>The contract of the store\<close>

text \<open>
  The state \<open>x\<close> that one run of the dispatcher may leave the operation \<open>k\<close> in which it acquired, by
  the result \<open>r\<close>.
\<close>

definition admission_end ::
  "('w \<Rightarrow> op_key \<rightharpoonup> operation_state) \<Rightarrow> 'w dispatcher \<Rightarrow> op_key \<Rightarrow> operation_state \<Rightarrow> err option \<Rightarrow> bool" where
  "admission_end states d k x r \<longleftrightarrow>
     x = OperationAdmitting \<or>
     x = OperationQueued \<and> r \<noteq> None \<or>
     x = OperationTerminalizing \<and> fst k = OperationJob \<and> r \<noteq> None \<or>
     x = OperationActive \<and> (fst k = OperationJob \<longrightarrow>
       (\<exists>job u u'. job_id job = snd k \<and> job_status job \<noteq> StatusPreparing \<and> states u k = Some OperationAdmitting \<and>
         di_create d job u = (None, u')))"

definition admission_ok ::
  "('w \<Rightarrow> bool) \<Rightarrow> ('w \<Rightarrow> op_key \<rightharpoonup> operation_state) \<Rightarrow> 'w dispatcher \<Rightarrow> op_key \<Rightarrow> 'w \<Rightarrow> err option \<times> 'w \<Rightarrow> bool" where
  "admission_ok ok states d k u r \<longleftrightarrow> ok (snd r) \<and>
     (\<exists>x. states (snd r) = (states u)(k \<mapsto> x) \<and> admission_end states d k x (fst r))"

definition dispatched ::
  "('w \<Rightarrow> bool) \<Rightarrow> ('w \<Rightarrow> op_key \<rightharpoonup> operation_state) \<Rightarrow> ('w \<Rightarrow> op_key option) \<Rightarrow> 'w dispatcher \<Rightarrow> 'w \<Rightarrow> err option \<times> 'w \<Rightarrow> bool" where
  "dispatched ok states head d w r \<longleftrightarrow>
     ok (snd r) \<and> states (snd r) = states w \<or>
     idle (states w) \<and> (\<exists>k. head w = Some k \<and> admission_ok ok states d k w r)"

locale dispatcher_contract = cleanup_contract "ds_cleanup D" states inv
  for D :: "'w dispatcher_store" and states :: "'w \<Rightarrow> op_key \<rightharpoonup> operation_state" and inv :: "'w \<Rightarrow> bool" +
  fixes head :: "'w \<Rightarrow> op_key option"
  assumes acquire_law: "inv w \<Longrightarrow> post (\<lambda>operation v. inv v \<and> (case operation of
        None \<Rightarrow> states v = states w
      | Some op \<Rightarrow> idle (states w) \<and> head w = Some (cleanup_key op) \<and>
          states v = (states w)(cleanup_key op \<mapsto> OperationAdmitting)))
      (\<lambda>e v. inv v \<and> states v = states w) (acquire_next D w)"
    and requeue_law: "inv w \<Longrightarrow> post (\<lambda>_ v. inv v \<and> states v = (states w)((k, i) \<mapsto> OperationQueued))
      (\<lambda>e v. inv v \<and> states v = states w) (requeue_admitting D k i w)"
    and activate_law: "inv w \<Longrightarrow> post (\<lambda>_ v. inv v \<and> states v = (states w)((k, i) \<mapsto> OperationActive))
      (\<lambda>e v. inv v \<and> states v = states w) (activate D k i w)"
    and read_law: "inv w \<Longrightarrow> post (\<lambda>j v. inv v \<and> states v = states w \<and> job_id j = i)
      (\<lambda>e v. inv v \<and> states v = states w) (read_job D i w)"
    and fail_law: "inv w \<Longrightarrow> post (\<lambda>_ v. inv v \<and> states v = failed_states i (states w))
      (\<lambda>e v. inv v \<and> states v \<in> {states w, failed_states i (states w)}) (fail_job D i m w)"
begin

lemma fail_admission_ok:
  assumes d: "di_store d = D" "outside inv states (di_wake d)"
    and u: "inv u" "k = (OperationJob, op_id operation)" "states u k = Some OperationAdmitting"
  shows "admission_ok inv states d k u (fail_admission d operation a e u)"
proof -
  obtain r v where fail: "fail_job D (op_id operation) (di_text d e) u = (r, v)"
    by (cases "fail_job D (op_id operation) (di_text d e) u")
  have states: "failed_states (op_id operation) (states u) = (states u)(k \<mapsto> OperationTerminalizing)"
    "states u = (states u)(k \<mapsto> OperationAdmitting)"
    using u by (auto simp: failed_states_def)
  show ?thesis
  proof (cases r)
    case (Inl f)
    then show ?thesis
      using fail fail_law [OF u(1), of "op_id operation" "di_text d e"] states u d
      by (force simp: fail_admission_def admission_ok_def admission_end_def join_errors_def)
  next
    case (Inr j)
    then have v: "inv v" "states v = (states u)(k \<mapsto> OperationTerminalizing)"
      using fail fail_law [OF u(1), of "op_id operation" "di_text d e"] states by auto
    obtain t v' where beg: "begin_cleanup (ds_cleanup D) OperationJob (op_id operation) v = (t, v')"
      by (cases "begin_cleanup (ds_cleanup D) OperationJob (op_id operation) v")
    have v': "inv v'" "states v' = states v"
      using begin_law [OF v(1), of OperationJob "op_id operation"] beg v(2) u(2) by (cases t; simp)+
    then show ?thesis
      using fail Inr beg v d u
      by (cases t) (auto simp: fail_admission_def Coordinator_Request_def admission_ok_def admission_end_def
          join_errors_def outside_def)
  qed
qed

lemma start_job_ok:
  assumes d: "di_store d = D" "outside inv states (di_wake d)"
      "\<And>j. outside inv states (\<lambda>w. snd (di_create d j w))" "\<And>i. outside inv states (\<lambda>w. snd (di_cancel d i w))"
    and op: "k = cleanup_key operation" "op_kind operation = OperationJob"
      "job_id job = op_id operation" "job_status job \<noteq> StatusPreparing"
    and u: "inv u" "states u k = Some OperationAdmitting"
  shows "admission_ok inv states d k u (start_job d operation job u)"
proof -
  obtain e v where create: "di_create d job u = (e, v)" by (cases "di_create d job u")
  have v: "inv v" "states v = states u" using d(3) [of job] create u(1) unfolding outside_def by (metis snd_conv)+
  have same: "states u = (states u)(k \<mapsto> OperationAdmitting)" using u(2) by auto
  show ?thesis
  proof (cases e)
    case (Some e)
    have "admission_ok inv states d k v (fail_admission d operation a e v)" for a
      using v u op by (intro fail_admission_ok d) simp_all
    then show ?thesis
      using create Some v same by (auto simp: start_job_def admission_ok_def admission_end_def)
  next
    case None
    have created: "\<exists>job u u'. job_id job = snd k \<and> job_status job \<noteq> StatusPreparing \<and>
        states u k = Some OperationAdmitting \<and> di_create d job u = (None, u')"
      using create None u op by auto
    obtain r v1 where act: "activate D OperationJob (op_id operation) v = (r, v1)"
      by (cases "activate D OperationJob (op_id operation) v")
    show ?thesis
    proof (cases r)
      case (Inl e')
      then show ?thesis using create None act d op v same activate_law [OF v(1), of OperationJob "op_id operation"]
        by (auto simp: start_job_def admission_ok_def admission_end_def)
    next
      case (Inr x)
      then have v1: "inv v1" "states v1 = (states u)(k \<mapsto> OperationActive)"
        using act v op activate_law [OF v(1), of OperationJob "op_id operation"] by auto
      obtain t v2 where read: "read_job D (op_id operation) v1 = (t, v2)" by (cases "read_job D (op_id operation) v1")
      have v2: "inv v2" "states v2 = states v1" using read read_law [OF v1(1), of "op_id operation"] by (cases t; simp)+
      obtain f v3 where canc: "di_cancel d (op_id operation) v2 = (f, v3)" by (cases "di_cancel d (op_id operation) v2")
      have v3: "inv v3" "states v3 = states v2" using d(4) [of "op_id operation"] canc v2(1) unfolding outside_def
        by (metis snd_conv)+
      show ?thesis
        using create None act Inr read canc d(1) op v1 v2 v3 created
        by (auto simp: start_job_def admission_ok_def admission_end_def split: sum.splits option.splits if_splits)
    qed
  qed
qed

lemma admit_ok:
  assumes d: "di_store d = D" "outside inv states (di_wake d)"
      "\<And>j. outside inv states (\<lambda>w. snd (di_create d j w))" "\<And>i. outside inv states (\<lambda>w. snd (di_cancel d i w))"
      "\<And>op. outside inv states (\<lambda>w. snd (prepare d op w))"
    and op: "k = cleanup_key operation" "case job of None \<Rightarrow> op_kind operation = OperationBuild
        | Some j \<Rightarrow> op_kind operation = OperationJob \<and> job_id j = op_id operation \<and> job_status j \<noteq> StatusPreparing"
    and u: "inv u" "states u k = Some OperationAdmitting"
  shows "admission_ok inv states d k u (admit d operation job u)"
proof -
  obtain e v where prep: "prepare d operation u = (e, v)" by (cases "prepare d operation u")
  have v: "inv v" "states v = states u" using d(5) [of operation] prep u(1) unfolding outside_def by (metis snd_conv)+
  have same: "states u = (states u)(k \<mapsto> OperationAdmitting)" using u(2) by auto
  show ?thesis
  proof (cases e)
    case (Some e)
    have fail: "admission_ok inv states d k v (fail_admission d operation a e v)" if "op_kind operation = OperationJob" for a
      using v u op that by (intro fail_admission_ok d) simp_all
    obtain r v1 where req: "requeue_admitting D (op_kind operation) (op_id operation) v = (r, v1)"
      by (cases "requeue_admitting D (op_kind operation) (op_id operation) v")
    then have "inv v1 \<and> (states v1 = states v \<or> states v1 = (states v)(k \<mapsto> OperationQueued))"
      using requeue_law [OF v(1), of "op_kind operation" "op_id operation"] op by (cases r) auto
    then show ?thesis
      using prep Some d(1) fail v req same
      by (auto simp: admit_def admission_ok_def admission_end_def join_errors_def)
  next
    case None
    obtain r v1 where act: "activate D (op_kind operation) (op_id operation) v = (r, v1)"
      by (cases "activate D (op_kind operation) (op_id operation) v")
    have start: "admission_ok inv states d k v (start_job d operation j v)" if "job = Some j" for j
      using op that v u by (intro start_job_ok d) simp_all
    show ?thesis
    proof (cases job)
      case None
      then show ?thesis
        using prep \<open>e = None\<close> act d(1) op v same activate_law [OF v(1), of "op_kind operation" "op_id operation"]
        by (cases r) (auto simp: admit_def admission_ok_def admission_end_def)
    next
      case (Some j)
      then show ?thesis using prep \<open>e = None\<close> start v by (auto simp: admit_def admission_ok_def)
    qed
  qed
qed

lemma runOnce_dispatches:
  assumes d: "di_store d = D" "outside inv states (di_wake d)"
      "\<And>j. outside inv states (\<lambda>w. snd (di_create d j w))" "\<And>i. outside inv states (\<lambda>w. snd (di_cancel d i w))"
      "\<And>op. outside inv states (\<lambda>w. snd (prepare d op w))"
    and w: "inv w"
  shows "dispatched inv states head d w (runOnce d w)"
proof (cases "di_draining d w")
  case True
  then show ?thesis using w by (simp add: runOnce_def dispatched_def)
next
  case False
  obtain r u where acq: "acquire_next D w = (r, u)" by (cases "acquire_next D w")
  show ?thesis
  proof (cases "\<exists>op. r = Inr (Some op)")
    case False
    then show ?thesis
      using acq \<open>\<not> di_draining d w\<close> acquire_law [OF w] d(1)
      by (cases r) (auto simp: runOnce_def dispatched_def split: option.splits)
  next
    case True
    then obtain op where op: "r = Inr (Some op)" by blast
    let ?k = "cleanup_key op"
    have u: "inv u" "idle (states w)" "head w = Some ?k" "states u = (states w)(?k \<mapsto> OperationAdmitting)"
      using acquire_law [OF w] acq op by auto
    obtain t v where read: "read_job D (op_id op) u = (t, v)" by (cases "read_job D (op_id op) u")
    have v: "inv v" "states v = states u" "\<And>j. t = Inr j \<Longrightarrow> job_id j = op_id op"
      using read read_law [OF u(1), of "op_id op"] by (cases t; simp)+
    have build: "admission_ok inv states d ?k u (admit d op None u)" if "op_kind op = OperationBuild"
      using u that by (intro admit_ok d) simp_all
    have job: "admission_ok inv states d ?k v (admit d op (Some j) v)"
      if "op_kind op = OperationJob" "t = Inr j" "job_status j \<noteq> StatusPreparing" for j
      using u v that by (intro admit_ok d) simp_all
    have lift: "admission_ok inv states d ?k w x" if "admission_ok inv states d ?k u' x" "states u' = states u" for u' x
      using that u(4) by (auto simp: admission_ok_def)
    have "admission_ok inv states d ?k w (runOnce d w)"
    proof (cases "op_kind op")
      case OperationBuild
      then show ?thesis using build lift acq op \<open>\<not> di_draining d w\<close> d(1) by (simp add: runOnce_def)
    next
      case OperationJob
      have stay: "admission_ok inv states d ?k w (e, v)" for e
        using v u by (auto simp: admission_ok_def admission_end_def)
      show ?thesis
        using OperationJob lift [OF job v(2)] stay acq op read \<open>\<not> di_draining d w\<close> d(1)
        by (cases t) (auto simp: runOnce_def)
    qed
    then show ?thesis using u by (auto simp: dispatched_def)
  qed
qed

end

section \<open>The store of the control plane as a dispatcher store\<close>

definition sqlite_dispatch :: "'r system dispatcher_store" where
  "sqlite_dispatch =
     \<lparr>ds_cleanup = sqlite_cleanup,
      acquire_next = on_store AcquireNextOperation,
      requeue_admitting = \<lambda>k i. on_store (RequeueAdmittingOperation k i),
      activate = \<lambda>k i. on_store (ActivateOperation k i),
      read_job = \<lambda>i. on_store (Job i),
      fail_job = \<lambda>i m. on_store (FailJob i m)\<rparr>"

definition sys_head :: "'r system \<Rightarrow> op_key option" where
  "sys_head s = (case waiting (lease_of (queue (db (sys_store s)))) of [] \<Rightarrow> None | k # ks \<Rightarrow> Some k)"

interpretation sqlite_dispatch: dispatcher_contract sqlite_dispatch sys_states sys_inv sys_head
proof (unfold_locales, goal_cases)
  case (1 w k i)
  then show ?case unfolding sqlite_dispatch_def dispatcher_store.simps by (rule sqlite_cleanup.begin_law)
next
  case (2 w)
  then show ?case unfolding sqlite_dispatch_def dispatcher_store.simps by (rule sqlite_cleanup.claim_law)
next
  case (3 w k i m)
  then show ?case unfolding sqlite_dispatch_def dispatcher_store.simps by (rule sqlite_cleanup.record_law)
next
  case (4 w k i)
  then show ?case unfolding sqlite_dispatch_def dispatcher_store.simps by (rule sqlite_cleanup.complete_law)
next
  case (5 w)
  then show ?case
    unfolding sqlite_dispatch_def dispatcher_store.simps
    by (intro post_on_store post_mono [OF AcquireNextOperation_spec])
       (auto simp: sys_head_def split: option.splits)
next
  case (6 w k i)
  then show ?case
    unfolding sqlite_dispatch_def dispatcher_store.simps
    by (intro post_on_store post_mono [OF RequeueAdmittingOperation_spec]) auto
next
  case (7 w k i)
  then show ?case
    unfolding sqlite_dispatch_def dispatcher_store.simps
    by (intro post_on_store post_mono [OF ActivateOperation_spec]) auto
next
  case (8 w i)
  then show ?case
    unfolding sqlite_dispatch_def dispatcher_store.simps
    by (intro post_on_store post_mono [OF Job_spec]) (auto simp: scanJob_def)
next
  case (9 w i m)
  then show ?case
    unfolding sqlite_dispatch_def dispatcher_store.simps
    by (intro post_on_store post_mono [OF FailJob_spec]) auto
qed

section \<open>Wakeups\<close>

definition dflags_inv :: "dflags \<Rightarrow> bool" where
  "dflags_inv s \<longleftrightarrow> (advancing s \<longleftrightarrow> dloc s \<noteq> DParked) \<and> (advancePending s \<longrightarrow> advancing s \<or> dended s)"

definition dflags_start :: dflags where
  "dflags_start = \<lparr>advancing = False, advancePending = False, advanceWake = False, ddraining = False,
     dloc = DParked, dended = False\<rparr>"

lemma dispatcher_step_dflags_inv: "dispatcher_step s t \<Longrightarrow> dflags_inv s \<Longrightarrow> dflags_inv t"
  by (erule dispatcher_stepE)
     (auto simp: dflags_inv_def Dispatcher_Advance_def Dispatcher_Drain_def split: dloc.splits dturn.splits)

lemma dispatcher_run_dflags_inv: "dispatcher_step\<^sup>*\<^sup>* dflags_start s \<Longrightarrow> dflags_inv s"
proof (induction rule: rtranclp_induct)
  case base
  show ?case by (simp add: dflags_start_def dflags_inv_def)
next
  case (step s t)
  then show ?case by (blast intro: dispatcher_step_dflags_inv)
qed

section \<open>Properties\<close>

text \<open>
  C8: one run of the dispatcher on the store, whatever the driver, the runtime and the preparers
  answer, touches at most one operation: the one that was accepted first among those that wait,
  and only when no operation owned the worker. It leaves that operation active (a job only after
  the runtime created a service for it, and never while the job is being prepared), admitting,
  queued again with an error, or, a job, terminalizing with an error.
\<close>

theorem dispatcher_admits_in_order:
  assumes "sys_inv s" "di_store d = sqlite_dispatch" "outside sys_inv sys_states (di_wake d)"
    and "\<And>j. outside sys_inv sys_states (\<lambda>w. snd (di_create d j w))"
    and "\<And>i. outside sys_inv sys_states (\<lambda>w. snd (di_cancel d i w))"
    and "\<And>operation. outside sys_inv sys_states (\<lambda>w. snd (prepare d operation w))"
  shows "dispatched sys_inv sys_states sys_head d s (runOnce d s)"
  by (rule sqlite_dispatch.runOnce_dispatches) (use assms in simp_all)

definition quiet_dispatcher :: "unit system dispatcher" where
  "quiet_dispatcher =
     \<lparr>di_store = sqlite_dispatch, di_create = \<lambda>j w. (None, w), di_cancel = \<lambda>i w. (None, w),
      di_capacity = None, di_preparer = None, di_wake = \<lambda>w. w, di_draining = \<lambda>w. False,
      di_cancelled = sys_cancelled, di_text = \<lambda>e. []\<rparr>"

definition queued_job_row :: "string \<Rightarrow> job_row" where
  "queued_job_row i =
     \<lparr>j_id = i, j_project_id = ''p'', j_image = ''image'', j_command = [''true''], j_working_directory = [],
      j_environment = [], j_secrets = [], j_caches = [], j_root_digest = ''d'', j_status = StatusQueued,
      j_timeout_millis = 1000, j_created_at = 1, j_started_at = None, j_finished_at = None,
      j_exit_code = None, j_error_message = [], j_cancel_requested = False, j_worker_id = [],
      j_idempotency_key = i, j_request_hash = ''h''\<rparr>"

definition queued_jobs_system :: "unit system" where
  "queued_jobs_system =
     \<lparr>sys_store = \<lparr>db = empty_database\<lparr>jobs := [queued_job_row ''a'', queued_job_row ''b''],
          queue := [queued_row 1 OperationJob ''a'' OperationQueued 1 None,
                    queued_row 2 OperationJob ''b'' OperationQueued 2 None], next_sequence := 3\<rparr>,
        faults = [], now = 9, entropy = []\<rparr>,
      sys_runtime = (), sys_cancelled = False\<rparr>"

lemma queued_jobs_system_inv: "sys_inv queued_jobs_system"
  by (simp add: queued_jobs_system_def queue_inv_def queue_ok_def row_simps q_reserved_def)

lemma quiet_dispatcher_outside:
  "di_store quiet_dispatcher = sqlite_dispatch" "outside sys_inv sys_states (di_wake quiet_dispatcher)"
  "outside sys_inv sys_states (\<lambda>w. snd (di_create quiet_dispatcher j w))"
  "outside sys_inv sys_states (\<lambda>w. snd (di_cancel quiet_dispatcher i w))"
  "outside sys_inv sys_states (\<lambda>w. snd (prepare quiet_dispatcher operation w))"
  by (simp_all add: quiet_dispatcher_def outside_def prepare_def)

theorem dispatcher_admits_in_order_witness:
  "dispatched sys_inv sys_states sys_head quiet_dispatcher queued_jobs_system (runOnce quiet_dispatcher queued_jobs_system) \<and>
   sys_states (snd (runOnce quiet_dispatcher queued_jobs_system)) (OperationJob, ''a'') = Some OperationActive \<and>
   sys_states (snd (runOnce quiet_dispatcher queued_jobs_system)) (OperationJob, ''b'') = Some OperationQueued"
proof (intro conjI)
  show "dispatched sys_inv sys_states sys_head quiet_dispatcher queued_jobs_system (runOnce quiet_dispatcher queued_jobs_system)"
    by (intro dispatcher_admits_in_order queued_jobs_system_inv quiet_dispatcher_outside)
qed code_simp+

definition succeeds :: "('r system \<Rightarrow> err option \<times> 'r system) \<Rightarrow> bool" where
  "succeeds f \<longleftrightarrow> (\<forall>w. fst (f w) = None \<and> sys_store (snd (f w)) = sys_store w)"

lemma succeedsE:
  assumes "succeeds f" obtains v where "f w = (None, v)" "sys_store v = sys_store w"
  using assms that unfolding succeeds_def by (metis prod.collapse)

lemma acquire_head:
  assumes inv: "sys_inv s" and "faults (sys_store s) = []" "idle (sys_states s)" "sys_head s = Some (k, i)"
  obtains operation v where "acquire_next sqlite_dispatch s = (Inr (Some operation), v)"
    "op_kind operation = k" "op_id operation = i" "faults (sys_store v) = []" "queue_inv (db (sys_store v))"
    "jobs (db (sys_store v)) = jobs (db (sys_store s))" "sys_states v = (sys_states s)((k, i) \<mapsto> OperationAdmitting)"
proof -
  obtain x w where run: "AcquireNextOperation (sys_store s) = (Inr x, w)" "faults w = []"
    using AcquireNextOperation_runs [OF inv assms(2)] by blast
  have spec: "queue_inv (db w)" "case x of
      None \<Rightarrow> idle (sys_states s) \<longrightarrow> waiting (lease_of (queue (db (sys_store s)))) = []
    | Some op \<Rightarrow> (\<exists>ks. waiting (lease_of (queue (db (sys_store s)))) = cleanup_key op # ks) \<and>
        jobs (db w) = jobs (db (sys_store s)) \<and>
        op_states w = (sys_states s)(cleanup_key op \<mapsto> OperationAdmitting)"
    using AcquireNextOperation_spec [OF inv] run by (auto split: option.splits)
  have "waiting (lease_of (queue (db (sys_store s)))) \<noteq> []" using assms(4) by (auto simp: sys_head_def)
  then obtain op where op: "x = Some op" using spec(2) assms(3) by (cases x) auto
  then show ?thesis
    using that [of op "s\<lparr>sys_store := w\<rparr>"] run spec op assms(4)
    by (auto simp: sqlite_dispatch_def on_store_def sys_head_def)
qed


lemma quiet_dispatcher_succeeds:
  "succeeds (prepare quiet_dispatcher operation)" "succeeds (di_create quiet_dispatcher job)"
  "succeeds (di_cancel quiet_dispatcher i)" "\<not> di_draining quiet_dispatcher s"
  by (simp_all add: quiet_dispatcher_def succeeds_def prepare_def)

lemma queued_jobs_system_consistent: "consistent (db (sys_store queued_jobs_system))"
  using queued_jobs_system_inv
  by (simp add: consistent_def links_ok_def linked_def jobs_ok_def builds_ok_def agree_def
      queued_jobs_system_def queued_job_row_def empty_database_def)

lemma queued_jobs_system_simps:
  "faults (sys_store queued_jobs_system) = []" "sys_head queued_jobs_system = Some (OperationJob, ''a'')"
  "queued_job_row ''a'' \<in> set (jobs (db (sys_store queued_jobs_system)))"
  "j_id (queued_job_row ''a'') = ''a''" "j_status (queued_job_row ''a'') \<noteq> StatusPreparing"
  by (simp_all add: queued_jobs_system_def sys_head_def lease_of_def queued_job_row_def)

lemma queued_jobs_system_idle: "idle (sys_states queued_jobs_system)"
  using idle_iff [OF queued_jobs_system_inv] by (simp add: queued_jobs_system_def q_reserved_def)


text \<open>
  C14: wakeups of the dispatcher are not lost and workers do not multiply, also while the worker
  waits to retry after a failure: in every reachable state a pending wakeup has a worker unless the
  worker stopped because of draining or the end of its context, and that worker begins another run
  of \<open>RunOnce\<close> within three of its own steps when the retry timer fires in time.
\<close>

theorem dispatcher_wakeup_served:
  assumes "dispatcher_step\<^sup>*\<^sup>* dflags_start s" "\<not> dended s" "advancePending s" "result \<in> {DFailed, DDone}"
  shows "advancing s \<and>
    (\<exists>n \<in> {1, 2, 3}. let t = ((\<lambda>s. Dispatcher_advance (if dloc s = DRetrying then DTimer else result) s) ^^ n) s
       in dloc t = DWorking \<and> \<not> advancePending t)"
proof -
  have "dflags_inv s" using assms(1) by (rule dispatcher_run_dflags_inv)
  with assms(2,3) have "advancing s" "dloc s \<noteq> DParked" by (auto simp: dflags_inv_def)
  then show ?thesis
    using assms(3,4)
    by (cases "dloc s"; elim insertE emptyE; simp add: eval_nat_numeral Let_def)
qed

theorem dispatcher_wakeup_served_witness:
  "advancing (Dispatcher_Advance dflags_start) \<and>
   (\<exists>n \<in> {1, 2, 3}. let t = ((\<lambda>s. Dispatcher_advance (if dloc s = DRetrying then DTimer else DFailed) s) ^^ n) (Dispatcher_Advance dflags_start)
       in dloc t = DWorking \<and> \<not> advancePending t)"
proof (rule dispatcher_wakeup_served)
  show "dispatcher_step\<^sup>*\<^sup>* dflags_start (Dispatcher_Advance dflags_start)"
    by (rule r_into_rtranclp) (rule dispatcher_step.wake)
qed (simp_all add: Dispatcher_Advance_def dflags_start_def)

end
