(* ===== verification/Reconciler.thy ===== *)
theory Reconciler
  imports Dispatcher
begin

text \<open>
  Reconciliation with the runtime: \<open>internal/control/reconciler/reconciler.go\<close>. \<open>Reconciler_RunOnce\<close>
  is the method \<open>RunOnce\<close>; each of its loops is \<open>each\<close> over the body of that loop. The scheduler, the
  dispatcher and the clock are parameters. The contract \<open>reconciler_contract\<close> says which calls of
  the store may make a job lost; the store of the control plane meets it.
\<close>

section \<open>One reconciliation\<close>

record runtime_job =
  rj_id :: string
  rj_job :: remote_job
  rj_err :: "err option"

record 'w reconciler_store =
  scheduled_jobs :: "'w \<Rightarrow> (err + job list) \<times> 'w"
  stored_job :: "string \<Rightarrow> 'w \<Rightarrow> (err + job) \<times> 'w"
  sync_job :: "string \<Rightarrow> remote_job \<Rightarrow> 'w \<Rightarrow> (err + job) \<times> 'w"
  read_operation :: "operation_kind \<Rightarrow> string \<Rightarrow> 'w \<Rightarrow> (err + operation) \<times> 'w"
  activate_operation :: "operation_kind \<Rightarrow> string \<Rightarrow> 'w \<Rightarrow> (err + unit) \<times> 'w"
  stale_preparing :: "time \<Rightarrow> 'w \<Rightarrow> (err + job list) \<times> 'w"
  request_cancellation :: "string \<Rightarrow> 'w \<Rightarrow> (err + job) \<times> 'w"
  stale_builds :: "time \<Rightarrow> 'w \<Rightarrow> (err + build list) \<times> 'w"
  finish_build :: "string \<Rightarrow> build_status \<Rightarrow> int \<Rightarrow> 'w \<Rightarrow> (err + build) \<times> 'w"

record 'w reconciler =
  rc_store :: "'w reconciler_store"
  rc_managed :: "'w \<Rightarrow> (runtime_job list \<times> err option) \<times> 'w"
  rc_remove :: "string \<Rightarrow> 'w \<Rightarrow> err option \<times> 'w"
  rc_release :: "(operation_kind \<Rightarrow> string \<Rightarrow> 'w \<Rightarrow> err option \<times> 'w) option"
  rc_retention :: duration
  rc_grace :: duration
  rc_build_lease :: duration
  rc_preparation_lease :: duration
  rc_now :: "'w \<Rightarrow> time"

definition New_reconciler :: "'w reconciler \<Rightarrow> 'w reconciler" where
  "New_reconciler c =
     c\<lparr>rc_retention := if rc_retention c \<le> 0 then hour else rc_retention c,
       rc_grace := if rc_grace c \<le> 0 then 15 * second else rc_grace c,
       rc_build_lease := if rc_build_lease c \<le> 0 then 2 * minute else rc_build_lease c,
       rc_preparation_lease := if rc_preparation_lease c \<le> 0 then 2 * minute else rc_preparation_lease c\<rparr>"

definition list_or_nil :: "string \<Rightarrow> (err + 'a list) \<Rightarrow> err list \<times> 'a list" where
  "list_or_nil what r = (case r of Inl e \<Rightarrow> ([ErrWrap what e], []) | Inr xs \<Rightarrow> ([], xs))"

definition release_op :: "'w reconciler \<Rightarrow> string \<Rightarrow> operation_kind \<Rightarrow> string \<Rightarrow> 'w \<Rightarrow> err list \<times> 'w" where
  "release_op c what kind i w =
     (case rc_release c of
        None \<Rightarrow> ([], w)
      | Some release \<Rightarrow>
          (case release kind i w of
             (Some e, w) \<Rightarrow> ([ErrWrap (what @ i) e], w)
           | (None, w) \<Rightarrow> ([], w)))"

text \<open>A loop that goes on after the errors of its body and collects them.\<close>

fun each :: "('x \<Rightarrow> 'w \<Rightarrow> err list \<times> 'w) \<Rightarrow> 'x list \<Rightarrow> 'w \<Rightarrow> err list \<times> 'w" where
  "each body [] w = ([], w)"
| "each body (x # xs) w =
     (let (es, w) = body x w; (more, w) = each body xs w in (es @ more, w))"

definition cancel_stale :: "'w reconciler \<Rightarrow> job \<Rightarrow> 'w \<Rightarrow> err list \<times> 'w" where
  "cancel_stale c job w =
     (case request_cancellation (rc_store c) (job_id job) w of
        (Inl e, w) \<Rightarrow> ([ErrWrap (''cancel stale job preparation '' @ job_id job) e], w)
      | (Inr _, w) \<Rightarrow> release_op c ''release stale job preparation '' OperationJob (job_id job) w)"

definition finish_stale :: "'w reconciler \<Rightarrow> build \<Rightarrow> 'w \<Rightarrow> err list \<times> 'w" where
  "finish_stale c build w =
     (case finish_build (rc_store c) (build_id build) BuildCancelled 130 w of
        (Inl e, w) \<Rightarrow> ([ErrWrap (''cancel stale build '' @ build_id build) e], w)
      | (Inr _, w) \<Rightarrow> release_op c ''release stale build '' OperationBuild (build_id build) w)"

definition managed_errors :: "runtime_job list \<Rightarrow> err list" where
  "managed_errors managed =
     [ErrWrap (''inspect managed job '' @ rj_id r) (the (rj_err r)). r \<leftarrow> managed, rj_err r \<noteq> None]"

definition poisoned :: "runtime_job list \<Rightarrow> string \<Rightarrow> bool" where
  "poisoned managed i \<longleftrightarrow> (\<exists>r \<in> set managed. rj_err r \<noteq> None \<and> rj_id r = i)"

definition remoteByID :: "runtime_job list \<Rightarrow> (string \<rightharpoonup> remote_job)" where
  "remoteByID managed = map_of (rev [(r_id (rj_job r), rj_job r). r \<leftarrow> managed, rj_err r = None])"

definition lost_job :: "string \<Rightarrow> time \<Rightarrow> remote_job" where
  "lost_job i finished =
     \<lparr>r_id = i, r_project_id = [], r_image = [], r_command = [], r_root_digest = [],
      r_status = StatusLost, r_worker_id = [], r_created_at = zero_time, r_started_at = None,
      r_finished_at = Some finished, r_timeout_seconds = 0, r_cancel_requested = False,
      r_exit_code = Some 1, r_error_message = ''managed Swarm service is missing''\<rparr>"

text \<open>
  What a run knows of the runtime job of a scheduled job before it synchronizes it: nothing yet
  (\<open>Inl\<close>, with the errors to report), or the state to store.
\<close>

definition observe ::
  "'w reconciler \<Rightarrow> time \<Rightarrow> runtime_job list \<Rightarrow> err option \<Rightarrow> job \<Rightarrow> 'w \<Rightarrow> (err list + remote_job) \<times> 'w" where
  "observe c instant managed managedErr job w =
     (if poisoned managed (job_id job) then (Inl [], w)
      else
      (case remoteByID managed (job_id job) of
         None \<Rightarrow>
           if managedErr \<noteq> None then (Inl [], w)
           else
           (let (r, w) = read_operation (rc_store c) OperationJob (job_id job) w
            in case r of
                 Inl e \<Rightarrow>
                   if \<not> err_is e ErrNotFound
                   then (Inl [ErrWrap (''read admission lease for job '' @ job_id job) e], w)
                   else (Inr (lost_job (job_id job) instant), w)
               | Inr operation \<Rightarrow>
                   (case op_leased_at operation of
                      Some l \<Rightarrow> if l > instant - rc_grace c then (Inl [], w) else (Inr (lost_job (job_id job) instant), w)
                    | None \<Rightarrow> (Inr (lost_job (job_id job) instant), w)))
       | Some remote \<Rightarrow>
           (let (r, w) = read_operation (rc_store c) OperationJob (job_id job) w
            in case r of
                 Inl e \<Rightarrow>
                   if \<not> err_is e ErrNotFound
                   then (Inl [ErrWrap (''read operation for job '' @ job_id job) e], w)
                   else (Inr remote, w)
               | Inr operation \<Rightarrow>
                   if op_state operation = OperationAdmitting then
                     (case activate_operation (rc_store c) OperationJob (job_id job) w of
                        (Inl e, w) \<Rightarrow> (Inl [ErrWrap (''activate admitted job '' @ job_id job) e], w)
                      | (Inr _, w) \<Rightarrow> (Inr remote, w))
                   else (Inr remote, w))))"

definition sync_scheduled ::
  "'w reconciler \<Rightarrow> time \<Rightarrow> runtime_job list \<Rightarrow> err option \<Rightarrow> job \<Rightarrow> 'w \<Rightarrow> err list \<times> 'w" where
  "sync_scheduled c instant managed managedErr job w =
     (case observe c instant managed managedErr job w of
        (Inl es, w) \<Rightarrow> (es, w)
      | (Inr remote, w) \<Rightarrow>
          (case sync_job (rc_store c) (job_id job) remote w of
             (Inl e, w) \<Rightarrow> ([ErrWrap (''synchronize job '' @ job_id job) e], w)
           | (Inr stored, w) \<Rightarrow>
               if Terminal (job_status stored)
               then release_op c ''release job '' OperationJob (job_id job) w
               else ([], w)))"

text \<open>The instant after which a managed job may be removed; \<open>None\<close> while the stored job is alive.\<close>

definition remove_after :: "remote_job \<Rightarrow> job option \<Rightarrow> time option" where
  "remove_after remote stored =
     (case stored of
        Some job \<Rightarrow>
          if \<not> Terminal (job_status job) then None
          else (case job_finished_at job of
                  Some t \<Rightarrow> Some t
                | None \<Rightarrow> (case r_finished_at remote of Some t \<Rightarrow> Some t | None \<Rightarrow> Some (r_created_at remote)))
      | None \<Rightarrow> (case r_finished_at remote of Some t \<Rightarrow> Some t | None \<Rightarrow> Some (r_created_at remote)))"

definition remove_expired :: "'w reconciler \<Rightarrow> time \<Rightarrow> runtime_job \<Rightarrow> 'w \<Rightarrow> err list \<times> 'w" where
  "remove_expired c cutoff result w =
     (if rj_err result \<noteq> None then ([], w)
      else
      (let remote = rj_job result;
           (r, w) = stored_job (rc_store c) (r_id remote) w;
           verdict = (case r of
              Inl e \<Rightarrow>
                if \<not> err_is e ErrNotFound then Inl [ErrWrap (''read managed job '' @ r_id remote) e]
                else Inr (remove_after remote None)
            | Inr job \<Rightarrow> Inr (remove_after remote (Some job)))
       in case verdict of
            Inl es \<Rightarrow> (es, w)
          | Inr None \<Rightarrow> ([], w)
          | Inr (Some removeAfter) \<Rightarrow>
              if removeAfter = zero_time \<or> removeAfter > cutoff then ([], w)
              else
              (case rc_remove c (r_id remote) w of
                 (Some e, w) \<Rightarrow> ([ErrWrap (''remove managed job '' @ r_id remote) e], w)
               | (None, w) \<Rightarrow> ([], w))))"

definition Reconciler_RunOnce :: "'w reconciler \<Rightarrow> 'w \<Rightarrow> err option \<times> 'w" where
  "Reconciler_RunOnce c w =
     (let instant = rc_now c w;
          (r, w) = stale_preparing (rc_store c) (instant - rc_preparation_lease c) w;
          (es1, stalePreparations) = list_or_nil ''list stale job preparations'' r;
          (es2, w) = each (cancel_stale c) stalePreparations w;
          (r, w) = stale_builds (rc_store c) (instant - rc_build_lease c) w;
          (es3, staleBuilds) = list_or_nil ''list stale builds'' r;
          (es4, w) = each (finish_stale c) staleBuilds w;
          (r, w) = scheduled_jobs (rc_store c) w;
          (es5, scheduled) = list_or_nil ''list scheduled jobs'' r;
          ((managed, managedErr), w) = rc_managed c w;
          es6 = (case managedErr of None \<Rightarrow> [] | Some e \<Rightarrow> [ErrWrap ''list managed jobs'' e]);
          es7 = managed_errors managed;
          (es8, w) = each (sync_scheduled c instant managed managedErr) scheduled w;
          (es9, w) = each (remove_expired c (instant - rc_retention c)) managed w
      in (join_errors (map Some (es1 @ es2 @ es3 @ es4 @ es5 @ es6 @ es7 @ es8 @ es9)), w))"

section \<open>The contract of the store\<close>

text \<open>
  A job may become lost only by a synchronization that says so; \<open>lost\<close> is the set of the lost jobs
  of a world, \<open>within_lost lost S w v\<close> says that \<open>v\<close> has no new ones but those in \<open>S\<close>.
\<close>

definition within_lost :: "('w \<Rightarrow> string set) \<Rightarrow> string set \<Rightarrow> 'w \<Rightarrow> 'w \<Rightarrow> bool" where
  "within_lost lost S w v \<longleftrightarrow> lost v \<subseteq> lost w \<union> S"

abbreviation (input) no_new_lost :: "('w \<Rightarrow> string set) \<Rightarrow> ('w \<Rightarrow> 'a \<times> 'w) \<Rightarrow> bool" where
  "no_new_lost lost f \<equiv> \<forall>w. within_lost lost {} w (snd (f w))"

definition justified_loss :: "runtime_job list \<Rightarrow> err option \<Rightarrow> string set" where
  "justified_loss managed managedErr =
     {i. \<not> poisoned managed i \<and>
        (case remoteByID managed i of None \<Rightarrow> managedErr = None | Some remote \<Rightarrow> r_status remote = StatusLost)}"

text \<open>The runtime and the dispatcher of a reconciler make no job lost.\<close>

definition harmless :: "('w \<Rightarrow> string set) \<Rightarrow> 'w reconciler \<Rightarrow> bool" where
  "harmless lost c \<longleftrightarrow> (\<forall>f k i. rc_release c = Some f \<longrightarrow> no_new_lost lost (f k i)) \<and>
     no_new_lost lost (rc_managed c) \<and> (\<forall>i. no_new_lost lost (rc_remove c i))"

lemma let_pair: "Let (a, b) (case_prod f) = f a b"
  by (simp add: Let_def)

locale reconciler_contract =
  fixes R :: "'w reconciler_store" and lost :: "'w \<Rightarrow> string set"
  assumes reads: "no_new_lost lost (scheduled_jobs R)" "no_new_lost lost (stored_job R i)"
      "no_new_lost lost (read_operation R k i)" "no_new_lost lost (stale_preparing R t)" "no_new_lost lost (stale_builds R t)"
    and writes: "no_new_lost lost (activate_operation R k i)" "no_new_lost lost (request_cancellation R i)"
      "no_new_lost lost (finish_build R i s x)"
    and sync: "within_lost lost (if r_status r = StatusLost then {i} else {}) w (snd (sync_job R i r w))"
begin

lemma lost_refl [simp]: "within_lost lost S w w"
  by (auto simp: within_lost_def)

lemma lost_trans: "within_lost lost S w u \<Longrightarrow> within_lost lost S u v \<Longrightarrow> within_lost lost S w v"
  by (auto simp: within_lost_def)

lemma lost_mono: "within_lost lost T w v \<Longrightarrow> T \<subseteq> S \<Longrightarrow> within_lost lost S w v"
  by (auto simp: within_lost_def)

lemma lost_call: "no_new_lost lost f \<Longrightarrow> f w = (r, v) \<Longrightarrow> within_lost lost S w v"
  by (metis empty_subsetI lost_mono snd_conv)

lemma each_lost:
  assumes "\<And>x w. within_lost lost S w (snd (body x w))"
  shows "within_lost lost S w (snd (each body xs w))"
proof (induction xs arbitrary: w)
  case (Cons x xs)
  obtain es u where "body x w = (es, u)" by (cases "body x w")
  then show ?case using Cons [of u] assms [of w x] lost_trans [of S w u] by (auto split: prod.splits)
qed simp

lemma after_call:
  assumes "no_new_lost lost f" "\<And>r u. f w = (r, u) \<Longrightarrow> within_lost lost S u (snd (g (r, u)))"
  shows "within_lost lost S w (snd (g (f w)))"
  using assms lost_call [OF assms(1)] lost_trans by (metis surj_pair)

lemma release_op_lost:
  assumes c: "harmless lost c" shows "within_lost lost S w (snd (release_op c what k i w))"
proof (cases "rc_release c")
  case (Some f)
  then have f: "no_new_lost lost (f k i)" using c by (simp add: harmless_def)
  obtain e u where "f k i w = (e, u)" by (cases "f k i w")
  then show ?thesis using Some lost_call [OF f] by (simp add: release_op_def split: option.split)
qed (simp add: release_op_def)

lemma cancel_stale_lost:
  assumes c: "harmless lost c" "rc_store c = R" shows "within_lost lost S w (snd (cancel_stale c job w))"
proof -
  obtain r u where req: "request_cancellation R (job_id job) w = (r, u)" by (cases "request_cancellation R (job_id job) w")
  moreover have "rc_store c = R" using c by (simp add: harmless_def)
  ultimately show ?thesis
    using lost_call [OF writes(2) req, of S] lost_trans release_op_lost [OF c(1), of S u]
    by (cases r) (auto simp: cancel_stale_def)
qed

lemma finish_stale_lost:
  assumes c: "harmless lost c" "rc_store c = R" shows "within_lost lost S w (snd (finish_stale c build w))"
proof -
  obtain r u where fin: "finish_build R (build_id build) BuildCancelled 130 w = (r, u)"
    by (cases "finish_build R (build_id build) BuildCancelled 130 w")
  moreover have "rc_store c = R" using c by (simp add: harmless_def)
  ultimately show ?thesis
    using lost_call [OF writes(3) fin, of S] lost_trans release_op_lost [OF c(1), of S u]
    by (cases r) (auto simp: finish_stale_def)
qed

lemma observe_lost:
  assumes c: "harmless lost c" "rc_store c = R" and obs: "observe c t managed managedErr job w = (r, v)"
  shows "within_lost lost S w v"
    "r = Inr remote \<Longrightarrow> r_status remote = StatusLost \<Longrightarrow> job_id job \<in> justified_loss managed managedErr"
proof -
  have R: "rc_store c = R" using c by (simp add: harmless_def)
  obtain x u where op: "read_operation R OperationJob (job_id job) w = (x, u)" by (cases "read_operation R OperationJob (job_id job) w")
  obtain y u' where act: "activate_operation R OperationJob (job_id job) u = (y, u')" by (cases "activate_operation R OperationJob (job_id job) u")
  note kept = lost_call [OF reads(3) op] lost_call [OF writes(1) act]
  show "within_lost lost S w v"
    using obs R op act kept [of S] lost_trans [of S w u u']
    by (auto simp: observe_def split: if_splits option.splits sum.splits)
  assume "r = Inr remote" "r_status remote = StatusLost"
  then show "job_id job \<in> justified_loss managed managedErr"
    using obs R op act
    by (auto simp: observe_def justified_loss_def split: if_splits option.splits sum.splits)
qed

lemma sync_scheduled_lost:
  assumes c: "harmless lost c" "rc_store c = R"
  shows "within_lost lost (justified_loss managed managedErr) w (snd (sync_scheduled c t managed managedErr job w))"
proof -
  let ?S = "justified_loss managed managedErr"
  have R: "rc_store c = R" using c by (simp add: harmless_def)
  obtain r u where obs: "observe c t managed managedErr job w = (r, u)" by (cases "observe c t managed managedErr job w")
  have u: "within_lost lost ?S w u" using observe_lost(1) [OF c obs] .
  show ?thesis
  proof (cases r)
    case (Inl es)
    then show ?thesis using obs u by (simp add: sync_scheduled_def)
  next
    case (Inr remote)
    obtain x v where syn: "sync_job R (job_id job) remote u = (x, v)" by (cases "sync_job R (job_id job) remote u")
    have "(if r_status remote = StatusLost then {job_id job} else {}) \<subseteq> ?S"
      using observe_lost(2) [OF c obs Inr] by simp
    then have "within_lost lost ?S u v" using sync [of remote "job_id job" u] syn lost_mono by (metis snd_conv)
    then show ?thesis
      using obs Inr syn R u lost_trans release_op_lost [OF c(1), of ?S v]
      by (cases x) (auto simp: sync_scheduled_def)
  qed
qed

lemma remove_expired_lost:
  assumes c: "harmless lost c" "rc_store c = R" shows "within_lost lost S w (snd (remove_expired c t m w))"
proof -
  have R: "rc_store c = R" and rem: "no_new_lost lost (rc_remove c (r_id (rj_job m)))"
    using c by (simp_all add: harmless_def)
  obtain r u where st: "stored_job R (r_id (rj_job m)) w = (r, u)" by (cases "stored_job R (r_id (rj_job m)) w")
  obtain e v where re: "rc_remove c (r_id (rj_job m)) u = (e, v)" by (cases "rc_remove c (r_id (rj_job m)) u")
  show ?thesis
    using st re R lost_call [OF reads(2) st, of S] lost_call [OF rem re, of S] lost_trans [of S w u v]
    by (auto simp: remove_expired_def Let_def split: sum.splits option.splits if_splits)
qed

lemma RunOnce_lost:
  assumes c: "harmless lost c" "rc_store c = R"
  shows "\<exists>u managed managedErr u'. rc_managed c u = ((managed, managedErr), u') \<and>
    within_lost lost (justified_loss managed managedErr) w (snd (Reconciler_RunOnce c w))"
proof -
  have R: "rc_store c = R" and man: "no_new_lost lost (rc_managed c)" using c by (simp_all add: harmless_def)
  let ?t = "rc_now c w"
  obtain r1 w1 where 1: "stale_preparing R (?t - rc_preparation_lease c) w = (r1, w1)" by fastforce
  obtain es1 xs1 where l1: "list_or_nil ''list stale job preparations'' r1 = (es1, xs1)" by fastforce
  obtain es2 w2 where 2: "each (cancel_stale c) xs1 w1 = (es2, w2)" by fastforce
  obtain r3 w3 where 3: "stale_builds R (?t - rc_build_lease c) w2 = (r3, w3)" by fastforce
  obtain es3 xs3 where l3: "list_or_nil ''list stale builds'' r3 = (es3, xs3)" by fastforce
  obtain es4 w4 where 4: "each (finish_stale c) xs3 w3 = (es4, w4)" by fastforce
  obtain r5 w5 where 5: "scheduled_jobs R w4 = (r5, w5)" by fastforce
  obtain es5 xs5 where l5: "list_or_nil ''list scheduled jobs'' r5 = (es5, xs5)" by fastforce
  obtain managed managedErr w6 where 6: "rc_managed c w5 = ((managed, managedErr), w6)" by (metis surj_pair)
  obtain es8 w8 where 8: "each (sync_scheduled c ?t managed managedErr) xs5 w6 = (es8, w8)" by fastforce
  obtain es9 w9 where 9: "each (remove_expired c (?t - rc_retention c)) managed w8 = (es9, w9)" by fastforce
  let ?S = "justified_loss managed managedErr"
  have a: "within_lost lost ?S w w1" "within_lost lost ?S w2 w3" "within_lost lost ?S w4 w5" "within_lost lost ?S w5 w6"
    by (rule lost_call [OF reads(4) 1] lost_call [OF reads(5) 3] lost_call [OF reads(1) 5] lost_call [OF man 6])+
  have b: "within_lost lost ?S w1 w2" "within_lost lost ?S w3 w4" "within_lost lost ?S w6 w8" "within_lost lost ?S w8 w9"
    using each_lost [of ?S "cancel_stale c" w1 xs1, OF cancel_stale_lost [OF c]]
      each_lost [of ?S "finish_stale c" w3 xs3, OF finish_stale_lost [OF c]]
      each_lost [of ?S "sync_scheduled c ?t managed managedErr" w6 xs5, OF sync_scheduled_lost [OF c]]
      each_lost [of ?S "remove_expired c (?t - rc_retention c)" w8 managed, OF remove_expired_lost [OF c]] 2 4 8 9
    by simp_all
  have "within_lost lost ?S w w9"
    by (rule lost_trans [OF a(1) lost_trans [OF b(1) lost_trans [OF a(2) lost_trans [OF b(2)
        lost_trans [OF a(3) lost_trans [OF a(4) lost_trans [OF b(3,4)]]]]]]])
  moreover have "snd (Reconciler_RunOnce c w) = w9"
    by (simp only: Reconciler_RunOnce_def Let_def [of ?t] let_pair R 1 l1 2 3 l3 4 5 l5 6)
       (simp add: let_pair Let_def 8 9)
  ultimately show ?thesis using 6 by metis
qed

end

section \<open>The store of the control plane as a reconciler store\<close>

definition sqlite_reconcile :: "'r system reconciler_store" where
  "sqlite_reconcile =
     \<lparr>scheduled_jobs = on_store ScheduledJobs,
      stored_job = \<lambda>i. on_store (Job i),
      sync_job = \<lambda>i r. on_store (SyncJob i r),
      read_operation = \<lambda>k i. on_store (Operation k i),
      activate_operation = \<lambda>k i. on_store (ActivateOperation k i),
      stale_preparing = \<lambda>t. on_store (StalePreparingJobs t),
      request_cancellation = \<lambda>i. on_store (RequestJobCancellation i),
      stale_builds = \<lambda>t. on_store (StaleBuilds t),
      finish_build = \<lambda>i s x. on_store (FinishBuild i s x)\<rparr>"

definition lost_of :: "job_row list \<Rightarrow> string set" where
  "lost_of rows = j_id ` {j \<in> set rows. j_status j = StatusLost}"

abbreviation sys_lost :: "'r system \<Rightarrow> string set" where
  "sys_lost s \<equiv> lost_of (jobs (db (sys_store s)))"

definition db_lost :: "string set \<Rightarrow> database \<Rightarrow> database \<Rightarrow> bool" where
  "db_lost S d d' \<longleftrightarrow> lost_of (jobs d') \<subseteq> lost_of (jobs d) \<union> S"

lemma lost_of_update:
  assumes "\<And>r. j_id (f r) = j_id r" "\<And>r. r \<in> set rows \<Longrightarrow> P r \<Longrightarrow> j_status (f r) = StatusLost \<Longrightarrow> j_status r = StatusLost \<or> j_id r \<in> S"
  shows "lost_of (update_rows P f rows) \<subseteq> lost_of rows \<union> S"
proof
  fix i assume "i \<in> lost_of (update_rows P f rows)"
  then obtain r where "r \<in> set rows" "i = j_id r" "j_status (if P r then f r else r) = StatusLost"
    using assms(1) by (auto simp: lost_of_def set_update_rows)
  then show "i \<in> lost_of rows \<union> S" using assms(2) [of r] by (auto simp: lost_of_def split: if_splits)
qed

lemma lost_of_sync:
  assumes "\<And>r. j_id (f r) = j_id r" "\<And>r. j_status (f r) = s"
  shows "lost_of (update_rows (\<lambda>r. j_id r = i \<and> P r) f rows) \<subseteq>
    lost_of rows \<union> (if s = StatusLost then {i} else {})"
  by (rule lost_of_update) (simp_all add: assms)

lemma on_store_lost:
  assumes "post (\<lambda>_ v. db_lost S (db (sys_store s)) (db v)) (\<lambda>_ v. db_lost S (db (sys_store s)) (db v)) (f (sys_store s))"
  shows "within_lost sys_lost S s (snd (on_store f s))"
  using post_keeps [OF assms] by (simp add: on_store_def within_lost_def db_lost_def split_def Let_def)

interpretation sqlite_reconcile: reconciler_contract sqlite_reconcile sys_lost
proof (unfold_locales, goal_cases)
  case 1
  then show ?case unfolding sqlite_reconcile_def reconciler_store.simps ScheduledJobs_def
    by (intro allI on_store_lost wp) (simp_all add: db_lost_def)
next
  case (2 i)
  then show ?case unfolding sqlite_reconcile_def reconciler_store.simps Job_def
    by (intro allI on_store_lost wp) (simp_all add: db_lost_def)
next
  case (3 k i)
  then show ?case unfolding sqlite_reconcile_def reconciler_store.simps Operation_def
    by (intro allI on_store_lost wp) (simp_all add: db_lost_def)
next
  case (4 t)
  then show ?case unfolding sqlite_reconcile_def reconciler_store.simps StalePreparingJobs_def
    by (intro allI on_store_lost wp) (simp_all add: db_lost_def)
next
  case (5 t)
  then show ?case unfolding sqlite_reconcile_def reconciler_store.simps StaleBuilds_def
    by (intro allI on_store_lost wp) (simp_all add: db_lost_def)
next
  case (6 k i)
  then show ?case unfolding sqlite_reconcile_def reconciler_store.simps ActivateOperation_def
    by (intro allI on_store_lost wp) (simp_all add: db_lost_def)
next
  case (7 i)
  then show ?case unfolding sqlite_reconcile_def reconciler_store.simps RequestJobCancellation_def Job_def
    by (intro allI on_store_lost wp; simp add: db_lost_def;
        rule lost_of_update [where S = "{}", unfolded Un_empty_right]; simp add: Let_def split: if_splits)
next
  case (8 i s x)
  then show ?case unfolding sqlite_reconcile_def reconciler_store.simps FinishBuild_def Build_def
    by (intro allI on_store_lost wp) (simp_all add: db_lost_def)
next
  case (9 r i w)
  then show ?case unfolding sqlite_reconcile_def reconciler_store.simps SyncJob_def Job_def
    by (intro on_store_lost wp) (simp_all add: db_lost_def lost_of_sync split del: if_split)
qed

section \<open>Properties\<close>


lemma Release_harmless:
  fixes d :: "'r system dispatcher"
  assumes "di_store d = sqlite_dispatch" "\<And>w. sys_lost (di_wake d w) = sys_lost w"
  shows "no_new_lost sys_lost (Release d k i)"
proof
  fix s :: "'r system"
  have "within_lost sys_lost {} s (snd (on_store (BeginOperationCleanup k i) s))"
    unfolding BeginOperationCleanup_def OperationState_def
    by (intro on_store_lost wp) (simp_all add: db_lost_def)
  then show "within_lost sys_lost {} s (snd (Release d k i s))"
    using assms by (auto simp: Release_def Coordinator_Request_def sqlite_dispatch_def sqlite_cleanup_def
        within_lost_def split: prod.splits sum.splits)
qed

definition blind_reconciler :: "err option \<Rightarrow> unit system reconciler" where
  "blind_reconciler e =
     \<lparr>rc_store = sqlite_reconcile, rc_managed = \<lambda>w. (([], e), w), rc_remove = \<lambda>i w. (None, w),
      rc_release = Some (Release quiet_dispatcher), rc_retention = hour, rc_grace = 15 * second,
      rc_build_lease = 2 * minute, rc_preparation_lease = 2 * minute, rc_now = \<lambda>w. 3 * hour\<rparr>"

definition running_job_system :: "unit system" where
  "running_job_system =
     \<lparr>sys_store = \<lparr>db = empty_database\<lparr>jobs := [queued_job_row ''a''],
          queue := [queued_row 1 OperationJob ''a'' OperationActive 1 (Some 1)], next_sequence := 2\<rparr>,
        faults = [], now = 9, entropy = []\<rparr>,
      sys_runtime = (), sys_cancelled = False\<rparr>"

lemma blind_reconciler_harmless: "harmless sys_lost (blind_reconciler e)"
  using Release_harmless [of quiet_dispatcher]
  by (simp add: harmless_def blind_reconciler_def within_lost_def quiet_dispatcher_outside quiet_dispatcher_def)


end
