(* ===== verification/Texts.thy ===== *)
theory Texts
  imports Prelude
begin

text \<open>
  Texts: the functions of the packages \<open>strings\<close>, \<open>unicode/utf8\<close> and \<open>encoding/base64\<close> that the
  store uses, and the matcher \<open>glob\<close> of \<open>internal/control/sqlite/store.go\<close>. A Go string is its
  list of bytes. \<open>glob_loop\<close> has the variables of the loop of \<open>glob\<close>; \<open>matches\<close> is the meaning of
  patterns it is compared with.
\<close>

section \<open>Cutting and trimming\<close>

text \<open>\<open>strings.Cut\<close> and \<open>strings.SplitN\<close> with a separator of one byte.\<close>

definition cut :: "char \<Rightarrow> string \<Rightarrow> (string \<times> string) option" where
  "cut c s =
     (if c \<in> set s then Some (takeWhile (\<lambda>x. x \<noteq> c) s, tl (dropWhile (\<lambda>x. x \<noteq> c) s)) else None)"

fun SplitN :: "string \<Rightarrow> char \<Rightarrow> nat \<Rightarrow> string list" where
  "SplitN s c 0 = []"
| "SplitN s c (Suc 0) = [s]"
| "SplitN s c (Suc (Suc n)) =
     (case cut c s of None \<Rightarrow> [s] | Some (before, after) \<Rightarrow> before # SplitN after c (Suc n))"

definition HasPrefix :: "string \<Rightarrow> string \<Rightarrow> bool" where
  "HasPrefix s p \<longleftrightarrow> take (length p) s = p"

text \<open>\<open>strings.TrimSpace\<close>: the encodings of the runes that \<open>unicode.IsSpace\<close> accepts.\<close>

definition bytes :: "nat list \<Rightarrow> string" where
  "bytes ns = map char_of ns"

definition spaces :: "string list" where
  "spaces = map (\<lambda>n. bytes [n]) [9, 10, 11, 12, 13, 32] @ map (\<lambda>n. bytes [0xC2, n]) [0x85, 0xA0] @
     [bytes [0xE1, 0x9A, 0x80]] @ map (\<lambda>n. bytes [0xE2, 0x80, n]) ([0x80..<0x8B] @ [0xA8, 0xA9, 0xAF]) @
     [bytes [0xE2, 0x81, 0x9F], bytes [0xE3, 0x80, 0x80]]"

definition leading_space :: "string list \<Rightarrow> string \<Rightarrow> string option" where
  "leading_space encodings s = find (\<lambda>e. e \<noteq> [] \<and> HasPrefix s e) encodings"

function trim_left :: "string list \<Rightarrow> string \<Rightarrow> string" where
  "trim_left encodings s =
     (case leading_space encodings s of None \<Rightarrow> s | Some e \<Rightarrow> trim_left encodings (drop (length e) s))"
  by pat_completeness auto
termination
proof (relation "measure (\<lambda>(_, s). length s)")
  fix encodings s e assume "leading_space encodings s = Some e"
  then have "e \<noteq> []" "take (length e) s = e"
    by (auto simp: leading_space_def HasPrefix_def dest: find_SomeD)
  then have "length e > 0" "length s > 0" by auto
  then show "((encodings, drop (length e) s), (encodings, s)) \<in> measure (\<lambda>(_, s). length s)" by simp
qed simp

declare trim_left.simps [simp del]

definition TrimSpace :: "string \<Rightarrow> string" where
  "TrimSpace s = rev (trim_left (map rev spaces) (rev (trim_left spaces s)))"

text \<open>
  \<open>strings.ToLower\<close> and \<open>strings.ToUpper\<close> on the letters of ASCII; other bytes are kept.
\<close>

definition ToLower :: "string \<Rightarrow> string" where
  "ToLower s = map (\<lambda>c. let n = of_char c :: nat in if 65 \<le> n \<and> n \<le> 90 then char_of (n + 32) else c) s"

definition ToUpper :: "string \<Rightarrow> string" where
  "ToUpper s = map (\<lambda>c. let n = of_char c :: nat in if 97 \<le> n \<and> n \<le> 122 then char_of (n - 32) else c) s"

section \<open>Base 64\<close>

text \<open>\<open>base64.RawURLEncoding\<close>: no padding; the decoder skips line ends.\<close>

definition b64_alphabet :: string where
  "b64_alphabet = ''ABCDEFGHIJKLMNOPQRSTUVWXYZabcdefghijklmnopqrstuvwxyz0123456789-_''"

definition b64_digit :: "nat \<Rightarrow> char" where
  "b64_digit n = b64_alphabet ! (n mod 64)"

definition b64_value :: "char \<Rightarrow> nat option" where
  "b64_value c = (if c \<in> set b64_alphabet then Some (length (takeWhile (\<lambda>x. x \<noteq> c) b64_alphabet)) else None)"

fun b64_groups :: "nat list \<Rightarrow> nat list" where
  "b64_groups (a # b # c # bs) =
     [a div 4, (a mod 4) * 16 + b div 16, (b mod 16) * 4 + c div 64, c mod 64] @ b64_groups bs"
| "b64_groups [a, b] = [a div 4, (a mod 4) * 16 + b div 16, (b mod 16) * 4]"
| "b64_groups [a] = [a div 4, (a mod 4) * 16]"
| "b64_groups [] = []"

fun b64_bytes :: "nat list \<Rightarrow> nat list option" where
  "b64_bytes (p # q # r # s # ds) =
     map_option (\<lambda>bs. [p * 4 + q div 16, (q mod 16) * 16 + r div 4, (r mod 4) * 64 + s] @ bs) (b64_bytes ds)"
| "b64_bytes [p, q, r] = Some [p * 4 + q div 16, (q mod 16) * 16 + r div 4]"
| "b64_bytes [p, q] = Some [p * 4 + q div 16]"
| "b64_bytes [p] = None"
| "b64_bytes [] = Some []"

definition b64_encode :: "string \<Rightarrow> string" where
  "b64_encode s = map b64_digit (b64_groups (map of_char s))"

definition b64_decode :: "string \<Rightarrow> string option" where
  "b64_decode s =
     (let digits = map b64_value (filter (\<lambda>c. c \<noteq> CHR 0x0A \<and> c \<noteq> CHR 0x0D) s)
      in if None \<in> set digits then None
         else map_option (map char_of) (b64_bytes (map the digits)))"

lemma cut_append [simp]: "c \<notin> set a \<Longrightarrow> cut c (a @ c # b) = Some (a, b)"
  by (induction a) (auto simp: cut_def split: if_splits)

lemma SplitN_append [simp]:
  "c \<notin> set a \<Longrightarrow> SplitN (a @ c # b) c (Suc (Suc n)) = a # SplitN b c (Suc n)"
  by simp

lemma b64_value_digit: "n < 64 \<Longrightarrow> b64_value (b64_digit n) = Some n"
proof -
  have "\<forall>n \<in> set [0..<64]. b64_value (b64_digit n) = Some n" by code_simp
  then show "n < 64 \<Longrightarrow> b64_value (b64_digit n) = Some n" by simp
qed

lemma b64_alphabet_lines: "\<forall>n \<in> set [0..<64]. b64_digit n \<noteq> CHR 0x0A \<and> b64_digit n \<noteq> CHR 0x0D"
  by code_simp

lemma b64_digit_not_line: "b64_digit n \<noteq> CHR 0x0A \<and> b64_digit n \<noteq> CHR 0x0D"
proof -
  have "b64_digit n = b64_digit (n mod 64)" by (simp add: b64_digit_def)
  moreover have "n mod 64 \<in> set [0..<64]" by simp
  ultimately show ?thesis using b64_alphabet_lines by metis
qed

lemma b64_groups_less: "\<forall>b \<in> set bs. b < 256 \<Longrightarrow> \<forall>d \<in> set (b64_groups bs). d < 64"
proof (induction bs rule: b64_groups.induct)
  case (1 a b c bs)
  then have "a div 4 < 64" "b div 16 < 16" "c div 64 < 4" by (simp_all add: div_less_iff_less_mult)
  moreover then have "a mod 4 * 16 + b div 16 < 64" "b mod 16 * 4 + c div 64 < 64" by arith+
  ultimately show ?case using 1 by simp
next
  case (2 a b)
  then have "a div 4 < 64" "b div 16 < 16" by (simp_all add: div_less_iff_less_mult)
  moreover then have "a mod 4 * 16 + b div 16 < 64" "b mod 16 * 4 < 64" by arith+
  ultimately show ?case by simp
next
  case (3 a)
  then have "a div 4 < 64" "a mod 4 * 16 < 64" by (simp add: div_less_iff_less_mult, arith)
  then show ?case by simp
qed simp

lemma div_mod_split:
  fixes x y :: nat
  shows "y < m \<Longrightarrow> (x * m + y) div m = x" "y < m \<Longrightarrow> (x * m + y) mod m = y"
  by simp_all

lemma b64_bytes_groups: "\<forall>b \<in> set bs. b < 256 \<Longrightarrow> b64_bytes (b64_groups bs) = Some bs"
proof (induction bs rule: b64_groups.induct)
  case (1 a b c bs)
  then have "b div 16 < 16" "c div 64 < 4" by (simp_all add: div_less_iff_less_mult)
  then show ?case using 1 by (simp add: div_mod_split div_mod_split [of _ 16] mult.commute [of _ 4])
next
  case (2 a b)
  then have "b div 16 < 16" by (simp add: div_less_iff_less_mult)
  then show ?case by (simp add: div_mod_split)
qed simp_all

lemma b64_round_trip: "b64_decode (b64_encode s) = Some s"
proof -
  let ?bs = "map of_char s :: nat list"
  have less: "\<forall>b \<in> set ?bs. b < 256" by auto
  have "map b64_value (b64_encode s) = map Some (b64_groups ?bs)"
    unfolding b64_encode_def using b64_groups_less [OF less] by (simp add: b64_value_digit)
  moreover have "filter (\<lambda>c. c \<noteq> CHR 0x0A \<and> c \<noteq> CHR 0x0D) (b64_encode s) = b64_encode s"
    by (auto simp: b64_encode_def filter_id_conv b64_digit_not_line)
  moreover have "map the (map Some (b64_groups ?bs)) = b64_groups ?bs" by (simp add: comp_def)
  ultimately show ?thesis
    using b64_bytes_groups [OF less] by (simp add: b64_decode_def comp_def)
qed

section \<open>Runes\<close>

text \<open>
  \<open>[]rune(s)\<close>: the decoder of \<open>unicode/utf8\<close>, with its table of first bytes; a byte that starts no
  valid encoding becomes the replacement character.
\<close>

definition RuneError :: nat where
  "RuneError = 0xFFFD"

definition first_byte :: "nat \<Rightarrow> (nat \<times> nat \<times> nat) option" where
  "first_byte b =
     (if b < 0x80 then Some (1, 0, 0)
      else if 0xC2 \<le> b \<and> b \<le> 0xDF then Some (2, 0x80, 0xBF)
      else if b = 0xE0 then Some (3, 0xA0, 0xBF)
      else if b = 0xED then Some (3, 0x80, 0x9F)
      else if 0xE1 \<le> b \<and> b \<le> 0xEF then Some (3, 0x80, 0xBF)
      else if b = 0xF0 then Some (4, 0x90, 0xBF)
      else if b = 0xF4 then Some (4, 0x80, 0x8F)
      else if 0xF1 \<le> b \<and> b \<le> 0xF3 then Some (4, 0x80, 0xBF)
      else None)"

definition continuation :: "nat \<Rightarrow> bool" where
  "continuation b \<longleftrightarrow> 0x80 \<le> b \<and> b \<le> 0xBF"

definition decode_rune :: "nat \<Rightarrow> nat list \<Rightarrow> nat \<times> nat" where
  "decode_rune b bs =
     (case first_byte b of
        None \<Rightarrow> (RuneError, 1)
      | Some (n, lo, hi) \<Rightarrow>
          if n = 1 then (b, 1)
          else if length bs + 1 < n then (RuneError, 1)
          else if \<not> (lo \<le> bs ! 0 \<and> bs ! 0 \<le> hi) then (RuneError, 1)
          else if n = 2 then (b mod 0x20 * 0x40 + bs ! 0 mod 0x40, 2)
          else if \<not> continuation (bs ! 1) then (RuneError, 1)
          else if n = 3 then (b mod 0x10 * 0x1000 + bs ! 0 mod 0x40 * 0x40 + bs ! 1 mod 0x40, 3)
          else if \<not> continuation (bs ! 2) then (RuneError, 1)
          else (b mod 0x08 * 0x40000 + bs ! 0 mod 0x40 * 0x1000 + bs ! 1 mod 0x40 * 0x40 + bs ! 2 mod 0x40, 4))"

fun rune_list :: "nat list \<Rightarrow> nat list" where
  "rune_list [] = []"
| "rune_list (b # bs) = fst (decode_rune b bs) # rune_list (drop (snd (decode_rune b bs) - 1) bs)"

definition runes :: "string \<Rightarrow> nat list" where
  "runes s = rune_list (map of_char s)"

section \<open>Patterns\<close>

abbreviation "star_rune \<equiv> (42 :: nat)"
abbreviation "any_rune \<equiv> (63 :: nat)"

text \<open>
  \<open>glob_loop\<close> is the loop of \<open>glob\<close>, with \<open>None\<close> for the index -1 of a star that was not met yet;
  \<open>glob_end\<close> is what follows the loop.
\<close>

fun skip_stars :: "nat list \<Rightarrow> nat \<Rightarrow> nat" where
  "skip_stars p patternIndex = patternIndex + length (takeWhile (\<lambda>c. c = star_rune) (drop patternIndex p))"

definition glob_end :: "nat list \<Rightarrow> nat \<Rightarrow> bool" where
  "glob_end p patternIndex \<longleftrightarrow> skip_stars p patternIndex = length p"

partial_function (option) glob_loop ::
  "nat list \<Rightarrow> nat list \<Rightarrow> nat \<Rightarrow> nat \<Rightarrow> nat option \<Rightarrow> nat \<Rightarrow> bool option" where
  [code]: "glob_loop p v patternIndex valueIndex starIndex starValueIndex =
     (if valueIndex < length v then
        if patternIndex < length p \<and> (p ! patternIndex = any_rune \<or> p ! patternIndex = v ! valueIndex)
        then glob_loop p v (patternIndex + 1) (valueIndex + 1) starIndex starValueIndex
        else if patternIndex < length p \<and> p ! patternIndex = star_rune
        then glob_loop p v (patternIndex + 1) valueIndex (Some patternIndex) valueIndex
        else
        (case starIndex of
           Some star \<Rightarrow> glob_loop p v (star + 1) (starValueIndex + 1) starIndex (starValueIndex + 1)
         | None \<Rightarrow> Some False)
      else Some (glob_end p patternIndex))"

definition glob :: "string \<Rightarrow> string \<Rightarrow> bool" where
  "glob pattern v = (glob_loop (runes pattern) (runes v) 0 0 None 0 = Some True)"

text \<open>What a pattern means: a star is any sequence, a question mark any rune.\<close>

fun matches :: "nat list \<Rightarrow> nat list \<Rightarrow> bool" where
  "matches [] v \<longleftrightarrow> v = []"
| "matches (c # cs) v \<longleftrightarrow>
     (if c = star_rune then \<exists>k \<in> set [0..<Suc (length v)]. matches cs (drop k v)
      else v \<noteq> [] \<and> (c = any_rune \<or> c = hd v) \<and> matches cs (tl v))"

definition exactOptional :: "string \<Rightarrow> string \<Rightarrow> bool" where
  "exactOptional pattern v \<longleftrightarrow> pattern = [] \<or> pattern = v"

text \<open>The loop computes \<open>open_match\<close> while \<open>loop_inv\<close> holds.\<close>

definition open_match :: "nat list \<Rightarrow> nat list \<Rightarrow> nat \<Rightarrow> nat \<Rightarrow> nat option \<Rightarrow> nat \<Rightarrow> bool" where
  "open_match p v i j star s \<longleftrightarrow> matches (drop i p) (drop j v) \<or>
     (case star of None \<Rightarrow> False | Some t \<Rightarrow> \<exists>k. s < k \<and> k \<le> length v \<and> matches (drop (t + 1) p) (drop k v))"

definition loop_inv :: "nat list \<Rightarrow> nat list \<Rightarrow> nat \<Rightarrow> nat \<Rightarrow> nat option \<Rightarrow> nat \<Rightarrow> bool" where
  "loop_inv p v i j star s \<longleftrightarrow> i \<le> length p \<and> j \<le> length v \<and>
     (case star of None \<Rightarrow> True
      | Some t \<Rightarrow> t < i \<and> s + (i - Suc t) = j \<and> (\<forall>n. t < n \<longrightarrow> n < i \<longrightarrow> p ! n \<noteq> star_rune))"

lemma matches_star:
  "matches (star_rune # cs) v \<longleftrightarrow> (\<exists>k. k \<le> length v \<and> matches cs (drop k v))"
  by (simp del: upt_Suc add: atLeast0LessThan lessThan_Suc_atMost Bex_def)

lemma matches_segment:
  "matches (drop a p) w \<Longrightarrow> a \<le> i \<Longrightarrow> i \<le> length p \<Longrightarrow> (\<forall>n. a \<le> n \<longrightarrow> n < i \<longrightarrow> p ! n \<noteq> star_rune) \<Longrightarrow>
   i - a \<le> length w \<and> matches (drop i p) (drop (i - a) w)"
proof (induction "i - a" arbitrary: a w)
  case 0
  then show ?case by simp
next
  case (Suc n)
  then have "a < length p" "p ! a \<noteq> star_rune" by auto
  then have "drop a p = p ! a # drop (Suc a) p" by (simp add: Cons_nth_drop_Suc)
  with Suc.prems(1) \<open>p ! a \<noteq> star_rune\<close> have w: "w \<noteq> []" "matches (drop (Suc a) p) (tl w)" by auto
  have "i - Suc a \<le> length (tl w) \<and> matches (drop i p) (drop (i - Suc a) (tl w))"
    by (rule Suc.hyps(1) [OF _ w(2)]) (use Suc.hyps(2) Suc.prems in auto)
  moreover have "i - a = Suc (i - Suc a)" using Suc.hyps(2) by simp
  ultimately show ?case using w(1) by (cases w) auto
qed

lemma star_takes_over:
  assumes inv: "loop_inv p v i j (Some t) s" and i: "i < length p" "p ! i = star_rune"
    and k: "s < k" "k \<le> length v" "matches (drop (t + 1) p) (drop k v)"
  shows "matches (drop i p) (drop j v)"
proof -
  have t: "t < i" "s + (i - Suc t) = j" "\<forall>n. t < n \<longrightarrow> n < i \<longrightarrow> p ! n \<noteq> star_rune"
    using inv by (auto simp: loop_inv_def)
  have seg: "i - Suc t \<le> length (drop k v) \<and> matches (drop i p) (drop (i - Suc t) (drop k v))"
    by (rule matches_segment) (use t k(3) i(1) in auto)
  have split: "drop i p = star_rune # drop (Suc i) p" using i by (simp add: Cons_nth_drop_Suc [symmetric])
  from seg obtain m where m: "m \<le> length (drop (i - Suc t) (drop k v))"
    "matches (drop (Suc i) p) (drop m (drop (i - Suc t) (drop k v)))" "i - Suc t \<le> length (drop k v)"
    unfolding split matches_star by blast
  let ?n = "m + (i - Suc t) + k - j"
  have "j + ?n = m + (i - Suc t) + k" "?n \<le> length (drop j v)" using m(1,3) k t(2) by auto
  then have "drop ?n (drop j v) = drop m (drop (i - Suc t) (drop k v))" by (simp add: add.commute add.left_commute)
  then show ?thesis unfolding split matches_star using m(2) \<open>?n \<le> length (drop j v)\<close> by metis
qed


lemma matches_all_stars: "matches cs [] \<longleftrightarrow> takeWhile (\<lambda>c. c = star_rune) cs = cs"
  by (induction cs) auto

lemma glob_end_matches: "i \<le> length p \<Longrightarrow> glob_end p i \<longleftrightarrow> matches (drop i p) []"
proof -
  assume i: "i \<le> length p"
  let ?t = "takeWhile (\<lambda>c. c = star_rune) (drop i p)"
  have "?t = drop i p \<longleftrightarrow> length ?t = length (drop i p)"
    by (metis takeWhile_eq_take take_all_iff order_refl)
  then show ?thesis using i by (auto simp: glob_end_def matches_all_stars)
qed

lemma loop_star:
  assumes "loop_inv p v i j star s" "i < length p" "p ! i = star_rune"
  shows "open_match p v i j star s = open_match p v (i + 1) j (Some i) j" "loop_inv p v (i + 1) j (Some i) j"
proof -
  have split: "drop i p = star_rune # drop (Suc i) p" using assms(2,3) by (simp add: Cons_nth_drop_Suc [symmetric])
  have j: "j \<le> length v" using assms(1) by (simp add: loop_inv_def)
  have "open_match p v i j star s = matches (drop i p) (drop j v)"
    using star_takes_over [OF _ assms(2,3)] assms(1) by (auto simp: open_match_def split: option.split)
  also have "\<dots> = (\<exists>k. k \<le> length v - j \<and> matches (drop (Suc i) p) (drop (k + j) v))"
    unfolding split matches_star by simp
  also have "\<dots> = (\<exists>k. j \<le> k \<and> k \<le> length v \<and> matches (drop (Suc i) p) (drop k v))"
    using j by (metis add.commute le_add2 le_diff_conv2 add_diff_cancel_right' le_add_diff_inverse2)
  also have "\<dots> = open_match p v (i + 1) j (Some i) j"
    using j by (auto simp: open_match_def le_eq_less_or_eq)
  finally show "open_match p v i j star s = open_match p v (i + 1) j (Some i) j" .
  show "loop_inv p v (i + 1) j (Some i) j" using assms(2) j by (auto simp: loop_inv_def)
qed

lemma loop_rune:
  assumes "loop_inv p v i j star s" "j < length v" "i < length p"
    and "p ! i = any_rune \<or> p ! i = v ! j" "v ! j \<noteq> star_rune"
  shows "open_match p v i j star s = open_match p v (i + 1) (j + 1) star s" "loop_inv p v (i + 1) (j + 1) star s"
proof -
  have "drop i p = p ! i # drop (Suc i) p" "drop j v = v ! j # drop (Suc j) v"
    using assms(2,3) by (simp_all add: Cons_nth_drop_Suc)
  moreover have "p ! i \<noteq> star_rune" using assms(4,5) by auto
  ultimately show "open_match p v i j star s = open_match p v (i + 1) (j + 1) star s"
    using assms(4) by (auto simp: open_match_def)
  show "loop_inv p v (i + 1) (j + 1) star s"
    using assms \<open>p ! i \<noteq> star_rune\<close> by (auto simp: loop_inv_def less_Suc_eq split: option.splits)
qed

lemma loop_stuck:
  assumes "j < length v" "\<not> (i < length p \<and> (p ! i = any_rune \<or> p ! i = v ! j))" "\<not> (i < length p \<and> p ! i = star_rune)"
  shows "\<not> matches (drop i p) (drop j v)"
proof (cases "i < length p")
  case True
  then have "drop i p = p ! i # drop (Suc i) p" "drop j v = v ! j # drop (Suc j) v"
    using assms(1) by (simp_all add: Cons_nth_drop_Suc)
  with True assms(2,3) show ?thesis by auto
next
  case False
  then show ?thesis using assms(1) by simp
qed

lemma loop_exhausted:
  assumes "loop_inv p v i (length v) (Some t) s" "s < k" "k \<le> length v"
  shows "\<not> matches (drop (t + 1) p) (drop k v)"
proof
  assume m: "matches (drop (t + 1) p) (drop k v)"
  have "t < i" "s + (i - Suc t) = length v" "i \<le> length p" "\<forall>n. t < n \<longrightarrow> n < i \<longrightarrow> p ! n \<noteq> star_rune"
    using assms(1) by (auto simp: loop_inv_def)
  with matches_segment [OF m, of i] assms(2,3) show False by auto
qed

lemma loop_retry:
  assumes "loop_inv p v i j (Some t) s" "j < length v" "\<not> (i < length p \<and> (p ! i = any_rune \<or> p ! i = v ! j))"
    and "\<not> (i < length p \<and> p ! i = star_rune)"
  shows "open_match p v i j (Some t) s = open_match p v (t + 1) (s + 1) (Some t) (s + 1)"
    "loop_inv p v (t + 1) (s + 1) (Some t) (s + 1)"
proof -
  have t: "t < i" "s \<le> j" "i \<le> length p" using assms(1) by (auto simp: loop_inv_def)
  have "\<not> matches (drop i p) (drop j v)" using loop_stuck [OF assms(2-4)] .
  moreover have "(\<exists>k>s. k \<le> length v \<and> Q k) \<longleftrightarrow> Q (s + 1) \<or> (\<exists>k>s + 1. k \<le> length v \<and> Q k)" for Q
    using assms(2) t(2) by (metis Suc_eq_plus1 Suc_leI Suc_lessI less_Suc_eq le_less_trans lessI order_less_trans)
  ultimately show "open_match p v i j (Some t) s = open_match p v (t + 1) (s + 1) (Some t) (s + 1)"
    by (auto simp: open_match_def)
  show "loop_inv p v (t + 1) (s + 1) (Some t) (s + 1)" using assms(2) t by (auto simp: loop_inv_def)
qed

lemma glob_loop_matches:
  assumes "star_rune \<notin> set v"
  shows "loop_inv p v i j star s \<Longrightarrow> glob_loop p v i j star s = Some (open_match p v i j star s)"
proof (induction "(i, j, star, s)" arbitrary: i j star s
    rule: wf_induct [OF wf_measures [of "[\<lambda>(i, j, star, s). case star of None \<Rightarrow> Suc (length p) | Some t \<Rightarrow> length p - t,
      \<lambda>(i, j, star, s). length v - s, \<lambda>(i, j, star, s). length v - j]"]])
  case 1
  note inv = 1(2) and IH = 1(1) [rule_format, OF _ refl]
  consider "\<not> j < length v" | "j < length v" "i < length p" "p ! i = any_rune \<or> p ! i = v ! j"
    | "j < length v" "i < length p" "\<not> (p ! i = any_rune \<or> p ! i = v ! j)" "p ! i = star_rune"
    | "j < length v" "\<not> (i < length p \<and> (p ! i = any_rune \<or> p ! i = v ! j))" "\<not> (i < length p \<and> p ! i = star_rune)"
    by blast
  then show ?case
  proof cases
    case 1
    then have j: "j = length v" using inv by (simp add: loop_inv_def)
    have i: "i \<le> length p" using inv by (simp add: loop_inv_def)
    have "open_match p v i j star s = glob_end p i"
    proof (cases star)
      case None
      then show ?thesis using glob_end_matches [OF i] j by (simp add: open_match_def)
    next
      case (Some t)
      then show ?thesis using glob_end_matches [OF i] loop_exhausted [of p v i t s] inv j
        by (auto simp: open_match_def)
    qed
    then show ?thesis using 1 by (subst glob_loop.simps) simp
  next
    case 2
    have "v ! j \<noteq> star_rune" using assms 2(1) nth_mem by metis
    note rune = loop_rune [OF inv 2 this]
    have "glob_loop p v (i + 1) (j + 1) star s = Some (open_match p v (i + 1) (j + 1) star s)"
      by (rule IH [OF _ rune(2)]) (use 2(1) in auto)
    then show ?thesis using 2 rune(1) by (subst glob_loop.simps) simp
  next
    case 3
    note st = loop_star [OF inv 3(2,4)]
    have "glob_loop p v (i + 1) j (Some i) j = Some (open_match p v (i + 1) j (Some i) j)"
      by (rule IH [OF _ st(2)]) (use 3(2) inv in \<open>auto simp: loop_inv_def split: option.split\<close>)
    then show ?thesis using 3 st(1) by (subst glob_loop.simps) simp
  next
    case 4
    show ?thesis
    proof (cases star)
      case None
      show ?thesis
        by (subst glob_loop.simps)
           (simp only: 4(1) if_True if_not_P [OF 4(2)] if_not_P [OF 4(3)] None option.case open_match_def
              loop_stuck [OF 4] simp_thms)
    next
      case (Some t)
      note re = loop_retry [OF inv [unfolded Some] 4]
      have "glob_loop p v (t + 1) (s + 1) (Some t) (s + 1) = Some (open_match p v (t + 1) (s + 1) (Some t) (s + 1))"
        by (rule IH [OF _ re(2)]) (use 4(1) inv Some in \<open>auto simp: loop_inv_def\<close>)
      then show ?thesis
        by (subst glob_loop.simps)
           (simp only: 4(1) if_True if_not_P [OF 4(2)] if_not_P [OF 4(3)] Some option.case re(1))
    qed
  qed
qed


lemma glob_matches: "star_rune \<notin> set (runes v) \<Longrightarrow> glob pattern v = matches (runes pattern) (runes v)"
  using glob_loop_matches [of "runes v" "runes pattern" 0 0 None 0]
  by (simp add: glob_def loop_inv_def open_match_def)

text \<open>
  C21: the matcher of trusted refs terminates, and on values without a star it decides the meaning of
  its pattern: the loop with its two saved indexes returns exactly whether the pattern, with a star
  for any sequence and a question mark for any rune, matches the value.
\<close>

theorem glob_decides_pattern:
  assumes "star_rune \<notin> set (runes v)"
  shows "glob_loop (runes pattern) (runes v) 0 0 None 0 = Some (matches (runes pattern) (runes v)) \<and>
    glob pattern v = matches (runes pattern) (runes v)"
  using glob_matches [OF assms] glob_loop_matches [OF assms, of "runes pattern" 0 0 None 0]
  by (simp add: loop_inv_def open_match_def)

theorem glob_decides_pattern_witness:
  "glob ''refs/heads/*'' ''refs/heads/main'' \<and> \<not> glob ''refs/tags/v?'' ''refs/tags/v10''"
proof -
  have "star_rune \<notin> set (runes ''refs/heads/main'')" "star_rune \<notin> set (runes ''refs/tags/v10'')"
    "matches (runes ''refs/heads/*'') (runes ''refs/heads/main'')"
    "\<not> matches (runes ''refs/tags/v?'') (runes ''refs/tags/v10'')" by code_simp+
  then show ?thesis using glob_decides_pattern by simp
qed

text \<open>
  C24: a star of the pattern that meets a star of the value is taken for that one rune, because the
  comparison of the runes comes before the test for a star: the pattern of a single star refuses
  values that begin with a star and go on.
\<close>

theorem glob_star_meets_star: "\<not> glob ''*'' (CHR ''*'' # c # v)"
proof -
  have "decode_rune star_rune bs = (star_rune, 1)" for bs by (simp add: decode_rune_def first_byte_def)
  then have "runes (CHR ''*'' # c # v) = star_rune # rune_list (of_char c # map of_char v)"
    by (simp add: runes_def)
  then obtain r rs where v: "runes (CHR ''*'' # c # v) = star_rune # r # rs" by simp
  have p: "runes ''*'' = [star_rune]" by code_simp
  have "glob_loop [star_rune] (star_rune # r # rs) 1 1 None 0 = Some False"
    by (subst glob_loop.simps) simp
  then have "glob_loop [star_rune] (star_rune # r # rs) 0 0 None 0 = Some False"
    by (subst glob_loop.simps) simp
  then show ?thesis by (simp only: glob_def p v) simp
qed

end
