(* ===== verification/Control_Auth.thy ===== *)
theory Control_Auth
  imports Control_Model Texts
begin

text \<open>
  Users, identities, sessions and tokens: the part of \<open>internal/control/sqlite/store.go\<close> from
  \<open>Bootstrap\<close> to \<open>CreateProjectSession\<close>, except the operations on projects. \<open>mac\<close> is HMAC-SHA256
  under the pepper of the store, as a function on texts; the theorems hold for every such function.
  The comparisons in constant time are equality. The schema's keys and references are part of the
  statements that insert rows.
\<close>

section \<open>Structs\<close>

record user =
  user_id :: string
  user_name :: string
  user_admin :: bool
  user_created_at :: time

record external_identity =
  ei_provider :: string
  ei_subject :: string
  ei_login :: string
  ei_user_id :: string
  ei_created_at :: time
  ei_last_authenticated_at :: "time option"

record oauth_login_state =
  ols_state :: string
  ols_return_to :: string
  ols_code_verifier :: string
  ols_created_at :: time
  ols_expires_at :: time

record browser_session =
  bs_token :: string
  bs_user_id :: string
  bs_expires_at :: time

record device_login =
  dl_id :: string
  dl_user_code :: string
  dl_device_name :: string
  dl_created_at :: time
  dl_expires_at :: time
  dl_approved_at :: "time option"
  dl_consumed_at :: "time option"

record issued_device_login =
  idl_login :: device_login
  idl_device_code :: string

record device_token =
  dt_id :: string
  dt_name :: string
  dt_user_id :: string
  dt_created_at :: time
  dt_expires_at :: "time option"
  dt_last_used_at :: "time option"
  dt_revoked_at :: "time option"

record create_device_token =
  cdt_user_id :: string
  cdt_name :: string
  cdt_expires_at :: time

record issued_device_token =
  idt_metadata :: device_token
  idt_secret :: string

record enrollment_code =
  ec_id :: string
  ec_user_id :: string
  ec_device_name :: string
  ec_created_at :: time
  ec_expires_at :: time
  ec_consumed_at :: "time option"
  ec_failed_attempts :: int
  ec_max_attempts :: int

record issued_enrollment_code =
  iec_metadata :: enrollment_code
  iec_secret :: string

record issued_access_token =
  iat_token :: string
  iat_expires_at :: time

section \<open>Statements\<close>

text \<open>\<open>mask\<close>: a caller that answers every error of a call with one of its own; \<open>attempt\<close>: one that ignores it.\<close>

definition mask :: "err \<Rightarrow> (err + 'a) \<times> 'w \<Rightarrow> (err + 'a) \<times> 'w" where
  "mask e r = (case r of (Inl _, w) \<Rightarrow> (Inl e, w) | (Inr x, w) \<Rightarrow> (Inr x, w))"

definition attempt :: "(err + 'a) \<times> 'w \<Rightarrow> (err + unit) \<times> 'w" where
  "attempt r = (Inr (), snd r)"

definition insert_user :: "user_row \<Rightarrow> database \<Rightarrow> err + (nat \<times> database)" where
  "insert_user r d =
     (if u_id r \<in> set (map u_id (users d)) then Inl (ErrUnique ''users.id'')
      else Inr (1, d\<lparr>users := users d @ [r]\<rparr>))"

definition insert_identity :: "identity_row \<Rightarrow> database \<Rightarrow> err + (nat \<times> database)" where
  "insert_identity r d =
     (if \<exists>s \<in> set (identities d). i_provider s = i_provider r \<and> i_subject s = i_subject r
      then Inl (ErrUnique ''external_identities.provider, external_identities.subject'')
      else if \<exists>s \<in> set (identities d). i_provider s = i_provider r \<and> i_user_id s = i_user_id r
      then Inl (ErrUnique ''external_identities.provider, external_identities.user_id'')
      else if i_user_id r \<notin> set (map u_id (users d)) then Inl (ErrForeignKey ''external_identities.user_id'')
      else Inr (1, d\<lparr>identities := identities d @ [r]\<rparr>))"

definition insert_token :: "token_row \<Rightarrow> database \<Rightarrow> err + (nat \<times> database)" where
  "insert_token r d =
     (if t_id r \<in> set (map t_id (tokens d)) then Inl (ErrUnique ''access_tokens.id'')
      else if t_user_id r \<notin> insert None (Some ` set (map u_id (users d))) then Inl (ErrForeignKey ''access_tokens.user_id'')
      else if t_project_id r \<notin> insert None (Some ` set (map pr_id (projects d))) then Inl (ErrForeignKey ''access_tokens.project_id'')
      else Inr (1, d\<lparr>tokens := tokens d @ [r]\<rparr>))"

definition update_tokens :: "(token_row \<Rightarrow> bool) \<Rightarrow> (token_row \<Rightarrow> token_row) \<Rightarrow> database \<Rightarrow> err + (nat \<times> database)" where
  "update_tokens P f d = Inr (count_rows P (tokens d), d\<lparr>tokens := update_rows P f (tokens d)\<rparr>)"

definition insert_enrollment :: "enrollment_row \<Rightarrow> database \<Rightarrow> err + (nat \<times> database)" where
  "insert_enrollment r d =
     (if e_id r \<in> set (map e_id (enrollments d)) then Inl (ErrUnique ''enrollment_codes.id'')
      else if e_user_id r \<notin> set (map u_id (users d)) then Inl (ErrForeignKey ''enrollment_codes.user_id'')
      else Inr (1, d\<lparr>enrollments := enrollments d @ [r]\<rparr>))"

definition update_enrollments ::
  "(enrollment_row \<Rightarrow> bool) \<Rightarrow> (enrollment_row \<Rightarrow> enrollment_row) \<Rightarrow> database \<Rightarrow> err + (nat \<times> database)" where
  "update_enrollments P f d = Inr (count_rows P (enrollments d), d\<lparr>enrollments := update_rows P f (enrollments d)\<rparr>)"

definition insert_oauth :: "oauth_row \<Rightarrow> database \<Rightarrow> err + (nat \<times> database)" where
  "insert_oauth r d =
     (if o_id r \<in> set (map o_id (oauth_states d)) then Inl (ErrUnique ''oauth_login_states.id'')
      else Inr (1, d\<lparr>oauth_states := oauth_states d @ [r]\<rparr>))"

definition update_oauth :: "(oauth_row \<Rightarrow> bool) \<Rightarrow> (oauth_row \<Rightarrow> oauth_row) \<Rightarrow> database \<Rightarrow> err + (nat \<times> database)" where
  "update_oauth P f d = Inr (count_rows P (oauth_states d), d\<lparr>oauth_states := update_rows P f (oauth_states d)\<rparr>)"

definition delete_oauth :: "(oauth_row \<Rightarrow> bool) \<Rightarrow> database \<Rightarrow> err + (nat \<times> database)" where
  "delete_oauth P d = Inr (count_rows P (oauth_states d), d\<lparr>oauth_states := filter (\<lambda>r. \<not> P r) (oauth_states d)\<rparr>)"

definition insert_device_login :: "device_login_row \<Rightarrow> database \<Rightarrow> err + (nat \<times> database)" where
  "insert_device_login r d =
     (if d_id r \<in> set (map d_id (device_logins d)) then Inl (ErrUnique ''device_logins.id'')
      else if d_user_code r \<in> set (map d_user_code (device_logins d)) then Inl (ErrUnique ''device_logins.user_code'')
      else Inr (1, d\<lparr>device_logins := device_logins d @ [r]\<rparr>))"

text \<open>The update checks the reference to the user where a row gets one.\<close>

definition update_device_logins ::
  "(device_login_row \<Rightarrow> bool) \<Rightarrow> (device_login_row \<Rightarrow> device_login_row) \<Rightarrow> database \<Rightarrow> err + (nat \<times> database)" where
  "update_device_logins P f d =
     (if \<exists>r \<in> set (device_logins d). P r \<and> d_user_id (f r) \<noteq> d_user_id r \<and>
           d_user_id (f r) \<notin> insert None (Some ` set (map u_id (users d)))
      then Inl (ErrForeignKey ''device_logins.user_id'')
      else Inr (count_rows P (device_logins d), d\<lparr>device_logins := update_rows P f (device_logins d)\<rparr>))"

definition delete_device_logins :: "(device_login_row \<Rightarrow> bool) \<Rightarrow> database \<Rightarrow> err + (nat \<times> database)" where
  "delete_device_logins P d =
     Inr (count_rows P (device_logins d), d\<lparr>device_logins := filter (\<lambda>r. \<not> P r) (device_logins d)\<rparr>)"

definition delete_identities :: "(identity_row \<Rightarrow> bool) \<Rightarrow> database \<Rightarrow> err + (nat \<times> database)" where
  "delete_identities P d =
     Inr (count_rows P (identities d), d\<lparr>identities := filter (\<lambda>r. \<not> P r) (identities d)\<rparr>)"

definition update_identities ::
  "(identity_row \<Rightarrow> bool) \<Rightarrow> (identity_row \<Rightarrow> identity_row) \<Rightarrow> database \<Rightarrow> err + (nat \<times> database)" where
  "update_identities P f d = Inr (count_rows P (identities d), d\<lparr>identities := update_rows P f (identities d)\<rparr>)"

definition nullable :: "string \<Rightarrow> string option" where
  "nullable v = (if v = [] then None else Some v)"

text \<open>\<open>COALESCE(column,'')\<close>.\<close>

definition coalesce :: "string option \<Rightarrow> string" where
  "coalesce v = (case v of None \<Rightarrow> [] | Some s \<Rightarrow> s)"

definition is_unique_error :: "err \<Rightarrow> bool" where
  "is_unique_error e = (case e of ErrUnique _ \<Rightarrow> True | _ \<Rightarrow> False)"

text \<open>The callers that test for the word UNIQUE in the text of an error answer with \<open>ErrAlreadyExists\<close>.\<close>

definition mask_unique :: "(err + 'a) \<times> 'w \<Rightarrow> (err + 'a) \<times> 'w" where
  "mask_unique r = (case r of (Inl e, w) \<Rightarrow> (Inl (if is_unique_error e then ErrAlreadyExists else e), w) | (Inr x, w) \<Rightarrow> (Inr x, w))"

section \<open>Tokens\<close>

definition digest :: "(string \<Rightarrow> string) \<Rightarrow> string \<Rightarrow> string" where
  "digest mac token = hex_encode (mac token)"

definition newOpaque :: "(string \<Rightarrow> string) \<Rightarrow> string \<Rightarrow> string \<Rightarrow> cworld \<Rightarrow> (string \<times> string \<times> string) cres" where
  "newOpaque mac prefix kind w =
     bindR (randomID prefix w) (\<lambda>i w.
     bindR (rand_read 32 w) (\<lambda>secretBytes w.
     let secret = ''autback_'' @ kind @ ''_'' @ i @ ''_'' @ b64_encode secretBytes
     in (Inr (i, secret, digest mac secret), w)))"

text \<open>\<open>newToken\<close> draws its identifiers with the prefix tok, \<open>newOpaque\<close> with its kind.\<close>

definition newToken :: "(string \<Rightarrow> string) \<Rightarrow> string \<Rightarrow> cworld \<Rightarrow> (string \<times> string \<times> string) cres" where
  "newToken mac kind w = newOpaque mac ''tok'' kind w"

definition parseOpaque :: "string \<Rightarrow> string \<Rightarrow> string option" where
  "parseOpaque v kind =
     (case SplitN v CHR ''_'' 4 of
        [a, b, c, d] \<Rightarrow> if a = ''autback'' \<and> b = kind \<and> c \<noteq> [] \<and> d \<noteq> [] then Some c else None
      | _ \<Rightarrow> None)"

definition parseToken :: "string \<Rightarrow> (principal_kind \<times> string) option" where
  "parseToken token =
     (case SplitN token CHR ''_'' 4 of
        [a, b, c, d] \<Rightarrow>
          if a \<noteq> ''autback'' \<or> c = [] \<or> d = [] then None
          else if b = ''dt'' then Some (PrincipalDevice, c)
          else if b = ''gh'' then Some (PrincipalGitHub, c)
          else if b = ''ws'' then Some (PrincipalBrowser, c)
          else None
      | _ \<Rightarrow> None)"

definition user_code_alphabet :: string where
  "user_code_alphabet = ''ABCDEFGHJKLMNPQRSTUVWXYZ23456789''"

definition randomUserCode :: "cworld \<Rightarrow> string cres" where
  "randomUserCode w =
     bindR (rand_read 8 w) (\<lambda>v w.
     let code = map (\<lambda>c. user_code_alphabet ! (of_char c mod length user_code_alphabet)) v
     in (Inr (take 4 code @ ''-'' @ drop 4 code), w))"

definition new_token_row ::
  "string \<Rightarrow> principal_kind \<Rightarrow> string option \<Rightarrow> string option \<Rightarrow> string \<Rightarrow> string \<Rightarrow> string \<Rightarrow> int \<Rightarrow> int option \<Rightarrow> token_row" where
  "new_token_row i kind user project name subject dig created expires =
     \<lparr>t_id = i, t_kind = kind, t_user_id = user, t_project_id = project, t_name = name, t_subject = subject,
      t_digest = dig, t_created_at = created, t_expires_at = expires, t_last_used_at = None, t_revoked_at = None\<rparr>"

definition token_live :: "time \<Rightarrow> principal_kind \<Rightarrow> token_row \<Rightarrow> bool" where
  "token_live t kind r \<longleftrightarrow> t_kind r = kind \<and> t_revoked_at r = None \<and>
     (case t_expires_at r of None \<Rightarrow> True | Some e \<Rightarrow> \<not> t > fromUnix e)"

definition Authenticate :: "(string \<Rightarrow> string) \<Rightarrow> string \<Rightarrow> cworld \<Rightarrow> principal cres" where
  "Authenticate mac token w =
     (case parseToken token of
        None \<Rightarrow> (Inl ErrUnauthenticated, w)
      | Some (kind, i) \<Rightarrow>
          bindR (mask ErrUnauthenticated (query (\<lambda>d. find (\<lambda>r. t_id r = i) (tokens d)) w)) (\<lambda>row w.
          case row of
            None \<Rightarrow> (Inl ErrUnauthenticated, w)
          | Some r \<Rightarrow>
              if \<not> token_live (now w) kind r then (Inl ErrUnauthenticated, w)
              else if digest mac token \<noteq> t_digest r then (Inl ErrUnauthenticated, w)
              else
              let actor = \<lparr>p_kind = kind, p_token_id = i, p_user_id = coalesce (t_user_id r),
                    p_project_id = coalesce (t_project_id r), p_admin = False, p_subject = t_subject r\<rparr>;
                  finish = (\<lambda>actor w.
                    bindR (attempt (exec (update_tokens (\<lambda>r. t_id r = i)
                      (\<lambda>r. r\<lparr>t_last_used_at := Some (unix (now w))\<rparr>)) w)) (\<lambda>_ w.
                    (Inr actor, w)))
              in if p_user_id actor \<noteq> [] then
                   bindR (mask ErrUnauthenticated (query (\<lambda>d. find (\<lambda>u. u_id u = p_user_id actor) (users d)) w)) (\<lambda>row w.
                   case row of
                     None \<Rightarrow> (Inl ErrUnauthenticated, w)
                   | Some u \<Rightarrow> finish (actor\<lparr>p_admin := u_admin u\<rparr>) w)
                 else finish actor w))"

section \<open>Users and identities\<close>

definition CreateUser :: "principal \<Rightarrow> string \<Rightarrow> bool \<Rightarrow> cworld \<Rightarrow> user cres" where
  "CreateUser actor name admin w =
     (if \<not> p_admin actor then (Inl ErrForbidden, w)
      else if TrimSpace name = [] then (Inl (ErrText ''user name is required''), w)
      else
      bindR (randomID ''usr'' w) (\<lambda>i w.
      bindR (exec (insert_user \<lparr>u_id = i, u_name = name, u_admin = admin, u_created_at = unix (now w)\<rparr>) w) (\<lambda>_ w.
      (Inr \<lparr>user_id = i, user_name = name, user_admin = admin, user_created_at = now w\<rparr>, w))))"

definition device_admin :: "principal \<Rightarrow> bool" where
  "device_admin actor \<longleftrightarrow> p_kind actor = PrincipalDevice \<and> p_admin actor"

text \<open>\<open>SELECT 1 FROM users WHERE id=?\<close>: every failure is \<open>ErrNotFound\<close>.\<close>

definition require_user :: "string \<Rightarrow> cworld \<Rightarrow> unit cres" where
  "require_user i w =
     bindR (mask ErrNotFound (query (\<lambda>d. i \<in> set (map u_id (users d))) w)) (\<lambda>found w.
     if found then (Inr (), w) else (Inl ErrNotFound, w))"

definition BindExternalIdentity :: "principal \<Rightarrow> string \<Rightarrow> external_identity \<Rightarrow> cworld \<Rightarrow> external_identity cres" where
  "BindExternalIdentity actor uid identity w =
     (if \<not> device_admin actor then (Inl ErrForbidden, w)
      else
      let identity = identity\<lparr>ei_provider := ToLower (TrimSpace (ei_provider identity)),
            ei_subject := TrimSpace (ei_subject identity), ei_login := TrimSpace (ei_login identity)\<rparr>
      in if ei_provider identity = [] \<or> ei_subject identity = [] \<or> ei_login identity = [] \<or> uid = []
         then (Inl (ErrText ''identity provider, subject, login, and user are required''), w)
         else
         bindR (require_user uid w) (\<lambda>_ w.
         let identity = identity\<lparr>ei_user_id := uid, ei_created_at := now w\<rparr>
         in bindR (mask_unique (exec (insert_identity \<lparr>i_provider = ei_provider identity, i_subject = ei_subject identity,
              i_login = ei_login identity, i_user_id = uid, i_created_at = unix (ei_created_at identity),
              i_last_authenticated_at = None\<rparr>) w)) (\<lambda>_ w. (Inr identity, w))))"

definition RevokeExternalIdentity :: "principal \<Rightarrow> string \<Rightarrow> string \<Rightarrow> cworld \<Rightarrow> unit cres" where
  "RevokeExternalIdentity actor uid provider w =
     (if \<not> device_admin actor then (Inl ErrForbidden, w)
      else
      let provider = ToLower (TrimSpace provider); uid = TrimSpace uid
      in if provider = [] \<or> uid = [] then (Inl (ErrText ''identity provider and user are required''), w)
         else in_tx (\<lambda>w.
           bindR (exec (delete_identities (\<lambda>r. i_provider r = provider \<and> i_user_id r = uid)) w) (\<lambda>count w.
           if count \<noteq> 1 then (Inl ErrNotFound, w)
           else
           let instant = unix (now w) in
           bindR (exec (update_tokens (\<lambda>r. t_user_id r = Some uid \<and> t_kind r \<in> {PrincipalBrowser, PrincipalDevice} \<and>
             t_revoked_at r = None) (\<lambda>r. r\<lparr>t_revoked_at := Some instant\<rparr>)) w) (\<lambda>_ w.
           bindR (exec (update_device_logins (\<lambda>r. d_user_id r = Some uid \<and> d_consumed_at r = None)
             (\<lambda>r. r\<lparr>d_consumed_at := Some instant\<rparr>)) w) (\<lambda>_ w.
           (Inr (Commit ()), w))))) w)"

definition ExternalIdentity :: "string \<Rightarrow> string \<Rightarrow> cworld \<Rightarrow> external_identity cres" where
  "ExternalIdentity provider subject w =
     bindR (query (\<lambda>d. find (\<lambda>r. i_provider r = ToLower (TrimSpace provider) \<and> i_subject r = TrimSpace subject) (identities d)) w) (\<lambda>row w.
     case row of
       None \<Rightarrow> (Inl ErrNotFound, w)
     | Some r \<Rightarrow> (Inr \<lparr>ei_provider = i_provider r, ei_subject = i_subject r, ei_login = i_login r, ei_user_id = i_user_id r,
         ei_created_at = fromUnix (i_created_at r), ei_last_authenticated_at = nullableTime (i_last_authenticated_at r)\<rparr>, w))"

definition UserByExternalIdentity :: "string \<Rightarrow> string \<Rightarrow> string \<Rightarrow> cworld \<Rightarrow> user cres" where
  "UserByExternalIdentity provider subject login w =
     (let provider = ToLower (TrimSpace provider); subject = TrimSpace subject; login = TrimSpace login
      in if provider = [] \<or> subject = [] \<or> login = [] then (Inl ErrUnauthenticated, w)
         else in_tx (\<lambda>w.
           bindR (query (\<lambda>d. find (\<lambda>u. \<exists>i \<in> set (identities d). i_user_id i = u_id u \<and>
             i_provider i = provider \<and> i_subject i = subject) (users d)) w) (\<lambda>row w.
           case row of
             None \<Rightarrow> (Inl ErrForbidden, w)
           | Some u \<Rightarrow>
               bindR (exec (update_identities (\<lambda>r. i_provider r = provider \<and> i_subject r = subject)
                 (\<lambda>r. r\<lparr>i_login := login, i_last_authenticated_at := Some (unix (now w))\<rparr>)) w) (\<lambda>_ w.
               (Inr (Commit \<lparr>user_id = u_id u, user_name = u_name u, user_admin = u_admin u,
                  user_created_at = fromUnix (u_created_at u)\<rparr>), w)))) w)"

section \<open>Browser sessions and login states\<close>

definition CreateBrowserSession :: "(string \<Rightarrow> string) \<Rightarrow> string \<Rightarrow> time \<Rightarrow> cworld \<Rightarrow> browser_session cres" where
  "CreateBrowserSession mac uid expiresAt w =
     (let instant = now w
      in if uid = [] \<or> \<not> expiresAt > instant \<or> expiresAt > instant + 30 * 24 * hour
         then (Inl (ErrText ''browser session user and expiry within 30 days are required''), w)
         else
         bindR (require_user uid w) (\<lambda>_ w.
         bindR (newToken mac ''ws'' w) (\<lambda>(i, secret, dig) w.
         bindR (exec (insert_token (new_token_row i PrincipalBrowser (Some uid) None ''browser-session'' [] dig
           (unix instant) (Some (unix expiresAt)))) w) (\<lambda>_ w.
         (Inr \<lparr>bs_token = secret, bs_user_id = uid, bs_expires_at = expiresAt\<rparr>, w)))))"

definition RevokeBrowserSession :: "(string \<Rightarrow> string) \<Rightarrow> string \<Rightarrow> cworld \<Rightarrow> unit cres" where
  "RevokeBrowserSession mac token w =
     (case parseToken token of
        None \<Rightarrow> (Inl ErrUnauthenticated, w)
      | Some (kind, i) \<Rightarrow>
          if kind \<noteq> PrincipalBrowser then (Inl ErrUnauthenticated, w)
          else
          bindR (mask ErrUnauthenticated (Authenticate mac token w)) (\<lambda>actor w.
          if p_kind actor \<noteq> PrincipalBrowser \<or> p_token_id actor \<noteq> i then (Inl ErrUnauthenticated, w)
          else
          bindR (exec (update_tokens (\<lambda>r. t_id r = i \<and> t_kind r = PrincipalBrowser \<and> t_revoked_at r = None)
            (\<lambda>r. r\<lparr>t_revoked_at := Some (unix (now w))\<rparr>)) w) (\<lambda>count w.
          if count \<noteq> 1 then (Inl ErrNotFound, w) else (Inr (), w))))"

definition CreateOAuthLoginState :: "(string \<Rightarrow> string) \<Rightarrow> string \<Rightarrow> string \<Rightarrow> time \<Rightarrow> cworld \<Rightarrow> oauth_login_state cres" where
  "CreateOAuthLoginState mac returnTo codeVerifier expiresAt w =
     (let instant = now w
      in if \<not> HasPrefix returnTo ''/'' \<or> HasPrefix returnTo ''//'' \<or> TrimSpace codeVerifier = [] \<or>
           \<not> expiresAt > instant \<or> expiresAt > instant + 15 * minute
         then (Inl (ErrText ''valid local return path, verifier, and expiry within 15 minutes are required''), w)
         else
         bindR (newOpaque mac ''ols'' ''ols'' w) (\<lambda>(i, state, dig) w.
         bindR (attempt (exec (delete_oauth (\<lambda>r. o_expires_at r \<le> unix instant \<or> o_consumed_at r \<noteq> None)) w)) (\<lambda>_ w.
         bindR (exec (insert_oauth \<lparr>o_id = i, o_digest = dig, o_return_to = returnTo, o_code_verifier = codeVerifier,
           o_created_at = unix instant, o_expires_at = unix expiresAt, o_consumed_at = None\<rparr>) w) (\<lambda>_ w.
         (Inr \<lparr>ols_state = state, ols_return_to = returnTo, ols_code_verifier = codeVerifier,
            ols_created_at = instant, ols_expires_at = expiresAt\<rparr>, w)))))"

definition ConsumeOAuthLoginState :: "(string \<Rightarrow> string) \<Rightarrow> string \<Rightarrow> time \<Rightarrow> cworld \<Rightarrow> oauth_login_state cres" where
  "ConsumeOAuthLoginState mac state instant w =
     (case parseOpaque state ''ols'' of
        None \<Rightarrow> (Inl ErrUnauthenticated, w)
      | Some i \<Rightarrow> in_tx (\<lambda>w.
          bindR (mask ErrUnauthenticated (query (\<lambda>d. find (\<lambda>r. o_id r = i) (oauth_states d)) w)) (\<lambda>row w.
          case row of
            None \<Rightarrow> (Inl ErrUnauthenticated, w)
          | Some r \<Rightarrow>
              if o_consumed_at r \<noteq> None \<or> \<not> instant < fromUnix (o_expires_at r) \<or> digest mac state \<noteq> o_digest r
              then (Inl ErrUnauthenticated, w)
              else
              bindR (exec (update_oauth (\<lambda>r. o_id r = i \<and> o_consumed_at r = None)
                (\<lambda>r. r\<lparr>o_consumed_at := Some (unix instant)\<rparr>)) w) (\<lambda>_ w.
              (Inr (Commit \<lparr>ols_state = state, ols_return_to = o_return_to r, ols_code_verifier = o_code_verifier r,
                 ols_created_at = fromUnix (o_created_at r), ols_expires_at = fromUnix (o_expires_at r)\<rparr>), w)))) w)"

section \<open>Device logins\<close>

definition CreateDeviceLogin :: "(string \<Rightarrow> string) \<Rightarrow> string \<Rightarrow> time \<Rightarrow> cworld \<Rightarrow> issued_device_login cres" where
  "CreateDeviceLogin mac deviceName expiresAt w =
     (let instant = now w; deviceName = TrimSpace deviceName
      in if deviceName = [] \<or> length deviceName > 128 \<or> \<not> expiresAt > instant \<or> expiresAt > instant + 15 * minute
         then (Inl (ErrText ''device name and expiry within 15 minutes are required''), w)
         else
         bindR (newOpaque mac ''dlc'' ''dlc'' w) (\<lambda>(i, code, dig) w.
         bindR (attempt (exec (delete_device_logins (\<lambda>r. d_expires_at r \<le> unix instant \<or> d_consumed_at r \<noteq> None)) w)) (\<lambda>_ w.
         bindR (randomUserCode w) (\<lambda>userCode w.
         bindR (exec (insert_device_login \<lparr>d_id = i, d_user_code = userCode, d_device_name = deviceName, d_digest = dig,
           d_user_id = None, d_created_at = unix instant, d_expires_at = unix expiresAt, d_approved_at = None,
           d_consumed_at = None\<rparr>) w) (\<lambda>_ w.
         (Inr \<lparr>idl_login = \<lparr>dl_id = i, dl_user_code = userCode, dl_device_name = deviceName, dl_created_at = instant,
            dl_expires_at = expiresAt, dl_approved_at = None, dl_consumed_at = None\<rparr>, idl_device_code = code\<rparr>, w))))))"

definition DeviceLoginByUserCode :: "string \<Rightarrow> time \<Rightarrow> cworld \<Rightarrow> device_login cres" where
  "DeviceLoginByUserCode userCode instant w =
     bindR (query (\<lambda>d. find (\<lambda>r. d_user_code r = ToUpper (TrimSpace userCode)) (device_logins d)) w) (\<lambda>row w.
     case row of
       None \<Rightarrow> (Inl ErrNotFound, w)
     | Some r \<Rightarrow>
         if d_consumed_at r \<noteq> None \<or> \<not> instant < fromUnix (d_expires_at r) then (Inl ErrNotFound, w)
         else (Inr \<lparr>dl_id = d_id r, dl_user_code = d_user_code r, dl_device_name = d_device_name r,
           dl_created_at = fromUnix (d_created_at r), dl_expires_at = fromUnix (d_expires_at r),
           dl_approved_at = nullableTime (d_approved_at r), dl_consumed_at = nullableTime (d_consumed_at r)\<rparr>, w))"

definition ApproveDeviceLogin :: "string \<Rightarrow> principal \<Rightarrow> time \<Rightarrow> cworld \<Rightarrow> unit cres" where
  "ApproveDeviceLogin userCode actor instant w =
     (if p_kind actor \<noteq> PrincipalBrowser \<or> p_user_id actor = [] then (Inl ErrForbidden, w)
      else
      bindR (exec (update_device_logins
        (\<lambda>r. d_user_code r = ToUpper (TrimSpace userCode) \<and> d_approved_at r = None \<and> d_consumed_at r = None \<and>
             d_expires_at r > unix instant)
        (\<lambda>r. r\<lparr>d_user_id := Some (p_user_id actor), d_approved_at := Some (unix instant)\<rparr>)) w) (\<lambda>count w.
      if count \<noteq> 1 then (Inl ErrNotFound, w) else (Inr (), w)))"

definition ExchangeDeviceLogin :: "(string \<Rightarrow> string) \<Rightarrow> string \<Rightarrow> time \<Rightarrow> cworld \<Rightarrow> issued_device_token cres" where
  "ExchangeDeviceLogin mac deviceCode instant w =
     (case parseOpaque deviceCode ''dlc'' of
        None \<Rightarrow> (Inl ErrUnauthenticated, w)
      | Some i \<Rightarrow> in_tx (\<lambda>w.
          bindR (mask ErrUnauthenticated (query (\<lambda>d. find (\<lambda>r. d_id r = i) (device_logins d)) w)) (\<lambda>row w.
          case row of
            None \<Rightarrow> (Inl ErrUnauthenticated, w)
          | Some r \<Rightarrow>
              if d_consumed_at r \<noteq> None \<or> \<not> instant < fromUnix (d_expires_at r) \<or> digest mac deviceCode \<noteq> d_digest r
              then (Inl ErrUnauthenticated, w)
              else if d_approved_at r = None \<or> coalesce (d_user_id r) = [] then (Inl ErrLoginPending, w)
              else
              bindR (newToken mac ''dt'' w) (\<lambda>(tokenID, secret, tokenDigest) w.
              bindR (exec (insert_token (new_token_row tokenID PrincipalDevice (Some (coalesce (d_user_id r))) None
                (d_device_name r) [] tokenDigest (unix instant) None)) w) (\<lambda>_ w.
              bindR (exec (update_device_logins (\<lambda>r. d_id r = i \<and> d_consumed_at r = None)
                (\<lambda>r. r\<lparr>d_consumed_at := Some (unix instant)\<rparr>)) w) (\<lambda>count w.
              if count \<noteq> 1 then (Inl ErrUnauthenticated, w)
              else (Inr (Commit \<lparr>idt_metadata = \<lparr>dt_id = tokenID, dt_name = d_device_name r,
                  dt_user_id = coalesce (d_user_id r), dt_created_at = instant, dt_expires_at = None,
                  dt_last_used_at = None, dt_revoked_at = None\<rparr>, idt_secret = secret\<rparr>), w)))))) w)"

section \<open>Device tokens and enrollment\<close>

definition CreateDeviceToken :: "(string \<Rightarrow> string) \<Rightarrow> principal \<Rightarrow> create_device_token \<Rightarrow> cworld \<Rightarrow> issued_device_token cres" where
  "CreateDeviceToken mac actor input w =
     (if p_kind actor \<noteq> PrincipalDevice \<or> p_user_id actor = [] then (Inl ErrForbidden, w)
      else
      let uid = (if cdt_user_id input = [] then p_user_id actor else cdt_user_id input)
      in if uid \<noteq> p_user_id actor \<and> \<not> p_admin actor then (Inl ErrForbidden, w)
         else if TrimSpace (cdt_name input) = [] then (Inl (ErrText ''device token name is required''), w)
         else
         bindR (require_user uid w) (\<lambda>_ w.
         bindR (newToken mac ''dt'' w) (\<lambda>(i, secret, dig) w.
         let instant = now w;
             expires = (if cdt_expires_at input = zero_time then None else Some (cdt_expires_at input))
         in bindR (exec (insert_token (new_token_row i PrincipalDevice (Some uid) None (cdt_name input) [] dig
              (unix instant) (map_option unix expires))) w) (\<lambda>_ w.
            (Inr \<lparr>idt_metadata = \<lparr>dt_id = i, dt_name = cdt_name input, dt_user_id = uid, dt_created_at = instant,
               dt_expires_at = expires, dt_last_used_at = None, dt_revoked_at = None\<rparr>, idt_secret = secret\<rparr>, w)))))"

definition CreateEnrollmentCode ::
  "(string \<Rightarrow> string) \<Rightarrow> principal \<Rightarrow> string \<Rightarrow> string \<Rightarrow> time \<Rightarrow> cworld \<Rightarrow> issued_enrollment_code cres" where
  "CreateEnrollmentCode mac actor uid deviceName expiresAt w =
     (if \<not> device_admin actor then (Inl ErrForbidden, w)
      else if TrimSpace uid = [] \<or> TrimSpace deviceName = []
      then (Inl (ErrText ''enrollment user and device name are required''), w)
      else if \<not> expiresAt > now w \<or> expiresAt > now w + 30 * minute
      then (Inl (ErrText ''enrollment expiry must be within 30 minutes''), w)
      else
      bindR (require_user uid w) (\<lambda>_ w.
      bindR (newToken mac ''enr'' w) (\<lambda>(i, secret, dig) w.
      bindR (exec (insert_enrollment \<lparr>e_id = i, e_user_id = uid, e_device_name = deviceName, e_digest = dig,
        e_created_at = unix (now w), e_expires_at = unix expiresAt, e_consumed_at = None, e_failed_attempts = 0,
        e_max_attempts = 5\<rparr>) w) (\<lambda>_ w.
      (Inr \<lparr>iec_metadata = \<lparr>ec_id = i, ec_user_id = uid, ec_device_name = deviceName, ec_created_at = now w,
         ec_expires_at = expiresAt, ec_consumed_at = None, ec_failed_attempts = 0, ec_max_attempts = 5\<rparr>,
         iec_secret = secret\<rparr>, w)))))"

definition scanEnrollment :: "enrollment_row \<Rightarrow> enrollment_code" where
  "scanEnrollment r =
     \<lparr>ec_id = e_id r, ec_user_id = e_user_id r, ec_device_name = e_device_name r,
      ec_created_at = fromUnix (e_created_at r), ec_expires_at = fromUnix (e_expires_at r),
      ec_consumed_at = nullableTime (e_consumed_at r), ec_failed_attempts = e_failed_attempts r,
      ec_max_attempts = e_max_attempts r\<rparr>"

text \<open>
  \<open>ExchangeEnrollmentCode\<close> returns the enrollment beside some of its errors: the value is the
  token or the error, with the enrollment. An error of the call itself stands for the zero enrollment.
\<close>

definition ExchangeEnrollmentCode ::
  "(string \<Rightarrow> string) \<Rightarrow> string \<Rightarrow> cworld \<Rightarrow> ((err + issued_device_token) \<times> enrollment_code) cres" where
  "ExchangeEnrollmentCode mac code w =
     (case parseOpaque code ''enr'' of
        None \<Rightarrow> (Inl ErrUnauthenticated, w)
      | Some i \<Rightarrow> in_tx (\<lambda>w.
          bindR (query (\<lambda>d. find (\<lambda>r. e_id r = i) (enrollments d)) w) (\<lambda>row w.
          case row of
            None \<Rightarrow> (Inl ErrUnauthenticated, w)
          | Some r \<Rightarrow>
              let enrollment = scanEnrollment r; instant = now w
              in if ec_consumed_at enrollment \<noteq> None \<or> \<not> instant < ec_expires_at enrollment \<or>
                    ec_failed_attempts enrollment \<ge> ec_max_attempts enrollment
                 then (Inr (Rollback (Inl ErrUnauthenticated, enrollment)), w)
                 else if digest mac code \<noteq> e_digest r then
                   let enrollment = enrollment\<lparr>ec_failed_attempts := ec_failed_attempts enrollment + 1\<rparr>
                   in bindR (exec (update_enrollments (\<lambda>r. e_id r = ec_id enrollment)
                        (\<lambda>r. r\<lparr>e_failed_attempts := ec_failed_attempts enrollment\<rparr>)) w) (\<lambda>_ w.
                      (Inr (Commit (Inl ErrUnauthenticated, enrollment)), w))
                 else
                 bindR (newToken mac ''dt'' w) (\<lambda>(tokenID, secret, tokenDigest) w.
                 bindR (exec (insert_token (new_token_row tokenID PrincipalDevice (Some (ec_user_id enrollment)) None
                   (ec_device_name enrollment) [] tokenDigest (unix instant) None)) w) (\<lambda>_ w.
                 bindR (exec (update_enrollments (\<lambda>r. e_id r = ec_id enrollment \<and> e_consumed_at r = None \<and>
                   e_failed_attempts r < e_max_attempts r) (\<lambda>r. r\<lparr>e_consumed_at := Some (unix instant)\<rparr>)) w) (\<lambda>count w.
                 if count \<noteq> 1 then (Inr (Rollback (Inl ErrUnauthenticated, enrollment)), w)
                 else (Inr (Commit (Inr \<lparr>idt_metadata = \<lparr>dt_id = tokenID, dt_name = ec_device_name enrollment,
                     dt_user_id = ec_user_id enrollment, dt_created_at = instant, dt_expires_at = None,
                     dt_last_used_at = None, dt_revoked_at = None\<rparr>, idt_secret = secret\<rparr>,
                   enrollment\<lparr>ec_consumed_at := Some instant\<rparr>)), w)))))) w)"

definition scanDeviceToken :: "token_row \<Rightarrow> device_token" where
  "scanDeviceToken r =
     \<lparr>dt_id = t_id r, dt_name = t_name r, dt_user_id = coalesce (t_user_id r), dt_created_at = fromUnix (t_created_at r),
      dt_expires_at = nullableTime (t_expires_at r), dt_last_used_at = nullableTime (t_last_used_at r),
      dt_revoked_at = nullableTime (t_revoked_at r)\<rparr>"

definition ListDeviceTokens :: "principal \<Rightarrow> cworld \<Rightarrow> device_token list cres" where
  "ListDeviceTokens actor w =
     (if p_kind actor \<noteq> PrincipalDevice \<or> p_user_id actor = [] then (Inl ErrForbidden, w)
      else query (\<lambda>d. map scanDeviceToken (sort_key (\<lambda>r. - t_created_at r)
        (filter (\<lambda>r. t_kind r = PrincipalDevice \<and> t_user_id r = Some (p_user_id actor)) (tokens d)))) w)"

definition RevokeDeviceToken :: "principal \<Rightarrow> string \<Rightarrow> cworld \<Rightarrow> unit cres" where
  "RevokeDeviceToken actor i w =
     (if p_kind actor \<noteq> PrincipalDevice \<or> p_user_id actor = [] then (Inl ErrForbidden, w)
      else
      bindR (exec (update_tokens (\<lambda>r. t_id r = i \<and> t_kind r = PrincipalDevice \<and> t_revoked_at r = None \<and>
          (p_admin actor \<or> t_user_id r = Some (p_user_id actor)))
        (\<lambda>r. r\<lparr>t_revoked_at := Some (unix (now w))\<rparr>)) w) (\<lambda>count w.
      if count \<noteq> 1 then (Inl ErrNotFound, w) else (Inr (), w)))"

definition CreateProjectSession :: "(string \<Rightarrow> string) \<Rightarrow> string \<Rightarrow> string \<Rightarrow> time \<Rightarrow> cworld \<Rightarrow> issued_access_token cres" where
  "CreateProjectSession mac projectID subject expiresAt w =
     bindR (newToken mac ''gh'' w) (\<lambda>(i, secret, dig) w.
     bindR (exec (insert_token (new_token_row i PrincipalGitHub None (Some projectID) ''github-oidc'' subject dig
       (unix (now w)) (Some (unix expiresAt)))) w) (\<lambda>_ w.
     (Inr \<lparr>iat_token = secret, iat_expires_at = expiresAt\<rparr>, w)))"

definition Initialized :: "cworld \<Rightarrow> bool cres" where
  "Initialized w = query (\<lambda>d. length (users d) > 0) w"

end
