(* ===== verification/Control_Projects.thy ===== *)
theory Control_Projects
  imports Control_Auth Control_Jobs "HOL-Library.List_Lexorder" "HOL-Library.Char_ord" "HOL-Library.Product_Lexorder"
begin

text \<open>
  Projects, their images and trusts, the audit log and the pages of jobs: \<open>Bootstrap\<close>,
  \<open>AuthorizeProject\<close>, the project and trust operations, \<open>Audit\<close>, \<open>ListJobs\<close> with its signed cursors
  and \<open>CapacityImagePolicies\<close> of \<open>internal/control/sqlite/store.go\<close>. A query that may find several
  rows and reads the first one reads them in the order of the table.
\<close>

section \<open>Structs\<close>

record project =
  project_id :: string
  project_slug :: string
  project_name :: string
  project_active_image :: string
  project_previous_image :: string
  project_allow_image_overrides :: bool
  project_created_at :: time

record project_image_event =
  pie_id :: string
  pie_project_id :: string
  pie_action :: string
  pie_image :: string
  pie_replaced_image :: string
  pie_actor :: string
  pie_created_at :: time

record bootstrap =
  boot_user_name :: string
  boot_project_slug :: string
  boot_project_name :: string
  boot_token_name :: string

record bootstrap_result =
  br_user :: user
  br_project :: project
  br_token :: string

record github_trust =
  gt_id :: string
  gt_project_id :: string
  gt_repository_owner_id :: string
  gt_repository_id :: string
  gt_workflow_ref :: string
  gt_ref :: string
  gt_environment :: string
  gt_events :: "string list"
  gt_created_at :: time
  gt_revoked_at :: "time option"

record github_claims =
  gc_subject :: string
  gc_repository_owner_id :: string
  gc_repository_id :: string
  gc_repository :: string
  gc_workflow_ref :: string
  gc_ref :: string
  gc_environment :: string
  gc_event_name :: string
  gc_expires_at :: time

record job_page =
  page_jobs :: "job list"
  page_next_token :: string

record image_policy =
  ip_reference :: string
  ip_protected :: bool
  ip_last_used_at :: time

section \<open>Statements\<close>

definition insert_project :: "project_row \<Rightarrow> database \<Rightarrow> err + (nat \<times> database)" where
  "insert_project r d =
     (if pr_id r \<in> set (map pr_id (projects d)) then Inl (ErrUnique ''projects.id'')
      else if pr_slug r \<in> set (map pr_slug (projects d)) then Inl (ErrUnique ''projects.slug'')
      else Inr (1, d\<lparr>projects := projects d @ [r]\<rparr>))"

definition update_projects ::
  "(project_row \<Rightarrow> bool) \<Rightarrow> (project_row \<Rightarrow> project_row) \<Rightarrow> database \<Rightarrow> err + (nat \<times> database)" where
  "update_projects P f d = Inr (count_rows P (projects d), d\<lparr>projects := update_rows P f (projects d)\<rparr>)"

definition insert_member :: "member_row \<Rightarrow> database \<Rightarrow> err + (nat \<times> database)" where
  "insert_member r d =
     (if (m_project_id r, m_user_id r) \<in> set (map (\<lambda>s. (m_project_id s, m_user_id s)) (members d))
      then Inl (ErrUnique ''project_members.project_id, project_members.user_id'')
      else if m_project_id r \<notin> set (map pr_id (projects d)) then Inl (ErrForeignKey ''project_members.project_id'')
      else if m_user_id r \<notin> set (map u_id (users d)) then Inl (ErrForeignKey ''project_members.user_id'')
      else Inr (1, d\<lparr>members := members d @ [r]\<rparr>))"

text \<open>\<open>INSERT OR IGNORE\<close> skips a row that violates a key, not one that violates a reference.\<close>

definition insert_or_ignore_member :: "member_row \<Rightarrow> database \<Rightarrow> err + (nat \<times> database)" where
  "insert_or_ignore_member r d =
     (case insert_member r d of
        Inl e \<Rightarrow> if is_unique_error e then Inr (0, d) else Inl e
      | Inr x \<Rightarrow> Inr x)"

definition insert_trust :: "trust_row \<Rightarrow> database \<Rightarrow> err + (nat \<times> database)" where
  "insert_trust r d =
     (if g_id r \<in> set (map g_id (trusts d)) then Inl (ErrUnique ''github_trusts.id'')
      else if g_project_id r \<notin> set (map pr_id (projects d)) then Inl (ErrForeignKey ''github_trusts.project_id'')
      else Inr (1, d\<lparr>trusts := trusts d @ [r]\<rparr>))"

definition update_trusts :: "(trust_row \<Rightarrow> bool) \<Rightarrow> (trust_row \<Rightarrow> trust_row) \<Rightarrow> database \<Rightarrow> err + (nat \<times> database)" where
  "update_trusts P f d = Inr (count_rows P (trusts d), d\<lparr>trusts := update_rows P f (trusts d)\<rparr>)"

definition insert_image_event :: "image_event_row \<Rightarrow> database \<Rightarrow> err + (nat \<times> database)" where
  "insert_image_event r d =
     (if ie_id r \<in> set (map ie_id (image_events d)) then Inl (ErrUnique ''project_image_events.id'')
      else if ie_project_id r \<notin> set (map pr_id (projects d)) then Inl (ErrForeignKey ''project_image_events.project_id'')
      else Inr (1, d\<lparr>image_events := image_events d @ [r]\<rparr>))"

definition insert_audit :: "audit_row \<Rightarrow> database \<Rightarrow> err + (nat \<times> database)" where
  "insert_audit r d =
     Inr (1, d\<lparr>audits := audits d @ [r\<lparr>a_id := next_audit d\<rparr>], next_audit := Suc (next_audit d)\<rparr>)"

definition ErrNoRows :: err where
  "ErrNoRows = ErrText ''sql: no rows in result set''"

section \<open>Projects\<close>

definition scanProject :: "project_row \<Rightarrow> project" where
  "scanProject r =
     \<lparr>project_id = pr_id r, project_slug = pr_slug r, project_name = pr_name r, project_active_image = pr_active_image r,
      project_previous_image = pr_previous_image r, project_allow_image_overrides = pr_allow_image_overrides r,
      project_created_at = fromUnix (pr_created_at r)\<rparr>"

definition project_of :: "string \<Rightarrow> cworld \<Rightarrow> project cres" where
  "project_of selector w =
     bindR (query (\<lambda>d. find (\<lambda>r. pr_id r = selector \<or> pr_slug r = selector) (projects d)) w) (\<lambda>row w.
     case row of None \<Rightarrow> (Inl ErrNotFound, w) | Some r \<Rightarrow> (Inr (scanProject r), w))"

definition new_project_row :: "string \<Rightarrow> string \<Rightarrow> string \<Rightarrow> time \<Rightarrow> project_row" where
  "new_project_row i slug name created =
     \<lparr>pr_id = i, pr_slug = slug, pr_name = name, pr_active_image = [], pr_previous_image = [],
      pr_allow_image_overrides = True, pr_created_at = unix created\<rparr>"

definition new_project :: "string \<Rightarrow> string \<Rightarrow> string \<Rightarrow> time \<Rightarrow> project" where
  "new_project i slug name created =
     \<lparr>project_id = i, project_slug = slug, project_name = name, project_active_image = [], project_previous_image = [],
      project_allow_image_overrides = True, project_created_at = created\<rparr>"

definition Bootstrap :: "(string \<Rightarrow> string) \<Rightarrow> bootstrap \<Rightarrow> cworld \<Rightarrow> bootstrap_result cres" where
  "Bootstrap mac input w =
     (if TrimSpace (boot_user_name input) = [] \<or> TrimSpace (boot_project_slug input) = [] \<or> TrimSpace (boot_token_name input) = []
      then (Inl (ErrText ''bootstrap user, project slug, and token name are required''), w)
      else
      let projectName = (if boot_project_name input = [] then boot_project_slug input else boot_project_name input)
      in in_tx (\<lambda>w.
        bindR (query (\<lambda>d. length (users d)) w) (\<lambda>count w.
        if count \<noteq> 0 then (Inl ErrAlreadyExists, w)
        else
        bindR (randomID ''usr'' w) (\<lambda>userID w.
        bindR (randomID ''prj'' w) (\<lambda>projectID w.
        let instant = now w in
        bindR (exec (insert_user \<lparr>u_id = userID, u_name = boot_user_name input, u_admin = True, u_created_at = unix instant\<rparr>) w) (\<lambda>_ w.
        bindR (exec (insert_project (new_project_row projectID (boot_project_slug input) projectName instant)) w) (\<lambda>_ w.
        bindR (exec (insert_member \<lparr>m_project_id = projectID, m_user_id = userID, m_created_at = unix instant\<rparr>) w) (\<lambda>_ w.
        bindR (newToken mac ''dt'' w) (\<lambda>(tokenID, secret, dig) w.
        bindR (exec (insert_token (new_token_row tokenID PrincipalDevice (Some userID) None (boot_token_name input) [] dig
          (unix instant) None)) w) (\<lambda>_ w.
        (Inr (Commit \<lparr>br_user = \<lparr>user_id = userID, user_name = boot_user_name input, user_admin = True, user_created_at = instant\<rparr>,
           br_project = new_project projectID (boot_project_slug input) projectName instant, br_token = secret\<rparr>), w)))))))))) w)"

definition AuthorizeProject :: "principal \<Rightarrow> string \<Rightarrow> cworld \<Rightarrow> project cres" where
  "AuthorizeProject actor selector w =
     bindR (project_of selector w) (\<lambda>project w.
     if p_project_id actor \<noteq> [] then
       if p_project_id actor \<noteq> project_id project then (Inl ErrForbidden, w) else (Inr project, w)
     else if p_user_id actor = [] then (Inl ErrForbidden, w)
     else if p_admin actor then (Inr project, w)
     else
     bindR (mask ErrForbidden (query (\<lambda>d. \<exists>m \<in> set (members d). m_project_id m = project_id project \<and>
       m_user_id m = p_user_id actor) w)) (\<lambda>found w.
     if found then (Inr project, w) else (Inl ErrForbidden, w)))"

definition CreateProject :: "principal \<Rightarrow> string \<Rightarrow> string \<Rightarrow> cworld \<Rightarrow> project cres" where
  "CreateProject actor slug name w =
     (if \<not> p_admin actor then (Inl ErrForbidden, w)
      else if TrimSpace slug = [] then (Inl (ErrText ''project slug is required''), w)
      else
      let name = (if name = [] then slug else name) in
      bindR (randomID ''prj'' w) (\<lambda>i w.
      bindR (mask_unique (exec (insert_project (new_project_row i slug name (now w))) w)) (\<lambda>_ w.
      (Inr (new_project i slug name (now w)), w))))"

definition by_slug :: "project_row list \<Rightarrow> project_row list" where
  "by_slug rows = sort_key (\<lambda>r. (pr_slug r, pr_id r)) rows"

definition ListProjects :: "principal \<Rightarrow> cworld \<Rightarrow> project list cres" where
  "ListProjects actor w =
     (if p_project_id actor \<noteq> [] then
        query (\<lambda>d. map scanProject (by_slug (filter (\<lambda>r. pr_id r = p_project_id actor) (projects d)))) w
      else if p_user_id actor = [] then (Inl ErrForbidden, w)
      else if p_admin actor then query (\<lambda>d. map scanProject (by_slug (projects d))) w
      else query (\<lambda>d. map scanProject (by_slug [p. p \<leftarrow> projects d, m \<leftarrow> members d,
        m_project_id m = pr_id p \<and> m_user_id m = p_user_id actor])) w)"

definition AddProjectMember :: "principal \<Rightarrow> string \<Rightarrow> string \<Rightarrow> cworld \<Rightarrow> unit cres" where
  "AddProjectMember actor selector uid w =
     (if \<not> p_admin actor then (Inl ErrForbidden, w)
      else
      bindR (AuthorizeProject actor selector w) (\<lambda>project w.
      bindR (exec (insert_or_ignore_member \<lparr>m_project_id = project_id project, m_user_id = uid,
        m_created_at = unix (now w)\<rparr>) w) (\<lambda>count w.
      if count = 0 then require_user uid w else (Inr (), w))))"

section \<open>Images\<close>

definition actorID :: "principal \<Rightarrow> string" where
  "actorID actor = (if p_user_id actor \<noteq> [] then p_user_id actor else p_subject actor)"

text \<open>The image to activate: the given one, or for a rollback the previous one of the project.\<close>

datatype image_action = Activate string | RollbackImage

fun action_text :: "image_action \<Rightarrow> string" where
  "action_text (Activate _) = ''activate''"
| "action_text RollbackImage = ''rollback''"

definition changeProjectImage :: "principal \<Rightarrow> string \<Rightarrow> image_action \<Rightarrow> cworld \<Rightarrow> project cres" where
  "changeProjectImage actor i action = in_tx (\<lambda>w.
     bindR (query (\<lambda>d. find (\<lambda>r. pr_id r = i) (projects d)) w) (\<lambda>row w.
     case row of
       None \<Rightarrow> (Inl ErrNoRows, w)
     | Some r \<Rightarrow>
         let project = scanProject r; replaced = project_active_image project;
             target = (case action of Activate img \<Rightarrow> Some img
               | RollbackImage \<Rightarrow> nullable (project_previous_image project))
         in case target of
              None \<Rightarrow> (Inl ErrNotFound, w)
            | Some img \<Rightarrow>
                if img = project_active_image project then (Inr (Rollback project), w)
                else
                let project = project\<lparr>project_active_image := img, project_previous_image := replaced\<rparr> in
                bindR (exec (update_projects (\<lambda>r. pr_id r = project_id project)
                  (\<lambda>r. r\<lparr>pr_active_image := img, pr_previous_image := replaced\<rparr>)) w) (\<lambda>_ w.
                bindR (randomID ''img'' w) (\<lambda>eventID w.
                bindR (exec (insert_image_event \<lparr>ie_id = eventID, ie_project_id = project_id project,
                  ie_action = action_text action, ie_image = img, ie_replaced_image = replaced,
                  ie_actor = actorID actor, ie_created_at = unix (now w)\<rparr>) w) (\<lambda>_ w.
                (Inr (Commit project), w))))))"

definition ActivateProjectImage :: "principal \<Rightarrow> string \<Rightarrow> string \<Rightarrow> cworld \<Rightarrow> project cres" where
  "ActivateProjectImage actor i img w =
     (if \<not> device_admin actor then (Inl ErrForbidden, w) else changeProjectImage actor i (Activate img) w)"

definition RollbackProjectImage :: "principal \<Rightarrow> string \<Rightarrow> cworld \<Rightarrow> project cres" where
  "RollbackProjectImage actor i w =
     (if \<not> device_admin actor then (Inl ErrForbidden, w) else changeProjectImage actor i RollbackImage w)"

definition SetProjectImagePolicy :: "principal \<Rightarrow> string \<Rightarrow> bool \<Rightarrow> cworld \<Rightarrow> project cres" where
  "SetProjectImagePolicy actor i allow w =
     (if \<not> device_admin actor then (Inl ErrForbidden, w)
      else
      bindR (exec (update_projects (\<lambda>r. pr_id r = i) (\<lambda>r. r\<lparr>pr_allow_image_overrides := allow\<rparr>)) w) (\<lambda>count w.
      if count \<noteq> 1 then (Inl ErrNotFound, w) else project_of i w))"

definition scanImageEvent :: "image_event_row \<Rightarrow> project_image_event" where
  "scanImageEvent r =
     \<lparr>pie_id = ie_id r, pie_project_id = ie_project_id r, pie_action = ie_action r, pie_image = ie_image r,
      pie_replaced_image = ie_replaced_image r, pie_actor = ie_actor r, pie_created_at = fromUnix (ie_created_at r)\<rparr>"

definition ListProjectImageHistory :: "string \<Rightarrow> cworld \<Rightarrow> project_image_event list cres" where
  "ListProjectImageHistory i w =
     query (\<lambda>d. map scanImageEvent (rev (sort_key (\<lambda>r. (ie_created_at r, ie_id r))
       (filter (\<lambda>r. ie_project_id r = i) (image_events d))))) w"

section \<open>Trusts\<close>

definition scanTrust :: "trust_row \<Rightarrow> github_trust" where
  "scanTrust r =
     \<lparr>gt_id = g_id r, gt_project_id = g_project_id r, gt_repository_owner_id = g_repository_owner_id r,
      gt_repository_id = g_repository_id r, gt_workflow_ref = g_workflow_ref r, gt_ref = g_ref r,
      gt_environment = g_environment r, gt_events = g_events r, gt_created_at = fromUnix (g_created_at r),
      gt_revoked_at = nullableTime (g_revoked_at r)\<rparr>"

definition CreateGitHubTrust :: "principal \<Rightarrow> github_trust \<Rightarrow> cworld \<Rightarrow> github_trust cres" where
  "CreateGitHubTrust actor trust w =
     (if \<not> p_admin actor then (Inl ErrForbidden, w)
      else
      bindR (AuthorizeProject actor (gt_project_id trust) w) (\<lambda>project w.
      if gt_repository_owner_id trust = [] \<or> gt_repository_id trust = [] \<or> gt_workflow_ref trust = [] \<or>
         gt_ref trust = [] \<or> gt_events trust = []
      then (Inl (ErrText ''repository owner ID, repository ID, workflow ref, ref, and events are required''), w)
      else if ''pull_request'' \<in> set (gt_events trust) \<and> gt_environment trust = []
      then (Inl (ErrText ''pull_request trust requires a protected GitHub environment''), w)
      else
      bindR (randomID ''ght'' w) (\<lambda>trustID w.
      let trust = trust\<lparr>gt_id := trustID, gt_project_id := project_id project, gt_created_at := now w\<rparr> in
      bindR (exec (insert_trust \<lparr>g_id = trustID, g_project_id = gt_project_id trust,
        g_repository_owner_id = gt_repository_owner_id trust, g_repository_id = gt_repository_id trust,
        g_workflow_ref = gt_workflow_ref trust, g_ref = gt_ref trust, g_environment = gt_environment trust,
        g_events = gt_events trust, g_created_at = unix (gt_created_at trust), g_revoked_at = None\<rparr>) w) (\<lambda>_ w.
      (Inr trust, w)))))"

definition ListGitHubTrusts :: "principal \<Rightarrow> string \<Rightarrow> cworld \<Rightarrow> github_trust list cres" where
  "ListGitHubTrusts actor selector w =
     bindR (AuthorizeProject actor selector w) (\<lambda>project w.
     query (\<lambda>d. map scanTrust (sort_key g_created_at (filter (\<lambda>r. g_project_id r = project_id project) (trusts d)))) w)"

definition RevokeGitHubTrust :: "principal \<Rightarrow> string \<Rightarrow> cworld \<Rightarrow> unit cres" where
  "RevokeGitHubTrust actor i w =
     (if \<not> p_admin actor then (Inl ErrForbidden, w)
      else
      bindR (exec (update_trusts (\<lambda>r. g_id r = i \<and> g_revoked_at r = None)
        (\<lambda>r. r\<lparr>g_revoked_at := Some (unix (now w))\<rparr>)) w) (\<lambda>count w.
      if count \<noteq> 1 then (Inl ErrNotFound, w) else (Inr (), w)))"

definition trust_accepts :: "github_claims \<Rightarrow> github_trust \<Rightarrow> bool" where
  "trust_accepts claims trust \<longleftrightarrow>
     glob (gt_workflow_ref trust) (gc_workflow_ref claims) \<and> glob (gt_ref trust) (gc_ref claims) \<and>
     exactOptional (gt_environment trust) (gc_environment claims) \<and> gc_event_name claims \<in> set (gt_events trust)"

definition MatchGitHubTrust :: "string \<Rightarrow> github_claims \<Rightarrow> cworld \<Rightarrow> github_trust cres" where
  "MatchGitHubTrust selector claims w =
     bindR (mask ErrForbidden (project_of selector w)) (\<lambda>project w.
     bindR (query (\<lambda>d. filter (\<lambda>r. g_project_id r = project_id project \<and>
       g_repository_owner_id r = gc_repository_owner_id claims \<and> g_repository_id r = gc_repository_id claims \<and>
       g_revoked_at r = None) (trusts d)) w) (\<lambda>rows w.
     case find (trust_accepts claims) (map scanTrust rows) of
       Some trust \<Rightarrow> (Inr trust, w)
     | None \<Rightarrow> (Inl ErrForbidden, w)))"

section \<open>The audit log\<close>

definition Audit :: "principal \<Rightarrow> string \<Rightarrow> string \<Rightarrow> string \<Rightarrow> (string \<times> string) list \<Rightarrow> cworld \<Rightarrow> unit cres" where
  "Audit actor i action targetID metadata w =
     bindR (exec (insert_audit \<lparr>a_id = 0, a_actor_kind = p_kind actor, a_actor_id = actorID actor,
       a_project_id = nullable i, a_action = action, a_target_id = targetID, a_created_at = unix (now w),
       a_metadata = metadata\<rparr>) w) (\<lambda>_ w. (Inr (), w))"

definition RecordSecretAccess :: "string \<Rightarrow> string \<Rightarrow> string \<Rightarrow> cworld \<Rightarrow> unit cres" where
  "RecordSecretAccess i jobID name w =
     Audit \<lparr>p_kind = PrincipalSystem, p_token_id = [], p_user_id = [], p_project_id = [], p_admin = False,
       p_subject = ''dispatcher''\<rparr> i ''job.secret.access'' jobID [(''name'', name)] w"

section \<open>Pages of jobs\<close>

record job_cursor =
  cursor_project_id :: string
  cursor_created_at :: int
  cursor_id :: string

text \<open>
  \<open>cursor_codec\<close>: \<open>json.Marshal\<close> and \<open>json.Unmarshal\<close> at the type \<open>jobCursor\<close>; \<open>mac\<close> yields the 32
  bytes of a signature.
\<close>

record cursor_codec =
  marshal_cursor :: "job_cursor \<Rightarrow> string"
  unmarshal_cursor :: "string \<Rightarrow> job_cursor option"

definition encodeJobCursor :: "cursor_codec \<Rightarrow> (string \<Rightarrow> string) \<Rightarrow> string \<Rightarrow> job \<Rightarrow> string" where
  "encodeJobCursor codec mac i job =
     (let payload = marshal_cursor codec \<lparr>cursor_project_id = i, cursor_created_at = unix (job_created_at job), cursor_id = job_id job\<rparr>
      in b64_encode (payload @ mac payload))"

definition decodeJobCursor :: "cursor_codec \<Rightarrow> (string \<Rightarrow> string) \<Rightarrow> string \<Rightarrow> string \<Rightarrow> err + job_cursor" where
  "decodeJobCursor codec mac i token =
     (case b64_decode token of
        None \<Rightarrow> Inl ErrInvalidPageToken
      | Some v \<Rightarrow>
          if length v \<le> 32 then Inl ErrInvalidPageToken
          else
          let payload = take (length v - 32) v; signature = drop (length v - 32) v
          in if signature \<noteq> mac payload then Inl ErrInvalidPageToken
             else
             case unmarshal_cursor codec payload of
               None \<Rightarrow> Inl ErrInvalidPageToken
             | Some cursor \<Rightarrow>
                 if cursor_project_id cursor \<noteq> i \<or> cursor_created_at cursor \<le> 0 \<or> cursor_id cursor = []
                 then Inl ErrInvalidPageToken
                 else Inr cursor)"

definition older :: "job_cursor \<Rightarrow> job_row \<Rightarrow> bool" where
  "older cursor r \<longleftrightarrow> j_created_at r < cursor_created_at cursor \<or>
     j_created_at r = cursor_created_at cursor \<and> j_id r < cursor_id cursor"

definition newest_first :: "job_row list \<Rightarrow> job_row list" where
  "newest_first rows = rev (sort_key (\<lambda>r. (j_created_at r, j_id r)) rows)"

definition ListJobs ::
  "cursor_codec \<Rightarrow> (string \<Rightarrow> string) \<Rightarrow> string \<Rightarrow> int \<Rightarrow> string \<Rightarrow> cworld \<Rightarrow> job_page cres" where
  "ListJobs codec mac i pageSize pageToken w =
     (if pageSize < 1 \<or> pageSize > 100 then (Inl (ErrText ''job page size must be between 1 and 100''), w)
      else
      case (if pageToken = [] then Inr (\<lambda>_. True)
            else map_sum id older (decodeJobCursor codec mac i pageToken)) of
        Inl e \<Rightarrow> (Inl e, w)
      | Inr after \<Rightarrow>
          bindR (query (\<lambda>d. map scanJob (take (nat pageSize + 1)
            (newest_first (filter (\<lambda>r. j_project_id r = i \<and> after r) (jobs d))))) w) (\<lambda>found w.
          if length found > nat pageSize then
            (let page = take (nat pageSize) found
             in (Inr \<lparr>page_jobs = page, page_next_token = encodeJobCursor codec mac i (last page)\<rparr>, w))
          else (Inr \<lparr>page_jobs = found, page_next_token = []\<rparr>, w)))"

section \<open>Image policies\<close>

text \<open>
  \<open>policies\<close> is the map of \<open>CapacityImagePolicies\<close>: a missing entry reads as the zero policy.
\<close>

definition protected_images :: "project_row list \<Rightarrow> string list" where
  "protected_images rows = [i. r \<leftarrow> rows, i \<leftarrow> [pr_active_image r, pr_previous_image r], i \<noteq> []]"

definition last_used :: "job_row list \<Rightarrow> string \<Rightarrow> int" where
  "last_used rows img = Max (j_created_at ` {r \<in> set rows. j_image r = img})"

definition job_images :: "job_row list \<Rightarrow> string list" where
  "job_images rows = remdups [j_image r. r \<leftarrow> rows, j_image r \<noteq> []]"

definition CapacityImagePolicies :: "cworld \<Rightarrow> image_policy list cres" where
  "CapacityImagePolicies w =
     bindR (query (\<lambda>d. protected_images (projects d)) w) (\<lambda>protected w.
     query (\<lambda>d. map (\<lambda>i. \<lparr>ip_reference = i, ip_protected = i \<in> set protected,
         ip_last_used_at = (if i \<in> set (job_images (jobs d)) then last_used (jobs d) i else zero_time)\<rparr>)
       (sort (remdups (protected @ job_images (jobs d))))) w)"

end
