(* ===== verification/Auth_Steps.thy ===== *)
theory Auth_Steps
  imports Control_Projects Store_Steps
begin

text \<open>
  The calls on users, tokens and projects as steps: rules that take the postconditions of their
  statements apart, the invariant \<open>auth_inv\<close> that the keys of the tables give, and the order
  \<open>auth_mono\<close> in which every call moves the tables: tokens and enrollment codes are never deleted,
  a revocation or a consumption is never undone, failed attempts are never forgotten.
\<close>

section \<open>Rules for the statements\<close>

lemma post_mask [wp]: "post Q (\<lambda>_ w. E e w) r \<Longrightarrow> post Q E (mask e r)"
  by (simp add: post_def mask_def split: prod.splits sum.splits)

lemma post_mask_unique [wp]: "post Q (\<lambda>e w. E (if is_unique_error e then ErrAlreadyExists else e) w) r \<Longrightarrow> post Q E (mask_unique r)"
  by (cases r) (auto simp: post_def mask_unique_def split: sum.splits)

lemma post_attempt [wp]: "post (\<lambda>_. Q ()) (\<lambda>_. Q ()) r \<Longrightarrow> post Q E (attempt r)"
  by (simp add: post_def attempt_def split: prod.splits sum.splits)

lemma post_case_prod [wp]: "(\<And>a b. x = (a, b) \<Longrightarrow> post Q E (f a b)) \<Longrightarrow> post Q E (case x of (a, b) \<Rightarrow> f a b)"
  by (simp add: split: prod.splits)

lemma post_case_prod_fun [wp]: "(\<And>a b. x = (a, b) \<Longrightarrow> post Q E (f a b w)) \<Longrightarrow> post Q E ((case x of (a, b) \<Rightarrow> f a b) w)"
  by (simp add: split: prod.splits)

lemma post_case_sum [wp]:
  "(\<And>a. x = Inl a \<Longrightarrow> post Q E (f a)) \<Longrightarrow> (\<And>b. x = Inr b \<Longrightarrow> post Q E (g b)) \<Longrightarrow>
   post Q E (case x of Inl a \<Rightarrow> f a | Inr b \<Rightarrow> g b)"
  by (cases x) simp_all

lemma post_insert_user [wp]:
  assumes "\<And>fs. u_id r \<notin> set (map u_id (users (db w))) \<Longrightarrow>
      Q 1 (w\<lparr>faults := fs, db := (db w)\<lparr>users := users (db w) @ [r]\<rparr>\<rparr>)" and "\<And>e fs. E e (w\<lparr>faults := fs\<rparr>)"
  shows "post Q E (exec (insert_user r) w)"
  by (rule post_exec) (use assms in \<open>auto simp: insert_user_def split: if_splits\<close>)

lemma post_insert_identity [wp]:
  assumes "\<And>fs. Q 1 (w\<lparr>faults := fs, db := (db w)\<lparr>identities := identities (db w) @ [r]\<rparr>\<rparr>)" and "\<And>e fs. E e (w\<lparr>faults := fs\<rparr>)"
  shows "post Q E (exec (insert_identity r) w)"
  by (rule post_exec) (use assms in \<open>auto simp: insert_identity_def split: if_splits\<close>)

lemma post_insert_token [wp]:
  assumes "\<And>fs. t_id r \<notin> set (map t_id (tokens (db w))) \<Longrightarrow>
      t_user_id r \<in> insert None (Some ` set (map u_id (users (db w)))) \<Longrightarrow>
      Q 1 (w\<lparr>faults := fs, db := (db w)\<lparr>tokens := tokens (db w) @ [r]\<rparr>\<rparr>)" and "\<And>e fs. E e (w\<lparr>faults := fs\<rparr>)"
  shows "post Q E (exec (insert_token r) w)"
proof (rule post_exec)
  fix n d fs assume "insert_token r (db w) = Inr (n, d)"
  then have "n = 1" "d = (db w)\<lparr>tokens := tokens (db w) @ [r]\<rparr>" "t_id r \<notin> set (map t_id (tokens (db w)))"
    "t_user_id r \<in> insert None (Some ` set (map u_id (users (db w))))"
    by (simp_all add: insert_token_def split: if_splits)
  then show "Q n (w\<lparr>faults := fs, db := d\<rparr>)" using assms(1) by simp
qed (use assms in auto)

lemma post_update_tokens [wp]:
  assumes "\<And>fs. Q (count_rows P (tokens (db w))) (w\<lparr>faults := fs, db := (db w)\<lparr>tokens := update_rows P f (tokens (db w))\<rparr>\<rparr>)"
    and "\<And>e fs. E e (w\<lparr>faults := fs\<rparr>)"
  shows "post Q E (exec (update_tokens P f) w)"
  by (rule post_exec) (use assms in \<open>auto simp: update_tokens_def\<close>)

lemma post_insert_enrollment [wp]:
  assumes "\<And>fs. e_id r \<notin> set (map e_id (enrollments (db w))) \<Longrightarrow>
      Q 1 (w\<lparr>faults := fs, db := (db w)\<lparr>enrollments := enrollments (db w) @ [r]\<rparr>\<rparr>)" and "\<And>e fs. E e (w\<lparr>faults := fs\<rparr>)"
  shows "post Q E (exec (insert_enrollment r) w)"
  by (rule post_exec) (use assms in \<open>auto simp: insert_enrollment_def split: if_splits\<close>)

lemma post_update_enrollments [wp]:
  assumes "\<And>fs. Q (count_rows P (enrollments (db w)))
      (w\<lparr>faults := fs, db := (db w)\<lparr>enrollments := update_rows P f (enrollments (db w))\<rparr>\<rparr>)"
    and "\<And>e fs. E e (w\<lparr>faults := fs\<rparr>)"
  shows "post Q E (exec (update_enrollments P f) w)"
  by (rule post_exec) (use assms in \<open>auto simp: update_enrollments_def\<close>)

lemma post_oauth [wp]:
  assumes "\<And>n rows fs. Q n (w\<lparr>faults := fs, db := (db w)\<lparr>oauth_states := rows\<rparr>\<rparr>)" and "\<And>e fs. E e (w\<lparr>faults := fs\<rparr>)"
  shows "post Q E (exec (insert_oauth r) w)" "post Q E (exec (update_oauth P f) w)" "post Q E (exec (delete_oauth P) w)"
  by (rule post_exec; use assms in \<open>auto simp: insert_oauth_def update_oauth_def delete_oauth_def split: if_splits\<close>)+

lemma post_device_logins [wp]:
  assumes "\<And>n rows fs. Q n (w\<lparr>faults := fs, db := (db w)\<lparr>device_logins := rows\<rparr>\<rparr>)" and "\<And>e fs. E e (w\<lparr>faults := fs\<rparr>)"
  shows "post Q E (exec (insert_device_login r) w)" "post Q E (exec (update_device_logins P f) w)"
    "post Q E (exec (delete_device_logins P) w)"
  by (rule post_exec; use assms in \<open>auto simp: insert_device_login_def update_device_logins_def delete_device_logins_def split: if_splits\<close>)+

lemma post_identities [wp]:
  assumes "\<And>n rows fs. Q n (w\<lparr>faults := fs, db := (db w)\<lparr>identities := rows\<rparr>\<rparr>)" and "\<And>e fs. E e (w\<lparr>faults := fs\<rparr>)"
  shows "post Q E (exec (delete_identities P) w)" "post Q E (exec (update_identities P g) w)"
  by (rule post_exec; use assms in \<open>auto simp: delete_identities_def update_identities_def\<close>)+

lemma post_insert_project [wp]:
  assumes "\<And>fs. pr_id r \<notin> set (map pr_id (projects (db w))) \<Longrightarrow> pr_slug r \<notin> set (map pr_slug (projects (db w))) \<Longrightarrow>
      Q 1 (w\<lparr>faults := fs, db := (db w)\<lparr>projects := projects (db w) @ [r]\<rparr>\<rparr>)" and "\<And>e fs. E e (w\<lparr>faults := fs\<rparr>)"
  shows "post Q E (exec (insert_project r) w)"
  by (rule post_exec) (use assms in \<open>auto simp: insert_project_def split: if_splits\<close>)

lemma post_update_projects [wp]:
  assumes "\<And>fs. Q (count_rows P (projects (db w)))
      (w\<lparr>faults := fs, db := (db w)\<lparr>projects := update_rows P f (projects (db w))\<rparr>\<rparr>)"
    and "\<And>e fs. E e (w\<lparr>faults := fs\<rparr>)"
  shows "post Q E (exec (update_projects P f) w)"
  by (rule post_exec) (use assms in \<open>auto simp: update_projects_def\<close>)

lemma post_insert_member [wp]:
  assumes "\<And>rows fs. Q 1 (w\<lparr>faults := fs, db := (db w)\<lparr>members := rows\<rparr>\<rparr>)" and "\<And>e fs. E e (w\<lparr>faults := fs\<rparr>)"
  shows "post Q E (exec (insert_member r) w)"
  by (rule post_exec) (use assms in \<open>auto simp: insert_member_def split: if_splits\<close>)

lemma post_insert_or_ignore_member [wp]:
  assumes "\<And>n rows fs. Q n (w\<lparr>faults := fs, db := (db w)\<lparr>members := rows\<rparr>\<rparr>)" and "\<And>e fs. E e (w\<lparr>faults := fs\<rparr>)"
  shows "post Q E (exec (insert_or_ignore_member r) w)"
proof (rule post_exec)
  fix n d fs assume "insert_or_ignore_member r (db w) = Inr (n, d)"
  then have "\<exists>rows. d = (db w)\<lparr>members := rows\<rparr>"
    by (force simp: insert_or_ignore_member_def insert_member_def is_unique_error_def split: if_splits intro: exI [of _ "members (db w)"])
  then show "Q n (w\<lparr>faults := fs, db := d\<rparr>)" using assms(1) by auto
qed (use assms in auto)

lemma post_insert_trust [wp]:
  assumes "\<And>fs. Q 1 (w\<lparr>faults := fs, db := (db w)\<lparr>trusts := trusts (db w) @ [r]\<rparr>\<rparr>)" and "\<And>e fs. E e (w\<lparr>faults := fs\<rparr>)"
  shows "post Q E (exec (insert_trust r) w)"
  by (rule post_exec) (use assms in \<open>auto simp: insert_trust_def split: if_splits\<close>)

lemma post_update_trusts [wp]:
  assumes "\<And>fs. Q (count_rows P (trusts (db w))) (w\<lparr>faults := fs, db := (db w)\<lparr>trusts := update_rows P f (trusts (db w))\<rparr>\<rparr>)"
    and "\<And>e fs. E e (w\<lparr>faults := fs\<rparr>)"
  shows "post Q E (exec (update_trusts P f) w)"
  by (rule post_exec) (use assms in \<open>auto simp: update_trusts_def\<close>)

lemma post_insert_image_event [wp]:
  assumes "\<And>rows fs. Q 1 (w\<lparr>faults := fs, db := (db w)\<lparr>image_events := rows\<rparr>\<rparr>)" and "\<And>e fs. E e (w\<lparr>faults := fs\<rparr>)"
  shows "post Q E (exec (insert_image_event r) w)"
  by (rule post_exec) (use assms in \<open>auto simp: insert_image_event_def split: if_splits\<close>)

lemma post_insert_audit [wp]:
  assumes "\<And>fs. Q 1 (w\<lparr>faults := fs, db := (db w)\<lparr>audits := audits (db w) @ [r\<lparr>a_id := next_audit (db w)\<rparr>],
      next_audit := Suc (next_audit (db w))\<rparr>\<rparr>)" and "\<And>e fs. E e (w\<lparr>faults := fs\<rparr>)"
  shows "post Q E (exec (insert_audit r) w)"
  by (rule post_exec) (use assms in \<open>auto simp: insert_audit_def\<close>)

text \<open>An issued token parses back to its identifier, whatever bytes were drawn.\<close>

lemma hex_no_underscore: "CHR ''_'' \<notin> set (hex_encode bs)"
proof -
  have "\<forall>n \<in> set [0..<16]. hex_digit n \<noteq> CHR ''_''" by code_simp
  moreover have "hex_digit n = hex_digit (n mod 16)" for n by (simp add: hex_digit_def)
  ultimately have "hex_digit n \<noteq> CHR ''_''" for n by (metis atLeastLessThan_iff mod_less_divisor set_upt zero_le zero_less_numeral)
  then have "CHR ''_'' \<noteq> hex_digit n" for n by metis
  then show ?thesis by (simp add: hex_encode_def)
qed

lemma b64_nonempty: "s \<noteq> [] \<Longrightarrow> b64_encode s \<noteq> []"
  by (cases "map of_char s :: nat list" rule: b64_groups.cases) (auto simp: b64_encode_def)

lemma SplitN_four:
  assumes "c \<notin> set a" "c \<notin> set b" "c \<notin> set d"
  shows "SplitN (a @ c # b @ c # d @ c # e) c 4 = [a, b, d, e]"
proof -
  have four: "(4 :: nat) = Suc (Suc (Suc (Suc 0)))" by simp
  show ?thesis unfolding four using assms by simp
qed

lemma SplitN_issued:
  assumes "CHR ''_'' \<notin> set kind" "CHR ''_'' \<notin> set prefix" "bs \<noteq> []"
  shows "SplitN (''autback_'' @ kind @ ''_'' @ (prefix @ hex_encode xs) @ ''_'' @ b64_encode bs) CHR ''_'' 4 =
    [''autback'', kind, prefix @ hex_encode xs, b64_encode bs]"
proof -
  have "''autback_'' @ kind @ ''_'' @ (prefix @ hex_encode xs) @ ''_'' @ b64_encode bs =
    ''autback'' @ CHR ''_'' # kind @ CHR ''_'' # (prefix @ hex_encode xs) @ CHR ''_'' # b64_encode bs" by simp
  moreover have "CHR ''_'' \<notin> set ''autback''" "CHR ''_'' \<notin> set (prefix @ hex_encode xs)"
    using assms hex_no_underscore by auto
  ultimately show ?thesis using SplitN_four [OF _ assms(1)] by (simp only: not_False_eq_True)
qed

definition issued :: "string \<Rightarrow> string \<Rightarrow> string \<Rightarrow> string \<Rightarrow> bool" where
  "issued prefix kind i secret \<longleftrightarrow> (\<exists>xs bs. i = prefix @ hex_encode xs \<and> length bs = 32 \<and>
     secret = ''autback_'' @ kind @ ''_'' @ i @ ''_'' @ b64_encode bs)"

lemma issued_SplitN:
  assumes "issued prefix kind i secret" "CHR ''_'' \<notin> set kind" "CHR ''_'' \<notin> set prefix"
  obtains rest where "SplitN secret CHR ''_'' 4 = [''autback'', kind, i, rest]" "rest \<noteq> []"
proof -
  obtain xs bs where i: "i = prefix @ hex_encode xs" "length bs = 32"
    "secret = ''autback_'' @ kind @ ''_'' @ i @ ''_'' @ b64_encode bs" using assms(1) by (auto simp: issued_def)
  then have "bs \<noteq> []" by auto
  show ?thesis
    using that SplitN_issued [OF assms(2,3) \<open>bs \<noteq> []\<close>, of xs] b64_nonempty [OF \<open>bs \<noteq> []\<close>] i(1,3) by simp
qed

lemma post_newOpaque [wp]:
  assumes "\<And>i secret es. issued prefix kind i secret \<Longrightarrow> Q (i, secret, digest mac secret) (w\<lparr>entropy := es\<rparr>)"
    and "\<And>es. E ErrRandom (w\<lparr>entropy := es\<rparr>)"
  shows "post Q E (newOpaque mac prefix kind w)"
proof -
  have "E ErrRandom w" using assms(2) [of "entropy w"] by simp
  moreover have "Q (prefix @ hex_encode xs, secret, digest mac secret) (w\<lparr>entropy := es\<rparr>)"
    if "secret = ''autback_'' @ kind @ ''_'' @ (prefix @ hex_encode xs) @ ''_'' @ b64_encode bs" "length bs = 32" for xs bs es secret
    by (rule assms(1)) (use that in \<open>auto simp: issued_def\<close>)
  ultimately show ?thesis unfolding newOpaque_def Let_def by (intro wp) (use assms(2) in simp_all)
qed

section \<open>Calls\<close>

datatype auth_call =
    AuthBootstrap bootstrap
  | AuthAuthenticate string
  | AuthCreateUser principal string bool
  | AuthBindIdentity principal string external_identity
  | AuthRevokeIdentity principal string string
  | AuthUserByIdentity string string string
  | AuthCreateSession string time
  | AuthRevokeSession string
  | AuthCreateLoginState string string time
  | AuthConsumeLoginState string time
  | AuthCreateDeviceLogin string time
  | AuthApproveDeviceLogin string principal time
  | AuthExchangeDeviceLogin string time
  | AuthCreateDeviceToken principal create_device_token
  | AuthCreateEnrollment principal string string time
  | AuthExchangeEnrollment string
  | AuthRevokeDeviceToken principal string
  | AuthCreateProjectSession string string time
  | AuthCreateProject principal string string
  | AuthAddMember principal string string
  | AuthActivateImage principal string string
  | AuthRollbackImage principal string
  | AuthImagePolicy principal string bool
  | AuthCreateTrust principal github_trust
  | AuthRevokeTrust principal string
  | AuthAudit principal string string string "(string \<times> string) list"

fun run_auth :: "(string \<Rightarrow> string) \<Rightarrow> auth_call \<Rightarrow> cworld \<Rightarrow> cworld" where
  "run_auth mac (AuthBootstrap input) w = snd (Bootstrap mac input w)"
| "run_auth mac (AuthAuthenticate token) w = snd (Authenticate mac token w)"
| "run_auth mac (AuthCreateUser p name admin) w = snd (CreateUser p name admin w)"
| "run_auth mac (AuthBindIdentity p u identity) w = snd (BindExternalIdentity p u identity w)"
| "run_auth mac (AuthRevokeIdentity p u provider) w = snd (RevokeExternalIdentity p u provider w)"
| "run_auth mac (AuthUserByIdentity provider subject login) w = snd (UserByExternalIdentity provider subject login w)"
| "run_auth mac (AuthCreateSession u t) w = snd (CreateBrowserSession mac u t w)"
| "run_auth mac (AuthRevokeSession token) w = snd (RevokeBrowserSession mac token w)"
| "run_auth mac (AuthCreateLoginState r v t) w = snd (CreateOAuthLoginState mac r v t w)"
| "run_auth mac (AuthConsumeLoginState s t) w = snd (ConsumeOAuthLoginState mac s t w)"
| "run_auth mac (AuthCreateDeviceLogin n t) w = snd (CreateDeviceLogin mac n t w)"
| "run_auth mac (AuthApproveDeviceLogin c p t) w = snd (ApproveDeviceLogin c p t w)"
| "run_auth mac (AuthExchangeDeviceLogin c t) w = snd (ExchangeDeviceLogin mac c t w)"
| "run_auth mac (AuthCreateDeviceToken p input) w = snd (CreateDeviceToken mac p input w)"
| "run_auth mac (AuthCreateEnrollment p u n t) w = snd (CreateEnrollmentCode mac p u n t w)"
| "run_auth mac (AuthExchangeEnrollment c) w = snd (ExchangeEnrollmentCode mac c w)"
| "run_auth mac (AuthRevokeDeviceToken p i) w = snd (RevokeDeviceToken p i w)"
| "run_auth mac (AuthCreateProjectSession p s t) w = snd (CreateProjectSession mac p s t w)"
| "run_auth mac (AuthCreateProject p slug name) w = snd (CreateProject p slug name w)"
| "run_auth mac (AuthAddMember p sel u) w = snd (AddProjectMember p sel u w)"
| "run_auth mac (AuthActivateImage p i img) w = snd (ActivateProjectImage p i img w)"
| "run_auth mac (AuthRollbackImage p i) w = snd (RollbackProjectImage p i w)"
| "run_auth mac (AuthImagePolicy p i allow) w = snd (SetProjectImagePolicy p i allow w)"
| "run_auth mac (AuthCreateTrust p trust) w = snd (CreateGitHubTrust p trust w)"
| "run_auth mac (AuthRevokeTrust p i) w = snd (RevokeGitHubTrust p i w)"
| "run_auth mac (AuthAudit p i action target metadata) w = snd (Audit p i action target metadata w)"

lemmas auth_defs =
  Bootstrap_def Authenticate_def CreateUser_def BindExternalIdentity_def RevokeExternalIdentity_def
  UserByExternalIdentity_def CreateBrowserSession_def RevokeBrowserSession_def CreateOAuthLoginState_def
  ConsumeOAuthLoginState_def CreateDeviceLogin_def ApproveDeviceLogin_def ExchangeDeviceLogin_def
  CreateDeviceToken_def CreateEnrollmentCode_def ExchangeEnrollmentCode_def RevokeDeviceToken_def
  CreateProjectSession_def CreateProject_def AddProjectMember_def ActivateProjectImage_def
  RollbackProjectImage_def SetProjectImagePolicy_def CreateGitHubTrust_def RevokeGitHubTrust_def Audit_def
  require_user_def newToken_def randomUserCode_def project_of_def AuthorizeProject_def changeProjectImage_def

text \<open>The tables of jobs, builds and operations, which these calls leave alone.\<close>

definition same_operations :: "database \<Rightarrow> database \<Rightarrow> bool" where
  "same_operations d d' \<longleftrightarrow> jobs d' = jobs d \<and> builds d' = builds d \<and> queue d' = queue d \<and>
     next_sequence d' = next_sequence d \<and> baselines d' = baselines d"

lemma run_auth_operations: "same_operations (db w) (db (run_auth mac c w))"
  by (cases c; simp only: run_auth.simps auth_defs; rule post_keeps; intro wp; simp add: same_operations_def Let_def)

section \<open>Keys\<close>

definition auth_inv :: "database \<Rightarrow> bool" where
  "auth_inv d \<longleftrightarrow> distinct (map u_id (users d)) \<and> distinct (map pr_id (projects d)) \<and> distinct (map pr_slug (projects d)) \<and>
     distinct (map t_id (tokens d)) \<and> distinct (map e_id (enrollments d)) \<and>
     (\<forall>r \<in> set (enrollments d). 0 \<le> e_failed_attempts r \<and> e_failed_attempts r \<le> e_max_attempts r) \<and>
     t_user_id ` set (tokens d) \<subseteq> insert None (Some ` set (map u_id (users d)))"

lemma ball_update_rows:
  "(\<forall>r \<in> set (update_rows P f rows). Q r) \<longleftrightarrow> (\<forall>r \<in> set rows. if P r then Q (f r) else Q r)"
  by (auto simp: set_update_rows)

text \<open>A failed exchange counts one more attempt, on a code that had attempts left.\<close>

lemma enrollment_counts:
  assumes "find (\<lambda>r. e_id r = i) rows = Some r" "distinct (map e_id rows)" "s \<in> set rows" "e_id s = e_id r"
  shows "s = r"
  using assms unique_row [OF assms(2), of r s] by (auto dest: find_SomeD)

lemma failed_attempt_inv:
  assumes inv: "auth_inv d" and r: "find (\<lambda>r. e_id r = i) (enrollments d) = Some r" "e_failed_attempts r < e_max_attempts r"
  shows "auth_inv (d\<lparr>enrollments := update_rows (\<lambda>s. e_id s = e_id r)
    (\<lambda>s. s\<lparr>e_failed_attempts := e_failed_attempts r + 1\<rparr>) (enrollments d)\<rparr>)"
proof -
  have "s = r" if "s \<in> set (enrollments d)" "e_id s = e_id r" for s
    using enrollment_counts [OF r(1) _ that] inv by (simp add: auth_inv_def)
  moreover have "r \<in> set (enrollments d)" using r(1) by (auto dest: find_SomeD)
  ultimately have "\<forall>s \<in> set (enrollments d). if e_id s = e_id r
      then 0 \<le> e_failed_attempts r + 1 \<and> e_failed_attempts r + 1 \<le> e_max_attempts s
      else 0 \<le> e_failed_attempts s \<and> e_failed_attempts s \<le> e_max_attempts s"
    using inv r(2) unfolding auth_inv_def by (metis add_increasing2 zero_le_one zless_imp_add1_zle)
  then show ?thesis using inv by (simp add: auth_inv_def ball_update_rows)
qed

lemma run_auth_inv: "auth_inv (db w) \<Longrightarrow> auth_inv (db (run_auth mac c w))"
  by (cases c; simp only: run_auth.simps auth_defs; rule post_keeps; intro wp;
      (simp add: auth_inv_def ball_update_rows new_token_row_def new_project_row_def; fail)?;
      (auto simp: auth_inv_def ball_update_rows new_token_row_def new_project_row_def; fail)?;
      simp add: scanEnrollment_def failed_attempt_inv)

section \<open>Nothing is undone\<close>

definition token_kept :: "token_row \<Rightarrow> token_row \<Rightarrow> bool" where
  "token_kept r r' \<longleftrightarrow> t_id r' = t_id r \<and> t_kind r' = t_kind r \<and> t_user_id r' = t_user_id r \<and>
     t_project_id r' = t_project_id r \<and> t_subject r' = t_subject r \<and> t_digest r' = t_digest r \<and>
     t_expires_at r' = t_expires_at r \<and> (t_revoked_at r \<noteq> None \<longrightarrow> t_revoked_at r' = t_revoked_at r)"

definition enrollment_kept :: "enrollment_row \<Rightarrow> enrollment_row \<Rightarrow> bool" where
  "enrollment_kept r r' \<longleftrightarrow> e_id r' = e_id r \<and> e_user_id r' = e_user_id r \<and> e_digest r' = e_digest r \<and>
     e_expires_at r' = e_expires_at r \<and> e_max_attempts r' = e_max_attempts r \<and>
     e_failed_attempts r \<le> e_failed_attempts r' \<and> (e_consumed_at r \<noteq> None \<longrightarrow> e_consumed_at r' = e_consumed_at r)"

definition auth_mono :: "database \<Rightarrow> database \<Rightarrow> bool" where
  "auth_mono d d' \<longleftrightarrow>
     (\<forall>r \<in> set (tokens d). \<exists>r' \<in> set (tokens d'). token_kept r r') \<and>
     (\<forall>r \<in> set (enrollments d). \<exists>r' \<in> set (enrollments d'). enrollment_kept r r') \<and>
     set (users d) \<subseteq> set (users d')"

lemma kept_refl [simp]: "token_kept t t" "enrollment_kept e e"
  by (simp_all add: token_kept_def enrollment_kept_def)

lemma kept_updates [simp]:
  "token_kept t (t\<lparr>t_last_used_at := x\<rparr>)" "t_revoked_at t = None \<Longrightarrow> token_kept t (t\<lparr>t_revoked_at := x\<rparr>)"
  "e_consumed_at e = None \<Longrightarrow> enrollment_kept e (e\<lparr>e_consumed_at := x\<rparr>)"
  by (simp_all add: token_kept_def enrollment_kept_def)

lemma kept_same [simp]: "(\<And>r. K r r) \<Longrightarrow> \<forall>r \<in> set rows. \<exists>r' \<in> set rows. K r r'"
  and kept_insert [simp]: "(\<And>r. K r r) \<Longrightarrow> \<forall>r \<in> set rows. K r new \<or> (\<exists>r' \<in> set rows. K r r')"
  by blast+

lemma failed_attempt_kept:
  assumes "auth_inv d" "find (\<lambda>r. e_id r = i) (enrollments d) = Some r" "s \<in> set (enrollments d)" "e_id s = e_id r"
  shows "enrollment_kept s (s\<lparr>e_failed_attempts := e_failed_attempts r + 1\<rparr>)"
  using enrollment_counts [OF assms(2) _ assms(3,4)] assms(1) by (simp add: auth_inv_def enrollment_kept_def)

lemma kept_trans:
  "token_kept t t' \<Longrightarrow> token_kept t' t'' \<Longrightarrow> token_kept t t''"
  "enrollment_kept e e' \<Longrightarrow> enrollment_kept e' e'' \<Longrightarrow> enrollment_kept e e''"
  by (auto simp: token_kept_def enrollment_kept_def)

lemma tokens_kept_twice:
  assumes "\<And>r. Q r \<Longrightarrow> token_kept r (g r)" "\<And>r. P r \<Longrightarrow> token_kept r (f r)"
  shows "\<forall>r \<in> set rows. \<exists>r' \<in> set (update_rows P f (update_rows Q g rows)). token_kept r r'"
proof
  fix r assume "r \<in> set rows"
  then obtain s where "s \<in> set (update_rows Q g rows)" "token_kept r s"
    using update_rows_sim [of rows Q token_kept g] assms(1) by auto
  moreover then obtain u where "u \<in> set (update_rows P f (update_rows Q g rows))" "token_kept s u"
    using update_rows_sim [of "update_rows Q g rows" P token_kept f] assms(2) by auto
  ultimately show "\<exists>r' \<in> set (update_rows P f (update_rows Q g rows)). token_kept r r'" using kept_trans(1) by blast
qed

lemma run_auth_mono: "auth_inv (db w) \<Longrightarrow> auth_mono (db w) (db (run_auth mac c w))"
  by (cases c; simp only: run_auth.simps auth_defs; rule post_keeps; intro wp;
      (simp add: auth_mono_def update_rows_sim subset_insertI; fail)?;
      (simp add: auth_mono_def update_rows_sim scanEnrollment_def failed_attempt_kept; fail)?;
      simp add: auth_mono_def; (rule tokens_kept_twice | rule update_rows_sim); (elim conjE)?; simp)

end
