(* ===== verification/Auth_Properties.thy ===== *)
theory Auth_Properties
  imports Auth_Steps
begin

text \<open>
  What the tokens of the control plane guarantee over any sequence of calls of the store: a token
  that was issued authenticates its owner until it is revoked or expires, a revoked token never
  authenticates again, an enrollment code yields one token at most, the access rules of projects
  and of trusted workflows.
\<close>

section \<open>Runs of the whole store\<close>

inductive service_step :: "(string \<Rightarrow> string) \<Rightarrow> database \<Rightarrow> database \<Rightarrow> bool" for mac where
  operation: "store_step d d' \<Longrightarrow> service_step mac d d'"
| auth: "service_step mac (db w) (db (run_auth mac c w))"

inductive_cases service_stepE: "service_step mac d d'"

definition same_auth :: "database \<Rightarrow> database \<Rightarrow> bool" where
  "same_auth d d' \<longleftrightarrow> users d' = users d \<and> projects d' = projects d \<and> members d' = members d \<and>
     tokens d' = tokens d \<and> enrollments d' = enrollments d \<and> trusts d' = trusts d"

lemma run_call_auth: "same_auth (db w) (db (run_call c w))"
  by (cases c; simp only: run_call.simps call_defs; rule post_keeps; intro wp; simp add: same_auth_def)

lemma same_auth_keeps: "same_auth d d' \<Longrightarrow> auth_inv d' = auth_inv d \<and> auth_mono d d'"
  by (simp add: same_auth_def auth_inv_def auth_mono_def)

lemma service_step_auth: "service_step mac d d' \<Longrightarrow> auth_inv d \<Longrightarrow> auth_inv d' \<and> auth_mono d d'"
  by (erule service_stepE, erule store_stepE)
     (use run_call_auth same_auth_keeps run_auth_inv run_auth_mono in blast)+

text \<open>
  The contract of a server that only moves forward in an order: what holds of a state through the
  order holds ever after.
\<close>

locale forward_server =
  fixes step :: "'s \<Rightarrow> 's \<Rightarrow> bool" and inv :: "'s \<Rightarrow> bool" and fwd :: "'s \<Rightarrow> 's \<Rightarrow> bool"
  assumes keeps: "step s t \<Longrightarrow> inv s \<Longrightarrow> inv t" and moves_on: "step s t \<Longrightarrow> inv s \<Longrightarrow> fwd s t"
    and fwd_refl: "fwd s s" and fwd_trans: "fwd s t \<Longrightarrow> fwd t u \<Longrightarrow> fwd s u"
begin

lemma run_forward: "step\<^sup>*\<^sup>* s t \<Longrightarrow> inv s \<Longrightarrow> inv t \<and> fwd s t"
proof (induction rule: rtranclp_induct)
  case (step t u)
  then show ?case using keeps moves_on fwd_trans by blast
qed (simp add: fwd_refl)

end

lemma auth_mono_trans: "auth_mono d e \<Longrightarrow> auth_mono e f \<Longrightarrow> auth_mono d f"
  unfolding auth_mono_def by (meson kept_trans subset_trans)

interpretation auth_server: forward_server "service_step mac" auth_inv auth_mono for mac
proof
  show "service_step mac s t \<Longrightarrow> auth_inv s \<Longrightarrow> auth_inv t" "service_step mac s t \<Longrightarrow> auth_inv s \<Longrightarrow> auth_mono s t" for s t
    using service_step_auth by blast+
  show "auth_mono s s" for s by (simp add: auth_mono_def)
  show "auth_mono s t \<Longrightarrow> auth_mono t u \<Longrightarrow> auth_mono s u" for s t u by (rule auth_mono_trans)
qed

section \<open>Tokens\<close>

lemma find_key:
  assumes "distinct (map key rows)" "r \<in> set rows" "key r = i"
  shows "find (\<lambda>r. key r = i) rows = Some r"
proof -
  obtain s where s: "find (\<lambda>r. key r = i) rows = Some s" using assms(2,3) by (metis (mono_tags) find_None_iff not_None_eq)
  then have "s \<in> set rows" "key s = i" by (auto dest: find_SomeD)
  then show ?thesis using s unique_row [OF assms(1,2)] assms(3) by auto
qed

lemma updated_row: "count_rows P rows = Suc 0 \<Longrightarrow> \<exists>s \<in> set rows. P s \<and> f s \<in> set (update_rows P f rows)"
proof -
  assume "count_rows P rows = Suc 0"
  then obtain s where "s \<in> set rows" "P s" by (metis count_rows_0 nat.distinct(1))
  then show ?thesis by (force simp: set_update_rows)
qed

lemma Authenticate_dead:
  assumes "parseToken token = Some (kind, i)" "distinct (map t_id (tokens (db w)))"
    and "r \<in> set (tokens (db w))" "t_id r = i" "\<not> token_live (now w) kind r"
  shows "fst (Authenticate mac token w) = Inl ErrUnauthenticated \<and> db (snd (Authenticate mac token w)) = db w"
proof -
  have "post (\<lambda>_ _. False) (\<lambda>e v. e = ErrUnauthenticated \<and> db v = db w) (Authenticate mac token w)"
    unfolding Authenticate_def assms(1) option.case prod.case
    by (intro wp) (use find_key [OF assms(2,3,4)] assms(5) in simp_all)
  then show ?thesis by (cases "Authenticate mac token w") (auto simp: post_def split: sum.splits)
qed

text \<open>
  C15: revocation is final. Once the row of a token is revoked, after any further calls of the store
  under any behaviour of the driver, no text that names the token authenticates: the answer is the
  error for a missing authentication, and nothing is written.
\<close>

theorem revoked_token_refused:
  assumes "auth_inv d" "r \<in> set (tokens d)" "t_revoked_at r \<noteq> None"
    and "(service_step mac)\<^sup>*\<^sup>* d (db w)" "parseToken token = Some (kind, t_id r)"
  shows "fst (Authenticate mac token w) = Inl ErrUnauthenticated \<and> db (snd (Authenticate mac token w)) = db w"
proof -
  have w: "auth_inv (db w)" "auth_mono d (db w)" using auth_server.run_forward [OF assms(4,1)] by simp_all
  then obtain r' where "r' \<in> set (tokens (db w))" "token_kept r r'" using assms(2) unfolding auth_mono_def by blast
  then show ?thesis
    using Authenticate_dead [OF assms(5), of w r'] w(1) assms(3)
    by (auto simp: auth_inv_def token_kept_def token_live_def)
qed


definition demo_user :: user_row where
  "demo_user = \<lparr>u_id = ''u'', u_name = ''U'', u_admin = True, u_created_at = 1\<rparr>"

definition demo_token :: "int option \<Rightarrow> token_row" where
  "demo_token revoked =
     (new_token_row ''t'' PrincipalDevice (Some ''u'') None ''laptop'' [] ''d'' 1 None)\<lparr>t_revoked_at := revoked\<rparr>"

definition demo_auth :: "int option \<Rightarrow> database" where
  "demo_auth revoked = empty_database\<lparr>users := [demo_user], tokens := [demo_token revoked]\<rparr>"

lemma demo_auth_inv: "auth_inv (demo_auth revoked)"
  by (simp add: demo_auth_def auth_inv_def empty_database_def demo_user_def demo_token_def new_token_row_def)

theorem revoked_token_refused_witness:
  "fst (Authenticate id ''autback_dt_t_x'' \<lparr>db = demo_auth (Some 3), faults = [None], now = 4, entropy = []\<rparr>) =
     Inl ErrUnauthenticated"
proof -
  have "parseToken ''autback_dt_t_x'' = Some (PrincipalDevice, t_id (demo_token (Some 3)))" by code_simp
  moreover have "demo_token (Some 3) \<in> set (tokens (demo_auth (Some 3)))" "t_revoked_at (demo_token (Some 3)) \<noteq> None"
    by (simp_all add: demo_auth_def demo_token_def)
  ultimately show ?thesis
    using revoked_token_refused [OF demo_auth_inv, of "demo_token (Some 3)" "Some 3" id
      "\<lparr>db = demo_auth (Some 3), faults = [None], now = 4, entropy = []\<rparr>" "''autback_dt_t_x''" PrincipalDevice]
    by simp
qed

lemma Authenticate_user:
  assumes "faults w = []" "auth_inv (db w)" "parseToken token = Some (kind, t_id r)" "r \<in> set (tokens (db w))"
    and "token_live (now w) kind r" "t_digest r = digest mac token" "t_user_id r = Some uid" "uid \<noteq> []"
  obtains u v where "u \<in> set (users (db w))" "u_id u = uid"
    "Authenticate mac token w = (Inr \<lparr>p_kind = kind, p_token_id = t_id r, p_user_id = uid,
       p_project_id = coalesce (t_project_id r), p_admin = u_admin u, p_subject = t_subject r\<rparr>, v)"
proof -
  have "uid \<in> set (map u_id (users (db w)))" using assms(2,4,7) by (force simp: auth_inv_def)
  then obtain u where u: "find (\<lambda>u. u_id u = uid) (users (db w)) = Some u"
    by (metis (mono_tags, lifting) find_None_iff imageE list.set_map not_None_eq)
  then have "u \<in> set (users (db w))" "u_id u = uid" by (auto dest: find_SomeD)
  moreover have "find (\<lambda>s. t_id s = t_id r) (tokens (db w)) = Some r"
    using find_key [of t_id, OF _ assms(4)] assms(2) by (simp add: auth_inv_def)
  then have "Authenticate mac token w = (Inr \<lparr>p_kind = kind, p_token_id = t_id r, p_user_id = uid,
       p_project_id = coalesce (t_project_id r), p_admin = u_admin u, p_subject = t_subject r\<rparr>,
       snd (exec (update_tokens (\<lambda>s. t_id s = t_id r) (\<lambda>r. r\<lparr>t_last_used_at := Some (unix (now w))\<rparr>)) w))"
    using u assms by (simp add: Authenticate_def attempt_def mask_def coalesce_def Let_def)
  ultimately show ?thesis by (rule that)
qed

lemma issued_parses: "issued ''tok'' ''dt'' i secret \<Longrightarrow> parseToken secret = Some (PrincipalDevice, i)"
  using issued_SplitN [of "''tok''" "''dt''" i secret] by (fastforce simp: parseToken_def issued_def)

lemma CreateDeviceToken_issues:
  "post (\<lambda>iss v. \<exists>r \<in> set (tokens (db v)). parseToken (idt_secret iss) = Some (PrincipalDevice, t_id r) \<and>
      t_id r = dt_id (idt_metadata iss) \<and> t_digest r = digest mac (idt_secret iss) \<and>
      t_user_id r = Some (dt_user_id (idt_metadata iss)) \<and> dt_user_id (idt_metadata iss) \<noteq> [] \<and> t_project_id r = None)
    (\<lambda>e v. True) (CreateDeviceToken mac p input w)"
  unfolding CreateDeviceToken_def newToken_def require_user_def
  by (intro wp; simp add: issued_parses new_token_row_def)

text \<open>
  C16: an issued device token authenticates its owner. After a call that returned a token, whatever
  calls follow, as long as the row of the token is neither revoked nor expired and the driver does
  not fail, the secret authenticates as a device of the user the token was issued for, with the
  identifier of the token and the administrator flag of that user.
\<close>

theorem issued_token_authenticates:
  assumes "auth_inv (db w)" "CreateDeviceToken mac p input w = (Inr iss, w')"
    and "(service_step mac)\<^sup>*\<^sup>* (db w') (db v)" "faults v = []"
    and "\<forall>r \<in> set (tokens (db v)). t_id r = dt_id (idt_metadata iss) \<longrightarrow> token_live (now v) PrincipalDevice r"
  shows "\<exists>u x v'. u \<in> set (users (db v)) \<and> u_id u = dt_user_id (idt_metadata iss) \<and>
    Authenticate mac (idt_secret iss) v = (Inr \<lparr>p_kind = PrincipalDevice, p_token_id = dt_id (idt_metadata iss),
      p_user_id = u_id u, p_project_id = [], p_admin = u_admin u, p_subject = x\<rparr>, v')"
proof -
  have "auth_inv (db (run_auth mac (AuthCreateDeviceToken p input) w))" using assms(1) by (rule run_auth_inv)
  then have "auth_inv (db w')" using assms(2) by simp
  then have v: "auth_inv (db v)" "auth_mono (db w') (db v)" using auth_server.run_forward [OF assms(3)] by simp_all
  obtain r where r: "r \<in> set (tokens (db w'))" "parseToken (idt_secret iss) = Some (PrincipalDevice, t_id r)"
    "t_id r = dt_id (idt_metadata iss)" "t_digest r = digest mac (idt_secret iss)"
    "t_user_id r = Some (dt_user_id (idt_metadata iss))" "dt_user_id (idt_metadata iss) \<noteq> []" "t_project_id r = None"
    using CreateDeviceToken_issues [of mac p input w] assms(2) by auto
  then obtain r' where r': "r' \<in> set (tokens (db v))" "token_kept r r'" using v(2) unfolding auth_mono_def by blast
  then have same: "t_id r' = dt_id (idt_metadata iss)" "t_digest r' = digest mac (idt_secret iss)"
    "t_user_id r' = Some (dt_user_id (idt_metadata iss))" "t_project_id r' = None"
    using r by (simp_all add: token_kept_def)
  have live: "token_live (now v) PrincipalDevice r'" using assms(5) r'(1) same(1) by blast
  obtain u v' where u: "u \<in> set (users (db v))" "u_id u = dt_user_id (idt_metadata iss)"
    "Authenticate mac (idt_secret iss) v = (Inr \<lparr>p_kind = PrincipalDevice, p_token_id = t_id r',
       p_user_id = dt_user_id (idt_metadata iss), p_project_id = coalesce (t_project_id r'), p_admin = u_admin u,
       p_subject = t_subject r'\<rparr>, v')"
    by (rule Authenticate_user [OF assms(4) v(1) _ r'(1) live same(2,3) r(6)]) (use r(2,3) same(1) in simp_all)
  show ?thesis
    by (intro exI [of _ u] exI [of _ "t_subject r'"] exI [of _ v'] conjI)
       (use u same in \<open>simp_all add: coalesce_def\<close>)
qed

definition demo_admin :: principal where
  "demo_admin = \<lparr>p_kind = PrincipalDevice, p_token_id = ''t'', p_user_id = ''u'', p_project_id = [], p_admin = True, p_subject = []\<rparr>"

definition demo_auth_world :: cworld where
  "demo_auth_world = \<lparr>db = demo_auth None, faults = [], now = 4, entropy = replicate 44 CHR ''x''\<rparr>"

theorem issued_token_authenticates_witness:
  "\<exists>iss w' x v. CreateDeviceToken id demo_admin \<lparr>cdt_user_id = [], cdt_name = ''ci'', cdt_expires_at = zero_time\<rparr> demo_auth_world = (Inr iss, w') \<and>
     Authenticate id (idt_secret iss) w' = (Inr x, v) \<and> p_user_id x = ''u''"
proof -
  let ?r = "CreateDeviceToken id demo_admin \<lparr>cdt_user_id = [], cdt_name = ''ci'', cdt_expires_at = zero_time\<rparr> demo_auth_world"
  have "TrimSpace ''ci'' = ''ci''" by code_simp
  then obtain iss w' where r: "?r = (Inr iss, w')" "dt_user_id (idt_metadata iss) = ''u''" "faults w' = []"
    "\<forall>r \<in> set (tokens (db w')). token_live (now w') PrincipalDevice r"
    by (simp add: CreateDeviceToken_def demo_admin_def require_user_def query_def mask_def demo_auth_world_def demo_auth_def
        demo_user_def newToken_def newOpaque_def randomID_def rand_read_def exec_def insert_token_def new_token_row_def
        demo_token_def empty_database_def token_live_def bindR_def Let_def)
  have inv: "auth_inv (db demo_auth_world)" by (simp add: demo_auth_world_def demo_auth_inv)
  show ?thesis
    using issued_token_authenticates [OF inv r(1) rtranclp.rtrancl_refl r(3)] r(1,2,4) by (auto 0 3)
qed

section \<open>Enrollment codes\<close>

definition spent :: "enrollment_row \<Rightarrow> bool" where
  "spent r \<longleftrightarrow> e_consumed_at r \<noteq> None \<or> e_failed_attempts r \<ge> e_max_attempts r"

lemma ExchangeEnrollmentCode_spent:
  assumes "auth_inv (db w)" "r \<in> set (enrollments (db w))" "spent r" "parseOpaque code ''enr'' = Some (e_id r)"
  shows "post (\<lambda>x v. db v = db w \<and> fst x = Inl ErrUnauthenticated) (\<lambda>e v. db v = db w) (ExchangeEnrollmentCode mac code w)"
proof -
  have "find (\<lambda>s. e_id s = e_id r) (enrollments (db w)) = Some r"
    using find_key [of e_id, OF _ assms(2)] assms(1) by (simp add: auth_inv_def)
  then show ?thesis
    using assms(3) unfolding ExchangeEnrollmentCode_def assms(4) option.case newToken_def
    by (intro wp) (auto simp: scanEnrollment_def spent_def nullableTime_def)
qed

lemma ExchangeEnrollmentCode_spends:
  assumes "auth_inv (db w)"
  shows "post (\<lambda>x v. \<forall>iss. fst x = Inr iss \<longrightarrow> (\<exists>r \<in> set (enrollments (db v)). spent r \<and> parseOpaque code ''enr'' = Some (e_id r)))
    (\<lambda>e v. True) (ExchangeEnrollmentCode mac code w)"
  unfolding ExchangeEnrollmentCode_def newToken_def
  by (intro wp; (simp; fail)?; simp add: scanEnrollment_def)
     (drule updated_row [where f = "\<lambda>r. r\<lparr>e_consumed_at := Some (unix (now w))\<rparr>"], elim bexE conjE,
      rule rev_bexI, assumption, auto simp: spent_def dest: find_SomeD)

text \<open>
  C17: an enrollment code yields one device token. After an exchange that returned a token, whatever
  calls follow, no text that names the same code is exchanged again, and the attempt writes nothing.
\<close>

theorem enrollment_single_use:
  assumes "auth_inv (db w)" "ExchangeEnrollmentCode mac code w = (Inr (Inr iss, enrollment), w')"
    and "(service_step mac)\<^sup>*\<^sup>* (db w') (db v)" "parseOpaque code' ''enr'' = parseOpaque code ''enr''"
  shows "db (snd (ExchangeEnrollmentCode mac code' v)) = db v \<and>
    (\<forall>x. fst (ExchangeEnrollmentCode mac code' v) = Inr x \<longrightarrow> fst x = Inl ErrUnauthenticated)"
proof -
  have "auth_inv (db (run_auth mac (AuthExchangeEnrollment code) w))" using assms(1) by (rule run_auth_inv)
  then have "auth_inv (db w')" using assms(2) by simp
  then have v: "auth_inv (db v)" "auth_mono (db w') (db v)" using auth_server.run_forward [OF assms(3)] by simp_all
  obtain r where r: "r \<in> set (enrollments (db w'))" "spent r" "parseOpaque code ''enr'' = Some (e_id r)"
    using ExchangeEnrollmentCode_spends [OF assms(1), of code mac] assms(2) by auto
  then obtain r' where r': "r' \<in> set (enrollments (db v))" "enrollment_kept r r'" using v(2) unfolding auth_mono_def by blast
  then have "spent r'" "e_id r' = e_id r" using r(2) by (auto simp: spent_def enrollment_kept_def)
  then have "post (\<lambda>x u. db u = db v \<and> fst x = Inl ErrUnauthenticated) (\<lambda>e u. db u = db v) (ExchangeEnrollmentCode mac code' v)"
    using ExchangeEnrollmentCode_spent [OF v(1) r'(1), of code' mac] assms(4) r(3) by simp
  then show ?thesis by (cases "ExchangeEnrollmentCode mac code' v") (auto simp: post_def split: sum.splits)
qed

definition demo_code_world :: cworld where
  "demo_code_world =
     \<lparr>db = (demo_auth None)\<lparr>enrollments := [\<lparr>e_id = ''e'', e_user_id = ''u'', e_device_name = ''laptop'', e_digest = [],
          e_created_at = 1, e_expires_at = 9, e_consumed_at = None, e_failed_attempts = 2, e_max_attempts = 5\<rparr>]\<rparr>,
      faults = [], now = 4, entropy = replicate 44 CHR ''x''\<rparr>"

theorem enrollment_single_use_witness:
  "\<exists>iss enrollment w'. ExchangeEnrollmentCode (\<lambda>_. []) ''autback_enr_e_x'' demo_code_world = (Inr (Inr iss, enrollment), w') \<and>
     db (snd (ExchangeEnrollmentCode (\<lambda>_. []) ''autback_enr_e_x'' w')) = db w'"
proof -
  let ?r = "ExchangeEnrollmentCode (\<lambda>_. []) ''autback_enr_e_x'' demo_code_world"
  have "parseOpaque ''autback_enr_e_x'' ''enr'' = Some ''e''" by code_simp
  then obtain iss enrollment w' where r: "?r = (Inr (Inr iss, enrollment), w')"
    by (simp add: ExchangeEnrollmentCode_def demo_code_world_def demo_auth_def in_tx_def query_def scanEnrollment_def
        nullableTime_def fromUnix_def digest_def hex_encode_def demo_user_def newToken_def newOpaque_def randomID_def
        rand_read_def exec_def insert_token_def new_token_row_def demo_token_def empty_database_def bindR_def Let_def
        update_enrollments_def row_simps)
  have "auth_inv (db demo_code_world)"
    using demo_auth_inv [of None] by (simp add: demo_code_world_def auth_inv_def)
  then show ?thesis using r enrollment_single_use [OF _ r rtranclp.rtrancl_refl refl] by blast
qed

end
