(* ===== verification/Project_Properties.thy ===== *)
theory Project_Properties
  imports Auth_Properties
begin

text \<open>
  Properties of projects: who may use them, what activating and rolling back an image does, and
  which workflows a trust admits.
\<close>

section \<open>Access to projects\<close>

definition may_access :: "database \<Rightarrow> principal \<Rightarrow> project_row \<Rightarrow> bool" where
  "may_access d actor p \<longleftrightarrow>
     (if p_project_id actor \<noteq> [] then p_project_id actor = pr_id p
      else p_user_id actor \<noteq> [] \<and> (p_admin actor \<or>
        (\<exists>m \<in> set (members d). m_project_id m = pr_id p \<and> m_user_id m = p_user_id actor)))"

text \<open>No slug of a project is the identifier of another one.\<close>

definition selectors_ok :: "project_row list \<Rightarrow> bool" where
  "selectors_ok rows \<longleftrightarrow> (\<forall>p \<in> set rows. \<forall>q \<in> set rows. pr_slug p = pr_id q \<longrightarrow> p = q)"

lemma project_of_id:
  assumes "auth_inv (db w)" "selectors_ok (projects (db w))" "faults w = []" "p \<in> set (projects (db w))"
  shows "project_of (pr_id p) w = (Inr (scanProject p), w)"
proof -
  obtain q where q: "find (\<lambda>r. pr_id r = pr_id p \<or> pr_slug r = pr_id p) (projects (db w)) = Some q"
    using assms(4) by (metis (mono_tags, lifting) find_None_iff not_None_eq)
  then have "q \<in> set (projects (db w))" "pr_id q = pr_id p \<or> pr_slug q = pr_id p" by (auto dest: find_SomeD)
  moreover have "distinct (map pr_id (projects (db w)))" using assms(1) by (simp add: auth_inv_def)
  ultimately have "q = p" using unique_row [of pr_id, OF _ _ assms(4)] assms(2,4) unfolding selectors_ok_def by blast
  then show ?thesis using q assms(3) by (simp add: project_of_def)
qed

lemma AuthorizeProject_exact:
  assumes "auth_inv (db w)" "selectors_ok (projects (db w))" "faults w = []" "p \<in> set (projects (db w))"
  shows "AuthorizeProject actor (pr_id p) w =
    (if may_access (db w) actor p then Inr (scanProject p) else Inl ErrForbidden, w)"
proof -
  have pid: "project_id (scanProject p) = pr_id p" by (simp add: scanProject_def)
  let ?member = "\<exists>m \<in> set (members (db w)). m_project_id m = pr_id p \<and> m_user_id m = p_user_id actor"
  note run = AuthorizeProject_def project_of_id [OF assms] may_access_def
  show ?thesis
  proof (cases "p_project_id actor = [] \<and> p_user_id actor \<noteq> [] \<and> \<not> p_admin actor")
    case True
    then show ?thesis using assms(3) by (cases ?member) (simp_all add: run pid mask_def)
  next
    case False
    then show ?thesis by (cases "p_project_id actor = []") (auto simp: run pid)
  qed
qed

lemma ListProjects_exact:
  assumes "faults w = []" "p_project_id actor \<noteq> [] \<or> p_user_id actor \<noteq> []"
  obtains ps where "ListProjects actor w = (Inr ps, w)"
    "set ps = scanProject ` {p \<in> set (projects (db w)). may_access (db w) actor p}"
proof -
  consider "p_project_id actor \<noteq> []" | "p_project_id actor = []" "p_user_id actor \<noteq> []" "p_admin actor"
    | "p_project_id actor = []" "p_user_id actor \<noteq> []" "\<not> p_admin actor" using assms(2) by blast
  then show ?thesis
  proof cases
    case 1
    then show ?thesis
      by (intro that) (simp add: ListProjects_def assms(1), auto simp: may_access_def by_slug_def)
  next
    case 2
    then show ?thesis
      by (intro that) (simp add: ListProjects_def assms(1), simp add: may_access_def by_slug_def)
  next
    case 3
    then show ?thesis
      by (intro that) (simp add: ListProjects_def assms(1), auto simp: may_access_def by_slug_def)
  qed
qed

lemma scanProject_inj: "scanProject p = scanProject q \<Longrightarrow> pr_id p = pr_id q"
  by (simp add: scanProject_def)



definition demo_project :: "string \<Rightarrow> string \<Rightarrow> project_row" where
  "demo_project i slug = new_project_row i slug slug 1"

definition demo_projects :: cworld where
  "demo_projects =
     \<lparr>db = (demo_auth None)\<lparr>projects := [demo_project ''p'' ''api'', demo_project ''q'' ''web''],
          members := [\<lparr>m_project_id = ''q'', m_user_id = ''u'', m_created_at = 1\<rparr>]\<rparr>,
      faults = [], now = 4, entropy = replicate 24 CHR ''x''\<rparr>"

lemma demo_projects_ok:
  "auth_inv (db demo_projects)" "selectors_ok (projects (db demo_projects))" "faults demo_projects = []"
  "demo_project ''q'' ''web'' \<in> set (projects (db demo_projects))"
  using demo_auth_inv [of None]
  by (auto simp: demo_projects_def auth_inv_def selectors_ok_def demo_project_def new_project_row_def)


section \<open>Images\<close>

lemma find_updated:
  assumes "find (\<lambda>r. key r = i) rows = Some r" "\<And>r. key (f r) = key r"
  shows "find (\<lambda>r. key r = i) (update_rows (\<lambda>r. key r = i) f rows) = Some (f r)"
  using assms by (induction rows) (auto simp: row_simps split: if_splits)

lemma changeProjectImage_runs:
  assumes "faults w = []" "12 \<le> length (entropy w)" "find (\<lambda>r. pr_id r = i) (projects (db w)) = Some r"
    and "img \<noteq> pr_active_image r" "action = Activate img \<or> action = RollbackImage \<and> pr_previous_image r = img \<and> img \<noteq> []"
    and "\<forall>e \<in> set (image_events (db w)). ie_id e \<noteq> ''img'' @ hex_encode (take 12 (entropy w))"
  shows "\<exists>v e. changeProjectImage actor i action w =
      (Inr (scanProject (r\<lparr>pr_active_image := img, pr_previous_image := pr_active_image r\<rparr>)), v) \<and>
    faults v = [] \<and> entropy v = drop 12 (entropy w) \<and>
    projects (db v) = update_rows (\<lambda>s. pr_id s = i) (\<lambda>s. s\<lparr>pr_active_image := img, pr_previous_image := pr_active_image r\<rparr>) (projects (db w)) \<and>
    image_events (db v) = image_events (db w) @ [e] \<and> ie_id e = ''img'' @ hex_encode (take 12 (entropy w)) \<and>
    ie_project_id e = i \<and> ie_image e = img \<and> ie_replaced_image e = pr_active_image r \<and> ie_action e = action_text action"
proof -
  have r: "r \<in> set (projects (db w))" "pr_id r = i" using assms(3) by (auto dest: find_SomeD)
  have known: "i \<in> pr_id ` set (projects (db w))" using r by force
  have new: "''img'' @ hex_encode (take 12 (entropy w)) \<notin> ie_id ` set (image_events (db w))" using assms(6) by force
  note facts = assms(1-4) r(2) known new
  show ?thesis
    using assms(5)
  proof (elim disjE conjE)
    assume "action = Activate img"
    then show ?thesis using facts
      by (simp add: changeProjectImage_def in_tx_ok Let_def update_projects_def randomID_def rand_read_def
          insert_image_event_def scanProject_def)
  next
    assume "action = RollbackImage" "pr_previous_image r = img" "img \<noteq> []"
    then show ?thesis using facts
      by (simp add: changeProjectImage_def in_tx_ok Let_def update_projects_def randomID_def rand_read_def
          insert_image_event_def scanProject_def nullable_def)
  qed
qed

text \<open>
  C23: a rollback undoes an activation. If activating an image on a project changed its image, then
  a rollback right after it makes the replaced image active again and keeps the rolled back one as
  the previous image, so that a second rollback would bring it back; both changes are recorded.
\<close>

theorem rollback_undoes_activation:
  assumes "device_admin actor" "faults w = []" "length (entropy w) = 24"
    and "find (\<lambda>r. pr_id r = i) (projects (db w)) = Some r" "img \<noteq> pr_active_image r" "pr_active_image r \<noteq> []"
    and "\<forall>e \<in> set (image_events (db w)). ie_id e \<notin> {''img'' @ hex_encode (take 12 (entropy w)), ''img'' @ hex_encode (drop 12 (entropy w))}"
    and "hex_encode (take 12 (entropy w)) \<noteq> hex_encode (drop 12 (entropy w))"
  shows "\<exists>p v q u. ActivateProjectImage actor i img w = (Inr p, v) \<and> RollbackProjectImage actor i v = (Inr q, u) \<and>
    project_active_image p = img \<and> project_active_image q = pr_active_image r \<and> project_previous_image q = img \<and>
    map ie_action (image_events (db u)) = map ie_action (image_events (db w)) @ [''activate'', ''rollback'']"
proof -
  let ?f = "\<lambda>s. s\<lparr>pr_active_image := img, pr_previous_image := pr_active_image r\<rparr>"
  obtain v e where v: "changeProjectImage actor i (Activate img) w = (Inr (scanProject (?f r)), v)" "faults v = []"
    "entropy v = drop 12 (entropy w)" "projects (db v) = update_rows (\<lambda>s. pr_id s = i) ?f (projects (db w))"
    "image_events (db v) = image_events (db w) @ [e]" "ie_id e = ''img'' @ hex_encode (take 12 (entropy w))"
    "ie_action e = action_text (Activate img)"
    using changeProjectImage_runs [OF assms(2) _ assms(4,5), of "Activate img" actor] assms(3,7) by auto
  have found: "find (\<lambda>r. pr_id r = i) (projects (db v)) = Some (?f r)"
    unfolding v(4) by (rule find_updated [OF assms(4)]) simp
  have fresh: "\<forall>e \<in> set (image_events (db v)). ie_id e \<noteq> ''img'' @ hex_encode (take 12 (entropy v))"
    using v(3,5,6) assms(3,7,8) by auto
  obtain u e' where u: "changeProjectImage actor i RollbackImage v =
      (Inr (scanProject ((?f r)\<lparr>pr_active_image := pr_active_image r, pr_previous_image := img\<rparr>)), u)"
    "image_events (db u) = image_events (db v) @ [e']" "ie_action e' = action_text RollbackImage"
    using changeProjectImage_runs [OF v(2) _ found _ _ fresh, of "pr_active_image r" RollbackImage actor] assms(3,5,6) v(3) by auto
  show ?thesis
    using v(1,5,7) u assms(1) by (simp add: ActivateProjectImage_def RollbackProjectImage_def scanProject_def)
qed

definition demo_active :: cworld where
  "demo_active =
     demo_projects\<lparr>db := (db demo_projects)\<lparr>projects := [(demo_project ''p'' ''api'')\<lparr>pr_active_image := ''v1''\<rparr>]\<rparr>,
       entropy := replicate 12 CHR ''a'' @ replicate 12 CHR ''b''\<rparr>"

theorem rollback_undoes_activation_witness:
  "\<exists>p v q u. ActivateProjectImage demo_admin ''p'' ''v2'' demo_active = (Inr p, v) \<and>
     RollbackProjectImage demo_admin ''p'' v = (Inr q, u) \<and> project_active_image q = ''v1''"
proof -
  let ?r = "(demo_project ''p'' ''api'')\<lparr>pr_active_image := ''v1''\<rparr>"
  have "hex_encode (take 12 (entropy demo_active)) \<noteq> hex_encode (drop 12 (entropy demo_active))"
    "find (\<lambda>r. pr_id r = ''p'') (projects (db demo_active)) = Some ?r" by code_simp+
  moreover have "device_admin demo_admin" "faults demo_active = []" "length (entropy demo_active) = 24"
    "pr_active_image ?r = ''v1''" "image_events (db demo_active) = []"
    by (simp_all add: device_admin_def demo_admin_def demo_active_def demo_projects_def demo_auth_def empty_database_def)
  ultimately show ?thesis
    using rollback_undoes_activation [of demo_admin demo_active "''p''" ?r "''v2''"] by fastforce
qed

section \<open>Trusted workflows\<close>

definition trusts_inv :: "database \<Rightarrow> bool" where
  "trusts_inv d \<longleftrightarrow> (\<forall>r \<in> set (trusts d). ''pull_request'' \<in> set (g_events r) \<longrightarrow> g_environment r \<noteq> [])"

lemma run_auth_trusts: "trusts_inv (db w) \<Longrightarrow> trusts_inv (db (run_auth mac c w))"
  by (cases c; simp only: run_auth.simps auth_defs; rule post_keeps; intro wp;
      simp add: trusts_inv_def ball_update_rows)

lemma service_run_trusts: "(service_step mac)\<^sup>*\<^sup>* d d' \<Longrightarrow> trusts_inv d \<Longrightarrow> trusts_inv d'"
proof (induction rule: rtranclp_induct)
  case (step d' d'')
  then show ?case using run_auth_trusts run_call_auth
    by (auto elim!: service_stepE store_stepE simp: same_auth_def trusts_inv_def)
qed

lemma found_row: "find P xs = Some x \<Longrightarrow> x \<in> set xs \<and> P x"
  by (simp add: find_SomeD)

lemma MatchGitHubTrust_finds:
  "post (\<lambda>trust v. \<exists>r \<in> set (trusts (db w)). \<exists>p \<in> set (projects (db w)).
      trust = scanTrust r \<and> g_revoked_at r = None \<and> g_project_id r = pr_id p \<and> selector \<in> {pr_id p, pr_slug p} \<and>
      g_repository_owner_id r = gc_repository_owner_id claims \<and> g_repository_id r = gc_repository_id claims \<and>
      trust_accepts claims (scanTrust r)) (\<lambda>_ _. True) (MatchGitHubTrust selector claims w)"
  unfolding MatchGitHubTrust_def project_of_def
  by (intro wp; (simp; fail)?; drule found_row, drule found_row; auto simp: scanProject_def)


definition demo_trust :: github_trust where
  "demo_trust = \<lparr>gt_id = [], gt_project_id = ''p'', gt_repository_owner_id = ''1'', gt_repository_id = ''2'', gt_workflow_ref = ''w*'',
     gt_ref = ''r?'', gt_environment = [], gt_events = [''push''], gt_created_at = 0, gt_revoked_at = None\<rparr>"

definition demo_claims :: github_claims where
  "demo_claims = \<lparr>gc_subject = [], gc_repository_owner_id = ''1'', gc_repository_id = ''2'', gc_repository = [],
     gc_workflow_ref = ''wf'', gc_ref = ''r1'', gc_environment = [], gc_event_name = ''push'', gc_expires_at = 0\<rparr>"


end
