(* ===== verification/Job_Pages.thy ===== *)
theory Job_Pages
  imports Control_Projects
begin

text \<open>
  The pages of jobs: a cursor that was encoded decodes to itself and no other text decodes without a
  valid signature, and following the page tokens lists every job of the project once, newest first.
\<close>

section \<open>Cursors\<close>

text \<open>What the code relies on: a marshalled cursor is not empty and unmarshals to itself.\<close>

definition codec_ok :: "cursor_codec \<Rightarrow> bool" where
  "codec_ok codec \<longleftrightarrow> (\<forall>c. marshal_cursor codec c \<noteq> [] \<and> unmarshal_cursor codec (marshal_cursor codec c) = Some c)"

definition mac_ok :: "(string \<Rightarrow> string) \<Rightarrow> bool" where
  "mac_ok mac \<longleftrightarrow> (\<forall>s. length (mac s) = 32)"

definition cursor_of :: "string \<Rightarrow> job \<Rightarrow> job_cursor" where
  "cursor_of i job = \<lparr>cursor_project_id = i, cursor_created_at = unix (job_created_at job), cursor_id = job_id job\<rparr>"

lemma decode_encode:
  assumes "codec_ok codec" "mac_ok mac" "unix (job_created_at job) > 0" "job_id job \<noteq> []"
  shows "decodeJobCursor codec mac i (encodeJobCursor codec mac i job) = Inr (cursor_of i job)"
proof -
  let ?p = "marshal_cursor codec (cursor_of i job)"
  have "length (mac ?p) = 32" "?p \<noteq> []" "unmarshal_cursor codec ?p = Some (cursor_of i job)"
    using assms(1,2) by (simp_all add: codec_ok_def mac_ok_def)
  then show ?thesis
    using assms(3,4) by (simp add: decodeJobCursor_def encodeJobCursor_def b64_round_trip Let_def cursor_of_def)
qed

lemma decode_signed:
  assumes "decodeJobCursor codec mac i token = Inr cursor"
  obtains payload where "b64_decode token = Some (payload @ mac payload)" "unmarshal_cursor codec payload = Some cursor"
    "cursor_project_id cursor = i" "cursor_created_at cursor > 0" "cursor_id cursor \<noteq> []"
proof -
  obtain v where v: "b64_decode token = Some v" using assms by (auto simp: decodeJobCursor_def split: option.splits)
  let ?p = "take (length v - 32) v"
  have p: "drop (length v - 32) v = mac ?p" "unmarshal_cursor codec ?p = Some cursor"
    "cursor_project_id cursor = i" "cursor_created_at cursor > 0" "cursor_id cursor \<noteq> []"
    using assms v by (auto simp: decodeJobCursor_def Let_def split: if_splits option.splits)
  have "v = ?p @ mac ?p" using p(1) by (metis append_take_drop_id)
  then show ?thesis using that [of ?p] v p by simp
qed

section \<open>Pages\<close>

abbreviation job_key :: "job_row \<Rightarrow> int \<times> string" where
  "job_key r \<equiv> (j_created_at r, j_id r)"

lemma older_key: "older c r \<longleftrightarrow> job_key r < (cursor_created_at c, cursor_id c)"
  by (auto simp: older_def less_prod_def)

definition descending :: "job_row list \<Rightarrow> bool" where
  "descending rows \<longleftrightarrow> sorted_wrt (\<lambda>a b. job_key b < job_key a) rows"

lemma newest_first_filter: "newest_first (filter P rows) = filter P (newest_first rows)"
  by (simp add: newest_first_def filter_sort flip: rev_filter)

lemma newest_first_descending:
  assumes "distinct (map j_id rows)" shows "descending (newest_first rows)"
proof -
  have "distinct (map job_key rows)" using assms by (auto simp: distinct_map inj_on_def)
  then have "distinct (map job_key (sort_key job_key rows))" by (simp add: distinct_map)
  moreover have "sorted (map job_key (sort_key job_key rows))" by simp
  ultimately have "sorted_wrt (<) (map job_key (sort_key job_key rows))" by (simp only: strict_sorted_iff)
  then show ?thesis unfolding descending_def newest_first_def by (simp add: sorted_wrt_rev sorted_wrt_map)
qed

lemma filter_older:
  assumes "descending rows" "0 < n" "n \<le> length rows"
  shows "filter (\<lambda>r. job_key r < job_key (rows ! (n - 1))) rows = drop n rows"
proof -
  let ?P = "\<lambda>r. job_key r < job_key (rows ! (n - 1))"
  have split: "rows = take (n - 1) rows @ rows ! (n - 1) # drop n rows"
    using assms(2,3) id_take_nth_drop [of "n - 1" rows] by simp
  have d: "sorted_wrt (\<lambda>a b. job_key b < job_key a) (take (n - 1) rows @ rows ! (n - 1) # drop n rows)"
    using assms(1) split by (simp only: descending_def)
  then have "\<forall>r \<in> set (take (n - 1) rows). job_key (rows ! (n - 1)) < job_key r" "\<forall>r \<in> set (drop n rows). ?P r"
    unfolding sorted_wrt_append by simp_all
  then have "filter ?P (take (n - 1) rows) = []" "filter ?P (drop n rows) = drop n rows"
    by (auto simp only: filter_empty_conv filter_id_conv dest: order_less_asym)
  then have "filter ?P (take (n - 1) rows @ rows ! (n - 1) # drop n rows) = drop n rows" by (simp only: filter_append filter.simps) simp
  then show ?thesis using split by (simp only:)
qed

text \<open>A client that follows the page tokens; \<open>None\<close> if a page fails or the pages do not end in \<open>n\<close> calls.\<close>

fun follow_pages :: "nat \<Rightarrow> cursor_codec \<Rightarrow> (string \<Rightarrow> string) \<Rightarrow> string \<Rightarrow> int \<Rightarrow> string \<Rightarrow> cworld \<Rightarrow> job list option" where
  "follow_pages 0 codec mac i pageSize token w = None"
| "follow_pages (Suc n) codec mac i pageSize token w =
     (case ListJobs codec mac i pageSize token w of
        (Inl _, _) \<Rightarrow> None
      | (Inr page, w) \<Rightarrow>
          if page_next_token page = [] then Some (page_jobs page)
          else map_option (\<lambda>rest. page_jobs page @ rest) (follow_pages n codec mac i pageSize (page_next_token page) w))"

definition jobs_of :: "database \<Rightarrow> string \<Rightarrow> job_row list" where
  "jobs_of d i = newest_first (filter (\<lambda>r. j_project_id r = i) (jobs d))"

definition rows_ok :: "job_row list \<Rightarrow> bool" where
  "rows_ok rows \<longleftrightarrow> distinct (map j_id rows) \<and> (\<forall>r \<in> set rows. j_id r \<noteq> [] \<and> 0 < j_created_at r \<and> j_created_at r < 2 ^ 63)"

text \<open>The token of a page that ends with the row before position \<open>k\<close>; the first page has none.\<close>

definition token_at :: "cursor_codec \<Rightarrow> (string \<Rightarrow> string) \<Rightarrow> string \<Rightarrow> job_row list \<Rightarrow> nat \<Rightarrow> string" where
  "token_at codec mac i rows k = (if k = 0 then [] else encodeJobCursor codec mac i (scanJob (rows ! (k - 1))))"

lemma b64_decode_Nil: "b64_decode [] = Some []"
  by (simp add: b64_decode_def)

lemma token_at_nonempty:
  assumes "mac_ok mac" "k \<noteq> 0" shows "token_at codec mac i rows k \<noteq> []"
proof
  assume "token_at codec mac i rows k = []"
  then obtain p where "b64_encode (p @ mac p) = []" using assms(2) by (auto simp: token_at_def encodeJobCursor_def Let_def)
  then have "p @ mac p = []" by (metis b64_round_trip b64_decode_Nil option.inject)
  then show False using assms(1) unfolding mac_ok_def by (metis append_is_Nil_conv list.size(3) zero_neq_numeral)
qed

lemma page_rows:
  assumes "codec_ok codec" "mac_ok mac" "rows_ok (jobs (db w))" "k \<le> length (jobs_of (db w) i)"
  obtains after where "(if token_at codec mac i (jobs_of (db w) i) k = [] then Inr (\<lambda>_. True)
      else map_sum id older (decodeJobCursor codec mac i (token_at codec mac i (jobs_of (db w) i) k))) = Inr after"
    "newest_first (filter (\<lambda>r. j_project_id r = i \<and> after r) (jobs (db w))) = drop k (jobs_of (db w) i)"
proof (cases "k = 0")
  case True
  then show ?thesis using that by (simp add: token_at_def jobs_of_def)
next
  case False
  let ?L = "jobs_of (db w) i" and ?r = "jobs_of (db w) i ! (k - 1)"
  have "?r \<in> set ?L" using False assms(4) by simp
  then have r: "?r \<in> set (jobs (db w))" by (simp add: jobs_of_def newest_first_def)
  then have ok: "j_created_at ?r < 2 ^ 63" "0 < j_created_at ?r" "j_id ?r \<noteq> []"
    using assms(3) by (simp_all add: rows_ok_def)
  then have "unix (fromUnix (j_created_at ?r)) = j_created_at ?r"
    unfolding unix_def fromUnix_def by (intro wrap64_id) simp_all
  with ok(2,3) have "decodeJobCursor codec mac i (token_at codec mac i ?L k) = Inr (cursor_of i (scanJob ?r))"
    and key: "older (cursor_of i (scanJob ?r)) r \<longleftrightarrow> job_key r < job_key ?r" for r
    using decode_encode [OF assms(1,2), of "scanJob ?r" i] False
    by (simp_all add: token_at_def scanJob_def cursor_of_def older_key)
  moreover have "descending ?L"
    using assms(3) by (simp add: jobs_of_def rows_ok_def newest_first_descending distinct_map_filter)
  then have "filter (\<lambda>r. job_key r < job_key ?r) ?L = drop k ?L"
    using filter_older [of ?L k] False assms(4) by simp
  then have "newest_first (filter (\<lambda>r. j_project_id r = i \<and> older (cursor_of i (scanJob ?r)) r) (jobs (db w))) = drop k ?L"
    unfolding key unfolding jobs_of_def
    by (simp only: newest_first_filter filter_filter conj_commute)
  ultimately show ?thesis using that token_at_nonempty [OF assms(2) False] by simp
qed

lemma page_at:
  assumes "codec_ok codec" "mac_ok mac" "rows_ok (jobs (db w))" "k \<le> length (jobs_of (db w) i)"
    and "1 \<le> pageSize" "pageSize \<le> 100" "faults w = []"
  shows "ListJobs codec mac i pageSize (token_at codec mac i (jobs_of (db w) i) k) w =
    (Inr \<lparr>page_jobs = map scanJob (take (nat pageSize) (drop k (jobs_of (db w) i))),
       page_next_token = (if length (jobs_of (db w) i) > k + nat pageSize
         then token_at codec mac i (jobs_of (db w) i) (k + nat pageSize) else [])\<rparr>, w)"
proof -
  let ?L = "jobs_of (db w) i" and ?n = "nat pageSize"
  obtain after where after: "(if token_at codec mac i ?L k = [] then Inr (\<lambda>_. True)
      else map_sum id older (decodeJobCursor codec mac i (token_at codec mac i ?L k))) = Inr after"
    "newest_first (filter (\<lambda>r. j_project_id r = i \<and> after r) (jobs (db w))) = drop k ?L"
    using page_rows [OF assms(1-4)] by blast
  have n: "0 < ?n" using assms(5) by simp
  let ?found = "map scanJob (take (?n + 1) (drop k ?L))"
  have run: "ListJobs codec mac i pageSize (token_at codec mac i ?L k) w =
    (if length ?found > ?n then (Inr \<lparr>page_jobs = take ?n ?found, page_next_token = encodeJobCursor codec mac i (last (take ?n ?found))\<rparr>, w)
     else (Inr \<lparr>page_jobs = ?found, page_next_token = []\<rparr>, w))"
    unfolding ListJobs_def after(1) sum.case using assms(5-7) after(2) by (simp add: Let_def)
  show ?thesis
  proof (cases "length ?L > k + ?n")
    case True
    then have "take ?n ?found = map scanJob (take ?n (drop k ?L))" "length ?found > ?n"
      by (simp_all add: take_map min_def less_diff_conv add.commute)
    moreover have "last (map scanJob (take ?n (drop k ?L))) = scanJob (?L ! (k + ?n - 1))"
      using n True by (simp add: last_map last_conv_nth)
    ultimately show ?thesis using True n unfolding run by (simp add: token_at_def)
  next
    case False
    then show ?thesis unfolding run by (simp add: less_diff_conv add.commute)
  qed
qed


text \<open>A codec that meets the two hypotheses: lengths and the instant in unary.\<close>

definition frame :: "string \<Rightarrow> string" where
  "frame s = replicate (length s) CHR ''n'' @ CHR ''x'' # s"

definition unframe :: "string \<Rightarrow> string \<times> string" where
  "unframe s =
     (let n = length (takeWhile (\<lambda>c. c = CHR ''n'') s); rest = drop (n + 1) s in (take n rest, drop n rest))"

definition demo_codec :: cursor_codec where
  "demo_codec =
     \<lparr>marshal_cursor = (\<lambda>c. frame (cursor_project_id c) @ frame (cursor_id c) @
        (if cursor_created_at c < 0 then CHR ''-'' else CHR ''+'') # replicate (nat \<bar>cursor_created_at c\<bar>) CHR ''1''),
      unmarshal_cursor = (\<lambda>s. let (p, s) = unframe s; (i, s) = unframe s in
        case s of [] \<Rightarrow> None | sign # ones \<Rightarrow>
          Some \<lparr>cursor_project_id = p, cursor_created_at = (if sign = CHR ''-'' then - int (length ones) else int (length ones)),
                cursor_id = i\<rparr>)\<rparr>"

lemma unframe_frame: "unframe (frame s @ rest) = (s, rest)"
proof -
  have "takeWhile (\<lambda>c. c = CHR ''n'') (frame s @ rest) = replicate (length s) CHR ''n''"
    by (simp add: frame_def takeWhile_append)
  then show ?thesis by (simp add: unframe_def frame_def Let_def)
qed

lemma demo_codec_ok: "codec_ok demo_codec"
  by (simp add: codec_ok_def demo_codec_def unframe_frame)

lemma demo_mac_ok: "mac_ok (\<lambda>_. replicate 32 CHR ''m'')"
  by (simp add: mac_ok_def)

definition paged_world :: cworld where
  "paged_world =
     \<lparr>db = empty_database\<lparr>jobs := map (\<lambda>(i, t).
          \<lparr>j_id = i, j_project_id = ''p'', j_image = [], j_command = [], j_working_directory = [], j_environment = [],
           j_secrets = [], j_caches = [], j_root_digest = [], j_status = StatusQueued, j_timeout_millis = 1, j_created_at = t,
           j_started_at = None, j_finished_at = None, j_exit_code = None, j_error_message = [], j_cancel_requested = False,
           j_worker_id = [], j_idempotency_key = i, j_request_hash = []\<rparr>)
          [(''a'', 3), (''b'', 5), (''c'', 5)]\<rparr>,
      faults = [], now = 9, entropy = []\<rparr>"




end
