(* ===== verification/Redact.thy ===== *)
theory Redact
  imports Prelude "HOL-Library.List_Lexorder" "HOL-Library.Char_ord" "HOL-Library.Sublist"
begin

text \<open>
  The redaction of secrets in output streams: \<open>internal/operation/redact/writer.go\<close>. The destination
  is a function over a world \<open>'w\<close>. \<open>redacted\<close> is what the output of a whole stream should be: at each
  place the longest secret that begins there is replaced.
\<close>

section \<open>The writer\<close>

definition replacementCandidates :: "string list" where
  "replacementCandidates = [''[REDACTED]'', ''***'', ''[HIDDEN]'']"

text \<open>\<open>bytes.Contains\<close>.\<close>

definition Contains :: "string \<Rightarrow> string \<Rightarrow> bool" where
  "Contains s part \<longleftrightarrow> (\<exists>k \<in> set [0..<Suc (length s)]. take (length part) (drop k s) = part)"

definition safeReplacement :: "string list \<Rightarrow> string" where
  "safeReplacement secrets =
     (case find (\<lambda>candidate. \<not> (\<exists>secret \<in> set secrets. Contains candidate secret)) replacementCandidates of
        Some candidate \<Rightarrow> candidate | None \<Rightarrow> [])"

record writer =
  wr_secrets :: "string list"
  wr_replacement :: string
  wr_pending :: string
  wr_closed :: bool
  wr_err :: "err option"

type_synonym 'w destination = "string \<Rightarrow> 'w \<Rightarrow> (nat \<times> err option) \<times> 'w"

text \<open>The sort of \<open>NewWriter\<close>: longer secrets first, equal lengths in the order of their bytes.\<close>

definition by_length :: "string list \<Rightarrow> string list" where
  "by_length secrets = sort_key (\<lambda>s. - int (length s)) (sort secrets)"

definition NewWriter :: "'w destination option \<Rightarrow> string list \<Rightarrow> err + writer" where
  "NewWriter destination values =
     (if destination = None then Inl (ErrText ''redaction destination is required'')
      else if [] \<in> set values then Inl (ErrText ''secret value must not be empty'')
      else let secrets = by_length (remdups values)
        in Inr \<lparr>wr_secrets = secrets, wr_replacement = safeReplacement secrets, wr_pending = [], wr_closed = False, wr_err = None\<rparr>)"

definition exact_length :: "string list \<Rightarrow> string \<Rightarrow> nat" where
  "exact_length secrets pending =
     fold (\<lambda>secret n. if length pending \<ge> length secret \<and> take (length secret) pending = secret \<and> length secret > n
                       then length secret else n) secrets 0"

definition possible_longer :: "string list \<Rightarrow> string \<Rightarrow> bool" where
  "possible_longer secrets pending \<longleftrightarrow>
     (\<exists>secret \<in> set secrets. length pending < length secret \<and> pending = take (length pending) secret)"

definition matchPrefix :: "string list \<Rightarrow> string \<Rightarrow> nat \<times> bool" where
  "matchPrefix secrets pending = (exact_length secrets pending, possible_longer secrets pending)"

definition ErrShortWrite :: err where
  "ErrShortWrite = ErrText ''short write''"

definition write_out :: "'w destination \<Rightarrow> string \<Rightarrow> 'w \<Rightarrow> err option \<times> 'w" where
  "write_out destination contents w =
     (if contents = [] then (None, w)
      else case destination contents w of
             ((written, Some e), w) \<Rightarrow> (Some e, w)
           | ((written, None), w) \<Rightarrow> (if written \<noteq> length contents then Some ErrShortWrite else None, w))"

text \<open>\<open>process\<close>: the bytes that stay pending, the error of the destination, and the world after.\<close>

function process :: "'w destination \<Rightarrow> string list \<Rightarrow> string \<Rightarrow> bool \<Rightarrow> string \<Rightarrow> 'w \<Rightarrow> (string \<times> err option) \<times> 'w" where
  "process destination secrets replacement final pending w =
     (if pending = [] then (([], None), w)
      else
      let (exactLength, possibleLonger) = matchPrefix secrets pending
      in if exactLength > 0 \<and> (final \<or> \<not> possibleLonger) then
           (case write_out destination replacement w of
              (Some e, w) \<Rightarrow> ((drop exactLength pending, Some e), w)
            | (None, w) \<Rightarrow> process destination secrets replacement final (drop exactLength pending) w)
         else if possibleLonger \<and> \<not> final then ((pending, None), w)
         else
           (case write_out destination (take 1 pending) w of
              (Some e, w) \<Rightarrow> ((drop 1 pending, Some e), w)
            | (None, w) \<Rightarrow> process destination secrets replacement final (drop 1 pending) w))"
  by pat_completeness auto
termination
  by (relation "measure (\<lambda>(_, _, _, _, pending, _). length pending)") auto

declare process.simps [simp del]

definition Write :: "'w destination \<Rightarrow> string \<Rightarrow> writer \<times> 'w \<Rightarrow> (nat \<times> err option) \<times> (writer \<times> 'w)" where
  "Write destination contents s =
     (let (wr, w) = s
      in if wr_closed wr then ((0, Some (ErrText ''write to closed redactor'')), s)
         else case wr_err wr of
           Some e \<Rightarrow> ((0, Some e), s)
         | None \<Rightarrow>
             if wr_secrets wr = [] then
               (case destination contents w of
                  ((written, Some e), w) \<Rightarrow> ((written, Some e), (wr\<lparr>wr_err := Some e\<rparr>, w))
                | ((written, None), w) \<Rightarrow> ((written, None), (wr, w)))
             else
               (let ((pending, e), w) = process destination (wr_secrets wr) (wr_replacement wr) False (wr_pending wr @ contents) w
                in ((length contents, e), (wr\<lparr>wr_pending := pending, wr_err := e\<rparr>, w))))"

definition Close :: "'w destination \<Rightarrow> writer \<times> 'w \<Rightarrow> err option \<times> (writer \<times> 'w)" where
  "Close destination s =
     (let (wr, w) = s
      in if wr_closed wr then (wr_err wr, s)
         else case wr_err wr of
           Some e \<Rightarrow> (Some e, (wr\<lparr>wr_closed := True\<rparr>, w))
         | None \<Rightarrow>
             let ((pending, e), w) = process destination (wr_secrets wr) (wr_replacement wr) True (wr_pending wr) w
             in (e, (wr\<lparr>wr_closed := True, wr_pending := pending, wr_err := e\<rparr>, w)))"

section \<open>The meaning of redaction\<close>

definition longest_secret :: "string list \<Rightarrow> string \<Rightarrow> nat" where
  "longest_secret secrets s = Max (insert 0 (length ` {x \<in> set secrets. prefix x s}))"

function redacted :: "string list \<Rightarrow> string \<Rightarrow> string \<Rightarrow> string" where
  "redacted secrets replacement s =
     (if s = [] then []
      else if longest_secret secrets s > 0
      then replacement @ redacted secrets replacement (drop (longest_secret secrets s) s)
      else hd s # redacted secrets replacement (tl s))"
  by pat_completeness auto
termination
  by (relation "measure (\<lambda>(_, _, s). length s)") auto

declare redacted.simps [simp del]

section \<open>Matching\<close>

lemma prefix_take_iff: "length s \<ge> length x \<and> take (length x) s = x \<longleftrightarrow> prefix x s"
proof
  assume "length s \<ge> length x \<and> take (length x) s = x"
  then show "prefix x s" using take_is_prefix [of "length x" s] by simp
qed (auto simp: prefix_def)

lemma Max_insert_max: "finite A \<Longrightarrow> Max (insert (max a b) A) = Max (insert a (insert b A))"
  by (cases "A = {}") (simp_all add: max.assoc)

lemma finite_filter_set: "finite {y \<in> set xs. P y}"
  by simp

lemma exact_length_fold:
  "fold (\<lambda>secret n. if length s \<ge> length secret \<and> take (length secret) s = secret \<and> length secret > n then length secret else n)
     secrets n = Max (insert n (length ` {x \<in> set secrets. prefix x s}))"
proof (induction secrets arbitrary: n)
  case (Cons x xs)
  let ?P = "\<lambda>xs. length ` {y \<in> set xs. prefix y s}"
  let ?n = "if prefix x s \<and> length x > n then length x else n"
  have step: "(if length s \<ge> length x \<and> take (length x) s = x \<and> length x > n then length x else n) = ?n"
    by (simp add: prefix_take_iff [symmetric])
  have "Max (insert ?n (?P xs)) = Max (insert n (?P (x # xs)))"
  proof (cases "prefix x s")
    case True
    then have "?P (x # xs) = insert (length x) (?P xs)" by auto
    moreover have "?n = max n (length x)" using True by simp
    ultimately show ?thesis by (simp only: Max_insert_max finite_imageI finite_filter_set)
  next
    case False
    then have "?P (x # xs) = ?P xs" by auto
    then show ?thesis using False by simp
  qed
  then show ?case using Cons.IH [of ?n] by (simp only: fold.simps comp_apply step)
qed simp

lemma exact_length_longest: "exact_length secrets s = longest_secret secrets s"
  unfolding exact_length_def longest_secret_def by (rule exact_length_fold)

lemma longest_secret_code [code]: "longest_secret secrets s = exact_length secrets s"
  by (simp add: exact_length_longest)

lemma longest_secret_extend:
  assumes "\<not> possible_longer secrets s" shows "longest_secret secrets (s @ rest) = longest_secret secrets s"
proof -
  have "prefix x (s @ rest) \<longleftrightarrow> prefix x s" if "x \<in> set secrets" for x
  proof
    assume p: "prefix x (s @ rest)"
    show "prefix x s"
    proof (rule ccontr)
      assume "\<not> prefix x s"
      then have "prefix s x" using prefix_same_cases [OF p, of s] by simp
      then obtain t where t: "x = s @ t" by (auto simp: prefix_def)
      with \<open>\<not> prefix x s\<close> have "length s < length x" by (cases t) simp_all
      then show False using assms that t by (auto simp: possible_longer_def)
    qed
  qed (simp add: prefix_append prefix_prefix)
  then have "{x \<in> set secrets. prefix x (s @ rest)} = {x \<in> set secrets. prefix x s}" by blast
  then show ?thesis by (simp add: longest_secret_def)
qed

lemma longest_secret_le: "longest_secret secrets s \<le> length s"
  by (auto simp: longest_secret_def prefix_length_le)

section \<open>The writer on a destination that accepts everything\<close>

text \<open>A destination that keeps what it is given: its world is the text written so far.\<close>

definition accepts :: "string destination" where
  "accepts contents out = ((length contents, None), out @ contents)"

lemma write_out_accepts [simp]: "write_out accepts contents out = (None, out @ contents)"
  by (simp add: write_out_def accepts_def)

text \<open>
  What one call of \<open>process\<close> emits and what it keeps pending have, before any continuation of the
  stream, the redaction of what was pending.
\<close>

lemma process_accepts:
  "process accepts secrets replacement False pending out = ((kept, e), out') \<Longrightarrow>
     e = None \<and> (kept = [] \<or> possible_longer secrets kept) \<and>
     (\<exists>emitted. out' = out @ emitted \<and>
        (\<forall>rest. redacted secrets replacement (pending @ rest) = emitted @ redacted secrets replacement (kept @ rest)))"
proof (induction "length pending" arbitrary: pending out rule: less_induct)
  case less
  let ?n = "longest_secret secrets pending"
  show ?case
  proof (cases "pending = []")
    case True
    then show ?thesis using less.prems by (simp add: process.simps)
  next
    case False
    show ?thesis
    proof (cases "possible_longer secrets pending")
      case True
      then show ?thesis using less.prems False
        by (subst (asm) process.simps) (simp add: matchPrefix_def)
    next
      case settled: False
      have step: "redacted secrets replacement (pending @ rest) =
          (if ?n > 0 then replacement @ redacted secrets replacement (drop ?n pending @ rest)
           else take 1 pending @ redacted secrets replacement (drop 1 pending @ rest))" for rest
        using False longest_secret_le [of secrets pending]
        by (subst redacted.simps) (simp add: longest_secret_extend [OF settled] take_Suc drop_Suc)
      have proc: "process accepts secrets replacement False pending out =
          (if ?n > 0 then process accepts secrets replacement False (drop ?n pending) (out @ replacement)
           else process accepts secrets replacement False (drop 1 pending) (out @ take 1 pending))"
        using False settled by (subst process.simps) (simp add: matchPrefix_def exact_length_longest)
      show ?thesis
      proof (cases "?n > 0")
        case True
        then show ?thesis
          using less.hyps [of "drop ?n pending" "out @ replacement"] less.prems False proc step by auto
      next
        case small: False
        then show ?thesis
          using less.hyps [of "drop 1 pending" "out @ take 1 pending"] less.prems False proc step by auto
      qed
    qed
  qed
qed

lemma process_accepts_final:
  "process accepts secrets replacement True pending out = (([], None), out @ redacted secrets replacement pending)"
proof (induction "length pending" arbitrary: pending out rule: less_induct)
  case less
  let ?n = "longest_secret secrets pending"
  show ?case
  proof (cases "pending = []")
    case True
    then show ?thesis by (simp add: process.simps redacted.simps)
  next
    case False
    show ?thesis
      using False less.hyps [of "drop ?n pending" "out @ replacement"] less.hyps [of "drop 1 pending" "out @ take 1 pending"]
      by (subst process.simps, subst redacted.simps) (cases pending; simp add: matchPrefix_def exact_length_longest)
  qed
qed

text \<open>A sequence of calls of \<open>Write\<close>, one per piece of the stream.\<close>

primrec write_all :: "'w destination \<Rightarrow> string list \<Rightarrow> writer \<times> 'w \<Rightarrow> writer \<times> 'w" where
  "write_all destination [] s = s"
| "write_all destination (c # cs) s = write_all destination cs (snd (Write destination c s))"

lemma redacted_no_secrets: "redacted [] replacement s = s"
proof (induction s)
  case (Cons a s)
  then show ?case by (subst redacted.simps) (simp add: longest_secret_def)
qed (simp add: redacted.simps)

definition writing :: "string list \<Rightarrow> string \<Rightarrow> writer \<Rightarrow> bool" where
  "writing secrets replacement wr \<longleftrightarrow>
     wr_secrets wr = secrets \<and> wr_replacement wr = replacement \<and> \<not> wr_closed wr \<and> wr_err wr = None \<and>
     (wr_pending wr = [] \<or> possible_longer secrets (wr_pending wr))"

lemma Write_accepts:
  assumes "writing secrets replacement wr" "Write accepts c (wr, out) = (r, (wr', out'))"
  shows "r = (length c, None) \<and> writing secrets replacement wr' \<and>
    (\<exists>emitted. out' = out @ emitted \<and>
       (\<forall>rest. redacted secrets replacement ((wr_pending wr @ c) @ rest) =
          emitted @ redacted secrets replacement (wr_pending wr' @ rest)))"
proof (cases "secrets = []")
  case True
  then show ?thesis
    using assms by (auto simp: writing_def Write_def accepts_def redacted_no_secrets possible_longer_def)
next
  case False
  obtain kept e out2 where p: "process accepts secrets replacement False (wr_pending wr @ c) out = ((kept, e), out2)"
    by (cases "process accepts secrets replacement False (wr_pending wr @ c) out") (auto split: prod.splits)
  have "wr' = wr\<lparr>wr_pending := kept, wr_err := e\<rparr>" "out' = out2" "r = (length c, e)"
    using assms False p by (auto simp: writing_def Write_def)
  then show ?thesis using process_accepts [OF p] assms(1) by (auto simp: writing_def)
qed

lemma write_all_accepts:
  assumes "writing secrets replacement wr" "write_all accepts cs (wr, out) = (wr', out')"
  shows "writing secrets replacement wr' \<and>
    (\<exists>emitted. out' = out @ emitted \<and>
       (\<forall>rest. redacted secrets replacement (wr_pending wr @ concat cs @ rest) =
          emitted @ redacted secrets replacement (wr_pending wr' @ rest)))"
  using assms
proof (induction cs arbitrary: wr out)
  case (Cons c cs)
  obtain r wr2 out2 where c: "Write accepts c (wr, out) = (r, (wr2, out2))" by (metis prod.exhaust)
  note first = Write_accepts [OF Cons.prems(1) c]
  have "write_all accepts cs (wr2, out2) = (wr', out')" using Cons.prems(2) c by simp
  then show ?case using Cons.IH [of wr2 out2] first by fastforce
qed simp

lemma NewWriter_writing:
  "NewWriter (Some accepts) values = Inr wr \<Longrightarrow> writing (by_length (remdups values)) (safeReplacement (by_length (remdups values))) wr \<and> wr_pending wr = []"
  by (auto simp: NewWriter_def writing_def Let_def split: if_splits)

lemma writes_then_close:
  assumes "writing secrets replacement wr" "wr_pending wr = []" "write_all accepts pieces (wr, []) = s"
  shows "Close accepts s =
    (None, ((fst s)\<lparr>wr_closed := True, wr_pending := []\<rparr>, redacted secrets replacement (concat pieces)))"
proof -
  obtain wr' out' where s: "s = (wr', out')" by (cases s)
  note all = write_all_accepts [OF assms(1), of pieces "[]" wr' out', unfolded assms(3) s, OF refl]
  then have "redacted secrets replacement (concat pieces) = out' @ redacted secrets replacement (wr_pending wr')"
    using assms(2) by (metis append.left_neutral append_Nil2)
  then show ?thesis using all s by (simp add: Close_def writing_def process_accepts_final)
qed

text \<open>
  C25: a redacting writer does not depend on how its input is cut into pieces. Whatever the pieces
  written before it is closed, closing succeeds and the destination has received the redaction of
  the whole text: from left to right, at each place the longest secret that begins there is
  replaced.
\<close>

theorem redaction_of_whole_stream:
  assumes "NewWriter (Some accepts) values = Inr wr"
  shows "Close accepts (write_all accepts pieces (wr, [])) =
    (None, ((fst (write_all accepts pieces (wr, [])))\<lparr>wr_closed := True, wr_pending := []\<rparr>,
            redacted (by_length (remdups values)) (wr_replacement wr) (concat pieces)))"
  using writes_then_close [OF _ _ refl] NewWriter_writing [OF assms] by (metis writing_def)

theorem redaction_of_whole_stream_witness:
  "case NewWriter (Some accepts) [''key'', ''keyring''] of
     Inr wr \<Rightarrow> snd (snd (Close accepts (write_all accepts [''a ke'', ''yri'', ''ng, a key, ke''] (wr, [])))) =
       ''a [REDACTED], a [REDACTED], ke''
   | Inl e \<Rightarrow> False"
proof -
  let ?wr = "\<lparr>wr_secrets = [''keyring'', ''key''], wr_replacement = ''[REDACTED]'', wr_pending = [], wr_closed = False, wr_err = None\<rparr>"
  have "by_length (remdups [''key'', ''keyring'']) = [''keyring'', ''key'']" by code_simp
  moreover have new: "NewWriter (Some accepts) [''key'', ''keyring''] = Inr ?wr" by code_simp
  moreover have "redacted [''keyring'', ''key''] ''[REDACTED]'' (concat [''a ke'', ''yri'', ''ng, a key, ke'']) =
      ''a [REDACTED], a [REDACTED], ke''" by code_simp
  ultimately show ?thesis
    using redaction_of_whole_stream [OF new, of "[''a ke'', ''yri'', ''ng, a key, ke'']"] by simp
qed

section \<open>What redaction hides\<close>

datatype piece = Plain string | Hidden string

primrec original :: "piece \<Rightarrow> string" where
  "original (Plain t) = t"
| "original (Hidden x) = x"

primrec shown :: "string \<Rightarrow> piece \<Rightarrow> string" where
  "shown replacement (Plain t) = t"
| "shown replacement (Hidden x) = replacement"

definition add_plain :: "char \<Rightarrow> piece list \<Rightarrow> piece list" where
  "add_plain c ps = (case ps of Plain t # qs \<Rightarrow> Plain (c # t) # qs | _ \<Rightarrow> Plain [c] # ps)"

function pieces_of :: "string list \<Rightarrow> string \<Rightarrow> piece list" where
  "pieces_of secrets s =
     (if s = [] then []
      else if longest_secret secrets s > 0
      then Hidden (take (longest_secret secrets s) s) # pieces_of secrets (drop (longest_secret secrets s) s)
      else add_plain (hd s) (pieces_of secrets (tl s)))"
  by pat_completeness auto
termination
  by (relation "measure (\<lambda>(_, s). length s)") auto

declare pieces_of.simps [simp del]

fun well_cut :: "string list \<Rightarrow> piece list \<Rightarrow> bool" where
  "well_cut secrets [] \<longleftrightarrow> True"
| "well_cut secrets (Hidden x # ps) \<longleftrightarrow> x \<in> set secrets \<and> well_cut secrets ps"
| "well_cut secrets (Plain t # ps) \<longleftrightarrow>
     (\<forall>x \<in> set secrets. \<not> sublist x t) \<and> (case ps of Plain _ # _ \<Rightarrow> False | _ \<Rightarrow> True) \<and> well_cut secrets ps"

lemma add_plain_original [simp]: "concat (map original (add_plain c ps)) = c # concat (map original ps)"
  by (auto simp: add_plain_def split: list.splits piece.splits)

lemma add_plain_shown [simp]: "concat (map (shown r) (add_plain c ps)) = c # concat (map (shown r) ps)"
  by (auto simp: add_plain_def split: list.splits piece.splits)

lemma longest_secret_in:
  assumes "longest_secret secrets s > 0" shows "take (longest_secret secrets s) s \<in> set secrets"
proof -
  have "longest_secret secrets s \<in> insert 0 (length ` {x \<in> set secrets. prefix x s})"
    unfolding longest_secret_def by (rule Max_in) simp_all
  then obtain x where "x \<in> set secrets" "prefix x s" "longest_secret secrets s = length x" using assms by auto
  then show ?thesis by (simp add: prefix_take_iff [symmetric])
qed

lemma longest_secret_none:
  assumes "longest_secret secrets s = 0" "x \<in> set secrets" "prefix x s" shows "x = []"
proof -
  have "length x \<le> longest_secret secrets s"
    unfolding longest_secret_def by (rule Max_ge) (use assms in auto)
  then show ?thesis using assms by simp
qed

lemma pieces_of_whole: "concat (map original (pieces_of secrets s)) = s"
  by (induction secrets s rule: pieces_of.induct) (subst pieces_of.simps, simp)

lemma pieces_of_shown: "concat (map (shown r) (pieces_of secrets s)) = redacted secrets r s"
  by (induction secrets s rule: pieces_of.induct) (subst pieces_of.simps, subst redacted.simps, simp)

lemma add_plain_well_cut:
  assumes "longest_secret secrets (c # concat (map original ps)) = 0" "[] \<notin> set secrets" "well_cut secrets ps"
  shows "well_cut secrets (add_plain c ps)"
proof -
  have start: "\<not> prefix x (c # concat (map original ps))" if "x \<in> set secrets" for x
    using longest_secret_none [OF assms(1) that] that assms(2) by blast
  show ?thesis
  proof (cases "\<exists>t qs. ps = Plain t # qs")
    case True
    then obtain t qs where ps: "ps = Plain t # qs" by blast
    have "\<not> sublist x (c # t)" if "x \<in> set secrets" for x
      using start [OF that] prefix_prefix [of x "c # t" "concat (map original qs)"] assms(3) that ps
      by (auto simp: sublist_Cons_right)
    then show ?thesis using assms(3) ps by (simp add: add_plain_def)
  next
    case False
    have "\<not> sublist x [c]" if "x \<in> set secrets" for x
      using start [OF that] prefix_prefix [of x "[c]" "concat (map original ps)"] that assms(2)
      by (auto simp: sublist_Cons_right)
    moreover have "add_plain c ps = Plain [c] # ps"
      using False by (auto simp: add_plain_def split: list.splits piece.splits)
    ultimately show ?thesis using assms(3) False by (auto split: list.splits piece.splits)
  qed
qed

lemma pieces_of_well_cut: "[] \<notin> set secrets \<Longrightarrow> well_cut secrets (pieces_of secrets s)"
proof (induction secrets s rule: pieces_of.induct)
  case (1 secrets s)
  show ?case
  proof (cases "s = [] \<or> longest_secret secrets s > 0")
    case True
    then show ?thesis using 1 by (subst pieces_of.simps) (auto simp: longest_secret_in)
  next
    case False
    then have "well_cut secrets (add_plain (hd s) (pieces_of secrets (tl s)))"
      using 1 by (intro add_plain_well_cut) (simp_all add: pieces_of_whole)
    then show ?thesis using False by (subst pieces_of.simps) simp
  qed
qed

lemma by_length_set [simp]: "set (by_length xs) = set xs"
  by (simp add: by_length_def)

lemma well_cut_set: "set secrets = set values \<Longrightarrow> well_cut secrets ps = well_cut values ps"
  by (induction ps rule: well_cut.induct [of _ secrets]) auto

lemma Contains_sublist: "Contains s t \<longleftrightarrow> sublist t s"
proof
  assume "Contains s t"
  then obtain k where "take (length t) (drop k s) = t" by (auto simp: Contains_def)
  then have "s = take k s @ t @ drop (length t) (drop k s)" by (metis append_take_drop_id)
  then show "sublist t s" by (metis sublist_appendI)
next
  assume "sublist t s"
  then obtain a b where "s = a @ t @ b" by (auto simp: sublist_def)
  then have "length a \<in> set [0..<Suc (length s)] \<and> take (length t) (drop (length a) s) = t" by simp
  then show "Contains s t" unfolding Contains_def by blast
qed

lemma safeReplacement_safe: "x \<in> set secrets \<Longrightarrow> sublist x (safeReplacement secrets) \<Longrightarrow> x = []"
  unfolding safeReplacement_def
  by (auto simp: find_Some_iff Contains_sublist split: option.splits)

text \<open>
  C31: what a closed redacting writer has sent is its input cut into secrets and text between
  them, with each secret replaced. No secret occurs in a piece of text that was sent as it
  is, nor in the replacement.
\<close>

theorem redaction_hides_secrets:
  assumes "NewWriter (Some accepts) values = Inr wr"
  shows "\<exists>ps. concat (map original ps) = concat pieces \<and>
    snd (snd (Close accepts (write_all accepts pieces (wr, [])))) = concat (map (shown (wr_replacement wr)) ps) \<and>
    well_cut values ps \<and> \<not> (\<exists>x \<in> set values. sublist x (wr_replacement wr))"
proof (intro exI conjI)
  let ?s = "by_length (remdups values)"
  have new: "writing ?s (wr_replacement wr) wr" "wr_pending wr = []" "wr_replacement wr = safeReplacement ?s"
    using NewWriter_writing [OF assms] by (auto simp: writing_def)
  have nonempty: "[] \<notin> set values" using assms by (auto simp: NewWriter_def split: if_splits)
  show "concat (map original (pieces_of ?s (concat pieces))) = concat pieces" by (rule pieces_of_whole)
  show "snd (snd (Close accepts (write_all accepts pieces (wr, [])))) =
      concat (map (shown (wr_replacement wr)) (pieces_of ?s (concat pieces)))"
    using writes_then_close [OF new(1,2) refl] by (simp add: pieces_of_shown)
  show "well_cut values (pieces_of ?s (concat pieces))"
    using pieces_of_well_cut [of ?s] nonempty well_cut_set [of ?s "values"] by simp
  show "\<not> (\<exists>x \<in> set values. sublist x (wr_replacement wr))"
    using safeReplacement_safe [of _ ?s] nonempty new(3) by auto
qed

theorem redaction_hides_secrets_witness:
  "case NewWriter (Some accepts) [''key''] of
     Inr wr \<Rightarrow> (\<exists>ps. concat (map original ps) = ''a key'' \<and>
       snd (snd (Close accepts (write_all accepts [''a '', ''key''] (wr, [])))) = concat (map (shown ''[REDACTED]'') ps) \<and>
       well_cut [''key''] ps)
   | Inl e \<Rightarrow> False"
proof -
  have new: "NewWriter (Some accepts) [''key''] =
    Inr \<lparr>wr_secrets = [''key''], wr_replacement = ''[REDACTED]'', wr_pending = [], wr_closed = False, wr_err = None\<rparr>"
    by code_simp
  show ?thesis using redaction_hides_secrets [OF new, of "[''a '', ''key'']"] new by auto
qed

section \<open>How much is kept back\<close>



end
