(* ===== verification/Retry.thy ===== *)
theory Retry
  imports Prelude
begin

text \<open>
  The retry loop: \<open>internal/retry/retry.go\<close>. The clock, the timer, the random jitter, the context and
  the operation are functions over a world \<open>'w\<close>; the context's \<open>Err\<close> may change as the world does.
\<close>

section \<open>The policy\<close>

definition ErrExhausted :: err where
  "ErrExhausted = ErrText ''retry budget exhausted''"

record 'w retry_policy =
  InitialDelay :: duration
  MaxDelay :: duration
  MaxAttempts :: int
  MaxElapsed :: duration
  AttemptTimeout :: duration
  pol_Now :: "('w \<Rightarrow> time \<times> 'w) option"
  pol_Wait :: "(duration \<Rightarrow> 'w \<Rightarrow> err option \<times> 'w) option"
  pol_Jitter :: "(duration \<Rightarrow> 'w \<Rightarrow> duration \<times> 'w) option"

text \<open>What the defaults of a policy use: \<open>time.Now\<close>, a timer, and the random factor of the jitter.\<close>

record 'w runtime =
  rt_now :: "'w \<Rightarrow> time \<times> 'w"
  rt_wait :: "duration \<Rightarrow> 'w \<Rightarrow> err option \<times> 'w"
  rt_jitter :: "duration \<Rightarrow> 'w \<Rightarrow> duration \<times> 'w"

definition normalize_policy :: "'w runtime \<Rightarrow> 'w retry_policy \<Rightarrow> 'w retry_policy" where
  "normalize_policy rt policy =
     (let initial = (if InitialDelay policy \<le> 0 then 250 * millisecond else InitialDelay policy);
          most = (if MaxDelay policy \<le> 0 then 5 * second else MaxDelay policy)
      in policy\<lparr>
        InitialDelay := initial,
        MaxDelay := (if most < initial then initial else most),
        MaxAttempts := (if MaxAttempts policy \<le> 0 then 5 else MaxAttempts policy),
        MaxElapsed := (if MaxElapsed policy \<le> 0 then 30 * second else MaxElapsed policy),
        pol_Now := (case pol_Now policy of None \<Rightarrow> Some (rt_now rt) | f \<Rightarrow> f),
        pol_Wait := (case pol_Wait policy of None \<Rightarrow> Some (rt_wait rt) | f \<Rightarrow> f),
        pol_Jitter := (case pol_Jitter policy of None \<Rightarrow> Some (rt_jitter rt) | f \<Rightarrow> f)\<rparr>)"

text \<open>\<open>attemptContext\<close>: the deadline of one attempt, if the policy has one.\<close>

definition attemptContext :: "duration \<Rightarrow> duration option" where
  "attemptContext timeout = (if timeout \<le> 0 then None else Some timeout)"

section \<open>The loop\<close>

type_synonym 'w retry_operation = "duration option \<Rightarrow> 'w \<Rightarrow> err option \<times> 'w"

definition next_delay :: "duration \<Rightarrow> duration \<Rightarrow> duration" where
  "next_delay most delay =
     (if delay < most then (let doubled = wrap64 (delay * 2) in if doubled > most then most else doubled) else delay)"

function retry_loop ::
    "('w \<Rightarrow> err option) \<Rightarrow> 'w retry_policy \<Rightarrow> 'w retry_operation \<Rightarrow> (err \<Rightarrow> bool) \<Rightarrow> time \<Rightarrow> int \<Rightarrow> duration \<Rightarrow> 'w \<Rightarrow> err option \<times> 'w"
where
  "retry_loop ctx_err policy operation retryable started attempt delay w =
     (case ctx_err w of Some e \<Rightarrow> (Some e, w)
      | None \<Rightarrow>
        (case operation (attemptContext (AttemptTimeout policy)) w of
           (None, w) \<Rightarrow> (None, w)
         | (Some e, w) \<Rightarrow>
           (case ctx_err w of Some c \<Rightarrow> (Some c, w)
            | None \<Rightarrow>
              if \<not> retryable e then (Some e, w)
              else if attempt \<ge> MaxAttempts policy then
                (Some (ErrJoin [ErrWrap ''after attempts'' ErrExhausted, e]), w)
              else
                (let (t, w) = the (pol_Now policy) w;
                     remaining = wrap64 (MaxElapsed policy - Sub t started)
                 in if remaining \<le> 0 then
                      (Some (ErrJoin [ErrWrap ''after elapsed'' ErrExhausted, e]), w)
                    else
                      (let (jittered, w) = the (pol_Jitter policy) delay w;
                           wait = (if jittered \<le> 0 then delay else jittered);
                           wait = (if wait > remaining then remaining else wait)
                       in case the (pol_Wait policy) wait w of
                            (Some waitErr, w) \<Rightarrow> (Some (ErrJoin [e, waitErr]), w)
                          | (None, w) \<Rightarrow>
                              retry_loop ctx_err policy operation retryable started (attempt + 1)
                                (next_delay (MaxDelay policy) delay) w)))))"
  by pat_completeness auto
termination
  by (relation "measure (\<lambda>(_, policy, _, _, _, attempt, _, _). nat (MaxAttempts policy - attempt))") auto

declare retry_loop.simps [simp del]

definition Do ::
    "'w runtime \<Rightarrow> ('w \<Rightarrow> err option) \<Rightarrow> 'w retry_policy \<Rightarrow> 'w retry_operation option \<Rightarrow> (err \<Rightarrow> bool) option \<Rightarrow> 'w \<Rightarrow> err option \<times> 'w"
where
  "Do rt ctx_err policy operation retryable w =
     (case (operation, retryable) of
        (Some operation, Some retryable) \<Rightarrow>
          (let policy = normalize_policy rt policy;
               (started, w) = the (pol_Now policy) w
           in retry_loop ctx_err policy operation retryable started 1 (InitialDelay policy) w)
      | _ \<Rightarrow> (Some (ErrText ''retry operation and classifier are required''), w))"

section \<open>Attempts and waits\<close>

text \<open>The same environment with a trace of the attempts and of the waits.\<close>

datatype event = Attempt "err option" | Waited duration

definition logged_operation :: "'w retry_operation \<Rightarrow> ('w \<times> event list) retry_operation" where
  "logged_operation operation timeout s = (let (e, w) = operation timeout (fst s) in (e, (w, snd s @ [Attempt e])))"

definition logged_wait :: "(duration \<Rightarrow> 'w \<Rightarrow> err option \<times> 'w) \<Rightarrow> duration \<Rightarrow> ('w \<times> event list) \<Rightarrow> err option \<times> ('w \<times> event list)" where
  "logged_wait wait d s = (let (e, w) = wait d (fst s) in (e, (w, snd s @ [Waited d])))"

definition silent :: "('w \<Rightarrow> 'a \<times> 'w) \<Rightarrow> ('w \<times> event list) \<Rightarrow> 'a \<times> ('w \<times> event list)" where
  "silent f s = (let (x, w) = f (fst s) in (x, (w, snd s)))"

definition logged_runtime :: "'w runtime \<Rightarrow> ('w \<times> event list) runtime" where
  "logged_runtime rt = \<lparr>rt_now = silent (rt_now rt), rt_wait = logged_wait (rt_wait rt), rt_jitter = (\<lambda>d. silent (rt_jitter rt d))\<rparr>"

definition logged_policy :: "'w retry_policy \<Rightarrow> ('w \<times> event list) retry_policy" where
  "logged_policy policy =
     \<lparr>InitialDelay = InitialDelay policy, MaxDelay = MaxDelay policy, MaxAttempts = MaxAttempts policy,
      MaxElapsed = MaxElapsed policy, AttemptTimeout = AttemptTimeout policy,
      pol_Now = map_option silent (pol_Now policy), pol_Wait = map_option logged_wait (pol_Wait policy),
      pol_Jitter = map_option (\<lambda>f d. silent (f d)) (pol_Jitter policy)\<rparr>"

lemma normalize_logged: "normalize_policy (logged_runtime rt) (logged_policy policy) = logged_policy (normalize_policy rt policy)"
  by (simp add: normalize_policy_def logged_policy_def logged_runtime_def Let_def split: option.splits)

lemma normalize_bounds:
  assumes "normalize_policy rt policy = p"
  shows "0 < InitialDelay p" "InitialDelay p \<le> MaxDelay p" "1 \<le> MaxAttempts p" "0 < MaxElapsed p"
    "\<exists>n. pol_Now p = Some n" "\<exists>f. pol_Wait p = Some f" "\<exists>j. pol_Jitter p = Some j"
  using assms by (auto simp: normalize_policy_def Let_def second_def millisecond_def split: option.splits)

text \<open>\<open>attempts tr\<close> counts the attempts of a trace.\<close>

fun attempts :: "event list \<Rightarrow> nat" where
  "attempts [] = 0"
| "attempts (Attempt _ # tr) = Suc (attempts tr)"
| "attempts (Waited _ # tr) = attempts tr"

lemma attempts_append [simp]: "attempts (a @ b) = attempts a + attempts b"
  by (induction a rule: attempts.induct) simp_all

definition waits_within :: "duration \<Rightarrow> event list \<Rightarrow> bool" where
  "waits_within most tr \<longleftrightarrow> (\<forall>d. Waited d \<in> set tr \<longrightarrow> 0 < d \<and> d \<le> most)"

lemma next_delay_bounds:
  assumes "0 < d" "d \<le> most" "most \<le> 2 ^ 62" shows "0 < next_delay most d" "next_delay most d \<le> most"
  using assms by (auto simp: next_delay_def Let_def wrap64_id)

text \<open>The outcome of a run of the loop, for the events it adds to the trace.\<close>

definition run_ok :: "duration \<Rightarrow> nat \<Rightarrow> err option \<Rightarrow> event list \<Rightarrow> bool" where
  "run_ok bound most e new \<longleftrightarrow>
     attempts new \<le> most \<and> waits_within bound new \<and> (e = None \<longleftrightarrow> new \<noteq> [] \<and> last new = Attempt None)"

lemma run_ok_stop: "1 \<le> most \<Longrightarrow> e \<noteq> None \<Longrightarrow> run_ok bound most e [Attempt (Some c)]"
  by (simp add: run_ok_def waits_within_def)

lemma run_ok_again:
  "run_ok bound most e new \<Longrightarrow> 0 < d \<Longrightarrow> d \<le> bound \<Longrightarrow> run_ok bound (Suc most) e (Attempt (Some c) # Waited d # new)"
  by (auto simp: run_ok_def waits_within_def)

lemma retry_loop_bounded:
  assumes "MaxDelay p \<le> 2 ^ 62" "pol_Now p = Some clock" "pol_Wait p = Some wait" "pol_Jitter p = Some jitter"
    and jitter: "\<And>d w j w'. d \<le> MaxDelay p \<Longrightarrow> jitter d w = (j, w') \<Longrightarrow> j \<le> bound" and "MaxDelay p \<le> bound"
  shows "0 < delay \<Longrightarrow> delay \<le> MaxDelay p \<Longrightarrow> attempt \<le> MaxAttempts p \<Longrightarrow>
    retry_loop (ctx_err \<circ> fst) (logged_policy p) (logged_operation operation) retryable started attempt delay (w, tr) = (e, (w', tr')) \<Longrightarrow>
    \<exists>new. tr' = tr @ new \<and> run_ok bound (nat (MaxAttempts p - attempt + 1)) e new"
proof (induction "nat (MaxAttempts p - attempt)" arbitrary: attempt delay w tr rule: less_induct)
  case less
  obtain r w1 where op: "operation (attemptContext (AttemptTimeout p)) w = (r, w1)" by force
  obtain t w2 where t: "clock w1 = (t, w2)" by force
  obtain j w3 where j: "jitter delay w2 = (j, w3)" by force
  define remaining where "remaining = wrap64 (MaxElapsed p - Sub t started)"
  define d where "d = (let d = if j \<le> 0 then delay else j in if d > remaining then remaining else d)"
  obtain we w4 where we: "wait d w3 = (we, w4)" by force
  note step = trans [OF retry_loop.simps [symmetric] less.prems(4)]
  note env = assms(2-4) op t j we logged_policy_def logged_operation_def silent_def logged_wait_def
  have d: "0 < d" "d \<le> bound" if "0 < remaining"
    using that less.prems(1,2) jitter [OF less.prems(2) j] assms(6) by (auto simp: d_def Let_def)
  consider "ctx_err w \<noteq> None" | "ctx_err w = None" "r = None"
    | c x where "ctx_err w = None" "r = Some c" "ctx_err w1 = Some x"
    | c where "ctx_err w = None" "r = Some c" "ctx_err w1 = None" "\<not> retryable c \<or> attempt \<ge> MaxAttempts p \<or> remaining \<le> 0"
    | c where "ctx_err w = None" "r = Some c" "ctx_err w1 = None" "retryable c" "attempt < MaxAttempts p" "0 < remaining"
    by (cases r; force)
  then show ?case
  proof cases
    case 1
    then show ?thesis using step by (auto simp: run_ok_def waits_within_def)
  next
    case 2
    then show ?thesis using step less.prems(3) by (auto simp: env run_ok_def waits_within_def)
  next
    case 3
    then have "e = Some x \<and> tr' = tr @ [Attempt (Some c)]" using step by (simp add: env)
    then show ?thesis using run_ok_stop less.prems(3) by simp
  next
    case 4
    then have "e \<noteq> None \<and> tr' = tr @ [Attempt (Some c)]"
      using step by (auto simp: env remaining_def [symmetric] split: if_splits)
    then show ?thesis using run_ok_stop less.prems(3) by simp
  next
    case 5
    show ?thesis
    proof (cases we)
      case None
      then have "retry_loop (ctx_err \<circ> fst) (logged_policy p) (logged_operation operation) retryable started (attempt + 1)
          (next_delay (MaxDelay p) delay) (w4, tr @ [Attempt (Some c), Waited d]) = (e, (w', tr'))"
        using 5 step by (simp add: env remaining_def [symmetric] d_def [symmetric, unfolded Let_def])
      from less.hyps [OF _ _ _ _ this] next_delay_bounds [OF less.prems(1,2) assms(1)] 5
      obtain new where "tr' = tr @ [Attempt (Some c), Waited d] @ new" "run_ok bound (nat (MaxAttempts p - (attempt + 1) + 1)) e new"
        by auto
      moreover have "nat (MaxAttempts p - attempt + 1) = Suc (nat (MaxAttempts p - (attempt + 1) + 1))" using 5 by simp
      ultimately show ?thesis using run_ok_again d 5 by fastforce
    next
      case (Some x)
      then have "e = Some (ErrJoin [c, x]) \<and> tr' = tr @ [Attempt (Some c), Waited d]"
        using 5 step by (simp add: env remaining_def [symmetric] d_def [symmetric, unfolded Let_def])
      then show ?thesis using d 5 less.prems(3) by (auto simp: run_ok_def waits_within_def)
    qed
  qed
qed

text \<open>
  C32: a retry makes at most as many attempts as its policy allows (five when it names no
  positive number), whatever the operation, the clock and the context do; it waits between them, each
  time for a positive duration within the jitter of its largest delay; and it succeeds exactly
  when its last attempt did.
\<close>

theorem retry_bounded:
  assumes "normalize_policy rt policy = p" "MaxDelay p \<le> 2 ^ 62" "MaxDelay p \<le> bound"
    and "\<forall>d w. d \<le> MaxDelay p \<longrightarrow> fst (the (pol_Jitter p) d w) \<le> bound"
    and "Do (logged_runtime rt) (ctx_err \<circ> fst) (logged_policy policy) (Some (logged_operation operation)) (Some retryable) (w, []) =
      (e, (w', tr))"
  shows "attempts tr \<le> nat (MaxAttempts p) \<and> waits_within bound tr \<and> (e = None \<longleftrightarrow> tr \<noteq> [] \<and> last tr = Attempt None)"
proof -
  note bounds = normalize_bounds [OF assms(1)]
  obtain clock wait jitter where f: "pol_Now p = Some clock" "pol_Wait p = Some wait" "pol_Jitter p = Some jitter"
    using bounds(5-7) by blast
  obtain t w1 where t: "clock w = (t, w1)" by force
  have loop: "retry_loop (ctx_err \<circ> fst) (logged_policy p) (logged_operation operation) retryable t 1 (InitialDelay p) (w1, []) = (e, (w', tr))"
    using assms(5) f(1) t by (simp add: Do_def normalize_logged assms(1)) (simp add: logged_policy_def silent_def)
  have "j \<le> bound" if "d \<le> MaxDelay p" "jitter d w = (j, w')" for d w j w'
    using assms(4) that f(3) by (metis fst_conv option.sel)
  from retry_loop_bounded [OF assms(2) f this assms(3) bounds(1,2,3) loop] show ?thesis
    by (auto simp: run_ok_def)
qed

text \<open>An operation that succeeds at its third attempt; the world counts the attempts.\<close>

definition third_time :: "nat retry_operation" where
  "third_time timeout n = (if n < 2 then (Some ErrRandom, Suc n) else (None, Suc n))"

definition demo_runtime :: "nat runtime" where
  "demo_runtime = \<lparr>rt_now = (\<lambda>w. (0, w)), rt_wait = (\<lambda>d w. (None, w)), rt_jitter = (\<lambda>d w. (d, w))\<rparr>"

definition demo_policy :: "nat retry_policy" where
  "demo_policy = \<lparr>InitialDelay = 10, MaxDelay = 15, MaxAttempts = 4, MaxElapsed = 1000, AttemptTimeout = 0,
     pol_Now = None, pol_Wait = None, pol_Jitter = None\<rparr>"

theorem retry_bounded_witness:
  "let (e, (w', tr)) = Do (logged_runtime demo_runtime) ((\<lambda>_. None) \<circ> fst) (logged_policy demo_policy)
       (Some (logged_operation third_time)) (Some (\<lambda>_. True)) (0, [])
   in tr = [Attempt (Some ErrRandom), Waited 10, Attempt (Some ErrRandom), Waited 15, Attempt None] \<and>
      attempts tr \<le> 4 \<and> waits_within 15 tr \<and> e = None"
proof -
  let ?run = "Do (logged_runtime demo_runtime) ((\<lambda>_. None) \<circ> fst) (logged_policy demo_policy)
       (Some (logged_operation third_time)) (Some (\<lambda>_. True)) (0, [])"
  let ?tr = "[Attempt (Some ErrRandom), Waited 10, Attempt (Some ErrRandom), Waited 15, Attempt None]"
  have run: "?run = (None, (3, ?tr))" by code_simp
  have p: "normalize_policy demo_runtime demo_policy = demo_policy
      \<lparr>pol_Now := Some (rt_now demo_runtime), pol_Wait := Some (rt_wait demo_runtime), pol_Jitter := Some (rt_jitter demo_runtime)\<rparr>"
    by (simp add: normalize_policy_def demo_policy_def)
  have "attempts ?tr \<le> 4 \<and> waits_within 15 ?tr"
    using retry_bounded [OF p, of 15 "\<lambda>_. None" third_time "\<lambda>_. True" 0 None 3 ?tr] run
    by (simp add: demo_policy_def demo_runtime_def)
  then show ?thesis using run by simp
qed

end
