(* ===== verification/Capacity.thy ===== *)
theory Capacity
  imports Prelude "HOL-Library.Word"
begin

text \<open>
  The capacity controller: \<open>internal/capacity/policy.go\<close> and \<open>controller.go\<close>. Sizes are \<open>uint64\<close>,
  so \<open>u64\<close> words, and every product and sum wraps as the code's does. The interface \<open>Backend\<close> is a
  record of functions over a world \<open>'w\<close>, with its unlock function beside \<open>Lock\<close>; \<open>clock\<close> is
  \<open>time.Now\<close>. A \<open>Snapshot\<close> that fails returns the zero snapshot, as \<open>Host\<close> does.
\<close>

type_synonym u64 = "64 word"

section \<open>The policy\<close>

definition gib :: u64 where
  "gib = 1024 * 1024 * 1024"

record policy =
  SoftFreePercent :: u64
  SoftFreeMinimumBytes :: u64
  HardFreePercent :: u64
  HardFreeMinimumBytes :: u64
  SweepPercent :: u64
  SweepMinimumBytes :: u64
  MinimumFreeInodes :: u64
  JobRetention :: duration
  CacheHighPercent :: u64
  CacheLowPercent :: u64
  NormalObjectAge :: duration
  PressureThrottle :: duration

record thresholds =
  SoftFreeBytes :: u64
  TargetFreeBytes :: u64
  HardFreeBytes :: u64

definition DefaultPolicy :: policy where
  "DefaultPolicy =
     \<lparr>SoftFreePercent = 20, SoftFreeMinimumBytes = 20 * gib,
      HardFreePercent = 5, HardFreeMinimumBytes = 8 * gib,
      SweepPercent = 5, SweepMinimumBytes = 5 * gib,
      MinimumFreeInodes = 10,
      JobRetention = 7 * 24 * hour,
      CacheHighPercent = 10, CacheLowPercent = 8,
      NormalObjectAge = 24 * hour,
      PressureThrottle = 30 * second\<rparr>"

definition Thresholds :: "policy \<Rightarrow> u64 \<Rightarrow> thresholds" where
  "Thresholds p totalBytes =
     (let soft = max (totalBytes * SoftFreePercent p div 100) (SoftFreeMinimumBytes p);
          hard = max (totalBytes * HardFreePercent p div 100) (HardFreeMinimumBytes p);
          sweep = max (totalBytes * SweepPercent p div 100) (SweepMinimumBytes p)
      in \<lparr>SoftFreeBytes = soft, TargetFreeBytes = soft + sweep, HardFreeBytes = hard\<rparr>)"

section \<open>The controller\<close>

datatype trigger = TriggerAdmission | TriggerPeriodic | TriggerPressure | TriggerManual

record snapshot =
  TotalBytes :: u64
  FreeBytes :: u64
  TotalInodes :: u64
  FreeInodes :: u64
  ObservedAt :: time

record reclaim_request =
  rq_Trigger :: trigger
  rq_Pressure :: bool
  rq_TargetFreeBytes :: u64
  rq_JobRetention :: duration
  rq_CacheHighBytes :: u64
  rq_CacheLowBytes :: u64
  rq_NormalObjectAge :: duration

record reclaim_report =
  ReclaimedBytes :: u64
  RemovedJobs :: int
  RemovedCaches :: int
  Commands :: "string list"

record 'w backend =
  Lock :: "'w \<Rightarrow> (err + unit) \<times> 'w"
  Unlock :: "'w \<Rightarrow> 'w"
  Snapshot :: "'w \<Rightarrow> (err + snapshot) \<times> 'w"
  Busy :: "'w \<Rightarrow> (err + bool) \<times> 'w"
  Reclaim :: "reclaim_request \<Rightarrow> 'w \<Rightarrow> (reclaim_report \<times> err option) \<times> 'w"
  Emergency :: "'w \<Rightarrow> err option \<times> 'w"

record capacity_status =
  st_State :: string
  st_Trigger :: trigger
  st_Before :: snapshot
  st_After :: snapshot
  st_Thresholds :: thresholds
  st_Reclaim :: reclaim_report
  st_Error :: "err option"
  st_CompletedAt :: time

definition zero_snapshot :: snapshot where
  "zero_snapshot = \<lparr>TotalBytes = 0, FreeBytes = 0, TotalInodes = 0, FreeInodes = 0, ObservedAt = zero_time\<rparr>"

definition zero_report :: reclaim_report where
  "zero_report = \<lparr>ReclaimedBytes = 0, RemovedJobs = 0, RemovedCaches = 0, Commands = []\<rparr>"

record controller =
  c_policy :: policy
  c_status :: "capacity_status option"
  c_lastPressure :: time

definition New :: "policy \<Rightarrow> controller" where
  "New p = \<lparr>c_policy = p, c_status = None, c_lastPressure = zero_time\<rparr>"

definition inodePressure :: "snapshot \<Rightarrow> u64 \<Rightarrow> bool" where
  "inodePressure s minimumPercent \<longleftrightarrow> TotalInodes s > 0 \<and> FreeInodes s * 100 < TotalInodes s * minimumPercent"

definition capacityError :: "snapshot \<Rightarrow> thresholds \<Rightarrow> u64 \<Rightarrow> err" where
  "capacityError s t minimumInodes =
     ErrResourceExhausted (uint (FreeBytes s)) (uint (SoftFreeBytes t)) (uint (FreeInodes s))
       (uint (TotalInodes s * minimumInodes div 100))"

definition Check :: "'w backend \<Rightarrow> controller \<Rightarrow> 'w \<Rightarrow> err option \<times> 'w" where
  "Check be c w =
     (case Snapshot be w of
        (Inl e, w) \<Rightarrow> (Some e, w)
      | (Inr s, w) \<Rightarrow>
          let t = Thresholds (c_policy c) (TotalBytes s)
          in (if FreeBytes s < HardFreeBytes t \<or> inodePressure s (MinimumFreeInodes (c_policy c))
              then Some (capacityError s t (MinimumFreeInodes (c_policy c))) else None, w))"

text \<open>
  \<open>runLocked\<close> in its parts: the worker made idle, the collection, the emergency, and the verdict.
  A result \<open>Inl\<close> is an early return. \<open>None\<close> stands for the zero status where the code returns
  \<open>Status\<close> with no fields.
\<close>

definition make_idle :: "'w backend \<Rightarrow> bool \<Rightarrow> capacity_status \<Rightarrow> 'w \<Rightarrow> ((capacity_status \<times> err option) + capacity_status) \<times> 'w" where
  "make_idle be hardPressure status w =
     (case Busy be w of
        (Inl e, w) \<Rightarrow>
          (Inl (status\<lparr>st_State := ''blocked'', st_Error := Some e\<rparr>, Some (ErrWrap ''read worker activity'' e)), w)
      | (Inr busy, w) \<Rightarrow>
          if busy \<and> \<not> hardPressure then (Inl (status\<lparr>st_State := ''deferred''\<rparr>, None), w)
          else if busy then
            (let status = status\<lparr>st_State := ''emergency''\<rparr>
             in case Emergency be w of
                  (Some e, w) \<Rightarrow>
                    (Inl (status\<lparr>st_State := ''blocked'', st_Error := Some e\<rparr>,
                      Some (ErrWrap ''stop active operation before emergency reclaim'' e)), w)
                | (None, w) \<Rightarrow>
                    (case Busy be w of
                       (Inl e, w) \<Rightarrow>
                         (Inl (status\<lparr>st_State := ''blocked'', st_Error := Some e\<rparr>,
                           Some (ErrWrap ''verify worker activity after emergency'' e)), w)
                     | (Inr busy, w) \<Rightarrow>
                         if busy then
                           (let e = ErrText ''worker remains busy after emergency stop''
                            in (Inl (status\<lparr>st_State := ''blocked'', st_Error := Some e\<rparr>, Some e), w))
                         else (Inr status, w)))
          else (Inr status, w))"

definition reclaim_request_of :: "policy \<Rightarrow> trigger \<Rightarrow> bool \<Rightarrow> thresholds \<Rightarrow> snapshot \<Rightarrow> reclaim_request" where
  "reclaim_request_of p trigger pressure t before =
     \<lparr>rq_Trigger = trigger, rq_Pressure = pressure, rq_TargetFreeBytes = TargetFreeBytes t,
      rq_JobRetention = JobRetention p, rq_CacheHighBytes = TotalBytes before * CacheHighPercent p div 100,
      rq_CacheLowBytes = TotalBytes before * CacheLowPercent p div 100, rq_NormalObjectAge = NormalObjectAge p\<rparr>"

definition last_resort :: "'w backend \<Rightarrow> policy \<Rightarrow> trigger \<Rightarrow> thresholds \<Rightarrow> snapshot \<Rightarrow> capacity_status \<Rightarrow> 'w \<Rightarrow> capacity_status \<times> 'w" where
  "last_resort be p trigger t before status w =
     (if FreeBytes (st_After status) < HardFreeBytes t \<or> inodePressure (st_After status) (MinimumFreeInodes p) then
        (let status = status\<lparr>st_State := ''emergency''\<rparr>
         in case Emergency be w of
              (Some e, w) \<Rightarrow> (status\<lparr>st_Error := Some e\<rparr>, w)
            | (None, w) \<Rightarrow>
                (let ((report, reclaimErr), w) = Reclaim be (reclaim_request_of p trigger True t before) w;
                     r = st_Reclaim status;
                     status = status\<lparr>st_Reclaim :=
                       \<lparr>ReclaimedBytes = ReclaimedBytes r + ReclaimedBytes report,
                        RemovedJobs = RemovedJobs r + RemovedJobs report,
                        RemovedCaches = RemovedCaches r + RemovedCaches report,
                        Commands = Commands r @ Commands report\<rparr>\<rparr>;
                     status = (case reclaimErr of None \<Rightarrow> status | Some e \<Rightarrow> status\<lparr>st_Error := Some e\<rparr>)
                 in case Snapshot be w of
                      (Inl _, w) \<Rightarrow> (status\<lparr>st_After := zero_snapshot\<rparr>, w)
                    | (Inr s, w) \<Rightarrow> (status\<lparr>st_After := s\<rparr>, w)))
      else (status, w))"

definition verdict :: "policy \<Rightarrow> thresholds \<Rightarrow> capacity_status \<Rightarrow> capacity_status \<times> err option" where
  "verdict p t status =
     (if FreeBytes (st_After status) < SoftFreeBytes t \<or> inodePressure (st_After status) (MinimumFreeInodes p) then
        (let e = capacityError (st_After status) t (MinimumFreeInodes p)
         in (status\<lparr>st_State := ''blocked'', st_Error := Some e\<rparr>, Some e))
      else (status\<lparr>st_State := ''healthy''\<rparr>, None))"

type_synonym 'w run = "(capacity_status option \<times> err option) \<times> (controller \<times> 'w)"

definition complete :: "('w \<Rightarrow> time) \<Rightarrow> capacity_status \<times> err option \<Rightarrow> controller \<times> 'w \<Rightarrow> 'w run" where
  "complete clock r s =
     (let (c, w) = s; status = (fst r)\<lparr>st_CompletedAt := clock w\<rparr>
      in ((Some status, snd r), (c\<lparr>c_status := Some status\<rparr>, w)))"

definition sweep ::
    "'w backend \<Rightarrow> ('w \<Rightarrow> time) \<Rightarrow> trigger \<Rightarrow> bool \<Rightarrow> bool \<Rightarrow> thresholds \<Rightarrow> snapshot \<Rightarrow> capacity_status \<Rightarrow> controller \<times> 'w \<Rightarrow> 'w run"
where
  "sweep be clock trigger needsReclaim pressure t before status s =
     (let (c, w) = s; p = c_policy c
      in if \<not> needsReclaim then
           (let (status, w) = last_resort be p trigger t before status w in complete clock (verdict p t status) (c, w))
         else
           (case Reclaim be (reclaim_request_of p trigger pressure t before) w of
              ((report, Some e), w) \<Rightarrow>
                complete clock (status\<lparr>st_Reclaim := report, st_State := ''blocked'', st_Error := Some e\<rparr>,
                  Some (ErrWrap ''reclaim worker capacity'' e)) (c, w)
            | ((report, None), w) \<Rightarrow>
                (case Snapshot be w of
                   (Inl e, w) \<Rightarrow> ((None, Some (ErrWrap ''remeasure worker capacity'' e)), (c, w))
                 | (Inr after, w) \<Rightarrow>
                     (let (status, w) = last_resort be p trigger t before (status\<lparr>st_Reclaim := report, st_After := after\<rparr>) w
                      in complete clock (verdict p t status) (c, w)))))"

definition under_pressure :: "policy \<Rightarrow> snapshot \<Rightarrow> bool" where
  "under_pressure p s \<longleftrightarrow> FreeBytes s < SoftFreeBytes (Thresholds p (TotalBytes s)) \<or> inodePressure s (MinimumFreeInodes p)"

definition hard_pressure :: "policy \<Rightarrow> snapshot \<Rightarrow> bool" where
  "hard_pressure p s \<longleftrightarrow> FreeBytes s < HardFreeBytes (Thresholds p (TotalBytes s)) \<or> inodePressure s (MinimumFreeInodes p)"

definition first_status :: "trigger \<Rightarrow> thresholds \<Rightarrow> snapshot \<Rightarrow> capacity_status" where
  "first_status trigger t before =
     \<lparr>st_State = ''healthy'', st_Trigger = trigger, st_Before = before, st_After = before,
      st_Thresholds = t, st_Reclaim = zero_report, st_Error = None, st_CompletedAt = zero_time\<rparr>"

definition after_idle ::
    "'w backend \<Rightarrow> ('w \<Rightarrow> time) \<Rightarrow> trigger \<Rightarrow> bool \<Rightarrow> thresholds \<Rightarrow> snapshot \<Rightarrow> capacity_status \<Rightarrow> controller \<times> 'w \<Rightarrow> 'w run"
where
  "after_idle be clock trigger pressure t before status s =
     (let (c, w) = s; p = c_policy c
      in if trigger = TriggerPressure \<and> PressureThrottle p > 0 \<and> Sub (clock w) (c_lastPressure c) < PressureThrottle p
         then complete clock (status\<lparr>st_State := ''reclaiming''\<rparr>, None) (c, w)
         else
         let c = (if trigger = TriggerPressure then c\<lparr>c_lastPressure := clock w\<rparr> else c);
             status = (if pressure then status\<lparr>st_State := ''reclaiming''\<rparr> else status)
         in sweep be clock trigger (pressure \<or> trigger \<noteq> TriggerAdmission) pressure t before status (c, w))"

definition runLocked :: "'w backend \<Rightarrow> ('w \<Rightarrow> time) \<Rightarrow> trigger \<Rightarrow> controller \<times> 'w \<Rightarrow> 'w run" where
  "runLocked be clock trigger s =
     (let (c, w) = s; p = c_policy c
      in case Snapshot be w of
        (Inl e, w) \<Rightarrow> ((None, Some (ErrWrap ''measure worker capacity'' e)), (c, w))
      | (Inr before, w) \<Rightarrow>
          let t = Thresholds p (TotalBytes before);
              pressure = under_pressure p before;
              status = first_status trigger t before;
              needsReclaim = (pressure \<or> trigger \<noteq> TriggerAdmission)
          in if trigger = TriggerPressure \<and> \<not> pressure then complete clock (status, None) (c, w)
             else if needsReclaim then
               (case make_idle be (hard_pressure p before) status w of
                  (Inl r, w) \<Rightarrow> complete clock r (c, w)
                | (Inr status, w) \<Rightarrow> after_idle be clock trigger pressure t before status (c, w))
             else after_idle be clock trigger pressure t before status (c, w))"

definition run_capacity :: "'w backend \<Rightarrow> ('w \<Rightarrow> time) \<Rightarrow> trigger \<Rightarrow> controller \<times> 'w \<Rightarrow> 'w run" where
  "run_capacity be clock trigger s =
     (let (c, w) = s
      in case Lock be w of
           (Inl e, w) \<Rightarrow> ((None, Some (ErrWrap ''lock worker capacity'' e)), (c, w))
         | (Inr _, w) \<Rightarrow> (let (r, (c, w)) = runLocked be clock trigger (c, w) in (r, (c, Unlock be w))))"

definition Ensure :: "'w backend \<Rightarrow> ('w \<Rightarrow> time) \<Rightarrow> controller \<times> 'w \<Rightarrow> err option \<times> (controller \<times> 'w)" where
  "Ensure be clock s = (let (r, s) = run_capacity be clock TriggerAdmission s in (snd r, s))"

definition Maintain :: "'w backend \<Rightarrow> ('w \<Rightarrow> time) \<Rightarrow> trigger \<Rightarrow> controller \<times> 'w \<Rightarrow> 'w run" where
  "Maintain = run_capacity"

definition Admit :: "'w backend \<Rightarrow> ('w \<Rightarrow> time) \<Rightarrow> ('w \<Rightarrow> err option \<times> 'w) \<Rightarrow> controller \<times> 'w \<Rightarrow> err option \<times> (controller \<times> 'w)" where
  "Admit be clock reserve s =
     (let (c, w) = s
      in case Lock be w of
           (Inl e, w) \<Rightarrow> (Some (ErrWrap ''lock worker capacity'' e), (c, w))
         | (Inr _, w) \<Rightarrow>
             (case runLocked be clock TriggerAdmission (c, w) of
                ((_, Some e), (c, w)) \<Rightarrow> (Some e, (c, Unlock be w))
              | ((_, None), (c, w)) \<Rightarrow> (let (e, w) = reserve w in (e, (c, Unlock be w)))))"

section \<open>The thresholds as numbers\<close>

lemma word_percent:
  fixes totalBytes :: u64
  assumes "unat totalBytes * unat p < 2 ^ 64" shows "unat (totalBytes * p div 100) = unat totalBytes * unat p div 100"
  using assms by (simp add: unat_div_distrib unat_mult_lem [symmetric] unat_word_ariths(2))

lemma gib_nat: "unat (n * gib) = unat n * 2 ^ 30" if "unat n < 2 ^ 33"
proof -
  have "unat n * 2 ^ 30 < 2 ^ 64" using that by simp
  then show ?thesis by (simp add: gib_def unat_word_ariths(2))
qed

lemma unat_max_word: "unat (max (a :: u64) b) = max (unat a) (unat b)"
  by (simp add: max_def word_le_nat_alt)

lemma default_thresholds:
  fixes totalBytes :: u64
  assumes "unat totalBytes < 2 ^ 64 div 20"
  shows "unat (SoftFreeBytes (Thresholds DefaultPolicy totalBytes)) = max (unat totalBytes * 20 div 100) (20 * 2 ^ 30)"
    "unat (HardFreeBytes (Thresholds DefaultPolicy totalBytes)) = max (unat totalBytes * 5 div 100) (8 * 2 ^ 30)"
    "unat (TargetFreeBytes (Thresholds DefaultPolicy totalBytes)) =
      max (unat totalBytes * 20 div 100) (20 * 2 ^ 30) + max (unat totalBytes * 5 div 100) (5 * 2 ^ 30)"
proof -
  have percent: "unat (totalBytes * 20 div 100) = unat totalBytes * 20 div 100" "unat (totalBytes * 5 div 100) = unat totalBytes * 5 div 100"
    using assms word_percent [of totalBytes 20] word_percent [of totalBytes 5] by simp_all
  let ?soft = "max (totalBytes * 20 div 100) (20 * gib)" and ?sweep = "max (totalBytes * 5 div 100) (5 * gib)"
  have soft: "unat ?soft = max (unat totalBytes * 20 div 100) (20 * 2 ^ 30)"
    and sweep: "unat ?sweep = max (unat totalBytes * 5 div 100) (5 * 2 ^ 30)"
    unfolding unat_max_word percent by (simp_all add: gib_nat)
  have "unat totalBytes * 20 div 100 < 2 ^ 62" "unat totalBytes * 5 div 100 < 2 ^ 62"
    by (rule less_mult_imp_div_less, use assms in simp)+
  then have "unat ?soft + unat ?sweep < 2 ^ 64" unfolding soft sweep by (auto simp del: div_mult_mult1_if simp: max_def)
  then have "unat (?soft + ?sweep) = unat ?soft + unat ?sweep"
    by (simp only: unat_word_ariths(1) len_num0 len_num1 len_bit0) simp
  then show "unat (TargetFreeBytes (Thresholds DefaultPolicy totalBytes)) =
      max (unat totalBytes * 20 div 100) (20 * 2 ^ 30) + max (unat totalBytes * 5 div 100) (5 * 2 ^ 30)"
    by (simp add: Thresholds_def DefaultPolicy_def Let_def soft sweep)
  show "unat (SoftFreeBytes (Thresholds DefaultPolicy totalBytes)) = max (unat totalBytes * 20 div 100) (20 * 2 ^ 30)"
    by (simp add: Thresholds_def DefaultPolicy_def Let_def soft)
  show "unat (HardFreeBytes (Thresholds DefaultPolicy totalBytes)) = max (unat totalBytes * 5 div 100) (8 * 2 ^ 30)"
    by (simp add: Thresholds_def DefaultPolicy_def Let_def unat_max_word percent gib_nat)
qed

lemma default_hard_le_soft:
  fixes totalBytes :: u64
  assumes "unat totalBytes < 2 ^ 64 div 20"
  shows "HardFreeBytes (Thresholds DefaultPolicy totalBytes) \<le> SoftFreeBytes (Thresholds DefaultPolicy totalBytes)"
  unfolding word_le_nat_alt default_thresholds [OF assms]
  using div_le_mono2 [of 5 20 "unat totalBytes"] by (simp add: max_def)

text \<open>
  C33: while the size of the file system is below a twentieth of \<open>2 ^ 64\<close> bytes, the default
  thresholds are what the policy says as numbers, no product or sum wraps, and they are in the order
  that the controller relies on: hard, then soft, then the target of a sweep.
\<close>

theorem default_thresholds_exact:
  fixes totalBytes :: u64
  assumes "unat totalBytes < 2 ^ 64 div 20"
  shows "unat (SoftFreeBytes (Thresholds DefaultPolicy totalBytes)) = max (unat totalBytes * 20 div 100) (20 * 2 ^ 30) \<and>
    unat (HardFreeBytes (Thresholds DefaultPolicy totalBytes)) = max (unat totalBytes * 5 div 100) (8 * 2 ^ 30) \<and>
    unat (TargetFreeBytes (Thresholds DefaultPolicy totalBytes)) =
      max (unat totalBytes * 20 div 100) (20 * 2 ^ 30) + max (unat totalBytes * 5 div 100) (5 * 2 ^ 30) \<and>
    HardFreeBytes (Thresholds DefaultPolicy totalBytes) \<le> SoftFreeBytes (Thresholds DefaultPolicy totalBytes) \<and>
    SoftFreeBytes (Thresholds DefaultPolicy totalBytes) \<le> TargetFreeBytes (Thresholds DefaultPolicy totalBytes)"
  using default_thresholds [OF assms] default_hard_le_soft [OF assms] by (simp add: word_le_nat_alt)

theorem default_thresholds_exact_witness:
  "unat (TargetFreeBytes (Thresholds DefaultPolicy (500 * gib))) = 125 * 2 ^ 30"
proof -
  have "unat (500 * gib) = 500 * 2 ^ 30" using gib_nat [of 500] by simp
  then show ?thesis using default_thresholds_exact [of "500 * gib"] by simp
qed

section \<open>When the backend is called\<close>

text \<open>
  What the controller may rely on. \<open>idle\<close> says of a world that no operation owns the worker and
  \<open>measure\<close> is the truth about its file system. Only the store may end the idleness of a
  worker: neither measuring nor collecting nor an emergency does.
\<close>

definition guarded :: "('w \<Rightarrow> bool) \<Rightarrow> (reclaim_request \<Rightarrow> 'w \<Rightarrow> (reclaim_report \<times> err option) \<times> 'w) \<Rightarrow> 'w backend \<Rightarrow> 'w backend" where
  "guarded idle g be = be\<lparr>Reclaim := \<lambda>q w. if idle w then Reclaim be q w else g q w\<rparr>"

definition ordered :: "policy \<Rightarrow> snapshot \<Rightarrow> bool" where
  "ordered p s \<longleftrightarrow> 0 < SoftFreeBytes (Thresholds p (TotalBytes s)) \<and>
     HardFreeBytes (Thresholds p (TotalBytes s)) \<le> SoftFreeBytes (Thresholds p (TotalBytes s))"

definition roomy :: "policy \<Rightarrow> snapshot \<Rightarrow> bool" where
  "roomy p s \<longleftrightarrow> SoftFreeBytes (Thresholds p (TotalBytes s)) \<le> FreeBytes s \<and> \<not> inodePressure s (MinimumFreeInodes p)"

lemma guarded_simps [simp]:
  "Snapshot (guarded idle g be) = Snapshot be" "Busy (guarded idle g be) = Busy be" "Emergency (guarded idle g be) = Emergency be"
  "Lock (guarded idle g be) = Lock be" "Unlock (guarded idle g be) = Unlock be"
  "idle w \<Longrightarrow> Reclaim (guarded idle g be) q w = Reclaim be q w"
  by (simp_all add: guarded_def)

lemma make_idle_guarded [simp]: "make_idle (guarded idle g be) = make_idle be"
  by (intro ext) (simp only: make_idle_def guarded_simps)

lemma ordered_cong: "TotalBytes s = TotalBytes s' \<Longrightarrow> ordered p s = ordered p s'"
  by (simp add: ordered_def)

lemma runLocked_measured:
  "Snapshot be w = (Inr before, w1) \<Longrightarrow> runLocked be clock trigger (c, w) =
     (let p = c_policy c; t = Thresholds p (TotalBytes before); pressure = under_pressure p before; st = first_status trigger t before
      in if trigger = TriggerPressure \<and> \<not> pressure then complete clock (st, None) (c, w1)
         else if pressure \<or> trigger \<noteq> TriggerAdmission then
           (case make_idle be (hard_pressure p before) st w1 of
              (Inl r, w) \<Rightarrow> complete clock r (c, w)
            | (Inr st, w) \<Rightarrow> after_idle be clock trigger pressure t before st (c, w))
         else after_idle be clock trigger pressure t before st (c, w1))"
  by (simp add: runLocked_def Let_def)

locale capacity_backend =
  fixes be :: "'w backend" and ok :: "'w \<Rightarrow> bool" and idle :: "'w \<Rightarrow> bool" and measured :: "'w \<Rightarrow> snapshot"
  assumes lock_law: "ok w \<Longrightarrow> Lock be w = (rl, v) \<Longrightarrow> ok v \<and> TotalBytes (measured v) = TotalBytes (measured w)"
    and snapshot_law: "ok w \<Longrightarrow> Snapshot be w = (rs, v) \<Longrightarrow>
      ok v \<and> idle v = idle w \<and> measured v = measured w \<and> (\<forall>s. rs = Inr s \<longrightarrow> s = measured w)"
    and busy_law: "ok w \<Longrightarrow> Busy be w = (rb, v) \<Longrightarrow>
      ok v \<and> idle v = idle w \<and> measured v = measured w \<and> (\<forall>b. rb = Inr b \<longrightarrow> b = (\<not> idle w))"
    and reclaim_law: "ok w \<Longrightarrow> idle w \<Longrightarrow> Reclaim be q w = (rr, v) \<Longrightarrow>
      ok v \<and> idle v \<and> TotalBytes (measured v) = TotalBytes (measured w)"
    and emergency_law: "ok w \<Longrightarrow> Emergency be w = (e, v) \<Longrightarrow>
      ok v \<and> (idle w \<longrightarrow> idle v) \<and> TotalBytes (measured v) = TotalBytes (measured w)"
begin

lemma make_idle_law:
  assumes "ok w" "make_idle be hard st w = (r, v)"
  shows "ok v \<and> TotalBytes (measured v) = TotalBytes (measured w) \<and> (\<forall>st'. r = Inr st' \<longrightarrow> idle v) \<and>
    (\<forall>st'. r = Inl (st', None) \<longrightarrow> \<not> idle v) \<and> (idle w \<longrightarrow> measured v = measured w) \<and> 
    (\<forall>st'. r = Inr st' \<longrightarrow> st_After st' = st_After st)"
proof -
  obtain r1 w1 where b1: "Busy be w = (r1, w1)" by force
  obtain e w2 where em: "Emergency be w1 = (e, w2)" by force
  obtain r3 w3 where b3: "Busy be w2 = (r3, w3)" by force
  note l1 = busy_law [OF assms(1) b1]
  then have l2: "ok w2 \<and> TotalBytes (measured w2) = TotalBytes (measured w1)"
    using emergency_law [OF _ em] by blast
  then have l3: "ok w3 \<and> idle w3 = idle w2 \<and> measured w3 = measured w2 \<and> (\<forall>b. r3 = Inr b \<longrightarrow> b = (\<not> idle w2))"
    using busy_law [OF _ b3] by blast
  show ?thesis
    using assms(2) b1 em b3 l1 l2 l3
    by (auto simp: make_idle_def Let_def split: sum.splits option.splits if_splits)
qed

lemma last_resort_law:
  assumes "ok w" "ordered p (measured w)" "t = Thresholds p (TotalBytes (measured w))" "st_After st = measured w"
    and quiet: "idle w \<or> roomy p (measured w)"
  shows "last_resort (guarded idle g be) p trigger t before st w = last_resort be p trigger t before st w"
    and "last_resort be p trigger t before st w = (st', v) \<Longrightarrow> ok v \<and> (idle w \<longrightarrow> idle v) \<and>
      (snd (verdict p t st') = None \<longrightarrow> roomy p (measured v))"
proof -
  obtain e w1 where em: "Emergency be w = (e, w1)" by force
  define q where "q = reclaim_request_of p trigger True t before"
  obtain rep re w2 where rc: "Reclaim be q w1 = ((rep, re), w2)" by (metis surj_pair)
  obtain rs w3 where sn: "Snapshot be w2 = (rs, w3)" by force
  have roomy: "\<not> (FreeBytes (measured w) < HardFreeBytes t \<or> inodePressure (measured w) (MinimumFreeInodes p))" if "roomy p (measured w)"
    using that assms(2,3) by (auto simp: roomy_def ordered_def)
  note l1 = emergency_law [OF assms(1) em]
  show "last_resort (guarded idle g be) p trigger t before st w = last_resort be p trigger t before st w"
    using quiet l1 roomy by (auto simp: last_resort_def Let_def assms(4) em split: option.split)
  show "ok v \<and> (idle w \<longrightarrow> idle v) \<and> (snd (verdict p t st') = None \<longrightarrow> roomy p (measured v))"
    if run: "last_resort be p trigger t before st w = (st', v)"
  proof (cases "roomy p (measured w)")
    case True
    then have "st' = st" "v = w" using run roomy by (simp_all add: last_resort_def assms(4))
    then show ?thesis using assms(1) True by simp
  next
    case False
    then have idle: "idle w1" "ok w1" "TotalBytes (measured w1) = TotalBytes (measured w)" using quiet l1 by blast+
    then have l2: "ok w2 \<and> idle w2 \<and> TotalBytes (measured w2) = TotalBytes (measured w1)" using reclaim_law [OF _ _ rc] by blast
    then have l3: "ok w3 \<and> idle w3 \<and> measured w3 = measured w2 \<and> (\<forall>s. rs = Inr s \<longrightarrow> s = measured w2)"
      using snapshot_law [OF _ sn] by blast
    show ?thesis
      using run False idle l2 l3 assms em rc sn
      by (auto simp: last_resort_def verdict_def Let_def q_def roomy_def ordered_def zero_snapshot_def
          split: sum.splits option.splits if_splits)
  qed
qed

lemma collect_law:
  assumes "ok w" "idle w" "ordered p (measured w)" "Reclaim be q w = (rr, w1)" "Snapshot be w1 = (Inr s, w2)"
  shows "ok w2" "idle w2" "s = measured w2" "ordered p (measured w2)" "TotalBytes (measured w2) = TotalBytes (measured w)"
  using reclaim_law [OF assms(1,2,4)] snapshot_law [OF _ assms(5)] assms(3) ordered_cong [of "measured w2" "measured w"] by auto

lemma sweep_law:
  assumes "ok w" "ordered (c_policy c) (measured w)" "t = Thresholds (c_policy c) (TotalBytes (measured w))"
    and quiet: "if needsReclaim then idle w else st_After st = measured w \<and> roomy (c_policy c) (measured w)"
  shows "sweep (guarded idle g be) clock trigger needsReclaim pressure t before st (c, w) =
      sweep be clock trigger needsReclaim pressure t before st (c, w)"
    and "sweep be clock trigger needsReclaim pressure t before st (c, w) = ((st', None), (c', v)) \<Longrightarrow>
      ok v \<and> roomy (c_policy c) (measured v)"
proof -
  let ?p = "c_policy c"
  have "sweep (guarded idle g be) clock trigger needsReclaim pressure t before st (c, w) =
      sweep be clock trigger needsReclaim pressure t before st (c, w) \<and>
    (sweep be clock trigger needsReclaim pressure t before st (c, w) = ((st', None), (c', v)) \<longrightarrow>
      ok v \<and> roomy ?p (measured v))"
  proof (cases needsReclaim)
    case False
    obtain st1 w1 where last: "last_resort be ?p trigger t before st w = (st1, w1)" by force
    note law = last_resort_law [OF assms(1-3)]
    show ?thesis
      using False quiet last law(1) [where st = st and trigger = trigger and before = before]
        law(2) [where st = st and trigger = trigger and before = before, OF _ _ last]
      by (auto simp: sweep_def complete_def Let_def)
  next
    case True
    obtain rep e w1 where rc: "Reclaim be (reclaim_request_of ?p trigger pressure t before) w = ((rep, e), w1)" by (metis surj_pair)
    obtain rs w2 where sn: "Snapshot be w1 = (rs, w2)" by force
    have idle: "idle w" using quiet True by simp
    show ?thesis
    proof (cases "e = None \<and> (\<exists>s. rs = Inr s)")
      case False
      then show ?thesis using True rc sn idle
        by (auto simp: sweep_def complete_def Let_def split: option.split sum.split)
    next
      case seen: True
      then obtain s where s: "e = None" "rs = Inr s" by blast
      let ?st = "st\<lparr>st_Reclaim := rep, st_After := s\<rparr>"
      obtain st1 w3 where last: "last_resort be ?p trigger t before ?st w2 = (st1, w3)" by force
      note col = collect_law [OF assms(1) idle assms(2) rc sn [unfolded s]]
      note law = last_resort_law [OF col(1,4), of t ?st, unfolded col(5), OF assms(3)]
      show ?thesis
        using True rc sn idle s col last law(1) [where trigger = trigger and before = before] law(2) [OF _ _ last]
        by (auto simp: sweep_def complete_def Let_def)
    qed
  qed
  then show "sweep (guarded idle g be) clock trigger needsReclaim pressure t before st (c, w) =
      sweep be clock trigger needsReclaim pressure t before st (c, w)"
    and "sweep be clock trigger needsReclaim pressure t before st (c, w) = ((st', None), (c', v)) \<Longrightarrow>
      ok v \<and> roomy ?p (measured v)" by blast+
qed

lemma after_idle_law:
  assumes "ok w" "idle w" "ordered (c_policy c) (measured w)" "t = Thresholds (c_policy c) (TotalBytes (measured w))"
    and needs: "pressure \<or> trigger \<noteq> TriggerAdmission"
  shows "after_idle (guarded idle g be) clock trigger pressure t before st (c, w) = after_idle be clock trigger pressure t before st (c, w)"
    and "trigger = TriggerAdmission \<Longrightarrow> after_idle be clock trigger pressure t before st (c, w) = ((st', None), (c', v)) \<Longrightarrow>
      ok v \<and> roomy (c_policy c) (measured v)"
proof -
  let ?c = "if trigger = TriggerPressure then c\<lparr>c_lastPressure := clock w\<rparr> else c"
  have "c_policy ?c = c_policy c" by simp
  note law = sweep_law [of w ?c t True, unfolded this, OF assms(1,3,4)]
  show "after_idle (guarded idle g be) clock trigger pressure t before st (c, w) = after_idle be clock trigger pressure t before st (c, w)"
    using law(1) assms(2) needs by (simp add: after_idle_def Let_def)
  show "ok v \<and> roomy (c_policy c) (measured v)"
    if "trigger = TriggerAdmission" "after_idle be clock trigger pressure t before st (c, w) = ((st', None), (c', v))"
    using law(2) [of _ clock trigger pressure before] assms(2) needs that by (simp add: after_idle_def Let_def)
qed

definition safe_run :: "('w \<Rightarrow> time) \<Rightarrow> trigger \<Rightarrow> controller \<times> 'w \<Rightarrow> bool" where
  "safe_run clock trigger s \<longleftrightarrow> (\<forall>st c' v. runLocked be clock trigger s = ((st, None), (c', v)) \<longrightarrow>
     ok v \<and> (roomy (c_policy (fst s)) (measured v) \<or> \<not> idle v))"

abbreviation (input) same_run where
  "same_run g clock trigger s \<equiv> runLocked (guarded idle g be) clock trigger s = runLocked be clock trigger s"

lemma runs_without_reclaim:
  assumes sn: "Snapshot be w = (Inr (measured w1), w1)" and ok: "ok w1" "ordered (c_policy c) (measured w1)"
    and calm: "\<not> under_pressure (c_policy c) (measured w1)"
  shows "same_run g clock TriggerAdmission (c, w) \<and> safe_run clock TriggerAdmission (c, w)"
proof -
  let ?p = "c_policy c" let ?t = "Thresholds (c_policy c) (TotalBytes (measured w1))"
  let ?st = "first_status TriggerAdmission ?t (measured w1)"
  have r: "runLocked b clock TriggerAdmission (c, w) = sweep b clock TriggerAdmission False False ?t (measured w1) ?st (c, w1)"
    if "Snapshot b = Snapshot be" for b
    using runLocked_measured [of b w "measured w1" w1] that sn calm by (simp add: Let_def after_idle_def)
  have "if False then idle w1 else st_After ?st = measured w1 \<and> roomy ?p (measured w1)"
    using calm by (auto simp: first_status_def under_pressure_def roomy_def)
  note law = sweep_law [OF ok refl this]
  show ?thesis using law r [OF refl] r [of "guarded idle g be"] by (simp add: safe_run_def)
qed

lemma runs_with_reclaim:
  assumes sn: "Snapshot be w = (Inr (measured w1), w1)" and ok: "ok w1" "ordered (c_policy c) (measured w1)"
    and needs: "under_pressure (c_policy c) (measured w1) \<or> trigger \<noteq> TriggerAdmission"
  shows "same_run g clock trigger (c, w) \<and> (trigger = TriggerAdmission \<longrightarrow> safe_run clock trigger (c, w))"
proof -
  let ?p = "c_policy c" let ?t = "Thresholds (c_policy c) (TotalBytes (measured w1))"
  obtain r w2 where mi: "make_idle be (hard_pressure ?p (measured w1)) (first_status trigger ?t (measured w1)) w1 = (r, w2)" by force
  note l2 = make_idle_law [OF ok(1) mi]
  have w2: "ordered ?p (measured w2)" "?t = Thresholds ?p (TotalBytes (measured w2))"
    using l2 ok ordered_cong [of "measured w2" "measured w1"] by auto
  have steps: "runLocked b clock trigger (c, w) =
        (if trigger = TriggerPressure \<and> \<not> under_pressure ?p (measured w1)
         then complete clock (first_status trigger ?t (measured w1), None) (c, w1)
         else case r of Inl x \<Rightarrow> complete clock x (c, w2)
           | Inr st1 \<Rightarrow> after_idle b clock trigger (under_pressure ?p (measured w1)) ?t (measured w1) st1 (c, w2))"
    if "Snapshot b = Snapshot be" "make_idle b = make_idle be" for b
    using runLocked_measured [of b w "measured w1" w1] that sn mi needs by (simp add: Let_def split: sum.split)
  show ?thesis
  proof (cases r)
    case (Inl x)
    then show ?thesis using l2 steps [OF refl refl] steps [of "guarded idle g be"]
      by (cases x) (auto simp: complete_def Let_def safe_run_def)
  next
    case (Inr st1)
    then have "idle w2" "ok w2" using l2 by auto
    note law = after_idle_law [OF this(2,1) w2 needs]
    show ?thesis
    proof (intro conjI impI)
      show "same_run g clock trigger (c, w)"
        using law(1) Inr steps [OF refl refl] steps [of "guarded idle g be"] by simp
    next
      assume "trigger = TriggerAdmission"
      then show "safe_run clock trigger (c, w)"
        using law(2) Inr steps [OF refl refl] unfolding safe_run_def by simp
    qed
  qed
qed

lemma runLocked_law:
  assumes ok: "ok w" and ordered: "ordered (c_policy c) (measured w)"
  shows "runLocked (guarded idle g be) clock trigger (c, w) = runLocked be clock trigger (c, w)"
    and "runLocked be clock TriggerAdmission (c, w) = ((st, None), (c', v)) \<Longrightarrow> ok v \<and> (roomy (c_policy c) (measured v) \<or> \<not> idle v)"
proof -
  let ?p = "c_policy c"
  obtain rs w1 where sn: "Snapshot be w = (rs, w1)" by force
  note l1 = snapshot_law [OF ok sn]
  have goal: "same_run g clock trigger (c, w) \<and> (trigger = TriggerAdmission \<longrightarrow> safe_run clock trigger (c, w))" for trigger
  proof (cases rs)
    case (Inl e)
    then show ?thesis using sn by (simp add: safe_run_def runLocked_def)
  next
    case (Inr before)
    then have before: "before = measured w1" "ok w1" "ordered ?p (measured w1)" using l1 ordered by auto
    note sn = sn [unfolded Inr]
    show ?thesis
    proof (cases "under_pressure ?p before \<or> trigger \<noteq> TriggerAdmission")
      case False
      then show ?thesis using runs_without_reclaim [OF sn [unfolded before(1)] before(2,3)] before(1) by simp
    next
      case True
      then show ?thesis using runs_with_reclaim [OF sn [unfolded before(1)] before(2,3)] before(1) by simp
    qed
  qed
  show "runLocked (guarded idle g be) clock trigger (c, w) = runLocked be clock trigger (c, w)"
    using goal by blast
  show "runLocked be clock TriggerAdmission (c, w) = ((st, None), (c', v)) \<Longrightarrow> ok v \<and> (roomy ?p (measured v) \<or> \<not> idle v)"
    using goal [of TriggerAdmission] by (auto simp: safe_run_def)
qed

lemma run_capacity_guarded:
  assumes "ok w" "ordered (c_policy c) (measured w)"
  shows "run_capacity (guarded idle g be) clock trigger (c, w) = run_capacity be clock trigger (c, w)"
proof -
  obtain rl v where lk: "Lock be w = (rl, v)" by force
  then show ?thesis
    using lock_law [OF assms(1) lk] runLocked_law(1) [of v c] ordered_cong [of "measured v" "measured w"] assms(2)
    by (simp add: run_capacity_def split: sum.split)
qed

lemma Admit_guarded:
  assumes "ok w" "ordered (c_policy c) (measured w)"
  shows "Admit (guarded idle g be) clock (\<lambda>v. if roomy (c_policy c) (measured v) \<or> \<not> idle v then reserve v else h v) (c, w) =
    Admit be clock reserve (c, w)"
proof -
  obtain rl v where lk: "Lock be w = (rl, v)" by force
  then have v: "ok v" "ordered (c_policy c) (measured v)"
    using lock_law [OF assms(1) lk] ordered_cong [of "measured v" "measured w"] assms(2) by auto
  obtain st e c' u where run: "runLocked be clock TriggerAdmission (c, v) = ((st, e), (c', u))" by (metis surj_pair)
  show ?thesis
    using lk run runLocked_law(1) [OF v, of g clock TriggerAdmission] runLocked_law(2) [OF v, of clock st c' u]
    by (cases e) (auto simp: Admit_def split: sum.split)
qed

end

end
