(* ===== verification/Filepath.thy ===== *)
theory Filepath
  imports Texts
begin

text \<open>
  What the program uses of Go's \<open>path/filepath\<close> on Unix: \<open>Clean\<close>, \<open>Join\<close> and \<open>Base\<close>, and the test
  for a single path element that guards every name from outside.
\<close>

fun split_on :: "char \<Rightarrow> string \<Rightarrow> string list" where
  "split_on c [] = [[]]"
| "split_on c (x # xs) =
     (if x = c then [] # split_on c xs
      else case split_on c xs of [] \<Rightarrow> [[x]] | y # ys \<Rightarrow> (x # y) # ys)"

fun join_with :: "string \<Rightarrow> string list \<Rightarrow> string" where
  "join_with sep [] = []"
| "join_with sep [x] = x"
| "join_with sep (x # y # ys) = x @ sep @ join_with sep (y # ys)"

fun clean_parts :: "bool \<Rightarrow> string list \<Rightarrow> string list \<Rightarrow> string list" where
  "clean_parts rooted out [] = rev out"
| "clean_parts rooted out (c # cs) =
     (if c = [] \<or> c = ''.'' then clean_parts rooted out cs
      else if c = ''..'' then
        (case out of
           [] \<Rightarrow> clean_parts rooted (if rooted then [] else [''..'']) cs
         | d # ds \<Rightarrow> if d = ''..'' then clean_parts rooted (''..'' # out) cs else clean_parts rooted ds cs)
      else clean_parts rooted (c # out) cs)"

definition is_rooted :: "string \<Rightarrow> bool" where
  "is_rooted p \<longleftrightarrow> take 1 p = ''/''"

definition parts_of :: "string \<Rightarrow> string list" where
  "parts_of p = clean_parts (is_rooted p) [] (split_on CHR ''/'' p)"

definition Clean :: "string \<Rightarrow> string" where
  "Clean p =
     (if is_rooted p then ''/'' @ join_with ''/'' (parts_of p)
      else if parts_of p = [] then ''.'' else join_with ''/'' (parts_of p))"

definition Join :: "string list \<Rightarrow> string" where
  "Join elems = (case dropWhile (\<lambda>e. e = []) elems of [] \<Rightarrow> [] | es \<Rightarrow> Clean (join_with ''/'' es))"

definition Base :: "string \<Rightarrow> string" where
  "Base p =
     (if p = [] then ''.''
      else let q = rev (dropWhile (\<lambda>c. c = CHR ''/'') (rev p))
           in if q = [] then ''/'' else last (split_on CHR ''/'' q))"

definition plain_name :: "string \<Rightarrow> bool" where
  "plain_name v \<longleftrightarrow> v \<noteq> [] \<and> v \<noteq> ''.'' \<and> v \<noteq> ''..'' \<and> CHR ''/'' \<notin> set v"

section \<open>Facts\<close>

lemma split_on_nonempty [simp]: "split_on c xs \<noteq> []"
  by (induction xs) (auto split: list.splits)

lemma split_on_plain: "c \<notin> set xs \<Longrightarrow> split_on c xs = [xs]"
  by (induction xs) auto

lemma split_on_append: "split_on c (xs @ c # ys) = split_on c xs @ split_on c ys"
proof (induction xs)
  case (Cons x xs)
  then show ?case by (cases "split_on c xs") auto
qed simp

lemma split_on_parts: "p \<in> set (split_on c xs) \<Longrightarrow> c \<notin> set p"
  by (induction xs arbitrary: p) (auto split: list.splits if_splits)

lemma split_on_single: "split_on c xs = [y] \<Longrightarrow> y = xs \<and> c \<notin> set xs"
  by (induction xs arbitrary: y) (auto split: list.splits if_splits)

lemma split_on_last_shorter:
  assumes "c \<in> set xs" shows "length (last (split_on c xs)) < length xs"
proof -
  obtain ys zs where "xs = ys @ c # zs" "c \<notin> set zs" using split_list_last [OF assms] by blast
  then show ?thesis by (simp add: split_on_append split_on_plain)
qed

lemma split_on_join:
  assumes "ps \<noteq> []" "\<forall>p \<in> set ps. c \<notin> set p" shows "split_on c (join_with [c] ps) = ps"
  using assms
proof (induction "[c]" ps rule: join_with.induct)
  case (3 x y ys)
  then show ?case using split_on_append [of c x "join_with [c] (y # ys)"] by (simp add: split_on_plain)
qed (simp_all add: split_on_plain)

lemma Base_fixed:
  assumes "Base v = v" shows "v \<noteq> [] \<and> (v = ''/'' \<or> CHR ''/'' \<notin> set v)"
proof -
  define q where "q = rev (dropWhile (\<lambda>c. c = CHR ''/'') (rev v))"
  have "length q \<le> length v" unfolding q_def by (metis length_dropWhile_le length_rev)
  moreover have "v \<noteq> []" using assms by (auto simp: Base_def)
  moreover have "Base v = (if q = [] then ''/'' else last (split_on CHR ''/'' q))"
    using \<open>v \<noteq> []\<close> by (simp add: Base_def Let_def q_def)
  moreover have "q = v \<and> CHR ''/'' \<notin> set q" if "last (split_on CHR ''/'' q) = v" "length q \<le> length v"
  proof -
    have "CHR ''/'' \<notin> set q" using split_on_last_shorter [of "CHR ''/''" q] that by auto
    then show ?thesis using that split_on_plain [of "CHR ''/''" q] by simp
  qed
  ultimately show ?thesis using assms by (metis (full_types))
qed

lemma Base_plain:
  assumes "v \<noteq> []" "CHR ''/'' \<notin> set v" shows "Base v = v"
proof -
  have "dropWhile (\<lambda>c. c = CHR ''/'') (rev v) = rev v"
    using assms last_in_set [of v] by (metis (lifting) dropWhile_eq_self_iff hd_rev)
  then show ?thesis using assms by (simp add: Base_def split_on_plain)
qed

lemma clean_parts_plain:
  "\<forall>c \<in> set cs. plain_name c \<Longrightarrow> clean_parts r out cs = rev out @ cs"
  by (induction cs arbitrary: out) (simp_all add: plain_name_def)

lemma clean_parts_append_plain:
  "\<forall>c \<in> set ds. plain_name c \<Longrightarrow> clean_parts r out (cs @ ds) = clean_parts r out cs @ ds"
  by (induction cs arbitrary: out) (simp_all add: clean_parts_plain split: list.split, metis)

lemma clean_parts_rooted:
  "\<forall>c \<in> set cs. CHR ''/'' \<notin> set c \<Longrightarrow> \<forall>c \<in> set out. plain_name c \<Longrightarrow> \<forall>p \<in> set (clean_parts True out cs). plain_name p"
proof (induction cs arbitrary: out)
  case (Cons c cs)
  define out1 where "out1 = (if c = [] \<or> c = ''.'' then out else if c = ''..'' then tl out else c # out)"
  have "\<not> (out \<noteq> [] \<and> hd out = ''..'')" using Cons.prems(2) by (cases out) (simp_all add: plain_name_def)
  then have "clean_parts True out (c # cs) = clean_parts True out1 cs" by (cases out) (simp_all add: out1_def)
  moreover have "\<forall>d \<in> set out1. plain_name d"
    using Cons.prems by (cases out) (auto simp: out1_def plain_name_def)
  ultimately show ?case using Cons.IH [of "out1"] Cons.prems(1) by simp
qed simp

lemma parts_rooted: "is_rooted p \<Longrightarrow> \<forall>x \<in> set (parts_of p). plain_name x"
  unfolding parts_of_def using clean_parts_rooted [of "split_on CHR ''/'' p" "[]"] split_on_parts by fastforce

lemma is_rooted_Cons [simp]: "is_rooted (CHR ''/'' # p)"
  by (simp add: is_rooted_def)

lemma is_rootedE: "is_rooted p \<Longrightarrow> \<exists>q. p = CHR ''/'' # q"
  by (cases p) (simp_all add: is_rooted_def)

text \<open>The parts of a cleaned path are those of the path.\<close>

lemma parts_of_join:
  assumes "\<forall>x \<in> set ps. plain_name x" shows "parts_of (''/'' @ join_with ''/'' ps) = ps"
proof (cases "ps = []")
  case False
  have "split_on CHR ''/'' (''/'' @ join_with ''/'' ps) = [] # ps"
    using split_on_join [OF False, of "CHR ''/''"] assms by (simp add: plain_name_def)
  then show ?thesis using clean_parts_plain [OF assms] by (simp add: parts_of_def)
qed (simp add: parts_of_def)

lemma Clean_rooted: "is_rooted p \<Longrightarrow> is_rooted (Clean p) \<and> parts_of (Clean p) = parts_of p"
  using parts_of_join [OF parts_rooted] by (simp add: Clean_def)

lemma join_with_rooted: "is_rooted p \<Longrightarrow> is_rooted (join_with ''/'' (p # ps))"
  by (cases ps) (auto dest: is_rootedE)

text \<open>Joining single names to an absolute directory goes straight down from it.\<close>

lemma Join_below:
  assumes "is_rooted root" "\<forall>x \<in> set ns. plain_name x"
  shows "is_rooted (Join (root # ns))" "parts_of (Join (root # ns)) = parts_of root @ ns"
proof -
  have "split_on CHR ''/'' (join_with ''/'' (root # ns)) = split_on CHR ''/'' root @ ns"
  proof (cases "ns = []")
    case False
    then have "join_with ''/'' (root # ns) = root @ CHR ''/'' # join_with ''/'' ns" by (cases ns) simp_all
    then show ?thesis
      using split_on_join [OF False, of "CHR ''/''"] assms(2) by (simp add: split_on_append plain_name_def)
  qed simp
  then have "parts_of (join_with ''/'' (root # ns)) = parts_of root @ ns"
    using clean_parts_append_plain [OF assms(2)] join_with_rooted [OF assms(1)] assms(1) by (simp add: parts_of_def)
  moreover have "Join (root # ns) = Clean (join_with ''/'' (root # ns))"
    using assms(1) by (auto simp: Join_def dest: is_rootedE)
  ultimately show "is_rooted (Join (root # ns))" "parts_of (Join (root # ns)) = parts_of root @ ns"
    using Clean_rooted [OF join_with_rooted [OF assms(1)]] by simp_all
qed

end
