(* ===== verification/Formats.thy ===== *)
theory Formats
  imports Prelude
begin

text \<open>
  Numbers as text: \<open>strconv.FormatInt\<close> in base ten, \<open>strconv.Atoi\<close>, the verbs \<open>%03d\<close> and \<open>%q\<close>, and
  \<open>time.Duration.String\<close>.
\<close>

fun digits :: "nat \<Rightarrow> string" where
  "digits n = (if n < 10 then [char_of (48 + n)] else digits (n div 10) @ [char_of (48 + n mod 10)])"

declare digits.simps [simp del]

definition FormatInt :: "int \<Rightarrow> string" where
  "FormatInt n = (if n < 0 then ''-'' @ digits (nat (- n)) else digits (nat n))"

definition pad_left :: "nat \<Rightarrow> string \<Rightarrow> string" where
  "pad_left k s = replicate (k - length s) CHR ''0'' @ s"

text \<open>\<open>fmtFrac\<close>: the fraction \<open>v\<close> of \<open>prec\<close> digits without trailing zeros.\<close>

definition fraction :: "nat \<Rightarrow> nat \<Rightarrow> string" where
  "fraction prec v =
     (let ds = rev (dropWhile (\<lambda>c. c = CHR ''0'') (rev (pad_left prec (digits v))))
      in if v = 0 then [] else ''.'' @ ds)"

definition abs_duration_string :: "nat \<Rightarrow> string" where
  "abs_duration_string u =
     (if u = 0 then ''0s''
      else if u < 1000 then digits u @ ''ns''
      else if u < 1000000 then digits (u div 1000) @ fraction 3 (u mod 1000) @ [CHR 0xC2, CHR 0xB5, CHR ''s'']
      else if u < 1000000000 then digits (u div 1000000) @ fraction 6 (u mod 1000000) @ ''ms''
      else
        (let s = u div 1000000000; m = s div 60; h = m div 60
         in (if h > 0 then digits h @ ''h'' else []) @ (if m > 0 then digits (m mod 60) @ ''m'' else []) @
            digits (s mod 60) @ fraction 9 (u mod 1000000000) @ ''s''))"

definition Duration_String :: "duration \<Rightarrow> string" where
  "Duration_String d = (if d < 0 then ''-'' @ abs_duration_string (nat (- d)) else abs_duration_string (nat d))"

lemma duration_examples:
  "Duration_String (5 * minute) = ''5m0s''" "Duration_String (90 * minute) = ''1h30m0s''" "Duration_String (1500 * millisecond) = ''1.5s''"
  by (simp_all add: Duration_String_def abs_duration_string_def fraction_def pad_left_def digits.simps Let_def
      minute_def second_def millisecond_def char_of_def bit_Suc_0_iff)

section \<open>Decimal digits identify the number\<close>

fun number_of :: "nat \<Rightarrow> string \<Rightarrow> nat" where
  "number_of acc [] = acc"
| "number_of acc (c # cs) = number_of (acc * 10 + (of_char c - 48)) cs"

lemma number_of_append: "number_of acc (xs @ [c]) = number_of acc xs * 10 + (of_char c - 48)"
  by (induction xs arbitrary: acc) simp_all

lemma number_of_digits: "number_of 0 (digits n) = n"
proof (induction n rule: digits.induct)
  case (1 n)
  have "of_char (char_of (48 + n mod 10) :: char) = 48 + n mod 10"
    using of_char_of [of "48 + n mod 10"] by (simp add: take_bit_eq_mod)
  then show ?case using 1 by (subst digits.simps) (auto simp: number_of_append take_bit_eq_mod)
qed

lemma number_of_zeros: "number_of 0 (replicate k CHR ''0'' @ s) = number_of 0 s"
  by (induction k) simp_all

lemma pad_left_inj: "pad_left k (digits m) = pad_left k (digits n) \<Longrightarrow> m = n"
  unfolding pad_left_def using number_of_zeros number_of_digits by metis

definition is_digit :: "char \<Rightarrow> bool" where
  "is_digit c \<longleftrightarrow> 48 \<le> (of_char c :: nat) \<and> (of_char c :: nat) \<le> 57"

lemma digits_are_digits: "\<forall>c \<in> set (digits n). is_digit c"
proof (induction n rule: digits.induct)
  case (1 n)
  have "is_digit (char_of (48 + m))" if "m < 10" for m :: nat
    using that by (simp add: is_digit_def take_bit_eq_mod)
  then show ?case using 1 by (subst digits.simps) auto
qed

lemma pad_left_digits: "\<forall>c \<in> set (pad_left k (digits n)). is_digit c"
  using digits_are_digits [of n] by (auto simp: pad_left_def is_digit_def)

section \<open>Numbers from text\<close>

text \<open>\<open>strconv.Atoi\<close>: an optional sign and decimal digits, in the range of a 64-bit integer.\<close>

definition sign_split :: "string \<Rightarrow> bool \<times> string" where
  "sign_split s =
     (if take 1 s = ''-'' then (True, drop 1 s) else if take 1 s = ''+'' then (False, drop 1 s) else (False, s))"

definition Atoi :: "string \<Rightarrow> int option" where
  "Atoi s =
     (let (negative, ds) = sign_split s;
          v = (if negative then - int (number_of 0 ds) else int (number_of 0 ds))
      in if ds = [] \<or> \<not> (\<forall>c \<in> set ds. is_digit c) \<or> v < - (2 ^ 63) \<or> v \<ge> 2 ^ 63 then None else Some v)"

lemma digits_nonempty [simp]: "digits n \<noteq> []"
  by (subst digits.simps) simp

lemma Atoi_digits:
  assumes "int n < 2 ^ 63" shows "Atoi (digits n) = Some (int n)"
proof -
  obtain c cs where ds: "digits n = c # cs" by (cases "digits n") (use digits_nonempty in auto)
  then have "is_digit c" using digits_are_digits [of n] by simp
  then have "c \<noteq> CHR ''-''" "c \<noteq> CHR ''+''" by (auto simp: is_digit_def)
  then have "sign_split (digits n) = (False, digits n)" by (simp add: sign_split_def ds)
  then show ?thesis using assms digits_are_digits [of n] by (simp add: Atoi_def number_of_digits)
qed

section \<open>Quoted text\<close>

text \<open>The verb \<open>%q\<close> on a byte of ASCII; the bytes of other characters stay as they are.\<close>

definition quote_char :: "char \<Rightarrow> string" where
  "quote_char c =
     (let n = of_char c :: nat in
      if c = CHR 0x22 \<or> c = CHR 0x5C then [CHR 0x5C, c]
      else case map_of [(7, CHR ''a''), (8, CHR ''b''), (9, CHR ''t''), (10, CHR ''n''), (11, CHR ''v''), (12, CHR ''f''), (13, CHR ''r'')] n of
        Some letter \<Rightarrow> [CHR 0x5C, letter]
      | None \<Rightarrow> if n < 32 \<or> n = 127 then [CHR 0x5C, CHR ''x''] @ hex_encode [c] else [c])"

definition Quote :: "string \<Rightarrow> string" where
  "Quote s = [CHR 0x22] @ concat (map quote_char s) @ [CHR 0x22]"

end
