(* ===== verification/Capacity_Host.thy ===== *)
theory Capacity_Host
  imports Capacity Filepath Formats Control_Projects
begin

text \<open>
  The worker as the capacity controller's backend: \<open>internal/capacity/host.go\<close>. The file system, the
  clock, the container runtime and the build cache are functions over a world \<open>'w\<close> in the
  configuration; the file lock is one of them. A configuration field that is nil in Go is \<open>None\<close>.
\<close>

section \<open>The configuration\<close>

record 'w capacity_store =
  cs_WorkerBusy :: "'w \<Rightarrow> (err + bool) \<times> 'w"
  cs_TerminalJobIDsBefore :: "time \<Rightarrow> 'w \<Rightarrow> (err + string list) \<times> 'w"
  cs_CapacityImagePolicies :: "'w \<Rightarrow> (err + image_policy list) \<times> 'w"

record runtime_image =
  ri_ID :: string
  ri_RepoTags :: "string list"
  ri_RepoDigests :: "string list"
  ri_CreatedAt :: time

record 'w capacity_runtime =
  PruneContainers :: "duration \<Rightarrow> bool \<Rightarrow> 'w \<Rightarrow> err option \<times> 'w"
  PruneNetworks :: "duration \<Rightarrow> 'w \<Rightarrow> err option \<times> 'w"
  PruneVolumes :: "'w \<Rightarrow> err option \<times> 'w"
  PruneImages :: "duration \<Rightarrow> 'w \<Rightarrow> err option \<times> 'w"
  ListImages :: "'w \<Rightarrow> (err + runtime_image list) \<times> 'w"
  RemoveImage :: "string \<Rightarrow> 'w \<Rightarrow> err option \<times> 'w"

text \<open>
  What the host asks of the operating system. \<open>os_WalkDir\<close> is the sequence of calls that
  \<open>filepath.WalkDir\<close> makes: an error, or an entry with its regularity and its size.
\<close>

record statfs =
  sf_Blocks :: u64
  sf_Bavail :: u64
  sf_Bsize :: u64
  sf_Files :: u64
  sf_Ffree :: u64

record dir_entry =
  de_Name :: string
  de_IsDir :: bool
  de_Info :: "err + time"

type_synonym walk_entry = "err + (bool \<times> (err + u64))"

record 'w host =
  h_JobsRoot :: string
  h_CacheRoot :: string
  h_Store :: "'w capacity_store option"
  h_Runtime :: "'w capacity_runtime option"
  h_BuildCache :: "(int \<Rightarrow> 'w \<Rightarrow> err option \<times> 'w) option"
  h_Emergency :: "('w \<Rightarrow> err option \<times> 'w) option"
  h_Now :: "'w \<Rightarrow> time"
  h_DryRun :: bool
  os_Statfs :: "'w \<Rightarrow> err + statfs"
  os_ReadDir :: "string \<Rightarrow> 'w \<Rightarrow> err + dir_entry list"
  os_WalkDir :: "string \<Rightarrow> 'w \<Rightarrow> walk_entry list"
  os_RemoveAll :: "string \<Rightarrow> 'w \<Rightarrow> err option \<times> 'w"
  os_Flock :: "'w \<Rightarrow> (err + unit) \<times> 'w"
  os_Funlock :: "'w \<Rightarrow> 'w"

section \<open>Helpers\<close>

definition safeChild :: "string \<Rightarrow> bool" where
  "safeChild value \<longleftrightarrow> value \<noteq> [] \<and> value \<noteq> ''.'' \<and> value \<noteq> ''..'' \<and> Base value = value"

definition dockerAge :: "duration \<Rightarrow> string" where
  "dockerAge d =
     (if d \<le> 0 then ''24h''
      else if d mod hour = 0 then FormatInt (d div hour) @ ''h''
      else Duration_String d)"

definition joinCommand :: "string list \<Rightarrow> string" where
  "joinCommand arguments = join_with '' '' arguments"

section \<open>Measuring\<close>

definition Host_Snapshot :: "'w host \<Rightarrow> 'w \<Rightarrow> (err + snapshot) \<times> 'w" where
  "Host_Snapshot h w =
     (case os_Statfs h w of
        Inl e \<Rightarrow> (Inl e, w)
      | Inr s \<Rightarrow>
          (Inr \<lparr>TotalBytes = sf_Blocks s * sf_Bsize s, FreeBytes = sf_Bavail s * sf_Bsize s,
            TotalInodes = sf_Files s, FreeInodes = sf_Ffree s, ObservedAt = h_Now h w\<rparr>, w))"

definition Host_Busy :: "'w host \<Rightarrow> 'w \<Rightarrow> (err + bool) \<times> 'w" where
  "Host_Busy h w = (case h_Store h of None \<Rightarrow> (Inr False, w) | Some s \<Rightarrow> cs_WorkerBusy s w)"

definition reachedTarget :: "'w host \<Rightarrow> reclaim_request \<Rightarrow> 'w \<Rightarrow> bool" where
  "reachedTarget h q w =
     (rq_Pressure q \<and> rq_TargetFreeBytes q \<noteq> 0 \<and>
      (case fst (Host_Snapshot h w) of Inl _ \<Rightarrow> False | Inr s \<Rightarrow> FreeBytes s \<ge> rq_TargetFreeBytes q))"

definition finishReport :: "'w host \<Rightarrow> snapshot \<Rightarrow> reclaim_report \<Rightarrow> err option \<Rightarrow> 'w \<Rightarrow> (reclaim_report \<times> err option) \<times> 'w" where
  "finishReport h before report e w =
     (case Host_Snapshot h w of
        (Inl snapshotErr, w) \<Rightarrow> ((report, join_errors [e, Some snapshotErr]), w)
      | (Inr after, w) \<Rightarrow>
          ((if FreeBytes after > FreeBytes before then report\<lparr>ReclaimedBytes := FreeBytes after - FreeBytes before\<rparr> else report,
            join_errors [e, None]), w))"

section \<open>Jobs\<close>

fun remove_jobs :: "'w host \<Rightarrow> int \<Rightarrow> string list \<Rightarrow> 'w \<Rightarrow> (int \<times> err option) \<times> 'w" where
  "remove_jobs h removed [] w = ((removed, None), w)"
| "remove_jobs h removed (i # ids) w =
     (if \<not> safeChild i then ((removed, Some (ErrText (''refuse unsafe job directory '' @ i))), w)
      else if h_DryRun h then remove_jobs h (removed + 1) ids w
      else case os_RemoveAll h (Join [h_JobsRoot h, i]) w of
             (Some e, w) \<Rightarrow> ((removed, Some (ErrWrap (''remove terminal job '' @ i) e)), w)
           | (None, w) \<Rightarrow> remove_jobs h (removed + 1) ids w)"

definition removeTerminalJobs :: "'w host \<Rightarrow> duration \<Rightarrow> 'w \<Rightarrow> (int \<times> err option) \<times> 'w" where
  "removeTerminalJobs h retention w =
     (case h_Store h of
        None \<Rightarrow> ((0, None), w)
      | Some s \<Rightarrow>
          if retention \<le> 0 then ((0, None), w)
          else case cs_TerminalJobIDsBefore s (h_Now h w - retention) w of
                 (Inl e, w) \<Rightarrow> ((0, Some (ErrWrap ''list retained terminal jobs'' e)), w)
               | (Inr ids, w) \<Rightarrow> remove_jobs h 0 ids w)"

section \<open>Images\<close>

record docker_image =
  di_image :: runtime_image
  di_lastUsed :: time
  di_protected :: bool

text \<open>\<open>byReference\<close>: of two policies with one reference the later one counts.\<close>

definition policy_for :: "image_policy list \<Rightarrow> string \<Rightarrow> image_policy option" where
  "policy_for policies reference = find (\<lambda>p. ip_reference p = reference) (rev policies)"

definition classify :: "image_policy list \<Rightarrow> runtime_image \<Rightarrow> docker_image" where
  "classify policies img =
     fold (\<lambda>reference d.
         case policy_for policies reference of
           None \<Rightarrow> d
         | Some p \<Rightarrow> d\<lparr>di_protected := di_protected d \<or> ip_protected p,
             di_lastUsed := (if ip_last_used_at p > di_lastUsed d then ip_last_used_at p else di_lastUsed d)\<rparr>)
       (ri_RepoTags img @ ri_RepoDigests img)
       \<lparr>di_image = img, di_lastUsed = ri_CreatedAt img, di_protected = False\<rparr>"

fun remove_images ::
    "'w host \<Rightarrow> 'w capacity_runtime \<Rightarrow> u64 \<Rightarrow> time \<Rightarrow> string list \<Rightarrow> docker_image list \<Rightarrow> 'w \<Rightarrow> (string list \<times> err option) \<times> 'w"
where
  "remove_images h rt target grace commands [] w = ((commands, None), w)"
| "remove_images h rt target grace commands (d # ds) w =
     (if di_protected d \<or> di_lastUsed d > grace then remove_images h rt target grace commands ds w
      else
      let commands = commands @ [''docker '' @ joinCommand [''image'', ''rm'', ri_ID (di_image d)]];
          w = (if h_DryRun h then w else snd (RemoveImage rt (ri_ID (di_image d)) w))
      in if target > 0 then
           (case Host_Snapshot h w of
              (Inl e, w) \<Rightarrow> ((commands, Some e), w)
            | (Inr s, w) \<Rightarrow>
                if FreeBytes s \<ge> target then ((commands, None), w)
                else remove_images h rt target grace commands ds w)
         else remove_images h rt target grace commands ds w)"

definition no_runtime :: err where
  "no_runtime = ErrText ''Docker capacity runtime is not configured''"

text \<open>With images to look at and no store, the code dereferences nil.\<close>

definition pruneUnusedImages :: "'w host \<Rightarrow> u64 \<Rightarrow> 'w \<Rightarrow> (string list \<times> err option) \<times> 'w" where
  "pruneUnusedImages h target w =
     (case h_Runtime h of
        None \<Rightarrow> (([], Some no_runtime), w)
      | Some rt \<Rightarrow>
          case ListImages rt w of
            (Inl e, w) \<Rightarrow> (([], Some (ErrWrap ''list Docker images'' e)), w)
          | (Inr [], w) \<Rightarrow> (([], None), w)
          | (Inr images, w) \<Rightarrow>
              case h_Store h of
                None \<Rightarrow> (([], Some (ErrText ''nil pointer dereference'')), w)
              | Some s \<Rightarrow>
                  case cs_CapacityImagePolicies s w of
                    (Inl e, w) \<Rightarrow> (([], Some (ErrWrap ''load protected Docker images'' e)), w)
                  | (Inr policies, w) \<Rightarrow>
                      remove_images h rt target (h_Now h w - 5 * minute) []
                        (sort_key (\<lambda>d. (di_lastUsed d, ri_ID (di_image d))) (map (classify policies) images)) w)"

section \<open>Caches\<close>

record cache_directory =
  cd_path :: string
  cd_modTime :: time
  cd_size :: u64

fun add_sizes :: "u64 \<Rightarrow> walk_entry list \<Rightarrow> err + u64" where
  "add_sizes n [] = Inr n"
| "add_sizes n (Inl e # es) = Inl e"
| "add_sizes n (Inr (False, _) # es) = add_sizes n es"
| "add_sizes n (Inr (True, Inl e) # es) = Inl e"
| "add_sizes n (Inr (True, Inr k) # es) = add_sizes (n + k) es"

definition directorySize :: "'w host \<Rightarrow> string \<Rightarrow> 'w \<Rightarrow> err + u64" where
  "directorySize h root w = add_sizes 0 (os_WalkDir h root w)"

fun project_caches ::
    "'w host \<Rightarrow> string \<Rightarrow> string \<Rightarrow> 'w \<Rightarrow> cache_directory list \<times> u64 \<Rightarrow> dir_entry list \<Rightarrow> err + (cache_directory list \<times> u64)"
where
  "project_caches h root project w acc [] = Inr acc"
| "project_caches h root project w acc (entry # entries) =
     (if \<not> de_IsDir entry \<or> \<not> safeChild (de_Name entry) then project_caches h root project w acc entries
      else
      let path = Join [root, project, de_Name entry]
      in case de_Info entry of
           Inl e \<Rightarrow> Inl e
         | Inr modTime \<Rightarrow>
             case directorySize h path w of
               Inl e \<Rightarrow> Inl e
             | Inr k \<Rightarrow>
                 project_caches h root project w
                   (fst acc @ [\<lparr>cd_path = path, cd_modTime = modTime, cd_size = k\<rparr>], snd acc + k) entries)"

fun all_caches ::
    "'w host \<Rightarrow> string \<Rightarrow> 'w \<Rightarrow> cache_directory list \<times> u64 \<Rightarrow> dir_entry list \<Rightarrow> err + (cache_directory list \<times> u64)"
where
  "all_caches h root w acc [] = Inr acc"
| "all_caches h root w acc (p # ps) =
     (if \<not> de_IsDir p \<or> \<not> safeChild (de_Name p) then all_caches h root w acc ps
      else case os_ReadDir h (Join [root, de_Name p]) w of
             Inl e \<Rightarrow> Inl e
           | Inr entries \<Rightarrow>
               case project_caches h root (de_Name p) w acc entries of
                 Inl e \<Rightarrow> Inl e
               | Inr acc \<Rightarrow> all_caches h root w acc ps)"

definition cacheDirectories :: "'w host \<Rightarrow> string \<Rightarrow> 'w \<Rightarrow> err + (cache_directory list \<times> u64)" where
  "cacheDirectories h root w =
     (case os_ReadDir h root w of
        Inl e \<Rightarrow> if err_is e os_ErrNotExist then Inr ([], 0) else Inl e
      | Inr ps \<Rightarrow> all_caches h root w ([], 0) ps)"

fun remove_caches :: "'w host \<Rightarrow> u64 \<Rightarrow> int \<Rightarrow> u64 \<Rightarrow> cache_directory list \<Rightarrow> 'w \<Rightarrow> (int \<times> err option) \<times> 'w" where
  "remove_caches h low removed used [] w = ((removed, None), w)"
| "remove_caches h low removed used (c # cs) w =
     (if used \<le> low then ((removed, None), w)
      else
      let (e, w) = (if h_DryRun h then (None, w) else os_RemoveAll h (cd_path c) w)
      in case e of
           Some e \<Rightarrow> ((removed, Some (ErrWrap (''remove project cache '' @ cd_path c) e)), w)
         | None \<Rightarrow> remove_caches h low (removed + 1) (if cd_size c \<ge> used then 0 else used - cd_size c) cs w)"

definition pruneCaches :: "'w host \<Rightarrow> u64 \<Rightarrow> u64 \<Rightarrow> bool \<Rightarrow> 'w \<Rightarrow> (int \<times> err option) \<times> 'w" where
  "pruneCaches h high low pressure w =
     (case cacheDirectories h (h_CacheRoot h) w of
        Inl e \<Rightarrow> ((0, Some e), w)
      | Inr (caches, used) \<Rightarrow>
          if \<not> pressure \<and> (high = 0 \<or> used \<le> high) then ((0, None), w)
          else remove_caches h (if low > high \<and> high \<noteq> 0 then high else low) 0 used
            (sort_key (\<lambda>c. (cd_modTime c, cd_path c)) caches) w)"

section \<open>Collection\<close>

definition run_command ::
    "'w host \<Rightarrow> string list \<Rightarrow> ('w capacity_runtime \<Rightarrow> 'w \<Rightarrow> err option \<times> 'w) \<Rightarrow> reclaim_report \<times> err list \<Rightarrow> 'w \<Rightarrow> (reclaim_report \<times> err list) \<times> 'w"
where
  "run_command h command call acc w =
     (let (report, errs) = acc; report = report\<lparr>Commands := Commands report @ [''docker '' @ joinCommand command]\<rparr>
      in if h_DryRun h then ((report, errs), w)
         else case h_Runtime h of
           None \<Rightarrow> ((report, errs @ [no_runtime]), w)
         | Some rt \<Rightarrow>
             (case call rt w of
                (Some e, w) \<Rightarrow> ((report, errs @ [ErrWrap (''docker '' @ joinCommand command) e]), w)
              | (None, w) \<Rightarrow> ((report, errs), w)))"

fun runtime_calls ::
    "'w host \<Rightarrow> reclaim_request \<Rightarrow> (string list \<times> ('w capacity_runtime \<Rightarrow> 'w \<Rightarrow> err option \<times> 'w)) list \<Rightarrow>
      reclaim_report \<times> err list \<Rightarrow> 'w \<Rightarrow> (bool \<times> reclaim_report \<times> err list) \<times> 'w"
where
  "runtime_calls h q [] acc w = ((False, acc), w)"
| "runtime_calls h q ((command, call) # calls) acc w =
     (let (acc, w) = run_command h command call acc w
      in if reachedTarget h q w then ((True, acc), w) else runtime_calls h q calls acc w)"

definition join_all :: "err list \<Rightarrow> err option" where
  "join_all errs = join_errors (map Some errs)"

text \<open>The errors of a step are appended to those before it.\<close>

definition noted :: "err option \<Rightarrow> err list \<Rightarrow> err list" where
  "noted e errs = (case e of None \<Rightarrow> errs | Some e \<Rightarrow> errs @ [e])"

definition object_age :: "reclaim_request \<Rightarrow> duration" where
  "object_age q =
     (if rq_Pressure q then 5 * minute
      else if rq_NormalObjectAge q \<le> 0 then 24 * hour else rq_NormalObjectAge q)"

definition prune_calls :: "reclaim_request \<Rightarrow> (string list \<times> ('w capacity_runtime \<Rightarrow> 'w \<Rightarrow> err option \<times> 'w)) list" where
  "prune_calls q =
     (let d = object_age q; age = dockerAge d
      in [(if rq_Pressure q then [''container'', ''prune'', ''--force'', ''--filter'', ''until='' @ age]
           else [''container'', ''prune'', ''--force'', ''--filter'', ''label=org.testcontainers=true'', ''--filter'', ''until='' @ age],
           \<lambda>rt. PruneContainers rt d (rq_Pressure q)),
          ([''network'', ''prune'', ''--force'', ''--filter'', ''until='' @ age], \<lambda>rt. PruneNetworks rt d),
          ([''volume'', ''prune'', ''--force''], PruneVolumes)])"

definition reclaim_images :: "'w host \<Rightarrow> reclaim_request \<Rightarrow> reclaim_report \<times> err list \<Rightarrow> 'w \<Rightarrow> (reclaim_report \<times> err list) \<times> 'w" where
  "reclaim_images h q acc w =
     (if rq_Pressure q then
        (let ((commands, e), w) = pruneUnusedImages h (rq_TargetFreeBytes q) w; (report, errs) = acc
         in ((report\<lparr>Commands := Commands report @ commands\<rparr>, noted e errs), w))
      else
        run_command h [''image'', ''prune'', ''--force'', ''--filter'', ''until='' @ dockerAge (object_age q)]
          (\<lambda>rt. PruneImages rt (object_age q)) acc w)"

definition reclaim_builds :: "'w host \<Rightarrow> reclaim_report \<times> err list \<Rightarrow> 'w \<Rightarrow> (reclaim_report \<times> err list) \<times> 'w" where
  "reclaim_builds h acc w =
     (let (report, errs) = acc;
          report = report\<lparr>Commands := Commands report @ [''buildkit prune --all --max-used-space 2000000000'']\<rparr>
      in if h_DryRun h then ((report, errs), w)
         else case h_BuildCache h of
           None \<Rightarrow> ((report, errs @ [ErrText ''BuildKit capacity runtime is not configured'']), w)
         | Some prune \<Rightarrow>
             (case prune 2000000000 w of
                (Some e, w) \<Rightarrow> ((report, errs @ [ErrWrap ''prune BuildKit'' e]), w)
              | (None, w) \<Rightarrow> ((report, errs), w)))"

definition Host_Reclaim :: "'w host \<Rightarrow> reclaim_request \<Rightarrow> 'w \<Rightarrow> (reclaim_report \<times> err option) \<times> 'w" where
  "Host_Reclaim h q w =
     (case Host_Snapshot h w of
        (Inl e, w) \<Rightarrow> ((zero_report, Some e), w)
      | (Inr before, w) \<Rightarrow>
          let finish = (\<lambda>(report, errs). finishReport h before report (join_all errs));
              ((removedJobs, e), w) = removeTerminalJobs h (rq_JobRetention q) w;
              acc = (zero_report\<lparr>RemovedJobs := removedJobs\<rparr>, noted e [])
          in if reachedTarget h q w then finish acc w
             else
             let ((reached, acc), w) = runtime_calls h q (prune_calls q) acc w
             in if reached then finish acc w
                else
                let (acc, w) = reclaim_images h q acc w
                in if reachedTarget h q w then finish acc w
                   else
                   let ((removedCaches, e), w) = pruneCaches h (rq_CacheHighBytes q) (rq_CacheLowBytes q) (rq_Pressure q) w;
                       acc = ((fst acc)\<lparr>RemovedCaches := removedCaches\<rparr>, noted e (snd acc))
                   in if reachedTarget h q w \<or> \<not> rq_Pressure q then finish acc w
                      else (let (acc, w) = reclaim_builds h acc w in finish acc w))"

definition Host_Emergency :: "'w host \<Rightarrow> 'w \<Rightarrow> err option \<times> 'w" where
  "Host_Emergency h w =
     (if h_DryRun h then (None, w)
      else case h_Emergency h of
        None \<Rightarrow> (Some (ErrText ''no emergency operation stopper is configured''), w)
      | Some f \<Rightarrow> f w)"

definition host_backend :: "'w host \<Rightarrow> 'w backend" where
  "host_backend h =
     \<lparr>Lock = os_Flock h, Unlock = os_Funlock h, Snapshot = Host_Snapshot h, Busy = Host_Busy h,
      Reclaim = Host_Reclaim h, Emergency = Host_Emergency h\<rparr>"

section \<open>What collection removes from the file system\<close>

lemma safeChild_iff: "safeChild v \<longleftrightarrow> plain_name v \<or> v = ''/''"
proof
  assume "safeChild v"
  then show "plain_name v \<or> v = ''/''" using Base_fixed [of v] by (auto simp: safeChild_def plain_name_def)
next
  assume "plain_name v \<or> v = ''/''"
  moreover have "safeChild ''/''" by code_simp
  ultimately show "safeChild v" using Base_plain [of v] by (auto simp: safeChild_def plain_name_def)
qed

text \<open>The places collection may remove: a directory of a job, and a cache of a project.\<close>

definition collectable :: "'w host \<Rightarrow> string \<Rightarrow> bool" where
  "collectable h p \<longleftrightarrow> is_rooted p \<and>
     ((\<exists>x. plain_name x \<and> parts_of p = parts_of (h_JobsRoot h) @ [x]) \<or>
      (\<exists>x y. plain_name x \<and> plain_name y \<and> parts_of p = parts_of (h_CacheRoot h) @ [x, y]))"

definition confined :: "(string \<Rightarrow> 'w \<Rightarrow> err option \<times> 'w) \<Rightarrow> 'w host \<Rightarrow> 'w host" where
  "confined g h = h\<lparr>os_RemoveAll := \<lambda>p w. if collectable h p then os_RemoveAll h p w else g p w\<rparr>"

text \<open>What the operating system and the store promise: no entry and no job is called \<open>/\<close>.\<close>

definition sane_names :: "'w host \<Rightarrow> bool" where
  "sane_names h \<longleftrightarrow> is_rooted (h_JobsRoot h) \<and> is_rooted (h_CacheRoot h) \<and>
     (\<forall>p w es. os_ReadDir h p w = Inr es \<longrightarrow> ''/'' \<notin> de_Name ` set es) \<and>
     (\<forall>s t w ids v. h_Store h = Some s \<longrightarrow> cs_TerminalJobIDsBefore s t w = (Inr ids, v) \<longrightarrow> ''/'' \<notin> set ids)"

lemma confined_simps [simp]:
  "h_JobsRoot (confined g h) = h_JobsRoot h" "h_CacheRoot (confined g h) = h_CacheRoot h" "h_Store (confined g h) = h_Store h"
  "h_Runtime (confined g h) = h_Runtime h" "h_BuildCache (confined g h) = h_BuildCache h" "h_Now (confined g h) = h_Now h"
  "h_DryRun (confined g h) = h_DryRun h" "os_Statfs (confined g h) = os_Statfs h" "os_ReadDir (confined g h) = os_ReadDir h"
  "os_WalkDir (confined g h) = os_WalkDir h" "h_Emergency (confined g h) = h_Emergency h"
  by (simp_all add: confined_def)

lemma confined_RemoveAll [simp]: "collectable h p \<Longrightarrow> os_RemoveAll (confined g h) p w = os_RemoveAll h p w"
  by (simp add: confined_def)

lemma confined_Snapshot [simp]: "Host_Snapshot (confined g h) = Host_Snapshot h"
  by (intro ext) (unfold Host_Snapshot_def confined_simps, rule refl)

lemma confined_measures [simp]:
  "reachedTarget (confined g h) = reachedTarget h" "finishReport (confined g h) = finishReport h"
  "run_command (confined g h) = run_command h" "reclaim_builds (confined g h) = reclaim_builds h"
  "directorySize (confined g h) = directorySize h"
  by (intro ext; unfold reachedTarget_def finishReport_def run_command_def reclaim_builds_def directorySize_def
      confined_simps confined_Snapshot; rule refl)+

lemma confined_calls [simp]: "runtime_calls (confined g h) q calls acc w = runtime_calls h q calls acc w"
  by (induction h q calls acc w rule: runtime_calls.induct) (simp_all add: Let_def split: prod.split)

lemma confined_images [simp]:
  "remove_images (confined g h) rt target grace commands ds w = remove_images h rt target grace commands ds w"
  by (induction h rt target grace commands ds w rule: remove_images.induct) (simp_all add: Let_def split: prod.split sum.split)

lemma confined_reclaim_images [simp]: "reclaim_images (confined g h) = reclaim_images h"
  by (intro ext) (unfold reclaim_images_def pruneUnusedImages_def confined_simps confined_measures confined_images, rule refl)

lemma confined_project_caches [simp]:
  "project_caches (confined g h) root p w acc es = project_caches h root p w acc es"
  by (induction es arbitrary: acc) (simp_all add: Let_def split: sum.split)

lemma confined_all_caches [simp]: "all_caches (confined g h) root w acc ps = all_caches h root w acc ps"
  by (induction ps arbitrary: acc) (simp_all split: sum.split)

lemma confined_cacheDirectories [simp]: "cacheDirectories (confined g h) = cacheDirectories h"
  by (intro ext) (unfold cacheDirectories_def confined_simps confined_all_caches, rule refl)

lemma remove_jobs_confined:
  assumes "is_rooted (h_JobsRoot h)" "''/'' \<notin> set ids"
  shows "remove_jobs (confined g h) n ids w = remove_jobs h n ids w"
  using assms(2)
proof (induction ids arbitrary: n w)
  case (Cons i ids)
  have "collectable h (Join [h_JobsRoot h, i])" if "safeChild i"
    using Join_below [OF assms(1), of "[i]"] that Cons.prems by (auto simp: collectable_def safeChild_iff)
  then show ?case using Cons by (auto split: prod.split option.split)
qed simp

lemma project_caches_collectable:
  assumes "is_rooted (h_CacheRoot h)" "plain_name p" "''/'' \<notin> de_Name ` set es"
    and "\<forall>c \<in> set (fst acc). collectable h (cd_path c)" "project_caches h (h_CacheRoot h) p w acc es = Inr acc'"
  shows "\<forall>c \<in> set (fst acc'). collectable h (cd_path c)"
  using assms(3-5)
proof (induction es arbitrary: acc)
  case (Cons e es)
  have below: "collectable h (Join [h_CacheRoot h, p, de_Name e])" if "safeChild (de_Name e)"
    using Join_below [OF assms(1), of "[p, de_Name e]"] that Cons.prems(1) assms(2)
    by (auto simp: collectable_def safeChild_iff)
  show ?case
  proof (cases "de_IsDir e \<and> safeChild (de_Name e)")
    case False
    then show ?thesis using Cons.prems Cons.IH [of acc] by auto
  next
    case True
    then obtain t k where
      "project_caches h (h_CacheRoot h) p w (fst acc @ [\<lparr>cd_path = Join [h_CacheRoot h, p, de_Name e], cd_modTime = t, cd_size = k\<rparr>], snd acc + k) es = Inr acc'"
      using Cons.prems(3) by (auto simp: Let_def split: sum.splits)
    from Cons.IH [OF _ _ this] show ?thesis using Cons.prems(1,2) below True by auto
  qed
qed simp

lemma all_caches_collectable:
  assumes names: "sane_names h" and "''/'' \<notin> de_Name ` set ps"
    and "\<forall>c \<in> set (fst acc). collectable h (cd_path c)" "all_caches h (h_CacheRoot h) w acc ps = Inr acc'"
  shows "\<forall>c \<in> set (fst acc'). collectable h (cd_path c)"
  using assms(2-4)
proof (induction ps arbitrary: acc)
  case (Cons p ps)
  show ?case
  proof (cases "de_IsDir p \<and> safeChild (de_Name p)")
    case False
    then show ?thesis using Cons by auto
  next
    case True
    then have p: "plain_name (de_Name p)" using Cons.prems(1) by (auto simp: safeChild_iff)
    obtain es acc1 where steps: "os_ReadDir h (Join [h_CacheRoot h, de_Name p]) w = Inr es"
        "project_caches h (h_CacheRoot h) (de_Name p) w acc es = Inr acc1" "all_caches h (h_CacheRoot h) w acc1 ps = Inr acc'"
      using Cons.prems(3) True by (auto split: sum.splits)
    have "''/'' \<notin> de_Name ` set es" "is_rooted (h_CacheRoot h)" using names steps(1) by (auto simp: sane_names_def)
    then show ?thesis
      using project_caches_collectable [OF _ p _ Cons.prems(2) steps(2)] Cons.IH [of acc1] Cons.prems(1) steps(3) by auto
  qed
qed simp

lemma remove_caches_confined:
  "\<forall>c \<in> set cs. collectable h (cd_path c) \<Longrightarrow> remove_caches (confined g h) low n used cs w = remove_caches h low n used cs w"
  by (induction cs arbitrary: n used w) (auto simp: Let_def split: prod.split option.split)

lemma pruneCaches_confined:
  assumes "sane_names h" shows "pruneCaches (confined g h) high low pressure w = pruneCaches h high low pressure w"
proof (cases "cacheDirectories h (h_CacheRoot h) w")
  case (Inr r)
  have "\<forall>c \<in> set (fst r). collectable h (cd_path c)"
  proof (cases "os_ReadDir h (h_CacheRoot h) w")
    case (Inl e)
    then show ?thesis using \<open>_ = Inr r\<close> by (auto simp: cacheDirectories_def split: if_splits)
  next
    case (Inr ps)
    then have "''/'' \<notin> de_Name ` set ps" "all_caches h (h_CacheRoot h) w ([], 0) ps = Inr r"
      using assms \<open>_ = Inr r\<close> by (auto simp: sane_names_def cacheDirectories_def)
    then show ?thesis using all_caches_collectable [OF assms, of ps "([], 0)" w r] by simp
  qed
  then show ?thesis using Inr by (cases r) (simp add: pruneCaches_def remove_caches_confined)
qed (simp add: pruneCaches_def)

lemma removeTerminalJobs_confined:
  assumes "sane_names h" shows "removeTerminalJobs (confined g h) d w = removeTerminalJobs h d w"
proof (cases "h_Store h")
  case (Some s)
  obtain r v where r: "cs_TerminalJobIDsBefore s (h_Now h w - d) w = (r, v)" by force
  then have "is_rooted (h_JobsRoot h) \<and> (\<forall>ids. r = Inr ids \<longrightarrow> ''/'' \<notin> set ids)"
    using assms Some unfolding sane_names_def by blast
  then show ?thesis
    using Some r remove_jobs_confined [of h] by (cases r) (auto simp: removeTerminalJobs_def)
qed (simp add: removeTerminalJobs_def)


text \<open>A worker whose world is the list of the paths removed from it.\<close>

definition demo_host :: "string list host" where
  "demo_host =
     \<lparr>h_JobsRoot = ''/data/jobs'', h_CacheRoot = ''/data/cache'',
      h_Store = Some \<lparr>cs_WorkerBusy = \<lambda>w. (Inr False, w), cs_TerminalJobIDsBefore = \<lambda>t w. (Inr [''job_1''], w),
        cs_CapacityImagePolicies = \<lambda>w. (Inr [], w)\<rparr>,
      h_Runtime = None, h_BuildCache = None, h_Emergency = None, h_Now = \<lambda>w. 0, h_DryRun = False,
      os_Statfs = \<lambda>w. Inr \<lparr>sf_Blocks = 100, sf_Bavail = 50, sf_Bsize = 1, sf_Files = 0, sf_Ffree = 0\<rparr>,
      os_ReadDir = \<lambda>p w. (if p = ''/data/cache'' then Inr [\<lparr>de_Name = ''web'', de_IsDir = True, de_Info = Inr 1\<rparr>]
        else if p = ''/data/cache/web'' then Inr [\<lparr>de_Name = ''go'', de_IsDir = True, de_Info = Inr 1\<rparr>] else Inl os_ErrNotExist),
      os_WalkDir = \<lambda>p w. [Inr (True, Inr 9)], os_RemoveAll = \<lambda>p w. (None, w @ [p]),
      os_Flock = \<lambda>w. (Inr (), w), os_Funlock = \<lambda>w. w\<rparr>"

definition demo_request :: "bool \<Rightarrow> reclaim_request" where
  "demo_request pressure =
     \<lparr>rq_Trigger = TriggerPeriodic, rq_Pressure = pressure, rq_TargetFreeBytes = 40, rq_JobRetention = 1,
      rq_CacheHighBytes = 5, rq_CacheLowBytes = 4, rq_NormalObjectAge = 24 * hour\<rparr>"

lemma demo_host_sane: "sane_names demo_host"
  by (auto simp: sane_names_def demo_host_def is_rooted_def split: if_splits)


section \<open>Which images collection removes\<close>

definition image_refs :: "runtime_image \<Rightarrow> string list" where
  "image_refs img = ri_RepoTags img @ ri_RepoDigests img"

lemma classify_fold:
  assumes "d' = fold (\<lambda>reference d. case policy_for policies reference of None \<Rightarrow> d
         | Some p \<Rightarrow> d\<lparr>di_protected := di_protected d \<or> ip_protected p,
             di_lastUsed := (if ip_last_used_at p > di_lastUsed d then ip_last_used_at p else di_lastUsed d)\<rparr>) refs d"
  shows "di_image d' = di_image d \<and> di_lastUsed d \<le> di_lastUsed d' \<and>
    (di_protected d' \<longleftrightarrow> di_protected d \<or> (\<exists>r \<in> set refs. \<exists>p. policy_for policies r = Some p \<and> ip_protected p)) \<and>
    (\<forall>r \<in> set refs. \<forall>p. policy_for policies r = Some p \<longrightarrow> ip_last_used_at p \<le> di_lastUsed d')"
  using assms
proof (induction refs arbitrary: d)
  case (Cons r refs)
  show ?case
  proof (cases "policy_for policies r")
    case None
    then show ?thesis using Cons.IH [of d] Cons.prems by simp
  next
    case (Some p)
    let ?d = "d\<lparr>di_protected := di_protected d \<or> ip_protected p,
       di_lastUsed := (if ip_last_used_at p > di_lastUsed d then ip_last_used_at p else di_lastUsed d)\<rparr>"
    have "d' = fold (\<lambda>reference d. case policy_for policies reference of None \<Rightarrow> d
         | Some p \<Rightarrow> d\<lparr>di_protected := di_protected d \<or> ip_protected p,
             di_lastUsed := (if ip_last_used_at p > di_lastUsed d then ip_last_used_at p else di_lastUsed d)\<rparr>) refs ?d"
      using Cons.prems Some by simp
    from Cons.IH [OF this] show ?thesis using Some by (auto split: if_splits)
  qed
qed simp

text \<open>
  An image may be removed when it is listed, no policy protects one of its references, and it was
  neither created nor used in the last five minutes.
\<close>

definition removable :: "image_policy list \<Rightarrow> runtime_image list \<Rightarrow> time \<Rightarrow> string \<Rightarrow> bool" where
  "removable policies images at i \<longleftrightarrow> (\<exists>img \<in> set images. ri_ID img = i \<and> ri_CreatedAt img \<le> at - 5 * minute \<and>
     (\<forall>r \<in> set (image_refs img). \<forall>p. policy_for policies r = Some p \<longrightarrow> \<not> ip_protected p \<and> ip_last_used_at p \<le> at - 5 * minute))"

lemma classify_removable:
  assumes "img \<in> set images" "\<not> di_protected (classify policies img)" "di_lastUsed (classify policies img) \<le> at - 5 * minute"
  shows "removable policies images at (ri_ID (di_image (classify policies img)))"
  using classify_fold [OF classify_def [of policies img]] assms unfolding removable_def image_refs_def by fastforce

definition spared :: "(string \<Rightarrow> bool) \<Rightarrow> (string \<Rightarrow> 'w \<Rightarrow> err option \<times> 'w) \<Rightarrow> 'w capacity_runtime \<Rightarrow> 'w capacity_runtime" where
  "spared may g rt = rt\<lparr>RemoveImage := \<lambda>i w. if may i then RemoveImage rt i w else g i w\<rparr>"

lemma remove_images_spared:
  assumes "\<forall>d \<in> set ds. \<not> di_protected d \<and> di_lastUsed d \<le> grace \<longrightarrow> may (ri_ID (di_image d))" "h_DryRun h' = h_DryRun h" "Host_Snapshot h' = Host_Snapshot h"
  shows "remove_images h' (spared may g rt) target grace commands ds w = remove_images h rt target grace commands ds w"
  using assms
  by (induction ds arbitrary: commands w) (simp_all add: Let_def spared_def split: sum.split prod.split)

text \<open>
  C30: under pressure the host removes an image only if no policy of the store protects one of its
  references (the active and the previous image of each project are protected) and it was neither
  created nor used in the last five minutes: how removing any other image would behave makes no
  difference.
\<close>

theorem protected_images_kept:
  assumes "h_Runtime h = Some rt" "h_Store h = Some s"
    and "ListImages rt w = (Inr images, w1)" "cs_CapacityImagePolicies s w1 = (Inr policies, w2)"
  shows "pruneUnusedImages (h\<lparr>h_Runtime := Some (spared (removable policies images (h_Now h w2)) g rt)\<rparr>) target w =
    pruneUnusedImages h target w"
proof -
  let ?rt = "spared (removable policies images (h_Now h w2)) g rt"
  let ?ds = "sort_key (\<lambda>d. (di_lastUsed d, ri_ID (di_image d))) (map (classify policies) images)"
  have "Host_Snapshot (h\<lparr>h_Runtime := Some ?rt\<rparr>) = Host_Snapshot h"
    by (intro ext) (simp add: Host_Snapshot_def split: sum.split)
  moreover have "\<forall>d \<in> set ?ds. \<not> di_protected d \<and> di_lastUsed d \<le> h_Now h w2 - 5 * minute \<longrightarrow>
      removable policies images (h_Now h w2) (ri_ID (di_image d))"
    using classify_removable by auto
  ultimately have "remove_images (h\<lparr>h_Runtime := Some ?rt\<rparr>) ?rt target (h_Now h w2 - 5 * minute) [] ?ds w2 =
      remove_images h rt target (h_Now h w2 - 5 * minute) [] ?ds w2"
    by (intro remove_images_spared) simp_all
  moreover have "ListImages ?rt = ListImages rt" by (simp add: spared_def)
  ultimately show ?thesis
    using assms by (cases images) (simp_all add: pruneUnusedImages_def)
qed

definition demo_runtime_host :: "string list host" where
  "demo_runtime_host = demo_host\<lparr>
     h_Store := Some \<lparr>cs_WorkerBusy = \<lambda>w. (Inr False, w), cs_TerminalJobIDsBefore = \<lambda>t w. (Inr [], w),
       cs_CapacityImagePolicies = \<lambda>w. (Inr [\<lparr>ip_reference = ''go:1'', ip_protected = True, ip_last_used_at = zero_time\<rparr>], w)\<rparr>,
     h_Runtime := Some \<lparr>PruneContainers = \<lambda>d a w. (None, w), PruneNetworks = \<lambda>d w. (None, w), PruneVolumes = \<lambda>w. (None, w),
       PruneImages = \<lambda>d w. (None, w),
       ListImages = \<lambda>w. (Inr [\<lparr>ri_ID = ''a'', ri_RepoTags = [''go:1''], ri_RepoDigests = [], ri_CreatedAt = zero_time\<rparr>,
         \<lparr>ri_ID = ''b'', ri_RepoTags = [''node:2''], ri_RepoDigests = [], ri_CreatedAt = zero_time\<rparr>], w),
       RemoveImage = \<lambda>i w. (None, w @ [i])\<rparr>\<rparr>"

theorem protected_images_kept_witness:
  "snd (pruneUnusedImages (demo_runtime_host\<lparr>h_Runtime := Some (spared
       (removable [\<lparr>ip_reference = ''go:1'', ip_protected = True, ip_last_used_at = zero_time\<rparr>]
         [\<lparr>ri_ID = ''a'', ri_RepoTags = [''go:1''], ri_RepoDigests = [], ri_CreatedAt = zero_time\<rparr>,
          \<lparr>ri_ID = ''b'', ri_RepoTags = [''node:2''], ri_RepoDigests = [], ri_CreatedAt = zero_time\<rparr>] 0)
       (\<lambda>i w. (None, [])) (the (h_Runtime demo_runtime_host)))\<rparr>) 0 []) = [''b'']"
proof -
  have run: "snd (pruneUnusedImages demo_runtime_host 0 []) = [''b'']" by code_simp
  have "h_Now demo_runtime_host [] = 0" by (simp add: demo_runtime_host_def demo_host_def)
  then show ?thesis
    using protected_images_kept [of demo_runtime_host "the (h_Runtime demo_runtime_host)" "the (h_Store demo_runtime_host)" "[]" _ "[]" _ "[]"
        "\<lambda>i w. (None, [])" 0] run
    by (simp add: demo_runtime_host_def)
qed

section \<open>The end of a collection under pressure\<close>



end
