(* ===== verification/Capacity_System.thy ===== *)
theory Capacity_System
  imports Capacity_Host Store_Properties Cleanup
begin

text \<open>
  The capacity controller as \<open>newCapacityController\<close> of \<open>cmd/autback-server/main.go\<close> assembles it: the
  host of \<open>Capacity_Host\<close> over the store of the control plane, and the function that stops the
  operation on the worker in an emergency.
\<close>

section \<open>The machine\<close>

text \<open>
  Everything below the store, over a state \<open>'r\<close>: the file system and its size, the clock, the container
  runtime, the build cache and the scheduler.
\<close>

record 'r machine =
  m_stats :: "'r \<Rightarrow> statfs"
  m_fails :: "'r \<Rightarrow> err option"
  m_clock :: "'r \<Rightarrow> time"
  m_runtime :: "'r capacity_runtime option"
  m_BuildCache :: "(int \<Rightarrow> 'r \<Rightarrow> err option \<times> 'r) option"
  m_ReadDir :: "string \<Rightarrow> 'r \<Rightarrow> err + dir_entry list"
  m_WalkDir :: "string \<Rightarrow> 'r \<Rightarrow> walk_entry list"
  m_RemoveAll :: "string \<Rightarrow> 'r \<Rightarrow> err option \<times> 'r"
  m_Flock :: "'r \<Rightarrow> (err + unit) \<times> 'r"
  m_Funlock :: "'r \<Rightarrow> 'r"
  m_Cancel :: "string \<Rightarrow> 'r \<Rightarrow> err option \<times> 'r"
  m_Remove :: "string \<Rightarrow> 'r \<Rightarrow> err option \<times> 'r"

definition on_runtime :: "'r capacity_runtime \<Rightarrow> 'r system capacity_runtime" where
  "on_runtime rt =
     \<lparr>PruneContainers = \<lambda>d a. on_machine (PruneContainers rt d a), PruneNetworks = \<lambda>d. on_machine (PruneNetworks rt d),
      PruneVolumes = on_machine (PruneVolumes rt), PruneImages = \<lambda>d. on_machine (PruneImages rt d),
      ListImages = on_machine (ListImages rt), RemoveImage = \<lambda>i. on_machine (RemoveImage rt i)\<rparr>"

definition sqlite_capacity :: "'r system capacity_store" where
  "sqlite_capacity =
     \<lparr>cs_WorkerBusy = on_store WorkerBusy, cs_TerminalJobIDsBefore = \<lambda>t. on_store (TerminalJobIDsBefore t),
      cs_CapacityImagePolicies = on_store CapacityImagePolicies\<rparr>"

section \<open>Stopping the operation on the worker\<close>

definition emergency_release :: "operation \<Rightarrow> 'r system \<Rightarrow> err option \<times> 'r system" where
  "emergency_release operation s =
     (case on_store (CompleteOperationCleanup (op_kind operation) (op_id operation)) s of
        (Inl e, s) \<Rightarrow> (Some e, s) | (Inr _, s) \<Rightarrow> (None, s))"

definition emergency_clean :: "'r system hook option \<Rightarrow> operation \<Rightarrow> 'r system \<Rightarrow> err option \<times> 'r system" where
  "emergency_clean cleaner operation s =
     (case on_store ClaimOperationCleanup s of
        (Inl e, s) \<Rightarrow> (Some e, s)
      | (Inr None, s) \<Rightarrow> (Some (ErrText ''claim emergency cleanup''), s)
      | (Inr (Some claimed), s) \<Rightarrow>
          if op_kind claimed \<noteq> op_kind operation \<or> op_id claimed \<noteq> op_id operation
          then (Some (ErrText ''claim emergency cleanup''), s)
          else case cleaner of
            None \<Rightarrow> emergency_release operation s
          | Some clean \<Rightarrow>
              (case clean claimed s of
                 (Some e, s) \<Rightarrow> (Some (ErrWrap ''emergency resource cleanup'' e), s)
               | (None, s) \<Rightarrow> emergency_release operation s))"

definition stop_job :: "'r machine \<Rightarrow> operation \<Rightarrow> 'r system \<Rightarrow> 'r system" where
  "stop_job m operation s =
     (if op_kind operation = OperationJob
      then snd (on_machine (m_Remove m (op_id operation)) (snd (on_machine (m_Cancel m (op_id operation)) s)))
      else s)"

definition emergency_stop :: "'r machine \<Rightarrow> 'r system hook option \<Rightarrow> 'r system \<Rightarrow> err option \<times> 'r system" where
  "emergency_stop m cleaner s =
     (case on_store (EmergencyStopActiveOperation ''worker capacity exhausted'') s of
        (Inl e, s) \<Rightarrow> (Some e, s)
      | (Inr None, s) \<Rightarrow> (None, s)
      | (Inr (Some operation), s) \<Rightarrow>
          emergency_clean cleaner operation (stop_job m operation s))"

definition autback_host :: "'r machine \<Rightarrow> 'r system hook option \<Rightarrow> bool \<Rightarrow> string \<Rightarrow> string \<Rightarrow> 'r system host" where
  "autback_host m cleaner dryRun jobsRoot cacheRoot =
     \<lparr>h_JobsRoot = jobsRoot, h_CacheRoot = cacheRoot, h_Store = Some sqlite_capacity,
      h_Runtime = map_option on_runtime (m_runtime m),
      h_BuildCache = map_option (\<lambda>f n. on_machine (f n)) (m_BuildCache m),
      h_Emergency = Some (emergency_stop m cleaner), h_Now = \<lambda>s. m_clock m (sys_runtime s), h_DryRun = dryRun,
      os_Statfs = \<lambda>s. (case m_fails m (sys_runtime s) of Some e \<Rightarrow> Inl e | None \<Rightarrow> Inr (m_stats m (sys_runtime s))),
      os_ReadDir = \<lambda>p s. m_ReadDir m p (sys_runtime s), os_WalkDir = \<lambda>p s. m_WalkDir m p (sys_runtime s),
      os_RemoveAll = \<lambda>p. on_machine (m_RemoveAll m p),
      os_Flock = on_machine (m_Flock m), os_Funlock = \<lambda>s. s\<lparr>sys_runtime := m_Funlock m (sys_runtime s)\<rparr>\<rparr>"

section \<open>Emergencies in the states of the operations\<close>

lemma post_set_state_any:
  assumes "queue_inv (db w)"
    and "\<And>r. q_kind (f r) = q_kind r" "\<And>r. q_operation_id (f r) = q_operation_id r"
      "\<And>r. q_sequence (f r) = q_sequence r" "\<And>r. q_state (f r) = s"
    and "\<And>v. op_states v = (op_states w)((k, i) \<mapsto> s) \<Longrightarrow> queue_inv (db v) \<Longrightarrow> Q 1 v"
    and "\<And>v. op_states w (k, i) = None \<Longrightarrow> db v = db w \<Longrightarrow> Q 0 v"
    and "\<And>e v. db v = db w \<Longrightarrow> E e v"
  shows "post Q E (exec (update_queue (is_op k i) f) w)"
proof -
  have "post Q E (exec (update_queue (\<lambda>r. is_op k i r \<and> q_state r \<in> UNIV) f) w)"
    by (rule post_set_state [OF assms(1-4), where s = s]) (use assms(5-8) in \<open>auto simp: image_iff\<close>)
  then show ?thesis by simp
qed

lemma EmergencyStop_spec:
  assumes inv: "queue_inv (db w)"
  shows "post (\<lambda>operation v. queue_inv (db v) \<and> (case operation of
      None \<Rightarrow> db v = db w \<and> (\<forall>k. op_states w k \<notin> Some ` {OperationAdmitting, OperationActive})
    | Some op \<Rightarrow> op_states w (op_kind op, op_id op) \<in> Some ` {OperationAdmitting, OperationActive} \<and>
        op_states v = (op_states w)((op_kind op, op_id op) \<mapsto> OperationTerminalizing)))
    (\<lambda>e v. db v = db w) (EmergencyStopActiveOperation m w)"
  unfolding EmergencyStopActiveOperation_def
  by (intro wp_core post_case_kind post_set_state_any post_update_jobs post_update_builds;
      (simp add: inv inv [unfolded queue_inv_def] queue_inv_def find_None_iff image_iff)?;
      (frule found_state(1) [OF inv], drule found_state(2) [OF inv])?; auto dest!: states_of_SomeD)

lemma reserved_key_unique:
  assumes "queue_inv d" "states_of (queue d) k = Some a" "reserved a" "states_of (queue d) l = Some b" "reserved b"
  shows "k = l"
proof -
  obtain r where r: "r \<in> set (queue d)" "q_key r = k" "q_state r = a" using states_of_SomeD [OF assms(2)] by blast
  obtain q where q: "q \<in> set (queue d)" "q_key q = l" "q_state q = b" using states_of_SomeD [OF assms(4)] by blast
  have "r = q" using queue_inv_reserved_unique [OF assms(1) r(1) q(1)] r(3) q(3) assms(3,5) by (simp add: q_reserved_def)
  then show ?thesis using r(2) q(2) by simp
qed

lemma idle_update:
  assumes "queue_inv d" "states_of (queue d) k \<in> Some ` {OperationAdmitting, OperationActive}" "\<not> reserved b"
  shows "idle ((states_of (queue d))(k \<mapsto> b))"
proof -
  obtain a where a: "states_of (queue d) k = Some a" "reserved a" using assms(2) by auto
  show ?thesis
    unfolding idle_def
  proof (intro allI impI notI)
    fix l c
    assume l: "((states_of (queue d))(k \<mapsto> b)) l = Some c" "reserved c"
    then have "l \<noteq> k" using assms(3) by auto
    then show False using reserved_key_unique [OF assms(1) a, of l c] l by simp
  qed
qed

section \<open>What the machine and the cleaner may do\<close>

definition size_of :: "'r machine \<Rightarrow> 'r system \<Rightarrow> u64" where
  "size_of m s = sf_Blocks (m_stats m (sys_runtime s)) * sf_Bsize (m_stats m (sys_runtime s))"

text \<open>
  The size of the file system does not change while the program runs, and the cleaner does not touch
  the queue.
\<close>

definition fixed_size :: "'r machine \<Rightarrow> bool" where
  "fixed_size m \<longleftrightarrow> (\<exists>n. \<forall>r. sf_Blocks (m_stats m r) * sf_Bsize (m_stats m r) = n)"

definition polite :: "'r system hook option \<Rightarrow> bool" where
  "polite cleaner \<longleftrightarrow> (\<forall>clean operation. cleaner = Some clean \<longrightarrow> outside sys_inv sys_states (\<lambda>s. snd (clean operation s)))"

lemma fixed_sizeD: "fixed_size m \<Longrightarrow> size_of m s = size_of m s'"
  unfolding fixed_size_def size_of_def by metis

lemma on_store_post: "post Q E (f (sys_store s)) \<Longrightarrow> on_store f s = (r, s') \<Longrightarrow> post Q E (r, sys_store s')"
  by (auto simp: on_store_def split: prod.splits)

lemma emergency_release_law:
  assumes "sys_inv s" "emergency_release operation s = (e, s')"
  shows "sys_inv s' \<and> sys_states s' = (if e = None then (sys_states s)(cleanup_key operation \<mapsto> OperationReleased) else sys_states s)"
proof -
  obtain r s1 where r: "on_store (CompleteOperationCleanup (op_kind operation) (op_id operation)) s = (r, s1)" by force
  show ?thesis
    using on_store_post [OF CompleteOperationCleanup_spec [OF assms(1)] r] assms r
    by (cases r) (auto simp: emergency_release_def)
qed

lemma emergency_clean_law:
  assumes inv: "sys_inv s" and "polite cleaner" and run: "emergency_clean cleaner operation s = (e, s')"
  shows "sys_inv s' \<and> (e = None \<longrightarrow> sys_states s' = (sys_states s)(cleanup_key operation \<mapsto> OperationReleased))"
proof -
  obtain r s1 where r: "on_store ClaimOperationCleanup s = (r, s1)" by force
  note claim = on_store_post [OF ClaimOperationCleanup_spec [OF inv] r]
  show ?thesis
  proof (cases "\<exists>c. r = Inr (Some c) \<and> op_kind c = op_kind operation \<and> op_id c = op_id operation")
    case False
    then have "e \<noteq> None \<and> s' = s1" using run r by (auto simp: emergency_clean_def split: sum.splits option.splits if_splits)
    moreover have "sys_inv s1" using claim inv by (cases r) auto
    ultimately show ?thesis by auto
  next
    case True
    then obtain c where c: "r = Inr (Some c)" "op_kind c = op_kind operation" "op_id c = op_id operation" by blast
    then have s1: "sys_inv s1" "sys_states s1 = (sys_states s)(cleanup_key operation \<mapsto> OperationCleaning)" using claim by auto
    show ?thesis
    proof (cases cleaner)
      case None
      then show ?thesis using run r c s1 emergency_release_law [of s1 operation e s'] by (auto simp: emergency_clean_def)
    next
      case (Some clean)
      obtain e2 s2 where s2: "clean c s1 = (e2, s2)" by force
      then have "sys_inv s2 \<and> sys_states s2 = sys_states s1"
        using assms(2) Some s1(1) unfolding polite_def outside_def by (metis snd_conv)
      then show ?thesis
        using run r c s1 s2 Some emergency_release_law [of s2 operation e s'] by (cases e2) (auto simp: emergency_clean_def)
    qed
  qed
qed

lemma stop_job_store [simp]: "sys_store (stop_job m operation s) = sys_store s"
  by (simp add: stop_job_def)

lemma emergency_stop_law:
  assumes inv: "sys_inv s" and polite: "polite cleaner" and run: "emergency_stop m cleaner s = (e, s')"
  shows "sys_inv s' \<and>
    (if \<exists>k. sys_states s k \<in> Some ` {OperationAdmitting, OperationActive} then e = None \<longrightarrow> idle (sys_states s')
     else sys_states s' = sys_states s)"
proof -
  obtain r s1 where r: "on_store (EmergencyStopActiveOperation ''worker capacity exhausted'') s = (r, s1)" by force
  note stop = on_store_post [OF EmergencyStop_spec [OF inv] r]
  show ?thesis
  proof (cases "\<exists>operation. r = Inr (Some operation)")
    case False
    then have "s' = s1" "sys_inv s1" "sys_states s1 = sys_states s" "e = None \<longrightarrow> r = Inr None"
      using run r stop inv by (auto simp: emergency_stop_def split: sum.splits option.splits)
    then show ?thesis using stop by (auto split: if_split)
  next
    case True
    then obtain op where op: "r = Inr (Some op)" by blast
    let ?k = "cleanup_key op"
    have s1: "sys_inv s1" "sys_states s ?k \<in> Some ` {OperationAdmitting, OperationActive}"
      "sys_states s1 = (sys_states s)(?k \<mapsto> OperationTerminalizing)"
      using stop op by auto
    have "sys_inv s' \<and> (e = None \<longrightarrow> sys_states s' = (sys_states s)(?k \<mapsto> OperationReleased))"
      using emergency_clean_law [of "stop_job m op s1" cleaner op e s'] polite run r op s1 by (auto simp: emergency_stop_def)
    then show ?thesis using idle_update [OF inv s1(2), of OperationReleased] s1(2) by auto
  qed
qed

section \<open>What a collection keeps\<close>

definition keeps :: "('w \<Rightarrow> bool) \<Rightarrow> ('w \<Rightarrow> 'a \<times> 'w) \<Rightarrow> bool" where
  "keeps P f \<longleftrightarrow> (\<forall>w. P w \<longrightarrow> P (snd (f w)))"

definition host_keeps :: "('w \<Rightarrow> bool) \<Rightarrow> 'w host \<Rightarrow> bool" where
  "host_keeps P h \<longleftrightarrow> (\<forall>p. keeps P (os_RemoveAll h p)) \<and>
     (\<forall>s. h_Store h = Some s \<longrightarrow> (\<forall>t. keeps P (cs_TerminalJobIDsBefore s t)) \<and> keeps P (cs_CapacityImagePolicies s)) \<and>
     (\<forall>rt. h_Runtime h = Some rt \<longrightarrow> (\<forall>d a. keeps P (PruneContainers rt d a)) \<and> (\<forall>d. keeps P (PruneNetworks rt d)) \<and>
        keeps P (PruneVolumes rt) \<and> (\<forall>d. keeps P (PruneImages rt d)) \<and> keeps P (ListImages rt) \<and> (\<forall>i. keeps P (RemoveImage rt i))) \<and>
     (\<forall>f. h_BuildCache h = Some f \<longrightarrow> (\<forall>n. keeps P (f n)))"

lemma keepsD: "keeps P f \<Longrightarrow> P w \<Longrightarrow> f w = (x, v) \<Longrightarrow> P v"
  unfolding keeps_def by (metis snd_conv)

lemma host_keepsD:
  assumes "host_keeps P h" "P w"
  shows "os_RemoveAll h p w = (e, v) \<Longrightarrow> P v"
    "h_Store h = Some s \<Longrightarrow> cs_TerminalJobIDsBefore s t w = (ri, v) \<Longrightarrow> P v"
    "h_Store h = Some s \<Longrightarrow> cs_CapacityImagePolicies s w = (rp, v) \<Longrightarrow> P v"
    "h_Runtime h = Some rt \<Longrightarrow> ListImages rt w = (rl, v) \<Longrightarrow> P v"
    "h_Runtime h = Some rt \<Longrightarrow> RemoveImage rt i w = (e, v) \<Longrightarrow> P v"
    "h_BuildCache h = Some f \<Longrightarrow> f n w = (e, v) \<Longrightarrow> P v"
proof -
  note k = assms(1) [unfolded host_keeps_def]
  show "P v" if "os_RemoveAll h p w = (e, v)"
    using keepsD [of P "os_RemoveAll h p" w e v] assms(2) k that by blast
  show "P v" if "h_Store h = Some s" "cs_TerminalJobIDsBefore s t w = (ri, v)"
    using keepsD [of P "cs_TerminalJobIDsBefore s t" w ri v] assms(2) k that by blast
  show "P v" if "h_Store h = Some s" "cs_CapacityImagePolicies s w = (rp, v)"
    using keepsD [of P "cs_CapacityImagePolicies s" w rp v] assms(2) k that by blast
  show "P v" if "h_Runtime h = Some rt" "ListImages rt w = (rl, v)"
    using keepsD [of P "ListImages rt" w rl v] assms(2) k that by blast
  show "P v" if "h_Runtime h = Some rt" "RemoveImage rt i w = (e, v)"
    using keepsD [of P "RemoveImage rt i" w e v] assms(2) k that by blast
  show "P v" if "h_BuildCache h = Some f" "f n w = (e, v)"
    using keepsD [of P "f n" w e v] assms(2) k that by blast
qed

lemma host_keeps_runtime:
  assumes "host_keeps P h" "h_Runtime h = Some rt"
  shows "keeps P (PruneContainers rt d a)" "keeps P (PruneNetworks rt d)" "keeps P (PruneVolumes rt)" "keeps P (PruneImages rt d)"
  using assms by (simp_all add: host_keeps_def)

lemma Host_Snapshot_world: "Host_Snapshot h w = (r, v) \<Longrightarrow> v = w"
  by (auto simp: Host_Snapshot_def split: sum.splits)

lemma finishReport_world: "snd (finishReport h b rep e w) = w"
  by (auto simp: finishReport_def split: prod.split sum.split dest: Host_Snapshot_world)

lemma remove_jobs_keeps: "host_keeps P h \<Longrightarrow> P w \<Longrightarrow> P (snd (remove_jobs h n ids w))"
proof (induction ids arbitrary: n w)
  case (Cons i ids)
  obtain e v where e: "os_RemoveAll h (Join [h_JobsRoot h, i]) w = (e, v)" by force
  then have "P v" using host_keepsD(1) [OF Cons.prems] by blast
  then show ?case using Cons e by (cases e) simp_all
qed simp

lemma removeTerminalJobs_keeps:
  assumes "host_keeps P h" "P w" shows "P (snd (removeTerminalJobs h d w))"
proof (cases "h_Store h")
  case (Some s)
  obtain r v where r: "cs_TerminalJobIDsBefore s (h_Now h w - d) w = (r, v)" by force
  then have "P v" using host_keepsD(2) [OF assms Some] by blast
  then show ?thesis using assms Some r remove_jobs_keeps [OF assms(1)] by (cases r) (simp_all add: removeTerminalJobs_def)
qed (simp add: removeTerminalJobs_def assms)

lemma run_command_keeps:
  assumes "host_keeps P h" "P w" "\<And>rt. h_Runtime h = Some rt \<Longrightarrow> keeps P (call rt)"
  shows "P (snd (run_command h command call acc w))"
proof (cases "h_Runtime h")
  case (Some rt)
  obtain e v where "call rt w = (e, v)" by force
  then show ?thesis using Some keepsD [OF assms(3) [OF Some] assms(2)] assms(2)
    by (cases acc; cases e) (simp_all add: run_command_def Let_def)
qed (cases acc; simp add: run_command_def Let_def assms)

lemma runtime_calls_keeps:
  "host_keeps P h \<Longrightarrow> P w \<Longrightarrow> \<forall>(command, call) \<in> set calls. \<forall>rt. h_Runtime h = Some rt \<longrightarrow> keeps P (call rt) \<Longrightarrow>
   P (snd (runtime_calls h q calls acc w))"
proof (induction calls arbitrary: acc w)
  case (Cons c calls)
  obtain command call where c: "c = (command, call)" by force
  obtain acc1 v where v: "run_command h command call acc w = (acc1, v)" by (metis surj_pair)
  then have "P v" using run_command_keeps [of P h w call command acc] Cons.prems c by auto
  then show ?case using Cons c v by simp
qed simp

lemma remove_images_keeps:
  assumes "host_keeps P h" "h_Runtime h = Some rt"
  shows "P w \<Longrightarrow> P (snd (remove_images h rt target grace commands ds w))"
proof (induction ds arbitrary: commands w)
  case (Cons d ds)
  define v where "v = (if h_DryRun h then w else snd (RemoveImage rt (ri_ID (di_image d)) w))"
  have "P v" using Cons.prems host_keepsD(5) [OF assms(1) Cons.prems assms(2)] by (simp add: v_def) (metis prod.collapse)
  moreover obtain r u where "Host_Snapshot h v = (r, u)" by force
  ultimately show ?case
    using Cons Host_Snapshot_world [of h v r u] by (cases r) (simp_all add: Let_def v_def [symmetric])
qed simp

lemma pruneUnusedImages_keeps:
  assumes keep: "host_keeps P h" and "P w" shows "P (snd (pruneUnusedImages h target w))"
proof (cases "h_Runtime h")
  case rt: (Some rt)
  obtain r v where r: "ListImages rt w = (r, v)" by force
  have v: "P v" using host_keepsD(4) [OF assms rt r] .
  show ?thesis
  proof (cases "\<exists>img images s. r = Inr (img # images) \<and> h_Store h = Some s")
    case False
    then show ?thesis using rt r v by (auto simp: pruneUnusedImages_def split: sum.split list.split option.split)
  next
    case True
    then obtain img images s where s: "r = Inr (img # images)" "h_Store h = Some s" by blast
    obtain p u where p: "cs_CapacityImagePolicies s v = (p, u)" by force
    have "P u" using host_keepsD(3) [OF keep v s(2) p] .
    then show ?thesis using rt r s p remove_images_keeps [OF keep rt]
      by (cases p) (simp_all add: pruneUnusedImages_def)
  qed
qed (simp add: pruneUnusedImages_def assms)

lemma remove_caches_keeps: "host_keeps P h \<Longrightarrow> P w \<Longrightarrow> P (snd (remove_caches h low n used cs w))"
proof (induction cs arbitrary: n used w)
  case (Cons c cs)
  obtain e v where e: "os_RemoveAll h (cd_path c) w = (e, v)" by force
  then have "P v" using host_keepsD(1) [OF Cons.prems] by blast
  then show ?case using Cons e by (cases e) simp_all
qed simp

lemma pruneCaches_keeps: "host_keeps P h \<Longrightarrow> P w \<Longrightarrow> P (snd (pruneCaches h high low pressure w))"
  by (auto simp: pruneCaches_def remove_caches_keeps split: sum.split)

lemma reclaim_builds_keeps:
  assumes "host_keeps P h" "P w" shows "P (snd (reclaim_builds h acc w))"
proof (cases "h_BuildCache h")
  case (Some f)
  obtain e v where e: "f 2000000000 w = (e, v)" by force
  then have "P v" using host_keepsD(6) [OF assms Some] by blast
  then show ?thesis using Some e assms(2) by (cases acc; cases e) (simp_all add: reclaim_builds_def Let_def)
qed (cases acc; simp add: reclaim_builds_def Let_def assms)

lemma reclaim_images_keeps:
  assumes "host_keeps P h" "P w" shows "P (snd (reclaim_images h q acc w))"
proof (cases "rq_Pressure q")
  case True
  obtain c e v where "pruneUnusedImages h (rq_TargetFreeBytes q) w = ((c, e), v)" by (metis surj_pair)
  then show ?thesis
    using True pruneUnusedImages_keeps [OF assms, of "rq_TargetFreeBytes q"] by (cases acc) (simp add: reclaim_images_def)
next
  case False
  have "keeps P (PruneImages rt (object_age q))" if "h_Runtime h = Some rt" for rt
    using host_keeps_runtime(4) [OF assms(1) that] .
  from run_command_keeps [OF assms, of "\<lambda>rt. PruneImages rt (object_age q)", OF this] False show ?thesis
    by (simp add: reclaim_images_def)
qed

lemma Host_Reclaim_keeps:
  assumes keep: "host_keeps P h" and w: "P w" shows "P (snd (Host_Reclaim h q w))"
proof (cases "Host_Snapshot h w")
  case (Pair r v)
  show ?thesis
  proof (cases r)
    case (Inl e)
    then show ?thesis using Pair w Host_Snapshot_world [OF Pair] by (simp add: Host_Reclaim_def)
  next
    case (Inr before)
    obtain n e w1 where j: "removeTerminalJobs h (rq_JobRetention q) w = ((n, e), w1)" by (metis surj_pair)
    obtain b acc2 w2 where c: "runtime_calls h q (prune_calls q) (zero_report\<lparr>RemovedJobs := n\<rparr>, noted e []) w1 = ((b, acc2), w2)"
      by (metis surj_pair)
    obtain acc3 w3 where i: "reclaim_images h q acc2 w2 = (acc3, w3)" by (metis surj_pair)
    obtain k e4 w4 where ca: "pruneCaches h (rq_CacheHighBytes q) (rq_CacheLowBytes q) (rq_Pressure q) w3 = ((k, e4), w4)"
      by (metis surj_pair)
    let ?acc = "((fst acc3)\<lparr>RemovedCaches := k\<rparr>, noted e4 (snd acc3))"
    obtain acc5 w5 where bu: "reclaim_builds h ?acc w4 = (acc5, w5)" by (metis surj_pair)
    have w1: "P w1" using removeTerminalJobs_keeps [OF keep w, of "rq_JobRetention q"] j by simp
    have calls: "\<forall>(command, call) \<in> set (prune_calls q). \<forall>rt. h_Runtime h = Some rt \<longrightarrow> keeps P (call rt)"
      using host_keeps_runtime [OF keep] by (simp add: prune_calls_def Let_def)
    have w2: "P w2" using runtime_calls_keeps [OF keep w1 calls, of q "(zero_report\<lparr>RemovedJobs := n\<rparr>, noted e [])"] c by simp
    have w3: "P w3" using reclaim_images_keeps [OF keep w2, of q acc2] i by simp
    have w4: "P w4" using pruneCaches_keeps [OF keep w3, of "rq_CacheHighBytes q" "rq_CacheLowBytes q" "rq_Pressure q"] ca by simp
    have w5: "P w5" using reclaim_builds_keeps [OF keep w4, of ?acc] bu by simp
    show ?thesis
      using Pair Inr Host_Snapshot_world [OF Pair] j c i ca bu w1 w2 w3 w4 w5
      by (cases acc2; cases acc3; cases acc5) (simp add: Host_Reclaim_def Let_def finishReport_world)
  qed
qed


section \<open>The host over the store as a backend\<close>

definition measured :: "'r machine \<Rightarrow> 'r system \<Rightarrow> snapshot" where
  "measured m s = (let st = m_stats m (sys_runtime s)
     in \<lparr>TotalBytes = sf_Blocks st * sf_Bsize st, FreeBytes = sf_Bavail st * sf_Bsize st,
         TotalInodes = sf_Files st, FreeInodes = sf_Ffree st, ObservedAt = m_clock m (sys_runtime s)\<rparr>)"

definition capacity_ok :: "'r machine \<Rightarrow> 'r system hook option \<Rightarrow> 'r system \<Rightarrow> bool" where
  "capacity_ok m cleaner s \<longleftrightarrow> fixed_size m \<and> polite cleaner \<and> sys_inv s"

abbreviation worker_idle :: "'r system \<Rightarrow> bool" where
  "worker_idle s \<equiv> idle (sys_states s)"

lemma TotalBytes_measured: "fixed_size m \<Longrightarrow> TotalBytes (measured m s) = TotalBytes (measured m s')"
  using fixed_sizeD [of m s s'] by (simp add: measured_def size_of_def Let_def)

lemma WorkerBusy_spec:
  "queue_inv (db w) \<Longrightarrow> post (\<lambda>b v. db v = db w \<and> b = (\<not> idle (op_states w))) (\<lambda>e v. db v = db w) (WorkerBusy w)"
  unfolding WorkerBusy_def by (intro wp_core) (auto simp: idle_iff count_rows_def filter_empty_conv)

lemma on_machine_same: "on_machine f s = (x, v) \<Longrightarrow> sys_store v = sys_store s"
  by (metis on_machine_store snd_conv)

lemma keeps_on_machine: "keeps (\<lambda>s. db (sys_store s) = d) (on_machine f)"
  by (simp add: keeps_def)

lemma keeps_on_store:
  assumes "\<And>w. post (\<lambda>_ v. db v = db w) (\<lambda>_ v. db v = db w) (f w)"
  shows "keeps (\<lambda>s :: 'r system. db (sys_store s) = d) (on_store f)"
  unfolding keeps_def
proof (intro allI impI)
  fix s :: "'r system"
  assume d: "db (sys_store s) = d"
  obtain r v where "f (sys_store s) = (r, v)" by force
  then show "db (sys_store (snd (on_store f s))) = d"
    using assms [of "sys_store s"] d by (cases r) (simp_all add: on_store_def)
qed

lemma autback_host_keeps_db: "host_keeps (\<lambda>s. db (sys_store s) = d) (autback_host m cleaner dry jr cr)"
proof -
  have "post (\<lambda>_ v. db v = db w) (\<lambda>_ v. db v = db w) (TerminalJobIDsBefore t w)" for t w
    unfolding TerminalJobIDsBefore_def by (intro wp_core) simp_all
  moreover have "post (\<lambda>_ v. db v = db w) (\<lambda>_ v. db v = db w) (CapacityImagePolicies w)" for w
    unfolding CapacityImagePolicies_def by (intro wp_core) simp_all
  ultimately show ?thesis
    by (auto simp: host_keeps_def autback_host_def sqlite_capacity_def on_runtime_def
        intro!: keeps_on_machine keeps_on_store)
qed

interpretation autback: capacity_backend "host_backend (autback_host m cleaner dry jr cr)" "capacity_ok m cleaner" worker_idle "measured m"
  for m :: "'r machine" and cleaner dry jr cr
proof
  let ?h = "autback_host m cleaner dry jr cr"
  fix w v :: "'r system" and rl rs rb rr e q
  assume ok: "capacity_ok m cleaner w"
  note total = TotalBytes_measured [of m v w]
  show "capacity_ok m cleaner v \<and> TotalBytes (measured m v) = TotalBytes (measured m w)"
    if "Lock (host_backend ?h) w = (rl, v)"
    using that ok total by (auto simp: host_backend_def autback_host_def capacity_ok_def dest: on_machine_same)
  show "capacity_ok m cleaner v \<and> worker_idle v = worker_idle w \<and> measured m v = measured m w \<and> (\<forall>s. rs = Inr s \<longrightarrow> s = measured m w)"
    if "Snapshot (host_backend ?h) w = (rs, v)"
    using that ok
    by (auto simp: host_backend_def autback_host_def Host_Snapshot_def measured_def Let_def split: option.splits)
  show "capacity_ok m cleaner v \<and> worker_idle v = worker_idle w \<and> measured m v = measured m w \<and> (\<forall>b. rb = Inr b \<longrightarrow> b = (\<not> worker_idle w))"
    if busy: "Busy (host_backend ?h) w = (rb, v)"
  proof -
    have b: "on_store WorkerBusy w = (rb, v)" "sys_runtime v = sys_runtime w"
      using busy by (auto simp: host_backend_def Host_Busy_def autback_host_def sqlite_capacity_def on_store_def split: prod.splits)
    have "post (\<lambda>b u. db u = db (sys_store w) \<and> b = (\<not> worker_idle w)) (\<lambda>e u. db u = db (sys_store w)) (rb, sys_store v)"
      using on_store_post [OF WorkerBusy_spec b(1)] ok by (simp add: capacity_ok_def)
    then show ?thesis using ok b(2) by (cases rb) (simp_all add: capacity_ok_def measured_def)
  qed
  show "capacity_ok m cleaner v \<and> worker_idle v \<and> TotalBytes (measured m v) = TotalBytes (measured m w)"
    if "worker_idle w" "Reclaim (host_backend ?h) q w = (rr, v)"
  proof -
    have "db (sys_store v) = db (sys_store w)"
      using Host_Reclaim_keeps [OF autback_host_keeps_db [of "db (sys_store w)" m cleaner dry jr cr] refl, of q] that(2)
      by (simp add: host_backend_def)
    then show ?thesis using ok that(1) total by (simp add: capacity_ok_def)
  qed
  show "capacity_ok m cleaner v \<and> (worker_idle w \<longrightarrow> worker_idle v) \<and> TotalBytes (measured m v) = TotalBytes (measured m w)"
    if run: "Emergency (host_backend ?h) w = (e, v)"
  proof (cases dry)
    case True
    then show ?thesis using run ok by (simp add: host_backend_def Host_Emergency_def autback_host_def)
  next
    case False
    then have "emergency_stop m cleaner w = (e, v)"
      using run by (simp add: host_backend_def Host_Emergency_def autback_host_def)
    moreover have "\<not> (\<exists>k. sys_states w k \<in> Some ` {OperationAdmitting, OperationActive})" if "worker_idle w"
      using that by (auto simp: idle_def) (metis reserved.simps)+
    ultimately show ?thesis using emergency_stop_law [of w cleaner m e v] ok total by (auto simp: capacity_ok_def split: if_splits)
  qed
qed


lemma default_ordered:
  assumes "unat (size_of m s) < 2 ^ 64 div 20" shows "ordered DefaultPolicy (measured m s)"
proof -
  have "TotalBytes (measured m s) = size_of m s" by (simp add: measured_def size_of_def Let_def)
  moreover have "0 < SoftFreeBytes (Thresholds DefaultPolicy (size_of m s))"
    using default_thresholds(1) [OF assms] by (simp add: word_less_nat_alt)
  ultimately show ?thesis using default_hard_le_soft [OF assms] by (simp add: ordered_def)
qed

section \<open>The controller of the server\<close>

text \<open>
  C26: on the store and the machine of the server, with the default policy, the controller collects
  only while no operation owns the worker: whatever triggers it and however the driver, the
  runtime and the file system behave, what a collection would do while an operation is admitting,
  active, terminalizing or cleaning makes no difference. The machine keeps its size, below a
  twentieth of \<open>2 ^ 64\<close> bytes, and the cleaner keeps away from the queue.
\<close>

theorem collects_only_when_idle:
  assumes "fixed_size m" "polite cleaner" "sys_inv s" "unat (size_of m s) < 2 ^ 64 div 20" "c_policy c = DefaultPolicy"
  shows "run_capacity (guarded worker_idle g (host_backend (autback_host m cleaner dry jr cr))) clock trigger (c, s) =
    run_capacity (host_backend (autback_host m cleaner dry jr cr)) clock trigger (c, s)"
  using assms autback.run_capacity_guarded [of m cleaner s c] default_ordered [OF assms(4)] by (simp add: capacity_ok_def)

text \<open>
  C27: the controller lets an operation be reserved only when the file system has room (at
  least the soft threshold of free bytes, and enough inodes), or while another operation owns the
  worker, when there is nothing to reserve: what the reservation would do otherwise makes no
  difference.
\<close>

theorem admits_only_with_room:
  assumes "fixed_size m" "polite cleaner" "sys_inv s" "unat (size_of m s) < 2 ^ 64 div 20" "c_policy c = DefaultPolicy"
  shows "Admit (host_backend (autback_host m cleaner dry jr cr)) clock
      (\<lambda>v. if roomy DefaultPolicy (measured m v) \<or> \<not> worker_idle v then reserve v else h v) (c, s) =
    Admit (host_backend (autback_host m cleaner dry jr cr)) clock reserve (c, s)"
proof -
  have "guarded worker_idle (Reclaim be) be = be" for be :: "'a system backend"
    by (simp add: guarded_def)
  then show ?thesis
    using assms autback.Admit_guarded [of m cleaner s c "Reclaim (host_backend (autback_host m cleaner dry jr cr))" dry jr cr]
      default_ordered [OF assms(4)] by (simp add: capacity_ok_def)
qed

text \<open>
  C28: when an emergency stop succeeds while an operation is admitting or active, the worker is
  free afterwards: the operation was ended in the store, its resources were cleaned, and its
  lease was released.
\<close>

theorem emergency_frees_worker:
  assumes "sys_inv s" "polite cleaner" "emergency_stop m cleaner s = (None, s')"
    and "sys_states s k \<in> Some ` {OperationAdmitting, OperationActive}"
  shows "fst (WorkerBusy ((sys_store s')\<lparr>faults := []\<rparr>)) = Inr False"
proof -
  have "sys_inv s' \<and> worker_idle s'" using emergency_stop_law [OF assms(1-3)] assms(4) by (metis (full_types))
  then have "\<forall>r \<in> set (queue (db (sys_store s'))). \<not> q_reserved r" using idle_iff by blast
  then show ?thesis by (simp add: WorkerBusy_def query_def stmt_def bindR_def count_rows_def)
qed

text \<open>A worker with a job on it, and a machine with a file system of 500 GiB.\<close>

definition demo_machine :: "unit machine" where
  "demo_machine =
     \<lparr>m_stats = \<lambda>_. \<lparr>sf_Blocks = 131072000, sf_Bavail = 65536000, sf_Bsize = 4096, sf_Files = 0, sf_Ffree = 0\<rparr>,
      m_fails = \<lambda>_. None, m_clock = \<lambda>_. 0, m_runtime = None, m_BuildCache = None, m_ReadDir = \<lambda>_ _. Inl os_ErrNotExist,
      m_WalkDir = \<lambda>_ _. [], m_RemoveAll = \<lambda>_ r. (None, r), m_Flock = \<lambda>r. (Inr (), r), m_Funlock = \<lambda>r. r,
      m_Cancel = \<lambda>_ r. (None, r), m_Remove = \<lambda>_ r. (None, r)\<rparr>"

definition busy_system :: "unit system" where
  "busy_system = \<lparr>sys_store = busy_world, sys_runtime = (), sys_cancelled = False\<rparr>"

lemma demo_machine_fixed: "fixed_size demo_machine"
  by (simp add: fixed_size_def demo_machine_def)

lemma polite_None: "polite None"
  by (simp add: polite_def)

lemma busy_system_inv: "sys_inv busy_system"
  using busy_world_consistent by (simp add: busy_system_def consistent_def)

lemma demo_machine_size: "unat (size_of demo_machine s) < 2 ^ 64 div 20"
  by (simp add: size_of_def demo_machine_def)

theorem collects_only_when_idle_witness:
  "run_capacity (guarded worker_idle (\<lambda>q s. ((zero_report, None), s)) (host_backend (autback_host demo_machine None True ''/jobs'' ''/cache'')))
     (\<lambda>_. 0) TriggerManual (New DefaultPolicy, busy_system) =
   run_capacity (host_backend (autback_host demo_machine None True ''/jobs'' ''/cache'')) (\<lambda>_. 0) TriggerManual (New DefaultPolicy, busy_system)"
  by (rule collects_only_when_idle [OF demo_machine_fixed polite_None busy_system_inv demo_machine_size]) (simp add: New_def)

theorem admits_only_with_room_witness:
  "Admit (host_backend (autback_host demo_machine None True ''/jobs'' ''/cache'')) (\<lambda>_. 0)
     (\<lambda>v. if roomy DefaultPolicy (measured demo_machine v) \<or> \<not> worker_idle v then (None, v) else (Some ErrForbidden, v)) (New DefaultPolicy, busy_system) =
   Admit (host_backend (autback_host demo_machine None True ''/jobs'' ''/cache'')) (\<lambda>_. 0) (\<lambda>v. (None, v)) (New DefaultPolicy, busy_system)"
  by (rule admits_only_with_room [OF demo_machine_fixed polite_None busy_system_inv demo_machine_size]) (simp add: New_def)

theorem emergency_frees_worker_witness:
  "case emergency_stop demo_machine None busy_system of
     (None, s) \<Rightarrow> fst (WorkerBusy ((sys_store s)\<lparr>faults := []\<rparr>)) = Inr False
   | (Some e, s) \<Rightarrow> False"
proof -
  have "fst (emergency_stop demo_machine None busy_system) = None" by code_simp
  then obtain s where s: "emergency_stop demo_machine None busy_system = (None, s)" by (metis prod.collapse)
  moreover have "sys_states busy_system (OperationJob, ''a'') \<in> Some ` {OperationAdmitting, OperationActive}"
    by (simp add: busy_system_def busy_world_def states_of_def queued_row_def q_key_def)
  ultimately show ?thesis using emergency_frees_worker [OF busy_system_inv polite_None s] by simp
qed

end
