(* ===== verification/Files.thy ===== *)
theory Files
  imports Filepath Formats "HOL-Library.Sublist"
begin

text \<open>
  Files: the calls of package \<open>os\<close> that the secret manager, the secret directory, the scheduler and
  \<open>internal/control/secret\<close> make, as a record of functions, and a disk that carries them out. A file
  of the disk stands under the elements of its cleaned absolute path; directories are there when
  they are needed. Every call may fail and then changes nothing.
\<close>

section \<open>The calls\<close>

text \<open>An open file: \<open>Stat\<close>, whether it is regular and its permissions, and what a limited reader gets.\<close>

record open_file =
  of_Stat :: "err + (bool \<times> nat)"
  of_ReadAll :: "nat \<Rightarrow> err + string"

text \<open>
  Directories get the mode \<open>0700\<close> and files \<open>0600\<close>. \<open>fs_Create\<close> is \<open>OpenFile\<close> with \<open>O_EXCL\<close>, \<open>Write\<close> and
  \<open>Sync\<close>; \<open>fs_Open\<close> opens below a root that \<open>OpenRoot\<close> opened.
\<close>

record 'w file_system =
  fs_MkdirAll :: "string \<Rightarrow> 'w \<Rightarrow> err option \<times> 'w"
  fs_MkdirTemp :: "string \<Rightarrow> string \<Rightarrow> 'w \<Rightarrow> (err + string) \<times> 'w"
  fs_Chmod :: "string \<Rightarrow> 'w \<Rightarrow> err option \<times> 'w"
  fs_Chtimes :: "string \<Rightarrow> 'w \<Rightarrow> err option \<times> 'w"
  fs_WriteFile :: "string \<Rightarrow> string \<Rightarrow> 'w \<Rightarrow> err option \<times> 'w"
  fs_Create :: "string \<Rightarrow> string \<Rightarrow> 'w \<Rightarrow> err option \<times> 'w"
  fs_ReadFile :: "string \<Rightarrow> 'w \<Rightarrow> (err + string) \<times> 'w"
  fs_RemoveAll :: "string \<Rightarrow> 'w \<Rightarrow> err option \<times> 'w"
  fs_Rename :: "string \<Rightarrow> string \<Rightarrow> 'w \<Rightarrow> err option \<times> 'w"
  fs_OpenRoot :: "string \<Rightarrow> 'w \<Rightarrow> err option \<times> 'w"
  fs_Open :: "string \<Rightarrow> string \<Rightarrow> 'w \<Rightarrow> (err + open_file) \<times> 'w"

definition os_ErrExist :: err where
  "os_ErrExist = ErrText ''file already exists''"

section \<open>A disk\<close>

record node =
  nd_content :: string
  nd_regular :: bool
  nd_perm :: nat

text \<open>\<open>dk_faults\<close>: what becomes of the calls to come; \<open>dk_random\<close>: the
  random numbers that \<open>MkdirTemp\<close> comes to, those of free names.\<close>

record disk =
  dk_files :: "string list \<rightharpoonup> node"
  dk_faults :: "err option list"
  dk_random :: "nat list"

definition io :: "disk \<Rightarrow> err option \<times> disk" where
  "io d = (case dk_faults d of [] \<Rightarrow> (None, d) | e # es \<Rightarrow> (e, d\<lparr>dk_faults := es\<rparr>))"

definition io_change :: "((string list \<rightharpoonup> node) \<Rightarrow> (string list \<rightharpoonup> node)) \<Rightarrow> disk \<Rightarrow> err option \<times> disk" where
  "io_change f d =
     (case io d of (Some e, d) \<Rightarrow> (Some e, d) | (None, d) \<Rightarrow> (None, d\<lparr>dk_files := f (dk_files d)\<rparr>))"

definition io_read :: "(disk \<Rightarrow> err + 'a) \<Rightarrow> disk \<Rightarrow> (err + 'a) \<times> disk" where
  "io_read f d = (case io d of (Some e, d) \<Rightarrow> (Inl e, d) | (None, d) \<Rightarrow> (f d, d))"

definition plain_file :: "string \<Rightarrow> node" where
  "plain_file content = \<lparr>nd_content = content, nd_regular = True, nd_perm = 384\<rparr>"

text \<open>The files below a directory, and the directory when it is a file.\<close>

definition remove_below :: "string list \<Rightarrow> (string list \<rightharpoonup> node) \<Rightarrow> (string list \<rightharpoonup> node)" where
  "remove_below p files = (\<lambda>q. if prefix p q then None else files q)"

definition move_below :: "string list \<Rightarrow> string list \<Rightarrow> (string list \<rightharpoonup> node) \<Rightarrow> (string list \<rightharpoonup> node)" where
  "move_below p r files =
     (\<lambda>q. if prefix r q then files (p @ drop (length r) q) else if prefix p q then None else files q)"

definition open_node :: "node \<Rightarrow> open_file" where
  "open_node n = \<lparr>of_Stat = Inr (nd_regular n, nd_perm n), of_ReadAll = \<lambda>k. Inr (take k (nd_content n))\<rparr>"

definition read_node :: "string list \<Rightarrow> disk \<Rightarrow> err + node" where
  "read_node p d = (case dk_files d p of None \<Rightarrow> Inl os_ErrNotExist | Some n \<Rightarrow> Inr n)"

definition temporary_name :: "string \<Rightarrow> string \<Rightarrow> disk \<Rightarrow> (err + string) \<times> disk" where
  "temporary_name dir pre d =
     (case dk_random d of
        [] \<Rightarrow> (Inl os_ErrExist, d)
      | r # rs \<Rightarrow> (Inr (Join [dir, pre @ digits r]), d\<lparr>dk_random := rs\<rparr>))"

definition disk_fs :: "disk file_system" where
  "disk_fs =
     \<lparr>fs_MkdirAll = \<lambda>p. io,
      fs_MkdirTemp = \<lambda>dir pre d. (case io d of (Some e, d) \<Rightarrow> (Inl e, d) | (None, d) \<Rightarrow> temporary_name dir pre d),
      fs_Chmod = \<lambda>p. io, fs_Chtimes = \<lambda>p. io,
      fs_WriteFile = \<lambda>p content. io_change (\<lambda>files. files(parts_of p \<mapsto> plain_file content)),
      fs_Create = \<lambda>p content d.
        (if dk_files d (parts_of p) \<noteq> None then (Some os_ErrExist, d)
         else io_change (\<lambda>files. files(parts_of p \<mapsto> plain_file content)) d),
      fs_ReadFile = \<lambda>p. io_read (\<lambda>d. map_sum id nd_content (read_node (parts_of p) d)),
      fs_RemoveAll = \<lambda>p. io_change (remove_below (parts_of p)),
      fs_Rename = \<lambda>p r. io_change (move_below (parts_of p) (parts_of r)),
      fs_OpenRoot = \<lambda>p. io,
      fs_Open = \<lambda>root p. io_read (\<lambda>d. map_sum id open_node (read_node (parts_of (Join [root, p])) d))\<rparr>"

section \<open>The calls on a disk\<close>

lemma io_files: "dk_files (snd (io d)) = dk_files d"
  by (simp add: io_def split: list.split)

lemma io_random: "dk_random (snd (io d)) = dk_random d"
  by (simp add: io_def split: list.split)

lemma io_change_ok: "io_change f d = (None, d') \<Longrightarrow> dk_files d' = f (dk_files d) \<and> dk_random d' = dk_random d"
  using io_files [of d] io_random [of d] by (auto simp: io_change_def split: prod.splits option.splits)

lemma io_change_files: "dk_files (snd (io_change f d)) = dk_files d \<or> dk_files (snd (io_change f d)) = f (dk_files d)"
  using io_files [of d] by (auto simp: io_change_def split: prod.splits option.splits)

lemma io_read_ok: "io_read f d = (Inr x, d') \<Longrightarrow> dk_files d' = dk_files d \<and> dk_random d' = dk_random d \<and> f d' = Inr x"
  using io_files [of d] io_random [of d] by (auto simp: io_read_def split: prod.splits option.splits)

lemma read_node_files: "dk_files d = dk_files d' \<Longrightarrow> read_node p d = read_node p d'"
  by (simp add: read_node_def)

section \<open>Secrets of the process\<close>

text \<open>\<open>Ensure\<close> of \<open>internal/control/secret/secret.go\<close>; the random bytes are those of \<open>rand.Read\<close>, if it succeeds.\<close>

definition Dir :: "string \<Rightarrow> string" where
  "Dir path = Clean (rev (dropWhile (\<lambda>c. c \<noteq> CHR ''/'') (rev path)))"

definition secret_Ensure :: "'w file_system \<Rightarrow> string \<Rightarrow> nat \<Rightarrow> (nat \<Rightarrow> err + string) \<Rightarrow> 'w \<Rightarrow> (err + string) \<times> 'w" where
  "secret_Ensure fs path n random w =
     (if n < 32 then (Inl (ErrText ''secret must contain at least 32 bytes''), w)
      else case fs_ReadFile fs path w of
        (Inr data, w) \<Rightarrow> if length data < n then (Inl (ErrText (path @ '' contains only '' @ digits (length data) @ '' bytes'')), w) else (Inr data, w)
      | (Inl e, w) \<Rightarrow>
          if \<not> err_is e os_ErrNotExist then (Inl e, w)
          else case fs_MkdirAll fs (Dir path) w of
            (Some e, w) \<Rightarrow> (Inl e, w)
          | (None, w) \<Rightarrow>
              (case random n of
                 Inl e \<Rightarrow> (Inl e, w)
               | Inr data \<Rightarrow>
                   (case fs_Create fs path data w of
                      (Some e, w) \<Rightarrow> if err_is e os_ErrExist then fs_ReadFile fs path w else (Inl e, w)
                    | (None, w) \<Rightarrow> (Inr data, w))))"

end
