(* ===== verification/Secrets.thy ===== *)
theory Secrets
  imports Files Capacity_System Redact Job_Pages Dispatcher
begin

text \<open>
  The secrets of jobs: \<open>internal/secrets/manager.go\<close>, which writes the values of a job's secrets
  before the job is admitted and reads them back inside the job, and the directory that the values
  come from, \<open>internal/adapter/secretstore/directory.go\<close>.
\<close>

section \<open>The directory of values\<close>

definition safe :: "string \<Rightarrow> bool" where
  "safe value \<longleftrightarrow> value \<noteq> [] \<and> value \<noteq> ''.'' \<and> value \<noteq> ''..'' \<and> Base value = value"

definition Resolve :: "'w file_system \<Rightarrow> string \<Rightarrow> string \<Rightarrow> string \<Rightarrow> 'w \<Rightarrow> (err + string) \<times> 'w" where
  "Resolve fs root projectID name w =
     (if \<not> safe projectID \<or> \<not> safe name \<or> root = [] then (Inl ErrRevoked, w)
      else case fs_OpenRoot fs root w of
        (Some e, w) \<Rightarrow>
          (Inl (if err_is e os_ErrNotExist then ErrRevoked else ErrWrap ''open external secret store'' e), w)
      | (None, w) \<Rightarrow>
          (case fs_Open fs root (Join [projectID, name]) w of
             (Inl e, w) \<Rightarrow>
               (Inl (if err_is e os_ErrNotExist then ErrRevoked else ErrWrap ''read external secret reference'' e), w)
           | (Inr file, w) \<Rightarrow>
               (case of_Stat file of
                  Inl e \<Rightarrow> (Inl ErrRevoked, w)
                | Inr (regular, perm) \<Rightarrow>
                    if \<not> regular \<or> perm mod 64 \<noteq> 0 then (Inl ErrRevoked, w)
                    else case of_ReadAll file (2 ^ 20 + 1) of
                      Inl e \<Rightarrow> (Inl (ErrWrap ''read external secret reference'' e), w)
                    | Inr value \<Rightarrow> (Inr value, w))))"

section \<open>Before the job\<close>

record manifest_binding =
  mb_name :: string
  mb_source :: string
  mb_environment :: string
  mb_file :: string

text \<open>\<open>sm_Marshal\<close> is \<open>json.Marshal\<close> on the bindings of a manifest.\<close>

record 'w secret_manager =
  sm_JobsRoot :: string
  sm_Store :: "(string \<Rightarrow> 'w \<Rightarrow> (err + job) \<times> 'w) option"
  sm_Resolver :: "(string \<Rightarrow> string \<Rightarrow> 'w \<Rightarrow> (err + string) \<times> 'w) option"
  sm_Access :: "(string \<Rightarrow> string \<Rightarrow> string \<Rightarrow> 'w \<Rightarrow> (err + unit) \<times> 'w) option"
  sm_Files :: "'w file_system"
  sm_Marshal :: "manifest_binding list \<Rightarrow> err + string"

definition maximumValueSize :: nat where
  "maximumValueSize = 2 ^ 20"

definition manifestName :: string where
  "manifestName = ''manifest.json''"

definition ValueFile :: "nat \<Rightarrow> string \<Rightarrow> string" where
  "ValueFile index name = pad_left 3 (digits index) @ ''-'' @ name"

definition record_access :: "'w secret_manager \<Rightarrow> job \<Rightarrow> string \<Rightarrow> 'w \<Rightarrow> (err + unit) \<times> 'w" where
  "record_access m job name w =
     (case sm_Access m of None \<Rightarrow> (Inr (), w) | Some access \<Rightarrow> access (job_project_id job) (job_id job) name w)"

definition materialize_one :: "'w secret_manager \<Rightarrow> (string \<Rightarrow> string \<Rightarrow> 'w \<Rightarrow> (err + string) \<times> 'w) \<Rightarrow> job \<Rightarrow> string \<Rightarrow>
    nat \<Rightarrow> secret_binding \<Rightarrow> 'w \<Rightarrow> (err + manifest_binding) \<times> 'w" where
  "materialize_one m resolve job temporary index binding w =
     (case resolve (job_project_id job) (secret_name binding) w of
        (Inl e, w) \<Rightarrow> (Inl (ErrResolution (secret_name binding) e), w)
      | (Inr value, w) \<Rightarrow>
          if value = [] \<or> length value > maximumValueSize
          then (Inl (ErrResolution (secret_name binding) errInvalidValue), w)
          else
          (let filename = ValueFile index (secret_name binding) in
           case fs_WriteFile (sm_Files m) (Join [temporary, filename]) value w of
             (Some e, w) \<Rightarrow> (Inl (ErrWrap (''materialize job secret '' @ Quote (secret_name binding)) e), w)
           | (None, w) \<Rightarrow>
               (case record_access m job (secret_name binding) w of
                  (Inl e, w) \<Rightarrow> (Inl (ErrWrap (''record access to job secret '' @ Quote (secret_name binding)) e), w)
                | (Inr _, w) \<Rightarrow>
                    (Inr \<lparr>mb_name = secret_name binding, mb_source = filename,
                       mb_environment = secret_environment binding, mb_file = secret_file binding\<rparr>, w))))"

fun materialize :: "'w secret_manager \<Rightarrow> (string \<Rightarrow> string \<Rightarrow> 'w \<Rightarrow> (err + string) \<times> 'w) \<Rightarrow> job \<Rightarrow> string \<Rightarrow>
    nat \<Rightarrow> secret_binding list \<Rightarrow> 'w \<Rightarrow> (err + manifest_binding list) \<times> 'w" where
  "materialize m resolve job temporary index [] w = (Inr [], w)"
| "materialize m resolve job temporary index (binding # bindings) w =
     bindR (materialize_one m resolve job temporary index binding w) (\<lambda>done1 w.
     bindR (materialize m resolve job temporary (index + 1) bindings w) (\<lambda>rest w.
     (Inr (done1 # rest), w)))"

definition publish :: "'w secret_manager \<Rightarrow> string \<Rightarrow> string \<Rightarrow> string \<Rightarrow> 'w \<Rightarrow> err option \<times> 'w" where
  "publish m jobDirectory temporary payload w =
     (case fs_WriteFile (sm_Files m) (Join [temporary, manifestName]) payload w of
        (Some e, w) \<Rightarrow> (Some (ErrWrap ''write job secret manifest'' e), w)
      | (None, w) \<Rightarrow>
          (let destination = Join [jobDirectory, ''secrets''] in
           case fs_RemoveAll (sm_Files m) destination w of
             (Some e, w) \<Rightarrow> (Some e, w)
           | (None, w) \<Rightarrow>
               (case fs_Rename (sm_Files m) temporary destination w of
                  (Some e, w) \<Rightarrow> (Some (ErrWrap ''publish job secret material'' e), w)
                | (None, w) \<Rightarrow> (None, w))))"

definition fill :: "'w secret_manager \<Rightarrow> (string \<Rightarrow> string \<Rightarrow> 'w \<Rightarrow> (err + string) \<times> 'w) \<Rightarrow> job \<Rightarrow> string \<Rightarrow> string \<Rightarrow>
    'w \<Rightarrow> err option \<times> 'w" where
  "fill m resolve job jobDirectory temporary w =
     (case fs_Chmod (sm_Files m) temporary w of
        (Some e, w) \<Rightarrow> (Some e, w)
      | (None, w) \<Rightarrow>
          (case materialize m resolve job temporary 0 (job_secrets job) w of
             (Inl e, w) \<Rightarrow> (Some e, w)
           | (Inr bindings, w) \<Rightarrow>
               (case sm_Marshal m bindings of
                  Inl e \<Rightarrow> (Some e, w)
                | Inr payload \<Rightarrow> publish m jobDirectory temporary payload w)))"

text \<open>The deferred removal of the temporary directory ends every path after its creation.\<close>

definition sm_Prepare :: "'w secret_manager \<Rightarrow> 'w hook" where
  "sm_Prepare m operation w =
     (if op_kind operation \<noteq> OperationJob then (None, w)
      else case (sm_Store m, sm_Resolver m) of
        (Some read, Some resolve) \<Rightarrow>
          if sm_JobsRoot m = [] then (Some (ErrText ''job secret manager is not configured''), w)
          else
          (case read (op_id operation) w of
             (Inl e, w) \<Rightarrow> (Some e, w)
           | (Inr job, w) \<Rightarrow>
               if job_secrets job = [] then (None, w)
               else
               (let jobDirectory = Join [sm_JobsRoot m, job_id job] in
                case fs_MkdirAll (sm_Files m) jobDirectory w of
                  (Some e, w) \<Rightarrow> (Some (ErrWrap ''prepare job secret directory'' e), w)
                | (None, w) \<Rightarrow>
                    (case fs_MkdirTemp (sm_Files m) jobDirectory ''.secrets-'' w of
                       (Inl e, w) \<Rightarrow> (Some (ErrWrap ''prepare job secret directory'' e), w)
                     | (Inr temporary, w) \<Rightarrow>
                         (let (e, w) = fill m resolve job jobDirectory temporary w
                          in (e, snd (fs_RemoveAll (sm_Files m) temporary w))))))
      | _ \<Rightarrow> (Some (ErrText ''job secret manager is not configured''), w))"

definition sm_Cleanup :: "'w secret_manager \<Rightarrow> 'w hook" where
  "sm_Cleanup m operation w =
     (if op_kind operation \<noteq> OperationJob \<or> sm_JobsRoot m = [] then (None, w)
      else fs_RemoveAll (sm_Files m) (Join [sm_JobsRoot m, op_id operation, ''secrets'']) w)"

section \<open>Inside the job\<close>

record runtime_values =
  rv_values :: "string list"
  rv_environment :: "string list"

fun load_bindings :: "'w file_system \<Rightarrow> string \<Rightarrow> manifest_binding list \<Rightarrow> runtime_values \<Rightarrow> 'w \<Rightarrow> (err + runtime_values) \<times> 'w" where
  "load_bindings fs directory [] acc w = (Inr acc, w)"
| "load_bindings fs directory (binding # bindings) acc w =
     (if Base (mb_source binding) \<noteq> mb_source binding \<or> Contains (mb_source binding) ''..''
      then (Inl (ErrText ''job secret manifest contains an invalid source''), w)
      else case fs_ReadFile fs (Join [directory, mb_source binding]) w of
        (Inl e, w) \<Rightarrow> (Inl (ErrText (''read job secret '' @ Quote (mb_name binding))), w)
      | (Inr value, w) \<Rightarrow>
          load_bindings fs directory bindings
            (acc\<lparr>rv_values := rv_values acc @ [value],
                 rv_environment := rv_environment acc @
                   (if mb_environment binding \<noteq> [] then [mb_environment binding @ ''='' @ value] else [])\<rparr>) w)"

text \<open>\<open>unmarshal\<close> is \<open>json.Unmarshal\<close> to the bindings of a manifest.\<close>

definition LoadRuntime :: "'w file_system \<Rightarrow> (string \<Rightarrow> err + manifest_binding list) \<Rightarrow> string \<Rightarrow> 'w \<Rightarrow> (err + runtime_values) \<times> 'w" where
  "LoadRuntime fs unmarshal directory w =
     (case fs_ReadFile fs (Join [directory, manifestName]) w of
        (Inl e, w) \<Rightarrow>
          if err_is e os_ErrNotExist then (Inr \<lparr>rv_values = [], rv_environment = []\<rparr>, w)
          else (Inl (ErrText ''read job secret manifest''), w)
      | (Inr payload, w) \<Rightarrow>
          (case unmarshal payload of
             Inl e \<Rightarrow> (Inl (ErrText ''decode job secret manifest''), w)
           | Inr bindings \<Rightarrow> load_bindings fs directory bindings \<lparr>rv_values = [], rv_environment = []\<rparr> w))"

section \<open>The manager of the server\<close>

definition on_files :: "'r file_system \<Rightarrow> 'r system file_system" where
  "on_files fs =
     \<lparr>fs_MkdirAll = \<lambda>p. on_machine (fs_MkdirAll fs p), fs_MkdirTemp = \<lambda>d p. on_machine (fs_MkdirTemp fs d p),
      fs_Chmod = \<lambda>p. on_machine (fs_Chmod fs p), fs_Chtimes = \<lambda>p. on_machine (fs_Chtimes fs p),
      fs_WriteFile = \<lambda>p c. on_machine (fs_WriteFile fs p c), fs_Create = \<lambda>p c. on_machine (fs_Create fs p c),
      fs_ReadFile = \<lambda>p. on_machine (fs_ReadFile fs p), fs_RemoveAll = \<lambda>p. on_machine (fs_RemoveAll fs p),
      fs_Rename = \<lambda>p r. on_machine (fs_Rename fs p r), fs_OpenRoot = \<lambda>p. on_machine (fs_OpenRoot fs p),
      fs_Open = \<lambda>r p. on_machine (fs_Open fs r p)\<rparr>"

definition autback_secrets ::
  "'r file_system \<Rightarrow> string \<Rightarrow> string \<Rightarrow> (manifest_binding list \<Rightarrow> err + string) \<Rightarrow> 'r system secret_manager" where
  "autback_secrets fs jobsRoot secretRoot marshal =
     \<lparr>sm_JobsRoot = jobsRoot, sm_Store = Some (\<lambda>i. on_store (Job i)),
      sm_Resolver = Some (Resolve (on_files fs) secretRoot),
      sm_Access = Some (\<lambda>p i n. on_store (RecordSecretAccess p i n)), sm_Files = on_files fs, sm_Marshal = marshal\<rparr>"

section \<open>What the manager writes, the job reads\<close>

text \<open>The value of a secret in the directory of values: a private regular file of at most a mebibyte.\<close>

definition secret_of :: "(string list \<rightharpoonup> node) \<Rightarrow> string list \<Rightarrow> string \<Rightarrow> string \<Rightarrow> string \<Rightarrow> bool" where
  "secret_of files root project name value \<longleftrightarrow>
     (\<exists>n. files (root @ [project, name]) = Some n \<and> nd_regular n \<and> nd_perm n mod 64 = 0 \<and> nd_content n = value \<and>
        value \<noteq> [] \<and> length value \<le> maximumValueSize)"

fun manifest_of :: "nat \<Rightarrow> secret_binding list \<Rightarrow> manifest_binding list" where
  "manifest_of i [] = []"
| "manifest_of i (b # bs) =
     \<lparr>mb_name = secret_name b, mb_source = ValueFile i (secret_name b), mb_environment = secret_environment b,
      mb_file = secret_file b\<rparr> # manifest_of (Suc i) bs"

fun stored :: "(string list \<rightharpoonup> node) \<Rightarrow> string list \<Rightarrow> nat \<Rightarrow> secret_binding list \<Rightarrow> string list \<Rightarrow> bool" where
  "stored files p i (b # bs) (v # vs) \<longleftrightarrow>
     files (p @ [ValueFile i (secret_name b)]) = Some (plain_file v) \<and> stored files p (Suc i) bs vs"
| "stored files p i bs vs \<longleftrightarrow> bs = [] \<and> vs = []"

fun environment_of :: "secret_binding list \<Rightarrow> string list \<Rightarrow> string list" where
  "environment_of (b # bs) (v # vs) =
     (if secret_environment b \<noteq> [] then [secret_environment b @ ''='' @ v] else []) @ environment_of bs vs"
| "environment_of _ _ = []"

lemma ValueFile_index: "ValueFile i n = ValueFile j m \<Longrightarrow> i = j"
proof -
  have "takeWhile is_digit (ValueFile k x) = pad_left 3 (digits k)" for k x
    using pad_left_digits [of 3 k] by (simp add: ValueFile_def takeWhile_append2 is_digit_def)
  then show "ValueFile i n = ValueFile j m \<Longrightarrow> i = j" using pad_left_inj by metis
qed

lemma ValueFile_plain: "CHR ''/'' \<notin> set n \<Longrightarrow> plain_name (ValueFile i n)"
proof -
  have "CHR ''/'' \<notin> set (pad_left 3 (digits i))" using pad_left_digits [of 3 i] by (auto simp: is_digit_def)
  moreover have "CHR ''-'' \<in> set (ValueFile i n)" by (simp add: ValueFile_def)
  then have "ValueFile i n \<notin> {[], ''.'', ''..''}" by auto
  ultimately show "CHR ''/'' \<notin> set n \<Longrightarrow> plain_name (ValueFile i n)"
    by (auto simp: plain_name_def) (simp add: ValueFile_def)
qed

lemma stored_frame: "stored files p i bs vs \<Longrightarrow> (\<And>k n. k \<ge> i \<Longrightarrow> files' (p' @ [ValueFile k n]) = files (p @ [ValueFile k n])) \<Longrightarrow>
    stored files' p' i bs vs"
  by (induction files p i bs vs rule: stored.induct) (auto simp: Suc_le_eq)

lemma safe_plain: "safe v \<Longrightarrow> CHR ''/'' \<notin> set v \<Longrightarrow> plain_name v"
  by (simp add: safe_def plain_name_def)

abbreviation disk_of :: "disk system \<Rightarrow> (string list \<rightharpoonup> node)" where
  "disk_of s \<equiv> dk_files (sys_runtime s)"

lemma Join_relative: "plain_name a \<Longrightarrow> plain_name b \<Longrightarrow> Join [a, b] = a @ ''/'' @ b"
proof -
  assume ab: "plain_name a" "plain_name b"
  have "split_on CHR ''/'' (a @ CHR ''/'' # b) = [a, b]"
    using ab by (simp add: split_on_append split_on_plain plain_name_def)
  moreover have "\<not> is_rooted (a @ CHR ''/'' # b)" using ab by (cases a) (auto simp: is_rooted_def plain_name_def)
  ultimately show ?thesis
    using ab clean_parts_plain [of "[a, b]" False "[]"] by (simp add: Join_def Clean_def parts_of_def plain_name_def)
qed

lemma Resolve_reads:
  assumes "Resolve (on_files disk_fs) root project name s = (Inr v, s')" "is_rooted root" "CHR ''/'' \<notin> set project" "CHR ''/'' \<notin> set name"
    "v \<noteq> []" "length v \<le> maximumValueSize"
  shows "secret_of (disk_of s) (parts_of root) project name v \<and> disk_of s' = disk_of s \<and> sys_store s' = sys_store s \<and> plain_name name"
proof -
  have names: "safe project" "safe name" "plain_name project" "plain_name name"
    using assms safe_plain by (auto simp: Resolve_def split: if_splits)
  have "Join [root, project @ ''/'' @ name] = Join [root, project, name]"
    using assms(2) by (auto simp: Join_def dest: is_rootedE)
  then have path: "parts_of (Join [root, Join [project, name]]) = parts_of root @ [project, name]"
    using Join_below(2) [OF assms(2), of "[project, name]"] names Join_relative by simp
  obtain e d1 where open_root: "io (sys_runtime s) = (e, d1)" by force
  obtain r d2 where opened: "io_read (\<lambda>d. map_sum id open_node (read_node (parts_of root @ [project, name]) d)) d1 = (r, d2)" by force
  have "e = None" using assms(1) names open_root
    by (cases e) (auto simp: Resolve_def on_files_def on_machine_def disk_fs_def split: if_splits)
  then have run: "(case r of Inl e \<Rightarrow> Inl (if err_is e os_ErrNotExist then ErrRevoked else ErrWrap ''read external secret reference'' e)
      | Inr file \<Rightarrow> (case of_Stat file of Inl e \<Rightarrow> Inl ErrRevoked
        | Inr (regular, perm) \<Rightarrow> if \<not> regular \<or> perm mod 64 \<noteq> 0 then Inl ErrRevoked
            else case of_ReadAll file (2 ^ 20 + 1) of Inl e \<Rightarrow> Inl (ErrWrap ''read external secret reference'' e) | Inr value \<Rightarrow> Inr value)) = Inr v \<and>
      s' = s\<lparr>sys_runtime := d2\<rparr>"
    using assms(1,2) names open_root opened path
    by (cases r) (auto simp: Resolve_def on_files_def on_machine_def disk_fs_def split: if_splits sum.splits prod.splits)
  then obtain f where f: "r = Inr f" by (cases r) auto
  then have d: "dk_files d2 = dk_files d1" "map_sum id open_node (read_node (parts_of root @ [project, name]) d2) = Inr f"
    using io_read_ok opened by metis+
  then obtain n where n: "dk_files d1 (parts_of root @ [project, name]) = Some n" "f = open_node n"
    by (auto simp: read_node_def split: option.splits)
  have "nd_regular n" "nd_perm n mod 64 = 0" "v = take (2 ^ 20 + 1) (nd_content n)"
    using run f n by (auto simp: open_node_def split: if_splits)
  moreover have "take (2 ^ 20 + 1) (nd_content n) = nd_content n"
    using assms(6) \<open>v = take (2 ^ 20 + 1) (nd_content n)\<close> by (simp add: maximumValueSize_def)
  moreover have "dk_files d1 = disk_of s" using io_files [of "sys_runtime s"] open_root by simp
  ultimately show ?thesis using run d(1) n(1) names assms(5,6) by (simp add: secret_of_def)
qed

lemma write_on_disk:
  assumes "fs_WriteFile (on_files disk_fs) (Join [t, n]) c s = (None, s')" "is_rooted t" "plain_name n"
  shows "disk_of s' = (disk_of s)(parts_of t @ [n] \<mapsto> plain_file c) \<and> sys_store s' = sys_store s"
  using assms Join_below(2) [of t "[n]"]
  by (auto simp: on_files_def on_machine_def disk_fs_def split: prod.splits dest!: io_change_ok)

lemma materialize_one_writes:
  assumes run: "materialize_one (autback_secrets disk_fs jroot sroot marshal) (Resolve (on_files disk_fs) sroot) job t i b s = (Inr mb, s')"
    and rooted: "is_rooted t" "is_rooted sroot" and slash: "CHR ''/'' \<notin> set (job_project_id job)" "CHR ''/'' \<notin> set (secret_name b)"
  shows "\<exists>v. secret_of (disk_of s) (parts_of sroot) (job_project_id job) (secret_name b) v \<and>
     disk_of s' = (disk_of s)(parts_of t @ [ValueFile i (secret_name b)] \<mapsto> plain_file v) \<and> [mb] = manifest_of i [b]"
proof -
  let ?m = "autback_secrets disk_fs jroot sroot marshal"
  obtain r s1 where r: "Resolve (on_files disk_fs) sroot (job_project_id job) (secret_name b) s = (r, s1)" by force
  then obtain v where v: "r = Inr v" "v \<noteq> []" "length v \<le> maximumValueSize"
    using run by (cases r) (auto simp: materialize_one_def split: if_splits)
  have read: "secret_of (disk_of s) (parts_of sroot) (job_project_id job) (secret_name b) v" "disk_of s1 = disk_of s"
    using Resolve_reads [OF r [unfolded v(1)] rooted(2) slash v(2,3)] by simp_all
  obtain e s2 where e: "fs_WriteFile (on_files disk_fs) (Join [t, ValueFile i (secret_name b)]) v s1 = (e, s2)" by force
  then have "e = None" using run r v by (cases e) (auto simp: materialize_one_def autback_secrets_def split: if_splits)
  then have written: "disk_of s2 = (disk_of s1)(parts_of t @ [ValueFile i (secret_name b)] \<mapsto> plain_file v)"
    using write_on_disk [OF _ rooted(1) ValueFile_plain [OF slash(2)]] e by blast
  obtain a s3 where a: "record_access ?m job (secret_name b) s2 = (a, s3)" by force
  then have "sys_runtime s3 = sys_runtime s2" by (auto simp: record_access_def autback_secrets_def on_store_def split: prod.splits)
  moreover have "s' = s3" "[mb] = manifest_of i [b]" using run r v e a \<open>e = None\<close>
    by (auto simp: materialize_one_def autback_secrets_def Let_def split: sum.splits)
  ultimately show ?thesis using read written by auto
qed

lemma materialize_writes:
  assumes "materialize (autback_secrets disk_fs jroot sroot marshal) (Resolve (on_files disk_fs) sroot) job t i bs s = (Inr mbs, s')"
    and "is_rooted t" "is_rooted sroot" "CHR ''/'' \<notin> set (job_project_id job)" "\<forall>b \<in> set bs. CHR ''/'' \<notin> set (secret_name b)"
      "\<And>p n. \<not> prefix (parts_of t) (parts_of sroot @ [p, n])"
  shows "\<exists>vs. list_all2 (\<lambda>b. secret_of (disk_of s) (parts_of sroot) (job_project_id job) (secret_name b)) bs vs \<and>
     mbs = manifest_of i bs \<and> stored (disk_of s') (parts_of t) i bs vs \<and>
     (\<forall>q. (\<forall>k n. k \<ge> i \<longrightarrow> q \<noteq> parts_of t @ [ValueFile k n]) \<longrightarrow> disk_of s' q = disk_of s q)"
  using assms(1,5)
proof (induction bs arbitrary: i s mbs)
  case (Cons b bs)
  let ?m = "autback_secrets disk_fs jroot sroot marshal" and ?r = "Resolve (on_files disk_fs) sroot"
  obtain r s1 where one: "materialize_one ?m ?r job t i b s = (r, s1)" by force
  then obtain mb where mb: "r = Inr mb" using Cons.prems(1) by (cases r) auto
  obtain rest where rest: "materialize ?m ?r job t (Suc i) bs s1 = (Inr rest, s')" "mbs = mb # rest"
    using Cons.prems(1) one mb by (cases "materialize ?m ?r job t (Suc i) bs s1"; cases "fst (materialize ?m ?r job t (Suc i) bs s1)") auto
  obtain v where v: "secret_of (disk_of s) (parts_of sroot) (job_project_id job) (secret_name b) v"
      "disk_of s1 = (disk_of s)(parts_of t @ [ValueFile i (secret_name b)] \<mapsto> plain_file v)" "[mb] = manifest_of i [b]"
    using materialize_one_writes [OF one [unfolded mb] assms(2-4)] Cons.prems(2) by auto
  obtain vs where vs: "list_all2 (\<lambda>b. secret_of (disk_of s1) (parts_of sroot) (job_project_id job) (secret_name b)) bs vs"
      "rest = manifest_of (Suc i) bs" "stored (disk_of s') (parts_of t) (Suc i) bs vs"
      "\<And>q. (\<forall>k n. k \<ge> Suc i \<longrightarrow> q \<noteq> parts_of t @ [ValueFile k n]) \<Longrightarrow> disk_of s' q = disk_of s1 q"
    using Cons.IH [OF rest(1)] Cons.prems(2) by auto
  have "disk_of s1 (parts_of sroot @ [p, n]) = disk_of s (parts_of sroot @ [p, n])" for p n
    using v(2) assms(6) [of p n] by (metis fun_upd_apply prefixI)
  then have same: "secret_of (disk_of s1) (parts_of sroot) = secret_of (disk_of s) (parts_of sroot)"
    by (intro ext) (simp add: secret_of_def)
  have "disk_of s' (parts_of t @ [ValueFile i (secret_name b)]) = disk_of s1 (parts_of t @ [ValueFile i (secret_name b)])"
    by (rule vs(4)) (auto dest: ValueFile_index)
  then have "stored (disk_of s') (parts_of t) i (b # bs) (v # vs)" using vs(3) v(2) by simp
  moreover have "disk_of s' q = disk_of s q" if "\<forall>k n. k \<ge> i \<longrightarrow> q \<noteq> parts_of t @ [ValueFile k n]" for q
    using vs(4) [of q] v(2) that by (auto simp: Suc_le_eq)
  ultimately show ?case using v(1,3) vs(1,2) rest(2) same by (intro exI [of _ "v # vs"]) auto
qed auto

lemma publish_moves:
  assumes run: "publish (autback_secrets disk_fs jroot sroot marshal) jd t payload s = (None, s')"
    and rooted: "is_rooted jd" "is_rooted t"
  shows "disk_of s' (parts_of jd @ ''secrets'' # q) =
    (remove_below (parts_of jd @ [''secrets'']) ((disk_of s)(parts_of t @ [manifestName] \<mapsto> plain_file payload))) (parts_of t @ q)"
proof -
  have plain: "plain_name manifestName" "plain_name ''secrets''" by (simp_all add: plain_name_def manifestName_def)
  have dest: "parts_of (Join [jd, ''secrets'']) = parts_of jd @ [''secrets'']" using Join_below(2) [OF rooted(1), of "[''secrets'']"] plain by simp
  obtain e s1 where w: "fs_WriteFile (on_files disk_fs) (Join [t, manifestName]) payload s = (e, s1)" by force
  obtain e1 s2 where r: "fs_RemoveAll (on_files disk_fs) (Join [jd, ''secrets'']) s1 = (e1, s2)" by force
  obtain e2 s3 where m: "fs_Rename (on_files disk_fs) t (Join [jd, ''secrets'']) s2 = (e2, s3)" by force
  have ok: "e = None" "e1 = None" "e2 = None" "s' = s3"
    using run w r m by (auto simp: publish_def autback_secrets_def Let_def split: option.splits)
  have "disk_of s1 = (disk_of s)(parts_of t @ [manifestName] \<mapsto> plain_file payload)"
    using write_on_disk [OF _ rooted(2) plain(1)] w ok(1) by blast
  moreover have "disk_of s2 = remove_below (parts_of jd @ [''secrets'']) (disk_of s1)"
    using r ok(2) dest by (auto simp: on_files_def on_machine_def disk_fs_def split: prod.splits dest!: io_change_ok)
  moreover have "disk_of s3 = move_below (parts_of t) (parts_of jd @ [''secrets'']) (disk_of s2)"
    using m ok(3) dest by (auto simp: on_files_def on_machine_def disk_fs_def split: prod.splits dest!: io_change_ok)
  ultimately show ?thesis using ok(4) by (simp add: move_below_def)
qed

lemma temporary_directory:
  assumes "fs_MkdirTemp (on_files disk_fs) jd ''.secrets-'' s = (Inr t, s')" "is_rooted jd"
  shows "is_rooted t \<and> (\<exists>r. parts_of t = parts_of jd @ [''.secrets-'' @ digits r]) \<and> disk_of s' = disk_of s"
proof -
  have plain: "plain_name (''.secrets-'' @ digits r)" for r
    using digits_are_digits [of r] by (auto simp: plain_name_def is_digit_def)
  obtain d where d: "io (sys_runtime s) = (None, d)" "fs_MkdirTemp disk_fs jd ''.secrets-'' (sys_runtime s) = temporary_name jd ''.secrets-'' d"
    using assms(1) by (auto simp: on_files_def on_machine_def disk_fs_def split: prod.splits option.splits)
  then obtain r where "t = Join [jd, ''.secrets-'' @ digits r]" "dk_files (sys_runtime s') = dk_files d"
    using assms(1) by (auto simp: on_files_def on_machine_def temporary_name_def split: prod.splits list.splits)
  then show ?thesis using Join_below [OF assms(2), of "[''.secrets-'' @ digits r]"] plain d(1) io_files [of "sys_runtime s"] by auto
qed

lemma Contains_ValueFile: "Contains (ValueFile i n) ''..'' = Contains n ''..''"
proof -
  have skip: "sublist ''..'' (p @ n) = sublist ''..'' n" if "CHR ''.'' \<notin> set p" for p
    using that by (induction p) (auto simp: sublist_Cons_right)
  have "CHR ''.'' \<notin> set (pad_left 3 (digits i) @ ''-'')" using pad_left_digits [of 3 i] by (auto simp: is_digit_def)
  then show ?thesis unfolding Contains_sublist ValueFile_def using skip [of "pad_left 3 (digits i) @ ''-''"] by simp
qed

lemma read_on_disk:
  "dk_faults d = [] \<Longrightarrow> dk_files d (parts_of dir @ [n]) = Some (plain_file v) \<Longrightarrow> is_rooted dir \<Longrightarrow> plain_name n \<Longrightarrow>
   fs_ReadFile disk_fs (Join [dir, n]) d = (Inr v, d)"
  using Join_below(2) [of dir "[n]"] by (simp add: disk_fs_def io_read_def io_def read_node_def plain_file_def)

lemma load_stored:
  assumes "dk_faults d = []" "is_rooted dir"
  shows "stored (dk_files d) (parts_of dir) i bs vs \<Longrightarrow> \<forall>b \<in> set bs. CHR ''/'' \<notin> set (secret_name b) \<Longrightarrow>
    load_bindings disk_fs dir (manifest_of i bs) acc d =
      (if \<exists>b \<in> set bs. Contains (secret_name b) ''..'' then Inl (ErrText ''job secret manifest contains an invalid source'')
       else Inr (acc\<lparr>rv_values := rv_values acc @ vs, rv_environment := rv_environment acc @ environment_of bs vs\<rparr>), d)"
proof (induction "dk_files d" "parts_of dir" i bs vs arbitrary: acc rule: stored.induct)
  case (1 i b bs v vs)
  have "plain_name (ValueFile i (secret_name b))" using 1(3) ValueFile_plain by simp
  then have "fs_ReadFile disk_fs (Join [dir, ValueFile i (secret_name b)]) d = (Inr v, d)"
    "Base (ValueFile i (secret_name b)) = ValueFile i (secret_name b)"
    using read_on_disk [OF assms(1) _ assms(2)] 1(2) Base_plain by (auto simp: plain_name_def)
  then show ?case using 1 by (simp add: Contains_ValueFile)
qed auto

lemma fill_stores:
  assumes run: "fill (autback_secrets disk_fs jroot sroot marshal) (Resolve (on_files disk_fs) sroot) job jd t s = (None, s')"
    and rooted: "is_rooted jd" "is_rooted t" "is_rooted sroot"
    and names: "CHR ''/'' \<notin> set (job_project_id job)" "\<forall>b \<in> set (job_secrets job). CHR ''/'' \<notin> set (secret_name b)"
    and apart: "\<And>p n. \<not> prefix (parts_of t) (parts_of sroot @ [p, n])" "\<not> prefix (parts_of jd @ [''secrets'']) (parts_of t)"
  shows "\<exists>vs payload. list_all2 (\<lambda>b. secret_of (disk_of s) (parts_of sroot) (job_project_id job) (secret_name b)) (job_secrets job) vs \<and>
    marshal (manifest_of 0 (job_secrets job)) = Inr payload \<and>
    disk_of s' (parts_of jd @ [''secrets'', manifestName]) = Some (plain_file payload) \<and>
    stored (disk_of s') (parts_of jd @ [''secrets'']) 0 (job_secrets job) vs"
proof -
  let ?m = "autback_secrets disk_fs jroot sroot marshal" and ?r = "Resolve (on_files disk_fs) sroot"
  obtain e s1 where c: "fs_Chmod (on_files disk_fs) t s = (e, s1)" by force
  obtain r s2 where m: "materialize ?m ?r job t 0 (job_secrets job) s1 = (r, s2)" by force
  obtain bindings payload where ok: "e = None" "r = Inr bindings" "marshal bindings = Inr payload" "publish ?m jd t payload s2 = (None, s')"
    using run c m by (auto simp: fill_def autback_secrets_def split: option.splits sum.splits)
  have "disk_of s1 = disk_of s"
    using c io_files [of "sys_runtime s"] by (auto simp: on_files_def on_machine_def disk_fs_def split: prod.splits)
  then obtain vs where vs: "list_all2 (\<lambda>b. secret_of (disk_of s) (parts_of sroot) (job_project_id job) (secret_name b)) (job_secrets job) vs"
      "bindings = manifest_of 0 (job_secrets job)" "stored (disk_of s2) (parts_of t) 0 (job_secrets job) vs"
    using materialize_writes [OF m [unfolded ok(2)] rooted(2,3) names apart(1)] by auto
  have below: "\<not> prefix (parts_of jd @ [''secrets'']) (parts_of t @ [x])" if "x \<noteq> ''secrets''" for x
    using apart(2) that by (auto simp: prefix_snoc)
  have manifest: "CHR ''-'' \<notin> set manifestName" "manifestName \<noteq> ''secrets''" by (simp_all add: manifestName_def)
  have value_file: "ValueFile k n \<noteq> manifestName" "ValueFile k n \<noteq> ''secrets''" for k n
  proof -
    have "CHR ''-'' \<in> set (ValueFile k n)" by (simp add: ValueFile_def)
    then show "ValueFile k n \<noteq> manifestName" "ValueFile k n \<noteq> ''secrets''" using manifest by auto
  qed
  note moved = publish_moves [OF ok(4) rooted(1,2)]
  have "disk_of s' (parts_of jd @ [''secrets'', manifestName]) = Some (plain_file payload)"
    using moved [of "[manifestName]"] below [OF manifest(2)] by (simp add: remove_below_def)
  moreover have "disk_of s' ((parts_of jd @ [''secrets'']) @ [ValueFile k n]) = disk_of s2 (parts_of t @ [ValueFile k n])" for k n
    using moved [of "[ValueFile k n]"] below [OF value_file(2), of k n] value_file(1) [of k n]
    by (simp add: remove_below_def del: prefix_snoc)
  then have "stored (disk_of s') (parts_of jd @ [''secrets'']) 0 (job_secrets job) vs"
    using stored_frame [OF vs(3)] by simp
  ultimately show ?thesis using vs ok(3) by auto
qed

text \<open>
  C?: the job reads what the operator stored. When the preparation of a job with secrets has
  succeeded, every secret of the job was, in the directory of values, a private regular file of one
  byte to one mebibyte, and the entrypoint of the job reads from the published directory exactly these
  values, in the order of the bindings and with the environment variables they are bound to; if the
  name of a secret contains two dots in a row, the entrypoint refuses all of them. The directory of
  values lies outside the directory of jobs, and JSON reads back what it wrote.
\<close>

theorem secrets_round_trip:
  assumes prepared: "sm_Prepare (autback_secrets disk_fs jroot sroot marshal) operation s = (None, s')"
    and job: "op_kind operation = OperationJob" "Job (op_id operation) (sys_store s) = (Inr job, w)" "job_secrets job \<noteq> []"
    and json: "\<And>bs payload. marshal bs = Inr payload \<Longrightarrow> unmarshal payload = Inr bs"
    and rooted: "is_rooted jroot" "is_rooted sroot" "\<not> prefix (parts_of jroot) (parts_of sroot)"
    and names: "plain_name (job_id job)" "CHR ''/'' \<notin> set (job_project_id job)"
      "\<forall>b \<in> set (job_secrets job). CHR ''/'' \<notin> set (secret_name b)"
    and reliable: "dk_faults (sys_runtime s') = []"
  shows "\<exists>values. list_all2 (\<lambda>b. secret_of (disk_of s) (parts_of sroot) (job_project_id job) (secret_name b)) (job_secrets job) values \<and>
    fst (LoadRuntime disk_fs unmarshal (Join [jroot, job_id job, ''secrets'']) (sys_runtime s')) =
      (if \<exists>b \<in> set (job_secrets job). Contains (secret_name b) ''..''
       then Inl (ErrText ''job secret manifest contains an invalid source'')
       else Inr \<lparr>rv_values = values, rv_environment = environment_of (job_secrets job) values\<rparr>)"
proof -
  let ?m = "autback_secrets disk_fs jroot sroot marshal" and ?r = "Resolve (on_files disk_fs) sroot"
  let ?jd = "Join [jroot, job_id job]" and ?dir = "Join [jroot, job_id job, ''secrets'']"
  have jd: "is_rooted ?jd" "parts_of ?jd = parts_of jroot @ [job_id job]" using Join_below [OF rooted(1), of "[job_id job]"] names(1) by simp_all
  have dir: "is_rooted ?dir" "parts_of ?dir = parts_of ?jd @ [''secrets'']"
    using Join_below [OF rooted(1), of "[job_id job, ''secrets'']"] names(1) jd(2) by (simp_all add: plain_name_def)
  have "jroot \<noteq> []" using rooted(1) by (auto dest: is_rootedE)
  define s0 where "s0 = s\<lparr>sys_store := w\<rparr>"
  obtain e s1 where mk: "fs_MkdirAll (on_files disk_fs) ?jd s0 = (e, s1)" by force
  obtain r s2 where tmp: "fs_MkdirTemp (on_files disk_fs) ?jd ''.secrets-'' s1 = (r, s2)" by force
  have read: "on_store (Job (op_id operation)) s = (Inr job, s0)" by (simp add: on_store_def job(2) s0_def)
  obtain t s3 where ok: "e = None" "r = Inr t" "fill ?m ?r job ?jd t s2 = (None, s3)" "s' = snd (fs_RemoveAll (on_files disk_fs) t s3)"
    using prepared job(1,3) \<open>jroot \<noteq> []\<close> read mk tmp
    by (auto simp: sm_Prepare_def autback_secrets_def Let_def split: option.splits sum.splits prod.splits)
  obtain k where t: "is_rooted t" "parts_of t = parts_of ?jd @ [''.secrets-'' @ digits k]" "disk_of s2 = disk_of s1"
    using temporary_directory [OF tmp [unfolded ok(2)] jd(1)] by auto
  have s1: "disk_of s1 = disk_of s"
    using mk io_files [of "sys_runtime s"] by (auto simp: on_files_def on_machine_def disk_fs_def s0_def split: prod.splits)
  have apart: "\<not> prefix (parts_of t) (parts_of sroot @ [p, n])" for p n
  proof
    assume below: "prefix (parts_of t) (parts_of sroot @ [p, n])"
    then have "prefix (parts_of jroot) (parts_of sroot @ [p, n])" by (auto simp: t(2) jd(2) dest: append_prefixD)
    moreover have "length (parts_of jroot) \<le> length (parts_of sroot)" using prefix_length_le [OF below] by (simp add: t(2) jd(2))
    ultimately show False using rooted(3) prefix_length_prefix [of "parts_of jroot" "parts_of sroot @ [p, n]" "parts_of sroot"] by simp
  qed
  obtain vs payload where vs: "list_all2 (\<lambda>b. secret_of (disk_of s) (parts_of sroot) (job_project_id job) (secret_name b)) (job_secrets job) vs"
      "marshal (manifest_of 0 (job_secrets job)) = Inr payload"
      "disk_of s3 (parts_of ?jd @ [''secrets'', manifestName]) = Some (plain_file payload)"
      "stored (disk_of s3) (parts_of ?jd @ [''secrets'']) 0 (job_secrets job) vs"
    using fill_stores [OF ok(3) jd(1) t(1) rooted(2) names(2,3) apart] t(2,3) s1 by auto
  have "disk_of s' (parts_of ?dir @ q) = disk_of s3 (parts_of ?dir @ q)" for q
    using io_change_files [of "remove_below (parts_of t)" "sys_runtime s3"] ok(4) t(2) dir(2)
    by (auto simp: on_files_def on_machine_def disk_fs_def remove_below_def split: prod.splits)
  then have "stored (disk_of s') (parts_of ?dir) 0 (job_secrets job) vs" "disk_of s' (parts_of ?dir @ [manifestName]) = Some (plain_file payload)"
    using stored_frame [OF vs(4)] vs(3) dir(2) by simp_all
  moreover have "plain_name manifestName" by (simp add: plain_name_def manifestName_def)
  ultimately show ?thesis
    using load_stored [OF reliable dir(1), of 0 "job_secrets job" vs] names(3) read_on_disk [OF reliable _ dir(1)] json [OF vs(2)] vs(1)
    by (intro exI [of _ vs]) (simp add: LoadRuntime_def)
qed

definition demo_marshal :: "manifest_binding list \<Rightarrow> err + string" where
  "demo_marshal bs = Inr (concat (map (\<lambda>b. frame (mb_name b) @ frame (mb_source b) @ frame (mb_environment b) @ frame (mb_file b)) bs))"

fun demo_bindings :: "nat \<Rightarrow> string \<Rightarrow> manifest_binding list" where
  "demo_bindings 0 s = []"
| "demo_bindings (Suc k) s =
     (if s = [] then []
      else let (n, s) = unframe s; (v, s) = unframe s; (e, s) = unframe s; (f, s) = unframe s
           in \<lparr>mb_name = n, mb_source = v, mb_environment = e, mb_file = f\<rparr> # demo_bindings k s)"

lemma demo_json: "demo_marshal bs = Inr payload \<Longrightarrow> Inr (demo_bindings (length payload) payload) = (Inr bs :: err + manifest_binding list)"
proof -
  let ?enc = "\<lambda>b. frame (mb_name b) @ frame (mb_source b) @ frame (mb_environment b) @ frame (mb_file b)"
  have "length bs \<le> k \<Longrightarrow> demo_bindings k (concat (map ?enc bs)) = bs" for k
  proof (induction bs arbitrary: k)
    case (Cons b bs)
    then obtain j where "k = Suc j" by (cases k) auto
    then show ?case using Cons by (simp add: unframe_frame) (simp add: frame_def)
  next
    case Nil
    show ?case by (cases k) simp_all
  qed
  moreover have "length bs \<le> length (concat (map ?enc bs))" by (induction bs) (auto simp: frame_def)
  ultimately show "demo_marshal bs = Inr payload \<Longrightarrow> Inr (demo_bindings (length payload) payload) = (Inr bs :: err + manifest_binding list)"
    by (auto simp: demo_marshal_def)
qed

definition secret_job :: job_row where
  "secret_job = (queued_job_row ''j1'')\<lparr>j_project_id := ''p1'', j_secrets :=
     [\<lparr>secret_name = ''token'', secret_environment = ''TOKEN'', secret_file = []\<rparr>]\<rparr>"

definition secret_system :: "disk system" where
  "secret_system =
     \<lparr>sys_store = \<lparr>db = empty_database\<lparr>jobs := [secret_job]\<rparr>, faults = [], now = 5, entropy = []\<rparr>,
      sys_runtime = \<lparr>dk_files = [[''run'', ''values'', ''p1'', ''token''] \<mapsto> plain_file ''hunter2''], dk_faults = [], dk_random = [7]\<rparr>,
      sys_cancelled = False\<rparr>"

definition secret_operation :: operation where
  "secret_operation = \<lparr>op_kind = OperationJob, op_id = ''j1'', op_state = OperationAdmitting, op_accepted_at = 0,
     op_leased_at = None, op_cleanup_attempts = 0, op_cleanup_error = [], op_cleanup_updated_at = None\<rparr>"

definition demo_secrets :: "disk system secret_manager" where
  "demo_secrets = autback_secrets disk_fs ''/jobs'' ''/run/values'' demo_marshal"

lemma demo_paths:
  "Join [''/jobs'', ''j1''] = ''/jobs/j1''" "Join [''/jobs/j1'', ''.secrets-7''] = ''/jobs/j1/.secrets-7''"
  "Join [''/jobs/j1'', ''secrets''] = ''/jobs/j1/secrets''" "Join [''p1'', ''token''] = ''p1/token''"
  "parts_of (Join [''/run/values'', ''p1/token'']) = [''run'', ''values'', ''p1'', ''token'']"
  "safe ''p1''" "safe ''token''"
  by code_simp+

lemma demo_number: "digits 7 = ''7''"
  by code_simp

lemma demo_prepare:
  "\<exists>s. sm_Prepare demo_secrets secret_operation secret_system = (None, s) \<and> dk_faults (sys_runtime s) = []"
  by (simp add: demo_secrets_def autback_secrets_def sm_Prepare_def secret_operation_def secret_system_def on_store_def Job_def
      secret_job_def queued_job_row_def scanJob_def on_files_def on_machine_def disk_fs_def io_def io_change_def io_read_def
      temporary_name_def demo_paths demo_number fill_def materialize_one_def Resolve_def read_node_def open_node_def plain_file_def
      maximumValueSize_def record_access_def RecordSecretAccess_def Audit_def insert_audit_def publish_def demo_marshal_def Let_def)

theorem secrets_round_trip_witness:
  "fst (LoadRuntime disk_fs (\<lambda>payload. Inr (demo_bindings (length payload) payload)) (Join [''/jobs'', ''j1'', ''secrets''])
     (sys_runtime (snd (sm_Prepare demo_secrets secret_operation secret_system)))) =
   Inr \<lparr>rv_values = [''hunter2''], rv_environment = [''TOKEN=hunter2'']\<rparr>"
proof -
  let ?s = "snd (sm_Prepare demo_secrets secret_operation secret_system)" and ?job = "scanJob secret_job"
  have run: "sm_Prepare (autback_secrets disk_fs ''/jobs'' ''/run/values'' demo_marshal) secret_operation secret_system = (None, ?s)"
    and reliable: "dk_faults (sys_runtime ?s) = []"
    using demo_prepare by (auto simp: demo_secrets_def)
  have job: "op_kind secret_operation = OperationJob"
      "Job (op_id secret_operation) (sys_store secret_system) = (Inr ?job, sys_store secret_system)" "job_secrets ?job \<noteq> []"
      "plain_name (job_id ?job)" "CHR ''/'' \<notin> set (job_project_id ?job)" "\<forall>b \<in> set (job_secrets ?job). CHR ''/'' \<notin> set (secret_name b)"
    by (simp_all add: secret_operation_def secret_system_def Job_def secret_job_def queued_job_row_def scanJob_def plain_name_def)
  have roots: "is_rooted ''/jobs''" "is_rooted ''/run/values''" "\<not> prefix (parts_of ''/jobs'') (parts_of ''/run/values'')"
    by code_simp+
  obtain vs where vs: "list_all2 (\<lambda>b. secret_of (disk_of secret_system) (parts_of ''/run/values'') (job_project_id ?job) (secret_name b)) (job_secrets ?job) vs"
      "fst (LoadRuntime disk_fs (\<lambda>payload. Inr (demo_bindings (length payload) payload)) (Join [''/jobs'', job_id ?job, ''secrets'']) (sys_runtime ?s)) =
        (if \<exists>b \<in> set (job_secrets ?job). Contains (secret_name b) ''..''
         then Inl (ErrText ''job secret manifest contains an invalid source'')
         else Inr \<lparr>rv_values = vs, rv_environment = environment_of (job_secrets ?job) vs\<rparr>)"
    using secrets_round_trip [where unmarshal = "\<lambda>payload. Inr (demo_bindings (length payload) payload)", OF run job(1-3) demo_json roots job(4-6) reliable] by blast
  have "parts_of ''/run/values'' = [''run'', ''values'']" by code_simp
  then have "vs = [''hunter2'']" using vs(1)
    by (auto simp: secret_job_def queued_job_row_def scanJob_def secret_of_def secret_system_def plain_file_def list_all2_Cons1)
  moreover have "\<not> Contains ''token'' ''..''" by code_simp
  ultimately show ?thesis using vs(2) by (simp add: secret_job_def queued_job_row_def scanJob_def)
qed

end
