(* ===== verification/Engine.thy ===== *)
theory Engine
  imports Secrets Reconciler
begin

text \<open>
  The client of the container engine, \<open>internal/adapter/docker\<close>: the jobs as services of a swarm
  (\<open>swarm.go\<close>), the inventory of resources (\<open>resources.go\<close>), the removal of unused ones (\<open>capacity.go\<close>)
  and the classes of errors (\<open>errors.go\<close>). The engine itself is the record \<open>engine\<close> of the calls that the
  client makes.
\<close>

section \<open>Errors of the engine\<close>

datatype error_class = ErrorNone | ErrorNotFound | ErrorRetryable | ErrorPoisoned | ErrorContract | ErrorPermanent

definition Classify :: "err option \<Rightarrow> error_class" where
  "Classify e =
     (case e of
        None \<Rightarrow> ErrorNone
      | Some e \<Rightarrow>
          let is = (\<lambda>c. err_is e (ErrEngine c)) in
          if is EngineNotFound then ErrorNotFound
          else if is EngineUnavailable \<or> is EngineDeadlineExceeded \<or> is EngineAborted \<or> is EngineResourceExhausted \<or>
            is EngineConflict \<or> is EngineInternal \<or> is EngineTransport \<or> is EngineUnexpectedEOF then ErrorRetryable
          else if is EngineDataLoss \<or> is EngineInvalidArgument then ErrorPoisoned
          else if is EngineNotImplemented \<or> is EngineOutOfRange then ErrorContract
          else ErrorPermanent)"

section \<open>Services and tasks\<close>

text \<open>\<open>mt_tmpfs\<close> is the size of a mount of type \<open>tmpfs\<close>; the others are bind mounts.\<close>

record mount =
  mt_source :: string
  mt_target :: string
  mt_read_only :: bool
  mt_tmpfs :: "int option"

record container_spec =
  co_image :: string
  co_command :: "string list"
  co_args :: "string list"
  co_env :: "string list"
  co_user :: string
  co_init :: bool
  co_mounts :: "mount list"
  co_stop_grace_period :: duration

record resource_envelope =
  CPULimitNano :: int
  CPUReservationNano :: int
  MemoryLimitBytes :: int
  MemoryReservationBytes :: int
  PIDsLimit :: int

text \<open>\<open>ss_replicated_job\<close>: the most tasks at a time and the completions wanted. A job is never restarted.\<close>

record service_spec =
  ss_name :: string
  ss_labels :: "(string \<times> string) list"
  ss_container :: "container_spec option"
  ss_resources :: resource_envelope
  ss_networks :: "string list"
  ss_log_options :: "(string \<times> string) list"
  ss_replicated_job :: "(nat \<times> nat) option"

record service =
  sv_id :: string
  sv_version :: nat
  sv_created_at :: time
  sv_updated_at :: time
  sv_spec :: service_spec

text \<open>\<open>tk_state\<close> is the text of the state; \<open>tk_exit_code\<close> is there when the task has a container status.\<close>

record task =
  tk_node_id :: string
  tk_created_at :: time
  tk_updated_at :: time
  tk_state :: string
  tk_timestamp :: time
  tk_err :: string
  tk_exit_code :: "int option"

record engine_object =
  eo_id :: string
  eo_labels :: "(string \<times> string) list"
  eo_created :: string

record engine_image =
  im_id :: string
  im_repo_tags :: "string list"
  im_repo_digests :: "string list"
  im_created :: int

text \<open>
  \<open>en_ServiceLogs\<close>: the pieces of the log that \<open>StdCopy\<close> writes and the error it ends with. The filters
  of the removals are lists of terms.
\<close>

record 'w engine =
  en_ClientVersion :: "'w \<Rightarrow> string"
  en_Info :: "'w \<Rightarrow> (err + string) \<times> 'w"
  en_ServiceCreate :: "service_spec \<Rightarrow> 'w \<Rightarrow> (err + string) \<times> 'w"
  en_ServiceInspect :: "string \<Rightarrow> 'w \<Rightarrow> (err + service) \<times> 'w"
  en_ServiceList :: "(string \<times> string) list \<Rightarrow> 'w \<Rightarrow> (err + service list) \<times> 'w"
  en_TaskList :: "string \<Rightarrow> 'w \<Rightarrow> (err + task list) \<times> 'w"
  en_ServiceUpdate :: "string \<Rightarrow> nat \<Rightarrow> service_spec \<Rightarrow> 'w \<Rightarrow> err option \<times> 'w"
  en_ServiceRemove :: "string \<Rightarrow> 'w \<Rightarrow> err option \<times> 'w"
  en_ServiceLogs :: "string \<Rightarrow> bool \<Rightarrow> 'w \<Rightarrow> (err + (string list \<times> err option)) \<times> 'w"
  en_ImagePull :: "string \<Rightarrow> 'w \<Rightarrow> err option \<times> 'w"
  en_ImageInspect :: "string \<Rightarrow> 'w \<Rightarrow> (err + string) \<times> 'w"
  en_ContainerList :: "'w \<Rightarrow> (err + engine_object list) \<times> 'w"
  en_NetworkList :: "'w \<Rightarrow> (err + engine_object list) \<times> 'w"
  en_VolumeList :: "'w \<Rightarrow> (err + engine_object list) \<times> 'w"
  en_ContainerRemove :: "string \<Rightarrow> 'w \<Rightarrow> err option \<times> 'w"
  en_NetworkRemove :: "string \<Rightarrow> 'w \<Rightarrow> err option \<times> 'w"
  en_VolumeRemove :: "string \<Rightarrow> 'w \<Rightarrow> err option \<times> 'w"
  en_ContainerPrune :: "(string \<times> string) list \<Rightarrow> 'w \<Rightarrow> err option \<times> 'w"
  en_NetworkPrune :: "(string \<times> string) list \<Rightarrow> 'w \<Rightarrow> err option \<times> 'w"
  en_VolumePrune :: "(string \<times> string) list \<Rightarrow> 'w \<Rightarrow> err option \<times> 'w"
  en_ImagePrune :: "(string \<times> string) list \<Rightarrow> 'w \<Rightarrow> err option \<times> 'w"
  en_ImageList :: "'w \<Rightarrow> (err + engine_image list) \<times> 'w"
  en_ImageRemove :: "string \<Rightarrow> 'w \<Rightarrow> err option \<times> 'w"

definition wrap_error :: "string \<Rightarrow> (err + 'a) \<times> 'w \<Rightarrow> (err + 'a) \<times> 'w" where
  "wrap_error what r = (case r of (Inl e, w) \<Rightarrow> (Inl (ErrWrap what e), w) | (Inr x, w) \<Rightarrow> (Inr x, w))"

definition wrap_failure :: "string \<Rightarrow> err option \<times> 'w \<Rightarrow> err option \<times> 'w" where
  "wrap_failure what r = (case r of (Some e, w) \<Rightarrow> (Some (ErrWrap what e), w) | (None, w) \<Rightarrow> (None, w))"

definition label :: "(string \<times> string) list \<Rightarrow> string \<Rightarrow> string" where
  "label labels key = (case map_of labels key of None \<Rightarrow> [] | Some v \<Rightarrow> v)"

definition managedLabel :: string where
  "managedLabel = ''autback.managed''"

definition cancelledLabel :: string where
  "cancelledLabel = ''autback.cancelled''"

definition fallback :: "string \<Rightarrow> string \<Rightarrow> string" where
  "fallback value defaultValue = (if value = [] then defaultValue else value)"

section \<open>The engine is fit\<close>

definition parseAPIVersion :: "string \<Rightarrow> (int \<times> int) option" where
  "parseAPIVersion value =
     (case cut CHR ''.'' value of
        None \<Rightarrow> None
      | Some (majorText, minorText) \<Rightarrow>
          (case (Atoi majorText, Atoi minorText) of (Some major, Some minor) \<Rightarrow> Some (major, minor) | _ \<Rightarrow> None))"

definition apiVersionAtLeast :: "string \<Rightarrow> string \<Rightarrow> bool" where
  "apiVersionAtLeast actual minimum =
     (case (parseAPIVersion actual, parseAPIVersion minimum) of
        (Some (actualMajor, actualMinor), Some (minimumMajor, minimumMinor)) \<Rightarrow>
          actualMajor > minimumMajor \<or> actualMajor = minimumMajor \<and> actualMinor \<ge> minimumMinor
      | _ \<Rightarrow> False)"

definition minimumRuntimeAPI :: string where
  "minimumRuntimeAPI = ''1.41''"

definition Client_Check :: "'w engine \<Rightarrow> 'w \<Rightarrow> err option \<times> 'w" where
  "Client_Check en w =
     (case en_Info en w of
        (Inl e, w) \<Rightarrow> (Some (ErrWrap ''inspect Docker Swarm'' e), w)
      | (Inr state, w) \<Rightarrow>
          if \<not> apiVersionAtLeast (en_ClientVersion en w) minimumRuntimeAPI
          then (Some (ErrWrap (''Docker Engine API '' @ en_ClientVersion en w @ '' is below Autback minimum '' @ minimumRuntimeAPI)
            (ErrEngine EngineOutOfRange)), w)
          else if state \<noteq> ''active''
          then (Some (ErrText (''Docker Swarm is '' @ fallback state ''unavailable'' @ '', want active'')), w)
          else (None, w))"

definition Client_ValidateImage :: "'w engine \<Rightarrow> string \<Rightarrow> 'w \<Rightarrow> err option \<times> 'w" where
  "Client_ValidateImage en ref w =
     (case en_ImagePull en ref w of
        (Some e, w) \<Rightarrow> (Some (ErrWrap (''pull image '' @ ref) e), w)
      | (None, w) \<Rightarrow>
          (case en_ImageInspect en ref w of
             (Inl e, w) \<Rightarrow> (Some (ErrWrap (''inspect image '' @ ref) e), w)
           | (Inr i, w) \<Rightarrow>
               if \<not> HasPrefix i ''sha256:'' then (Some (ErrWrap (''inspect image '' @ ref) (ErrEngine EngineDataLoss)), w)
               else (None, w)))"

section \<open>A job as a service\<close>

record swarm_cache =
  sw_cache_name :: string
  sw_cache_target :: string

record swarm_secret =
  sw_secret_source :: string
  sw_secret_target :: string

record spec =
  sp_ID :: string
  sp_Image :: string
  sp_CASAddress :: string
  sp_CASInstance :: string
  sp_RootDigest :: string
  sp_JobsRoot :: string
  sp_Command :: "string list"
  sp_WorkingDirectory :: string
  sp_Environment :: "(string \<times> string) list"
  sp_EntrypointHostPath :: string
  sp_Timeout :: duration
  sp_CacheRoot :: string
  sp_ProjectID :: string
  sp_Caches :: "swarm_cache list"
  sp_Secrets :: "swarm_secret list"
  sp_HasSecrets :: bool
  sp_HostUID :: string
  sp_HostGID :: string
  sp_Resources :: resource_envelope

definition Envelope_Validate :: "resource_envelope \<Rightarrow> err option" where
  "Envelope_Validate r =
     (if CPULimitNano r \<le> 0 \<or> CPUReservationNano r \<le> 0 \<or> MemoryLimitBytes r \<le> 0 \<or> MemoryReservationBytes r \<le> 0 \<or> PIDsLimit r \<le> 0
      then Some (ErrText ''job CPU, memory, and PID resource limits are required'')
      else if CPUReservationNano r > CPULimitNano r \<or> MemoryReservationBytes r > MemoryLimitBytes r
      then Some (ErrText ''job resource reservations cannot exceed limits'')
      else None)"

definition encodeLabel :: "string \<Rightarrow> string" where
  "encodeLabel value = b64_encode value"

definition decodeLabel :: "string \<Rightarrow> string" where
  "decodeLabel value = (case b64_decode value of None \<Rightarrow> value | Some decoded \<Rightarrow> decoded)"

definition spec_workspace :: "spec \<Rightarrow> string" where
  "spec_workspace spec = Join [sp_JobsRoot spec, sp_ID spec, ''workspace'']"

definition spec_environment :: "spec \<Rightarrow> string list" where
  "spec_environment spec =
     [''AUTBACK_JOB_ID='' @ sp_ID spec,
      ''AUTBACK_WORKSPACE='' @ spec_workspace spec,
      ''AUTBACK_HOST_UID='' @ sp_HostUID spec,
      ''AUTBACK_HOST_GID='' @ sp_HostGID spec,
      ''AUTBACK_CAS_ADDRESS='' @ sp_CASAddress spec,
      ''AUTBACK_CAS_INSTANCE='' @ fallback (sp_CASInstance spec) ''autback'',
      ''AUTBACK_ROOT_DIGEST='' @ sp_RootDigest spec,
      ''AUTBACK_TIMEOUT_MILLIS='' @ FormatInt (Milliseconds (sp_Timeout spec)),
      ''AUTBACK_WORKING_DIRECTORY='' @ fallback (sp_WorkingDirectory spec) ''.'',
      ''TESTCONTAINERS_HOST_OVERRIDE=localhost'',
      ''TESTCONTAINERS_DOCKER_SOCKET_OVERRIDE=/var/run/docker.sock'',
      ''RYUK_RECONNECTION_TIMEOUT=5s'',
      ''TMPDIR=/tmp'',
      ''TEST_DATA_DIR='' @ Join [spec_workspace spec, ''.autback'', ''data'']] @
     map (\<lambda>key. key @ ''='' @ label (sp_Environment spec) key) (sort (remdups (map fst (sp_Environment spec))))"

definition bind_mount :: "string \<Rightarrow> string \<Rightarrow> bool \<Rightarrow> mount" where
  "bind_mount source target readOnly = \<lparr>mt_source = source, mt_target = target, mt_read_only = readOnly, mt_tmpfs = None\<rparr>"

definition RuntimeDirectory :: string where
  "RuntimeDirectory = ''/run/autback/secrets''"

definition spec_mounts :: "spec \<Rightarrow> mount list" where
  "spec_mounts spec =
     [bind_mount (sp_JobsRoot spec) (sp_JobsRoot spec) False,
      bind_mount ''/var/run/docker.sock'' ''/var/run/docker.sock'' False,
      \<lparr>mt_source = [], mt_target = ''/dev/shm'', mt_read_only = False, mt_tmpfs = Some (2 ^ 30)\<rparr>] @
     (if sp_HasSecrets spec
      then [bind_mount (Join [sp_JobsRoot spec, sp_ID spec, ''secrets'']) RuntimeDirectory True] else []) @
     map (\<lambda>secret. bind_mount (sw_secret_source secret) (sw_secret_target secret) True) (sp_Secrets spec) @
     map (\<lambda>cache. bind_mount (Join [sp_CacheRoot spec, sp_ProjectID spec, sw_cache_name cache]) (sw_cache_target cache) False)
       (sort_key (\<lambda>cache. (sw_cache_name cache, sw_cache_target cache)) (sp_Caches spec)) @
     (if sp_EntrypointHostPath spec \<noteq> []
      then [bind_mount (sp_EntrypointHostPath spec) ''/usr/local/bin/autback-job-entrypoint'' True] else [])"

text \<open>\<open>int(Timeout.Seconds())\<close>, exact for the timeouts that the API accepts.\<close>

definition Seconds :: "duration \<Rightarrow> int" where
  "Seconds d = sgn d * (\<bar>d\<bar> div second)"

definition spec_labels :: "spec \<Rightarrow> (string \<times> string) list" where
  "spec_labels spec =
     [(managedLabel, ''true''), (''autback.project'', sp_ProjectID spec), (''autback.job'', sp_ID spec),
      (''autback.image'', encodeLabel (sp_Image spec)), (''autback.timeout_seconds'', FormatInt (Seconds (sp_Timeout spec))),
      (''autback.root_digest'', sp_RootDigest spec)]"

definition serviceSpec :: "spec \<Rightarrow> service_spec" where
  "serviceSpec spec =
     \<lparr>ss_name = sp_ID spec, ss_labels = spec_labels spec,
      ss_container = Some
        \<lparr>co_image = sp_Image spec, co_command = [''/usr/local/bin/autback-job-entrypoint''], co_args = sp_Command spec,
         co_env = spec_environment spec, co_user = ''0:0'', co_init = True, co_mounts = spec_mounts spec,
         co_stop_grace_period = 15 * second\<rparr>,
      ss_resources = sp_Resources spec, ss_networks = [''host''],
      ss_log_options = [(''max-size'', ''10m''), (''max-file'', ''2'')],
      ss_replicated_job = Some (1, 1)\<rparr>"

definition Client_Create :: "'w engine \<Rightarrow> spec \<Rightarrow> 'w \<Rightarrow> (err + string) \<times> 'w" where
  "Client_Create en spec w =
     (if sp_ID spec = [] then (Inl (ErrWrap ''job ID is required'' (ErrEngine EngineInvalidArgument)), w)
      else if sp_Image spec = [] then (Inl (ErrWrap ''project image is required'' (ErrEngine EngineInvalidArgument)), w)
      else case Envelope_Validate (sp_Resources spec) of
        Some e \<Rightarrow> (Inl (ErrWrap (''job resource envelope: '' @ (case e of ErrText text \<Rightarrow> text | _ \<Rightarrow> [])) (ErrEngine EngineOutOfRange)), w)
      | None \<Rightarrow> wrap_error (''create Swarm job '' @ sp_ID spec) (en_ServiceCreate en (serviceSpec spec) w))"

section \<open>The state of a service\<close>

definition runtimeTaskStatus :: "string \<Rightarrow> int \<Rightarrow> bool \<Rightarrow> status" where
  "runtimeTaskStatus state exitCode cancelled =
     (if cancelled then StatusCancelled
      else if state \<in> set [''new'', ''allocated'', ''pending'', ''assigned'', ''accepted'', ''preparing'', ''ready'', ''starting'']
      then StatusQueued
      else if state = ''running'' then StatusRunning
      else if state = ''complete'' then (if exitCode = 0 then StatusSucceeded else StatusFailed)
      else if state = ''failed'' \<or> state = ''rejected'' then (if exitCode = 124 then StatusTimedOut else StatusFailed)
      else StatusLost)"

definition resourceFailureMessage :: "int \<Rightarrow> string \<Rightarrow> string" where
  "resourceFailureMessage exitCode runtimeError =
     (let lower = ToLower runtimeError;
          diagnosis =
            (if exitCode = 137 \<or> Contains lower ''oom'' \<or> Contains lower ''out of memory''
             then Some ''workload exceeded the memory/resource envelope or was OOM-killed; inspect cgroup memory.events and PSI telemetry''
             else if Contains lower ''pids limit'' \<or> Contains lower ''resource temporarily unavailable'' \<or> Contains lower ''cannot fork''
             then Some ''workload exceeded its process/PID limit; inspect cgroup pids.current and pids.max''
             else if Contains lower ''no space left'' \<and> Contains lower ''inode''
             then Some ''worker inode capacity was exhausted; inspect disk inode telemetry and capacity status''
             else if Contains lower ''no space left''
             then Some ''worker disk capacity was exhausted; inspect disk telemetry and capacity status''
             else None)
      in case diagnosis of
           None \<Rightarrow> runtimeError
         | Some text \<Rightarrow> if runtimeError = [] then text else text @ '': '' @ runtimeError)"

definition poisonedService :: "string \<Rightarrow> string \<Rightarrow> err" where
  "poisonedService i detail = ErrWrap (''inspect Swarm job '' @ i @ '': '' @ detail) (ErrEngine EngineDataLoss)"

definition required_labels :: "string list" where
  "required_labels =
     [managedLabel, ''autback.project'', ''autback.job'', ''autback.image'', ''autback.timeout_seconds'', ''autback.root_digest'']"

definition service_error :: "string \<Rightarrow> service \<Rightarrow> err option" where
  "service_error i service =
     (let labels = ss_labels (sv_spec service) in
      if sv_id service = [] then Some (poisonedService i ''missing service ID'')
      else case find (\<lambda>key. label labels key = []) required_labels of
        Some key \<Rightarrow> Some (poisonedService i (''missing '' @ key @ '' label''))
      | None \<Rightarrow>
          if label labels managedLabel \<noteq> ''true'' then Some (poisonedService i (''invalid '' @ managedLabel @ '' label''))
          else if label labels ''autback.job'' \<noteq> i
          then Some (poisonedService i ''autback.job label does not match service name'')
          else case Atoi (label labels ''autback.timeout_seconds'') of
            None \<Rightarrow> Some (poisonedService i ''invalid autback.timeout_seconds label'')
          | Some n \<Rightarrow> if n < 0 then Some (poisonedService i ''invalid autback.timeout_seconds label'') else None)"

definition job_without_tasks :: "string \<Rightarrow> service \<Rightarrow> container_spec \<Rightarrow> remote_job" where
  "job_without_tasks i service container =
     (let labels = ss_labels (sv_spec service); cancelled = (label labels cancelledLabel = ''true'') in
      \<lparr>r_id = i, r_project_id = label labels ''autback.project'', r_image = decodeLabel (label labels ''autback.image''),
       r_command = co_args container, r_root_digest = label labels ''autback.root_digest'',
       r_status = (if cancelled then StatusCancelled else StatusQueued), r_worker_id = [],
       r_created_at = sv_created_at service, r_started_at = None,
       r_finished_at = (if cancelled then Some (sv_updated_at service) else None),
       r_timeout_seconds = the (Atoi (label labels ''autback.timeout_seconds'')), r_cancel_requested = cancelled,
       r_exit_code = None, r_error_message = []\<rparr>)"

text \<open>The exit code of a task without container status is made up: 130 after a cancellation, 1 when it is finished.\<close>

definition task_exit_code :: "bool \<Rightarrow> task \<Rightarrow> int" where
  "task_exit_code cancelled t =
     (case tk_exit_code t of
        Some code \<Rightarrow> code
      | None \<Rightarrow> if cancelled then 130 else if Terminal (runtimeTaskStatus (tk_state t) 1 False) then 1 else 0)"

definition task_error_message :: "task \<Rightarrow> int \<Rightarrow> status \<Rightarrow> string" where
  "task_error_message t exitCode status =
     (let message = resourceFailureMessage exitCode (tk_err t) in
      if message = [] \<and> status \<noteq> StatusCancelled then
        (if tk_exit_code t = None then ''Swarm task entered terminal state '' @ Quote (tk_state t) @ '' without container status''
         else if status = StatusLost then ''Swarm task entered non-success state '' @ Quote (tk_state t)
         else [])
      else message)"

definition job_with_task :: "remote_job \<Rightarrow> task \<Rightarrow> remote_job" where
  "job_with_task job t =
     (let exitCode = task_exit_code (r_cancel_requested job) t;
          status = runtimeTaskStatus (tk_state t) exitCode (r_cancel_requested job);
          job = job\<lparr>r_status := status, r_worker_id := tk_node_id t,
                    r_started_at := if tk_created_at t = zero_time then r_started_at job else Some (tk_created_at t)\<rparr>
      in if Terminal status
         then job\<lparr>r_finished_at := Some (if tk_timestamp t = zero_time then tk_updated_at t else tk_timestamp t),
                  r_exit_code := Some exitCode, r_error_message := task_error_message t exitCode status\<rparr>
         else job)"

text \<open>The newest task counts; the sort of few tasks is stable.\<close>

definition observed_job :: "string \<Rightarrow> service \<Rightarrow> container_spec \<Rightarrow> task list \<Rightarrow> remote_job" where
  "observed_job i service container tasks =
     (case sort_key (\<lambda>t. - tk_created_at t) tasks of
        [] \<Rightarrow> job_without_tasks i service container
      | t # ts \<Rightarrow> job_with_task (job_without_tasks i service container) t)"

definition service_status :: "'w engine \<Rightarrow> service \<Rightarrow> string \<Rightarrow> 'w \<Rightarrow> (err + remote_job) \<times> 'w" where
  "service_status en service fallbackID w =
     (let i = fallback (ss_name (sv_spec service)) fallbackID in
      case ss_container (sv_spec service) of
        None \<Rightarrow> (Inl (ErrWrap (''inspect Swarm job '' @ i @ '': missing container spec'') (ErrEngine EngineDataLoss)), w)
      | Some container \<Rightarrow>
          (case service_error i service of
             Some e \<Rightarrow> (Inl e, w)
           | None \<Rightarrow>
               bindR (wrap_error (''list Swarm job '' @ i @ '' tasks'') (en_TaskList en (sv_id service) w)) (\<lambda>tasks w.
               (Inr (observed_job i service container tasks), w))))"

definition Client_Status :: "'w engine \<Rightarrow> string \<Rightarrow> 'w \<Rightarrow> (err + remote_job) \<times> 'w" where
  "Client_Status en i w =
     bindR (wrap_error (''inspect Swarm job '' @ i) (en_ServiceInspect en i w)) (\<lambda>service w. service_status en service i w)"

section \<open>Logs, cancellation and removal of services\<close>

text \<open>\<open>ctx_err\<close> reads \<open>ctx.Err()\<close>.\<close>

definition Client_Logs :: "'w engine \<Rightarrow> ('w \<Rightarrow> err option) \<Rightarrow> string \<Rightarrow> bool \<Rightarrow> 'w \<Rightarrow> (string list \<times> err option) \<times> 'w" where
  "Client_Logs en ctx_err i follow w =
     (case en_ServiceLogs en i follow w of
        (Inl e, w) \<Rightarrow> (([], Some (ErrWrap (''read Swarm job '' @ i @ '' logs'') e)), w)
      | (Inr (chunks, copied), w) \<Rightarrow>
          (case copied of
             Some e \<Rightarrow> if ctx_err w = None then ((chunks, Some (ErrWrap (''read Swarm job '' @ i @ '' logs'') e)), w) else ((chunks, ctx_err w), w)
           | None \<Rightarrow> ((chunks, ctx_err w), w)))"

definition cancelled_spec :: "service_spec \<Rightarrow> service_spec" where
  "cancelled_spec spec =
     spec\<lparr>ss_labels := (cancelledLabel, ''true'') # filter (\<lambda>(k, v). k \<noteq> cancelledLabel) (ss_labels spec),
          ss_replicated_job := map_option (\<lambda>(concurrent, _). (concurrent, 0)) (ss_replicated_job spec)\<rparr>"

text \<open>One turn of the loop of \<open>Cancel\<close>: a result, or another attempt.\<close>

definition cancel_turn :: "'w engine \<Rightarrow> string \<Rightarrow> bool \<Rightarrow> 'w \<Rightarrow> err option option \<times> 'w" where
  "cancel_turn en i final w =
     (case en_ServiceInspect en i w of
        (Inl e, w) \<Rightarrow>
          (Some (if Classify (Some e) = ErrorNotFound then None
                 else Some (ErrWrap (''inspect Swarm job '' @ i @ '' for cancellation'') e)), w)
      | (Inr service, w) \<Rightarrow>
          if ss_replicated_job (sv_spec service) = None
          then (Some (Some (ErrWrap (''cancel Swarm job '' @ i @ '': service is not a replicated job'') (ErrEngine EngineDataLoss))), w)
          else case en_ServiceUpdate en (sv_id service) (sv_version service) (cancelled_spec (sv_spec service)) w of
            (None, w) \<Rightarrow> (Some None, w)
          | (Some e, w) \<Rightarrow>
              if Classify (Some e) = ErrorNotFound then (Some None, w)
              else if Classify (Some e) \<noteq> ErrorRetryable \<or> final then (Some (Some (ErrWrap (''cancel Swarm job '' @ i) e)), w)
              else (None, w))"

fun cancel_loop :: "'w engine \<Rightarrow> string \<Rightarrow> nat \<Rightarrow> 'w \<Rightarrow> err option \<times> 'w" where
  "cancel_loop en i 0 w = (None, w)"
| "cancel_loop en i (Suc n) w =
     (case cancel_turn en i (n = 0) w of (Some result, w) \<Rightarrow> (result, w) | (None, w) \<Rightarrow> cancel_loop en i n w)"

definition Client_Cancel :: "'w engine \<Rightarrow> string \<Rightarrow> 'w \<Rightarrow> err option \<times> 'w" where
  "Client_Cancel en i w = cancel_loop en i 3 w"

definition Client_Remove :: "'w engine \<Rightarrow> string \<Rightarrow> 'w \<Rightarrow> err option \<times> 'w" where
  "Client_Remove en i w =
     (case en_ServiceRemove en i w of
        (None, w) \<Rightarrow> (None, w)
      | (Some e, w) \<Rightarrow> if Classify (Some e) = ErrorNotFound then (None, w) else (Some (ErrWrap (''remove Swarm job '' @ i) e), w))"

definition zero_remote_job :: remote_job where
  "zero_remote_job =
     \<lparr>r_id = [], r_project_id = [], r_image = [], r_command = [], r_root_digest = [], r_status = StatusPreparing, r_worker_id = [],
      r_created_at = zero_time, r_started_at = None, r_finished_at = None, r_timeout_seconds = 0, r_cancel_requested = False,
      r_exit_code = None, r_error_message = []\<rparr>"

text \<open>
  A result with an error holds the zero value of \<open>protocol.Job\<close>; its status is the empty text, which
  no reader looks at.
\<close>

definition job_result :: "'w engine \<Rightarrow> service \<Rightarrow> 'w \<Rightarrow> runtime_job \<times> 'w" where
  "job_result en summary w =
     (let i = fallback (ss_name (sv_spec summary)) (sv_id summary) in
      case en_ServiceInspect en (fallback (sv_id summary) i) w of
        (Inl e, w) \<Rightarrow> (\<lparr>rj_id = i, rj_job = zero_remote_job, rj_err = Some (ErrWrap (''inspect Swarm job '' @ i) e)\<rparr>, w)
      | (Inr service, w) \<Rightarrow>
          (case service_status en service i w of
             (Inl e, w) \<Rightarrow> (\<lparr>rj_id = i, rj_job = zero_remote_job, rj_err = Some e\<rparr>, w)
           | (Inr job, w) \<Rightarrow> (\<lparr>rj_id = i, rj_job = job, rj_err = None\<rparr>, w)))"

fun job_results :: "'w engine \<Rightarrow> service list \<Rightarrow> 'w \<Rightarrow> runtime_job list \<times> 'w" where
  "job_results en [] w = ([], w)"
| "job_results en (summary # rest) w =
     (let (result, w) = job_result en summary w; (results, w) = job_results en rest w in (result # results, w))"

definition ListResults :: "'w engine \<Rightarrow> 'w \<Rightarrow> (runtime_job list \<times> err option) \<times> 'w" where
  "ListResults en w =
     (case en_ServiceList en [(''label'', managedLabel @ ''=true'')] w of
        (Inl e, w) \<Rightarrow> (([], Some (ErrWrap ''list Swarm jobs'' e)), w)
      | (Inr services, w) \<Rightarrow>
          (let (results, w) = job_results en services w
           in ((sort_key (\<lambda>r. (- r_created_at (rj_job r), rj_id r)) results, None), w)))"

section \<open>Resources\<close>

definition managed :: "(string \<times> string) list \<Rightarrow> bool" where
  "managed labels \<longleftrightarrow> label labels managedLabel = ''true''"

definition protectedContainer :: "(string \<times> string) list \<Rightarrow> bool" where
  "protectedContainer labels \<longleftrightarrow>
     managed labels \<or> label labels ''com.docker.swarm.service.id'' \<noteq> [] \<or> label labels ''com.docker.swarm.task.id'' \<noteq> []"

text \<open>A volume has no identifier but its name; the time of its creation tells it from a later one.\<close>

definition volume_key :: "engine_object \<Rightarrow> string" where
  "volume_key v = eo_id v @ (if eo_created v \<noteq> [] then CHR 0x00 # eo_created v else [])"

definition inventory_of :: "service list \<Rightarrow> engine_object list \<Rightarrow> engine_object list \<Rightarrow> engine_object list \<Rightarrow> resource_set" where
  "inventory_of services containers networks volumes =
     \<lparr>rs_services = sort (map sv_id (filter (\<lambda>s. \<not> managed (ss_labels (sv_spec s))) services)),
      rs_containers = sort (map eo_id (filter (\<lambda>c. \<not> protectedContainer (eo_labels c)) containers)),
      rs_networks = sort (map eo_id (filter (\<lambda>n. \<not> managed (eo_labels n)) networks)),
      rs_volumes = sort (map volume_key (filter (\<lambda>v. \<not> managed (eo_labels v)) volumes))\<rparr>"

definition Client_Inventory :: "'w engine \<Rightarrow> 'w \<Rightarrow> (err + resource_set) \<times> 'w" where
  "Client_Inventory en w =
     bindR (wrap_error ''list Docker services'' (en_ServiceList en [] w)) (\<lambda>services w.
     bindR (wrap_error ''list Docker containers'' (en_ContainerList en w)) (\<lambda>containers w.
     bindR (wrap_error ''list Docker networks'' (en_NetworkList en w)) (\<lambda>networks w.
     bindR (wrap_error ''list Docker volumes'' (en_VolumeList en w)) (\<lambda>volumes w.
     (Inr (inventory_of services containers networks volumes), w)))))"

definition classifyRemoval :: "string \<Rightarrow> string \<Rightarrow> err option \<times> 'w \<Rightarrow> err option \<times> 'w" where
  "classifyRemoval kind i r =
     (case r of
        (None, w) \<Rightarrow> (None, w)
      | (Some e, w) \<Rightarrow>
          if Classify (Some e) = ErrorNotFound then (None, w)
          else (Some (ErrWrap (''remove Docker '' @ kind @ '' '' @ i) e), w))"

definition docker_resources :: "'w engine \<Rightarrow> 'w resource_runtime" where
  "docker_resources en =
     \<lparr>Inventory = Client_Inventory en,
      RemoveService = \<lambda>i w. classifyRemoval ''service'' i (en_ServiceRemove en i w),
      RemoveContainer = \<lambda>i w. classifyRemoval ''container'' i (en_ContainerRemove en i w),
      RemoveNetwork = \<lambda>i w. classifyRemoval ''network'' i (en_NetworkRemove en i w),
      RemoveVolume = \<lambda>i w.
        (let name = (case cut CHR 0x00 i of None \<Rightarrow> i | Some (name, _) \<Rightarrow> name)
         in classifyRemoval ''volume'' name (en_VolumeRemove en name w))\<rparr>"

section \<open>Unused resources\<close>

definition dockerDuration :: "duration \<Rightarrow> string" where
  "dockerDuration d =
     (let d = (if d \<le> 0 then 24 * hour else d) in
      if d mod hour = 0 then FormatInt (d div hour) @ ''h''
      else if d mod minute = 0 then FormatInt (d div minute) @ ''m''
      else Duration_String d)"

definition runtime_image_of :: "engine_image \<Rightarrow> runtime_image" where
  "runtime_image_of i =
     \<lparr>ri_ID = im_id i, ri_RepoTags = im_repo_tags i, ri_RepoDigests = im_repo_digests i, ri_CreatedAt = im_created i * second\<rparr>"

definition docker_capacity :: "'w engine \<Rightarrow> 'w capacity_runtime" where
  "docker_capacity en =
     \<lparr>PruneContainers = \<lambda>age all w. wrap_failure ''prune Docker containers''
        (en_ContainerPrune en ((''until'', dockerDuration age) # (if all then [] else [(''label'', ''org.testcontainers=true'')])) w),
      PruneNetworks = \<lambda>age w. wrap_failure ''prune Docker networks'' (en_NetworkPrune en [(''until'', dockerDuration age)] w),
      PruneVolumes = \<lambda>w. wrap_failure ''prune Docker volumes'' (en_VolumePrune en [] w),
      PruneImages = \<lambda>age w. wrap_failure ''prune Docker images''
        (en_ImagePrune en [(''dangling'', ''true''), (''until'', dockerDuration age)] w),
      ListImages = \<lambda>w. bindR (wrap_error ''list Docker images'' (en_ImageList en w)) (\<lambda>images w. (Inr (map runtime_image_of images), w)),
      RemoveImage = \<lambda>i w. classifyRemoval ''image'' i (en_ImageRemove en i w)\<rparr>"

end
