(* ===== verification/Requests.thy ===== *)
theory Requests
  imports Control_Model Filepath Redact "HOL-Library.Sublist"
begin

text \<open>
  The checks of \<open>internal/control/controlapi/server.go\<close> on what a client asks for: the patterns,
  \<open>validateJob\<close>, \<open>validateSecrets\<close>, \<open>validateCaches\<close>, \<open>pathsOverlap\<close> and \<open>headerContainsToken\<close>,
  and from \<open>cmd/autback-job-entrypoint/main.go\<close> the function that takes the checked working
  directory, \<open>resolveWorkingDirectory\<close>. A message of the wire protocol is a record of its fields;
  a map is the list of its entries in the order in which the code meets them, and a duration is
  what the library decodes, \<open>None\<close> when it finds it invalid.
\<close>

section \<open>Patterns\<close>

definition in_range :: "char \<Rightarrow> char \<Rightarrow> char \<Rightarrow> bool" where
  "in_range lo hi c \<longleftrightarrow> (of_char lo :: nat) \<le> of_char c \<and> (of_char c :: nat) \<le> of_char hi"

definition lower_hex :: "char \<Rightarrow> bool" where
  "lower_hex c \<longleftrightarrow> in_range CHR ''0'' CHR ''9'' c \<or> in_range CHR ''a'' CHR ''f'' c"

definition digit :: "char \<Rightarrow> bool" where
  "digit c \<longleftrightarrow> in_range CHR ''0'' CHR ''9'' c"

definition letter :: "char \<Rightarrow> bool" where
  "letter c \<longleftrightarrow> in_range CHR ''A'' CHR ''Z'' c \<or> in_range CHR ''a'' CHR ''z'' c"

definition imageDigestPattern :: "string \<Rightarrow> bool" where
  "imageDigestPattern s \<longleftrightarrow>
     (let n = length s - 72 in
        72 < length s \<and> CHR 0x0A \<notin> set (take n s) \<and>
        take 8 (drop n s) = ''@sha256:'' \<and> list_all lower_hex (drop (n + 8) s))"

definition rootDigestPattern :: "string \<Rightarrow> bool" where
  "rootDigestPattern s \<longleftrightarrow>
     list_all lower_hex (take 64 s) \<and>
     (case drop 64 s of
        slash # first # rest \<Rightarrow> slash = CHR ''/'' \<and> in_range CHR ''1'' CHR ''9'' first \<and> list_all digit rest
      | _ \<Rightarrow> False)"

definition environmentKey :: "string \<Rightarrow> bool" where
  "environmentKey s \<longleftrightarrow>
     (case s of [] \<Rightarrow> False
      | c # cs \<Rightarrow> (letter c \<or> c = CHR ''_'') \<and> list_all (\<lambda>c. letter c \<or> digit c \<or> c = CHR ''_'') cs)"

definition idempotencyKeyPattern :: "string \<Rightarrow> bool" where
  "idempotencyKeyPattern s \<longleftrightarrow>
     (case s of [] \<Rightarrow> False
      | c # cs \<Rightarrow> (letter c \<or> digit c) \<and> 7 \<le> length cs \<and> length cs \<le> 127 \<and>
          list_all (\<lambda>c. letter c \<or> digit c \<or> c \<in> set ''._:-'') cs)"

definition cacheNamePattern :: "string \<Rightarrow> bool" where
  "cacheNamePattern s \<longleftrightarrow>
     (case s of [] \<Rightarrow> False
      | c # cs \<Rightarrow> (in_range CHR ''a'' CHR ''z'' c \<or> digit c) \<and> length cs \<le> 62 \<and>
          list_all (\<lambda>c. in_range CHR ''a'' CHR ''z'' c \<or> digit c \<or> c \<in> set ''._-'') cs)"

text \<open>\<open>strings.ToLower\<close> maps no other rune to a character of the two needles.\<close>

definition containsSecretReference :: "string \<Rightarrow> bool" where
  "containsSecretReference v \<longleftrightarrow> Contains (ToLower v) ''secret://'' \<or> Contains (ToLower v) ''${{ secrets.''"

definition pathsOverlap :: "string \<Rightarrow> string \<Rightarrow> bool" where
  "pathsOverlap p q \<longleftrightarrow> p = q \<or> HasPrefix p (q @ ''/'') \<or> HasPrefix q (p @ ''/'')"

text \<open>\<open>http.Header\<close>: the values of each name; \<open>Get\<close> is the first.\<close>

type_synonym header = "string \<Rightarrow> string list"

definition header_get :: "header \<Rightarrow> string \<Rightarrow> string" where
  "header_get h n = (case h n of [] \<Rightarrow> [] | v # _ \<Rightarrow> v)"

definition headerContainsToken :: "header \<Rightarrow> string \<Rightarrow> string \<Rightarrow> bool" where
  "headerContainsToken h n required \<longleftrightarrow>
     list_ex (\<lambda>v. list_ex (\<lambda>token. TrimSpace token = required) (split_on CHR '','' v)) (h n)"

section \<open>Messages\<close>

datatype secret_target = SecretEnvironment string | SecretFile string | SecretTargetUnset

record job_secret =
  js_name :: string
  js_target :: secret_target

record cache_request =
  cr_name :: string
  cr_target :: string

record prepare_job_request =
  pj_project :: string
  pj_image :: string
  pj_command :: "string list"
  pj_working_directory :: string
  pj_environment :: "(string \<times> string) list"
  pj_timeout :: "duration option option"
  pj_idempotency_key :: string
  pj_caches :: "cache_request option list"
  pj_secrets :: "job_secret option list"

text \<open>The errors of the checks, one constructor for each text.\<close>

datatype invalid =
    ImageNotPinned
  | CommandCount
  | CommandNul
  | CommandSecretReference
  | WorkingDirectoryEscapes
  | EnvironmentCount
  | EnvironmentInvalid string
  | EnvironmentSecretReference string
  | TimeoutInvalid
  | TimeoutRange
  | IdempotencyKeyInvalid
  | CacheCount
  | CacheName
  | CacheTarget string
  | CacheNameTwice string
  | CacheTargetTwice string
  | CacheTargetReserved string string
  | SecretCount
  | SecretName
  | SecretNameTwice string
  | SecretEnvironmentInvalid string
  | SecretEnvironmentPublic string
  | SecretFileInvalid string
  | SecretFileOverlaps string string
  | SecretTargetMissing string
  | SecretTargetTwice string

section \<open>Secrets\<close>

text \<open>The body of the loop: the binding of one secret, given what the earlier ones have taken.\<close>

definition secret_binding_of ::
  "(string \<times> string) list \<Rightarrow> string list \<Rightarrow> job_secret \<Rightarrow> invalid + secret_binding" where
  "secret_binding_of environment fileTargets item =
     (case js_target item of
        SecretEnvironment t \<Rightarrow>
          if \<not> environmentKey t \<or> HasPrefix t ''AUTBACK_'' then Inl (SecretEnvironmentInvalid (js_name item))
          else if t \<in> set (map fst environment) then Inl (SecretEnvironmentPublic (js_name item))
          else Inr \<lparr>secret_name = js_name item, secret_environment = t, secret_file = []\<rparr>
      | SecretFile t \<Rightarrow>
          (let clean = Clean t in
           if \<not> is_rooted t \<or> \<not> HasPrefix clean ''/run/secrets/'' \<or> clean = ''/run/secrets''
           then Inl (SecretFileInvalid (js_name item))
           else (case find (pathsOverlap clean) fileTargets of
                   Some existing \<Rightarrow> Inl (SecretFileOverlaps (js_name item) existing)
                 | None \<Rightarrow> Inr \<lparr>secret_name = js_name item, secret_environment = [], secret_file = clean\<rparr>))
      | SecretTargetUnset \<Rightarrow> Inl (SecretTargetMissing (js_name item)))"

definition targetKey :: "secret_binding \<Rightarrow> string" where
  "targetKey b = secret_environment b @ [CHR 0x00] @ secret_file b"

text \<open>
  The loop; \<open>result\<close> holds the bindings so far, latest first, and stands for the maps \<open>names\<close> and
  \<open>targets\<close> and the list \<open>fileTargets\<close> as well, which have an entry for each of its elements.
\<close>

fun validate_secrets_loop ::
  "(string \<times> string) list \<Rightarrow> secret_binding list \<Rightarrow> job_secret option list \<Rightarrow> invalid + secret_binding list" where
  "validate_secrets_loop environment result [] = Inr (rev result)"
| "validate_secrets_loop environment result (None # items) = Inl SecretName"
| "validate_secrets_loop environment result (Some item # items) =
     (if \<not> cacheNamePattern (js_name item) then Inl SecretName
      else if js_name item \<in> secret_name ` set result then Inl (SecretNameTwice (js_name item))
      else case secret_binding_of environment (filter (\<lambda>f. f \<noteq> []) (map secret_file (rev result))) item of
             Inl e \<Rightarrow> Inl e
           | Inr binding \<Rightarrow>
               if targetKey binding \<in> targetKey ` set result then Inl (SecretTargetTwice (targetKey binding))
               else validate_secrets_loop environment (binding # result) items)"

definition validateSecrets ::
  "job_secret option list \<Rightarrow> (string \<times> string) list \<Rightarrow> invalid + secret_binding list" where
  "validateSecrets input environment =
     (if 32 < length input then Inl SecretCount else validate_secrets_loop environment [] input)"

section \<open>Caches\<close>

definition reserved_paths :: "string list" where
  "reserved_paths =
     [''/var/run/docker.sock'', ''/usr/local/bin/autback-job-entrypoint'', ''/run/autback/secrets'', ''/run/secrets'']"

fun validate_caches_loop :: "cache_mount list \<Rightarrow> cache_request option list \<Rightarrow> invalid + cache_mount list" where
  "validate_caches_loop result [] = Inr (rev result)"
| "validate_caches_loop result (None # items) = Inl CacheName"
| "validate_caches_loop result (Some item # items) =
     (let target = Clean (cr_target item) in
      if \<not> cacheNamePattern (cr_name item) then Inl CacheName
      else if \<not> is_rooted (cr_target item) \<or> target = ''/'' \<or> CHR 0x00 \<in> set (cr_target item)
      then Inl (CacheTarget (cr_name item))
      else if cr_name item \<in> cache_name ` set result then Inl (CacheNameTwice (cr_name item))
      else if target \<in> cache_target ` set result then Inl (CacheTargetTwice target)
      else case find (pathsOverlap target) reserved_paths of
             Some p \<Rightarrow> Inl (CacheTargetReserved target p)
           | None \<Rightarrow>
               validate_caches_loop (\<lparr>cache_name = cr_name item, cache_target = target\<rparr> # result) items)"

text \<open>The names are distinct, so every sort by name gives the same list.\<close>

definition validateCaches :: "cache_request option list \<Rightarrow> invalid + cache_mount list" where
  "validateCaches input =
     (if 16 < length input then Inl CacheCount
      else case validate_caches_loop [] input of Inl e \<Rightarrow> Inl e | Inr result \<Rightarrow> Inr (sort_key cache_name result))"

section \<open>Jobs\<close>

fun command_error :: "string list \<Rightarrow> invalid option" where
  "command_error [] = None"
| "command_error (argument # arguments) =
     (if CHR 0x00 \<in> set argument then Some CommandNul
      else if containsSecretReference argument then Some CommandSecretReference
      else command_error arguments)"

fun environment_error :: "(string \<times> string) list \<Rightarrow> invalid option" where
  "environment_error [] = None"
| "environment_error ((key, v) # entries) =
     (if \<not> environmentKey key \<or> HasPrefix key ''AUTBACK_'' \<or> CHR 0x00 \<in> set v then Some (EnvironmentInvalid key)
      else if containsSecretReference v then Some (EnvironmentSecretReference key)
      else environment_error entries)"

definition maximumJobTimeout :: duration where
  "maximumJobTimeout = 24 * hour"

definition checked_timeout :: "duration option option \<Rightarrow> invalid + duration" where
  "checked_timeout t =
     (case (case t of None \<Rightarrow> Inr (30 * minute) | Some None \<Rightarrow> Inl TimeoutInvalid | Some (Some d) \<Rightarrow> Inr d) of
        Inl e \<Rightarrow> Inl e
      | Inr d \<Rightarrow> if d < second \<or> maximumJobTimeout < d then Inl TimeoutRange else Inr d)"

definition validateJob :: "bool \<Rightarrow> string \<Rightarrow> prepare_job_request \<Rightarrow> invalid + prepare_job" where
  "validateJob allowUnpinned projectID m =
     (let workingDirectory = (if pj_working_directory m = [] then ''.'' else pj_working_directory m);
          clean = Clean workingDirectory in
      if pj_image m = [] \<or> \<not> allowUnpinned \<and> \<not> imageDigestPattern (pj_image m) then Inl ImageNotPinned
      else if pj_command m = [] \<or> 128 < length (pj_command m) then Inl CommandCount
      else case command_error (pj_command m) of Some e \<Rightarrow> Inl e | None \<Rightarrow>
      if is_rooted workingDirectory \<or> clean = ''..'' \<or> HasPrefix clean ''../'' then Inl WorkingDirectoryEscapes
      else if 128 < length (pj_environment m) then Inl EnvironmentCount
      else case validateCaches (pj_caches m) of Inl e \<Rightarrow> Inl e | Inr caches \<Rightarrow>
      (case environment_error (pj_environment m) of Some e \<Rightarrow> Inl e | None \<Rightarrow>
      (case validateSecrets (pj_secrets m) (pj_environment m) of Inl e \<Rightarrow> Inl e | Inr secrets \<Rightarrow>
      (case checked_timeout (pj_timeout m) of Inl e \<Rightarrow> Inl e | Inr timeout \<Rightarrow>
      if \<not> idempotencyKeyPattern (pj_idempotency_key m) then Inl IdempotencyKeyInvalid
      else Inr
        \<lparr>prep_project_id = projectID, prep_image = pj_image m, prep_command = pj_command m,
         prep_working_directory = clean, prep_environment = pj_environment m, prep_timeout = timeout,
         prep_caches = caches, prep_secrets = secrets\<rparr>))))"

text \<open>The entrypoint on the worker resolves the working directory that the service was given.\<close>

definition resolveWorkingDirectory :: "string \<Rightarrow> string \<Rightarrow> string option" where
  "resolveWorkingDirectory workspace relative =
     (if relative = [] \<or> relative = ''.'' then Some workspace
      else if is_rooted relative then None
      else let clean = Clean relative in
           if clean = ''..'' \<or> HasPrefix clean ''../'' then None else Some (Join [workspace, clean]))"

section \<open>Paths\<close>

lemma HasPrefix_append: "HasPrefix s p \<longleftrightarrow> (\<exists>z. s = p @ z)"
  by (metis HasPrefix_def append_eq_conv_conj append_take_drop_id)

lemma join_with_append:
  "ps \<noteq> [] \<Longrightarrow> qs \<noteq> [] \<Longrightarrow> join_with sep (ps @ qs) = join_with sep ps @ sep @ join_with sep qs"
proof (induction sep ps rule: join_with.induct)
  case (2 sep x)
  then show ?case by (cases qs) simp_all
qed simp_all

text \<open>The absolute paths in the form that \<open>Clean\<close> gives them, and what it means for one to be below another.\<close>

definition clean_path :: "string \<Rightarrow> bool" where
  "clean_path p \<longleftrightarrow> is_rooted p \<and> Clean p = p \<and> p \<noteq> ''/''"

lemma Clean_clean: "is_rooted p \<Longrightarrow> Clean p \<noteq> ''/'' \<Longrightarrow> clean_path (Clean p)"
  using Clean_rooted [of p] by (simp add: clean_path_def Clean_def)

lemma clean_path_parts:
  assumes "clean_path p"
  shows "p = ''/'' @ join_with ''/'' (parts_of p)" "parts_of p \<noteq> []" "\<forall>x \<in> set (parts_of p). plain_name x"
proof -
  have r: "is_rooted p" "Clean p = p" "p \<noteq> ''/''" using assms by (simp_all add: clean_path_def)
  then show eq: "p = ''/'' @ join_with ''/'' (parts_of p)" by (simp add: Clean_def)
  show "parts_of p \<noteq> []"
  proof
    assume "parts_of p = []"
    then have "p = ''/''" using eq by simp
    then show False using r(3) by contradiction
  qed
  show "\<forall>x \<in> set (parts_of p). plain_name x" using parts_rooted [OF r(1)] .
qed

lemma split_clean:
  assumes "clean_path p" shows "split_on CHR ''/'' p = [] # parts_of p"
proof -
  have "split_on CHR ''/'' (join_with ''/'' (parts_of p)) = parts_of p"
    using clean_path_parts(2,3) [OF assms] by (simp add: split_on_join plain_name_def)
  moreover have "p = CHR ''/'' # join_with ''/'' (parts_of p)" using clean_path_parts(1) [OF assms] by simp
  ultimately show ?thesis by (metis split_on.simps(2))
qed

lemma below_iff:
  assumes "clean_path p" "clean_path q"
  shows "HasPrefix p (q @ ''/'') \<longleftrightarrow> strict_prefix (parts_of q) (parts_of p)"
proof
  assume "HasPrefix p (q @ ''/'')"
  then obtain z where "p = q @ CHR ''/'' # z" by (auto simp: HasPrefix_append)
  then have "[] # parts_of p = ([] # parts_of q) @ split_on CHR ''/'' z"
    using split_clean [OF assms(1)] split_clean [OF assms(2)] split_on_append [of "CHR ''/''" q z] by simp
  then have "parts_of p = parts_of q @ split_on CHR ''/'' z" by simp
  then show "strict_prefix (parts_of q) (parts_of p)" by (simp add: strict_prefix_def)
next
  assume "strict_prefix (parts_of q) (parts_of p)"
  then obtain rs where rs: "parts_of p = parts_of q @ rs" "rs \<noteq> []"
    by (auto simp: strict_prefix_def prefix_def)
  then have "join_with ''/'' (parts_of p) = join_with ''/'' (parts_of q) @ ''/'' @ join_with ''/'' rs"
    using join_with_append clean_path_parts(2) [OF assms(2)] by metis
  then have "p = (q @ ''/'') @ join_with ''/'' rs"
    using clean_path_parts(1) [OF assms(1)] clean_path_parts(1) [OF assms(2)] by (metis append.assoc)
  then show "HasPrefix p (q @ ''/'')" by (auto simp: HasPrefix_append)
qed

definition nested :: "string \<Rightarrow> string \<Rightarrow> bool" where
  "nested p q \<longleftrightarrow> prefix (parts_of p) (parts_of q) \<or> prefix (parts_of q) (parts_of p)"

lemma clean_path_eq: "clean_path p \<Longrightarrow> clean_path q \<Longrightarrow> parts_of p = parts_of q \<longleftrightarrow> p = q"
  using clean_path_parts(1) by metis

lemma pathsOverlap_nested:
  "clean_path p \<Longrightarrow> clean_path q \<Longrightarrow> pathsOverlap p q \<longleftrightarrow> nested p q"
  unfolding pathsOverlap_def nested_def below_iff strict_prefix_def using clean_path_eq by blast

lemma relative_parts:
  assumes "\<forall>c \<in> set cs. CHR ''/'' \<notin> set c" "\<forall>c \<in> set ps. plain_name c"
  shows "\<exists>k qs. clean_parts False (ps @ replicate n ''..'') cs = replicate k ''..'' @ qs \<and> (\<forall>c \<in> set qs. plain_name c)"
  using assms
proof (induction cs arbitrary: ps n)
  case Nil
  have "clean_parts False (ps @ replicate n ''..'') [] = replicate n ''..'' @ rev ps" by simp
  then show ?case using Nil.prems(2) by (metis set_rev)
next
  case (Cons c cs)
  consider "c = [] \<or> c = ''.''" | "c = ''..''" | "plain_name c"
    using Cons.prems(1) by (auto simp: plain_name_def)
  then show ?case
  proof cases
    case 1
    then show ?thesis using Cons.IH [of ps n] Cons.prems by simp
  next
    case 2
    show ?thesis
    proof (cases ps)
      case Nil
      have "clean_parts False (ps @ replicate n ''..'') (c # cs) = clean_parts False ([] @ replicate (Suc n) ''..'') cs"
        using 2 Nil by (cases n) simp_all
      then show ?thesis using Cons.IH [of "[]" "Suc n"] Cons.prems(1) by simp
    next
      case (Cons d ds)
      then have "d \<noteq> ''..''" using \<open>\<forall>c \<in> set ps. plain_name c\<close> by (simp add: plain_name_def)
      then have "clean_parts False (ps @ replicate n ''..'') (c # cs) = clean_parts False (ds @ replicate n ''..'') cs"
        using 2 Cons by simp
      then show ?thesis using Cons.IH [of ds n] Cons.prems Cons by simp
    qed
  next
    case 3
    then have "clean_parts False (ps @ replicate n ''..'') (c # cs) = clean_parts False ((c # ps) @ replicate n ''..'') cs"
      by (simp add: plain_name_def)
    then show ?thesis using Cons.IH [of "c # ps" n] Cons.prems 3 by simp
  qed
qed

definition inner_path :: "string \<Rightarrow> bool" where
  "inner_path p \<longleftrightarrow> \<not> is_rooted p \<and> Clean p \<noteq> ''..'' \<and> \<not> HasPrefix (Clean p) ''../''"

lemma inner_parts:
  assumes "inner_path p" shows "\<forall>c \<in> set (parts_of p). plain_name c"
proof -
  have rel: "\<not> is_rooted p" using assms by (simp add: inner_path_def)
  obtain k qs where kq: "parts_of p = replicate k ''..'' @ qs" "\<forall>c \<in> set qs. plain_name c"
    using relative_parts [of "split_on CHR ''/'' p" "[]" 0] split_on_parts rel by (auto simp: parts_of_def)
  have "k = 0"
  proof (rule ccontr)
    assume "k \<noteq> 0"
    then obtain rest where rest: "parts_of p = ''..'' # rest" using kq(1) by (cases k) simp_all
    then have "Clean p = join_with ''/'' (''..'' # rest)" using rel by (simp add: Clean_def)
    then have "Clean p = ''..'' \<or> HasPrefix (Clean p) ''../''"
      by (cases rest) (simp_all add: HasPrefix_append)
    then show False using assms by (simp add: inner_path_def)
  qed
  then show ?thesis using kq by simp
qed

lemma plain_join_not_rooted:
  assumes "\<forall>c \<in> set ps. plain_name c" shows "\<not> is_rooted (join_with ''/'' ps)"
proof (cases ps)
  case (Cons x qs)
  obtain z where z: "join_with ''/'' ps = x @ z" using Cons by (cases qs) simp_all
  obtain c cs where "x = c # cs" "c \<noteq> CHR ''/''"
    using assms Cons by (cases x) (auto simp: plain_name_def)
  then show ?thesis using z by (simp add: is_rooted_def)
qed (simp add: is_rooted_def)

lemma Join_inner:
  assumes "is_rooted ws" "\<forall>c \<in> set ps. plain_name c" "ps \<noteq> []"
  shows "Join [ws, join_with ''/'' ps] = Join (ws # ps)"
proof -
  have "join_with ''/'' [ws, join_with ''/'' ps] = join_with ''/'' (ws # ps)"
    using assms(3) by (cases ps) simp_all
  then show ?thesis using assms(1) by (auto simp: Join_def dest: is_rootedE)
qed

lemma Clean_inner:
  assumes "inner_path p"
  shows "\<not> is_rooted (Clean p)" "parts_of (Clean p) = parts_of p" "Clean (Clean p) = Clean p"
proof -
  let ?ps = "parts_of p"
  have plain: "\<forall>c \<in> set ?ps. plain_name c" using inner_parts [OF assms] .
  have clean: "Clean p = (if ?ps = [] then ''.'' else join_with ''/'' ?ps)"
    using assms by (simp add: Clean_def inner_path_def)
  show nr: "\<not> is_rooted (Clean p)"
    using plain_join_not_rooted [OF plain] clean by (simp add: is_rooted_def)
  show eq: "parts_of (Clean p) = ?ps"
  proof (cases "?ps = []")
    case True
    then show ?thesis using clean by (simp add: parts_of_def is_rooted_def)
  next
    case False
    then have "split_on CHR ''/'' (Clean p) = ?ps"
      using clean plain by (simp add: split_on_join plain_name_def)
    then have "parts_of (Clean p) = clean_parts False [] ?ps" using nr by (simp add: parts_of_def)
    then show ?thesis using clean_parts_plain [OF plain, of False "[]"] by simp
  qed
  show "Clean (Clean p) = Clean p"
    unfolding Clean_def [of "Clean p"] eq using nr clean by simp
qed

lemma working_directory_inside:
  assumes "inner_path p" "is_rooted ws"
  shows "\<exists>dir. resolveWorkingDirectory ws (Clean p) = Some dir \<and> is_rooted dir \<and> parts_of dir = parts_of ws @ parts_of p"
proof (cases "parts_of p = []")
  case True
  then have "Clean p = ''.''" using assms(1) by (simp add: Clean_def inner_path_def)
  then show ?thesis using True assms(2) by (simp add: resolveWorkingDirectory_def)
next
  case False
  then have clean: "Clean p = join_with ''/'' (parts_of p)" using assms(1) by (simp add: Clean_def inner_path_def)
  note below = Join_below [OF assms(2) inner_parts [OF assms(1)]]
  have "Clean p = [] \<or> Clean p = ''.'' \<Longrightarrow> parts_of (Clean p) = []" by (auto simp: parts_of_def)
  then have "Clean p \<noteq> []" "Clean p \<noteq> ''.''" using False Clean_inner(2) [OF assms(1)] by auto
  then have "resolveWorkingDirectory ws (Clean p) = Some (Join [ws, Clean p])"
    using assms(1) Clean_inner [OF assms(1)] by (simp add: resolveWorkingDirectory_def inner_path_def)
  then show ?thesis using clean below Join_inner [OF assms(2) inner_parts [OF assms(1)] False] by simp
qed

section \<open>What the checks establish\<close>

definition strictly_below :: "string list \<Rightarrow> string \<Rightarrow> bool" where
  "strictly_below dir p \<longleftrightarrow> is_rooted p \<and> strict_prefix dir (parts_of p)"

definition binding_wf :: "(string \<times> string) list \<Rightarrow> secret_binding \<Rightarrow> bool" where
  "binding_wf environment b \<longleftrightarrow>
     cacheNamePattern (secret_name b) \<and>
     (if secret_file b = []
      then environmentKey (secret_environment b) \<and> \<not> HasPrefix (secret_environment b) ''AUTBACK_'' \<and>
        secret_environment b \<notin> set (map fst environment)
      else secret_environment b = [] \<and> clean_path (secret_file b) \<and>
        strictly_below [''run'', ''secrets''] (secret_file b))"

definition secrets_wf :: "(string \<times> string) list \<Rightarrow> secret_binding list \<Rightarrow> bool" where
  "secrets_wf environment bs \<longleftrightarrow>
     distinct (map secret_name bs) \<and>
     (\<forall>b \<in> set bs. binding_wf environment b) \<and>
     distinct (filter (\<lambda>e. e \<noteq> []) (map secret_environment bs)) \<and>
     pairwise (\<lambda>b c. secret_file b \<noteq> [] \<longrightarrow> secret_file c \<noteq> [] \<longrightarrow> \<not> nested (secret_file b) (secret_file c)) (set bs)"

definition caches_wf :: "cache_mount list \<Rightarrow> bool" where
  "caches_wf cs \<longleftrightarrow>
     distinct (map cache_name cs) \<and> distinct (map cache_target cs) \<and>
     (\<forall>c \<in> set cs. cacheNamePattern (cache_name c) \<and> clean_path (cache_target c) \<and>
        (\<forall>r \<in> set reserved_paths. \<not> nested (cache_target c) r))"

lemma cacheNamePattern_plain: "cacheNamePattern n \<Longrightarrow> plain_name n"
proof -
  assume "cacheNamePattern n"
  then obtain c cs where n: "n = c # cs" "in_range CHR ''a'' CHR ''z'' c \<or> digit c"
      "list_all (\<lambda>c. in_range CHR ''a'' CHR ''z'' c \<or> digit c \<or> c \<in> set ''._-'') cs"
    by (auto simp: cacheNamePattern_def split: list.splits)
  have "CHR ''/'' \<notin> set cs" "c \<noteq> CHR ''/''" "c \<noteq> CHR ''.''"
    using n by (auto simp: list_all_iff in_range_def digit_def)
  then show ?thesis using n(1) by (simp add: plain_name_def)
qed

lemma run_secrets: "clean_path ''/run/secrets''" "parts_of ''/run/secrets'' = [''run'', ''secrets'']"
  by code_simp+

lemma reserved_clean: "\<forall>r \<in> set reserved_paths. clean_path r"
  by code_simp

lemma secret_binding_ok:
  assumes "secret_binding_of environment files item = Inr b" "\<forall>f \<in> set files. clean_path f"
    "cacheNamePattern (js_name item)"
  shows "secret_name b = js_name item \<and> binding_wf environment b \<and>
    (secret_file b \<noteq> [] \<longrightarrow> (\<forall>f \<in> set files. \<not> nested (secret_file b) f))"
proof (cases "js_target item")
  case (SecretFile t)
  then have b: "b = \<lparr>secret_name = js_name item, secret_environment = [], secret_file = Clean t\<rparr>"
    "is_rooted t" "HasPrefix (Clean t) (''/run/secrets'' @ ''/'')" "find (pathsOverlap (Clean t)) files = None"
    using assms(1) by (auto simp: secret_binding_of_def Let_def split: if_splits option.splits)
  have "Clean t \<noteq> ''/''" using b(3) by (auto simp: HasPrefix_def)
  then have c: "clean_path (Clean t)" using Clean_clean b(2) by blast
  moreover have "strict_prefix [''run'', ''secrets''] (parts_of (Clean t))"
    using b(3) below_iff [OF c run_secrets(1)] run_secrets(2) by simp
  moreover have "\<forall>f \<in> set files. \<not> nested (Clean t) f"
    using b(4) pathsOverlap_nested [OF c] assms(2) by (auto simp: find_None_iff)
  ultimately show ?thesis
    using b(1) assms(3) by (auto simp: binding_wf_def strictly_below_def clean_path_def is_rooted_def)
next
  case (SecretEnvironment t)
  then have "t \<notin> set (map fst environment)" "environmentKey t" "\<not> HasPrefix t ''AUTBACK_''"
      "b = \<lparr>secret_name = js_name item, secret_environment = t, secret_file = []\<rparr>"
    using assms(1) by (simp_all add: secret_binding_of_def split: if_splits)
  then show ?thesis using assms(3) by (simp add: binding_wf_def)
qed (use assms in \<open>simp add: secret_binding_of_def\<close>)

lemma secrets_wf_Cons:
  "secrets_wf environment (b # bs) \<longleftrightarrow>
     secrets_wf environment bs \<and> secret_name b \<notin> secret_name ` set bs \<and> binding_wf environment b \<and>
     (secret_environment b \<noteq> [] \<longrightarrow> secret_environment b \<notin> secret_environment ` set bs) \<and>
     (secret_file b \<noteq> [] \<longrightarrow> (\<forall>c \<in> set bs. c \<noteq> b \<longrightarrow> secret_file c \<noteq> [] \<longrightarrow> \<not> nested (secret_file b) (secret_file c)))"
  by (auto simp: secrets_wf_def pairwise_insert nested_def)

lemma secrets_wf_rev: "secrets_wf environment (rev bs) = secrets_wf environment bs"
  by (simp add: secrets_wf_def rev_map [symmetric] rev_filter [symmetric])

lemma validate_secrets_loop_wf:
  "validate_secrets_loop environment result items = Inr bs \<Longrightarrow> secrets_wf environment result \<Longrightarrow>
   secrets_wf environment bs \<and> length bs = length result + length items"
proof (induction environment result items rule: validate_secrets_loop.induct)
  case (1 environment result)
  then show ?case by (auto simp: secrets_wf_rev)
next
  case (3 environment result item items)
  let ?files = "filter (\<lambda>f. f \<noteq> []) (map secret_file (rev result))"
  obtain b where b: "cacheNamePattern (js_name item)" "js_name item \<notin> secret_name ` set result"
      "secret_binding_of environment ?files item = Inr b" "targetKey b \<notin> targetKey ` set result"
      "validate_secrets_loop environment (b # result) items = Inr bs"
    using "3.prems"(1) by (auto split: if_splits sum.splits)
  have clean: "\<forall>f \<in> set ?files. clean_path f"
    using "3.prems"(2) by (auto simp: secrets_wf_def binding_wf_def split: if_splits)
  note ok = secret_binding_ok [OF b(3) clean b(1)]
  have env: "secret_environment b \<notin> secret_environment ` set result" if e: "secret_environment b \<noteq> []"
  proof
    assume "secret_environment b \<in> secret_environment ` set result"
    then obtain c where c: "c \<in> set result" "secret_environment c = secret_environment b" by auto
    moreover have "secret_file c = []" "secret_file b = []"
      using "3.prems"(2) c e ok by (auto simp: secrets_wf_def binding_wf_def split: if_splits)
    ultimately have "targetKey b = targetKey c" by (simp add: targetKey_def)
    then show False using b(4) c(1) by blast
  qed
  have "secrets_wf environment (b # result)"
    using "3.prems"(2) ok env b(2) by (auto simp: secrets_wf_Cons)
  moreover have "\<not> (\<not> cacheNamePattern (js_name item))" using b(1) by simp
  ultimately show ?case using "3.IH" [of b] b by simp
qed simp

lemma validate_caches_loop_wf:
  "validate_caches_loop result items = Inr cs \<Longrightarrow> caches_wf result \<Longrightarrow>
   caches_wf cs \<and> length cs = length result + length items"
proof (induction result items rule: validate_caches_loop.induct)
  case (1 result)
  then show ?case by (auto simp: caches_wf_def rev_map [symmetric])
next
  case (3 result item items)
  let ?target = "Clean (cr_target item)"
  have ok: "cacheNamePattern (cr_name item)" "is_rooted (cr_target item)" "?target \<noteq> ''/''"
      "cr_name item \<notin> cache_name ` set result" "?target \<notin> cache_target ` set result"
      "find (pathsOverlap ?target) reserved_paths = None"
      "validate_caches_loop (\<lparr>cache_name = cr_name item, cache_target = ?target\<rparr> # result) items = Inr cs"
    using "3.prems"(1) by (auto simp: Let_def split: if_splits option.splits)
  have clean: "clean_path ?target" using Clean_clean ok(2,3) by blast
  have "\<forall>r \<in> set reserved_paths. \<not> nested ?target r"
    using ok(6) reserved_clean pathsOverlap_nested [OF clean] by (auto simp: find_None_iff)
  then have wf: "caches_wf (\<lparr>cache_name = cr_name item, cache_target = ?target\<rparr> # result)"
    using "3.prems"(2) ok clean by (auto simp: caches_wf_def)
  have "CHR 0x00 \<notin> set (cr_target item)" using "3.prems"(1) by (auto simp: Let_def split: if_splits)
  then show ?case using "3.IH" [OF refl] ok wf by simp
qed simp

lemma validateCaches_wf: "validateCaches input = Inr cs \<Longrightarrow> caches_wf cs \<and> length cs \<le> 16 \<and> sorted (map cache_name cs)"
proof -
  assume v: "validateCaches input = Inr cs"
  then obtain rs where rs: "length input \<le> 16" "validate_caches_loop [] input = Inr rs" "cs = sort_key cache_name rs"
    by (auto simp: validateCaches_def split: if_splits sum.splits)
  have "caches_wf rs \<and> length rs = length input"
    using validate_caches_loop_wf [OF rs(2)] by (simp add: caches_wf_def)
  then show ?thesis using rs(1,3) by (simp add: caches_wf_def distinct_map)
qed

lemma command_error_none:
  "command_error args = None \<longleftrightarrow> (\<forall>a \<in> set args. CHR 0x00 \<notin> set a \<and> \<not> containsSecretReference a)"
  by (induction args) auto

lemma environment_error_none:
  "environment_error es = None \<longleftrightarrow>
   (\<forall>(k, v) \<in> set es. environmentKey k \<and> \<not> HasPrefix k ''AUTBACK_'' \<and> CHR 0x00 \<notin> set v \<and> \<not> containsSecretReference v)"
  by (induction es rule: environment_error.induct) auto

text \<open>The jobs that the service runs.\<close>

definition job_wf :: "prepare_job \<Rightarrow> bool" where
  "job_wf job \<longleftrightarrow>
     prep_command job \<noteq> [] \<and> length (prep_command job) \<le> 128 \<and>
     (\<forall>a \<in> set (prep_command job). CHR 0x00 \<notin> set a \<and> \<not> containsSecretReference a) \<and>
     (\<forall>(k, v) \<in> set (prep_environment job). environmentKey k \<and> \<not> HasPrefix k ''AUTBACK_'' \<and>
        CHR 0x00 \<notin> set v \<and> \<not> containsSecretReference v) \<and>
     second \<le> prep_timeout job \<and> prep_timeout job \<le> 24 * hour \<and>
     caches_wf (prep_caches job) \<and> secrets_wf (prep_environment job) (prep_secrets job)"

text \<open>
  C36: a job that the API accepts is well formed. Its image is pinned by digest unless the server
  allows others; it has 1 to 128 arguments, none with a NUL byte or a reference to a secret; no
  public environment value sets a name of the service or mentions a secret; its timeout is between
  a second and a day; its caches have distinct names, which are single path elements, and distinct
  absolute targets that neither contain nor lie in a path of the runtime; every secret goes to one
  place, which is a variable that nothing else sets or a file below \<open>/run/secrets\<close> that neither
  contains nor lies in the file of another secret. And in whatever workspace the entrypoint
  resolves the working directory of the job, it gets a directory of that workspace.
\<close>

theorem validated_job_well_formed:
  assumes "validateJob allowUnpinned projectID m = Inr job"
  shows "job_wf job \<and> prep_project_id job = projectID \<and> prep_image job = pj_image m \<and>
    (\<not> allowUnpinned \<longrightarrow> imageDigestPattern (prep_image job)) \<and>
    (\<forall>workspace. is_rooted workspace \<longrightarrow>
       (\<exists>dir. resolveWorkingDirectory workspace (prep_working_directory job) = Some dir \<and> is_rooted dir \<and>
          prefix (parts_of workspace) (parts_of dir)))"
proof -
  let ?wd = "if pj_working_directory m = [] then ''.'' else pj_working_directory m"
  obtain caches secrets timeout where ok:
      "allowUnpinned \<or> imageDigestPattern (pj_image m)" "pj_command m \<noteq> []" "length (pj_command m) \<le> 128"
      "command_error (pj_command m) = None" "inner_path ?wd"
      "validateCaches (pj_caches m) = Inr caches" "environment_error (pj_environment m) = None"
      "validateSecrets (pj_secrets m) (pj_environment m) = Inr secrets"
      "checked_timeout (pj_timeout m) = Inr timeout"
    and job: "job = \<lparr>prep_project_id = projectID, prep_image = pj_image m, prep_command = pj_command m,
         prep_working_directory = Clean ?wd, prep_environment = pj_environment m, prep_timeout = timeout,
         prep_caches = caches, prep_secrets = secrets\<rparr>"
    using assms unfolding validateJob_def Let_def inner_path_def
    by (auto split: if_split_asm option.split_asm sum.split_asm)
  have "secrets_wf (pj_environment m) secrets"
    using ok(8) validate_secrets_loop_wf by (auto simp: validateSecrets_def secrets_wf_def [of _ "[]"] split: if_splits)
  moreover have "second \<le> timeout \<and> timeout \<le> 24 * hour"
    using ok(9) by (auto simp: checked_timeout_def maximumJobTimeout_def split: option.splits sum.splits if_splits)
  ultimately have "job_wf job"
    using ok validateCaches_wf [OF ok(6)] unfolding job_wf_def job command_error_none environment_error_none by simp
  moreover have "\<exists>dir. resolveWorkingDirectory ws (Clean ?wd) = Some dir \<and> is_rooted dir \<and>
      prefix (parts_of ws) (parts_of dir)" if "is_rooted ws" for ws
    using working_directory_inside [OF ok(5) that] by (metis prefixI)
  ultimately show ?thesis using ok(1) job by auto
qed

definition sample_request :: prepare_job_request where
  "sample_request =
     \<lparr>pj_project = ''web'', pj_image = ''r/i@sha256:'' @ replicate 64 CHR ''0'', pj_command = [''go'', ''test''],
      pj_working_directory = ''a/../b'', pj_environment = [(''CI'', ''1'')], pj_timeout = None,
      pj_idempotency_key = ''key-0001'', pj_caches = [Some \<lparr>cr_name = ''go'', cr_target = ''/root/go/''\<rparr>],
      pj_secrets = [Some \<lparr>js_name = ''token'', js_target = SecretEnvironment ''TOKEN''\<rparr>,
        Some \<lparr>js_name = ''key'', js_target = SecretFile ''/run/secrets/./key''\<rparr>]\<rparr>"

definition sample_job :: prepare_job where
  "sample_job =
     \<lparr>prep_project_id = ''p1'', prep_image = ''r/i@sha256:'' @ replicate 64 CHR ''0'', prep_command = [''go'', ''test''],
      prep_working_directory = ''b'', prep_environment = [(''CI'', ''1'')], prep_timeout = 1800000000000,
      prep_caches = [\<lparr>cache_name = ''go'', cache_target = ''/root/go''\<rparr>],
      prep_secrets = [\<lparr>secret_name = ''token'', secret_environment = ''TOKEN'', secret_file = []\<rparr>,
        \<lparr>secret_name = ''key'', secret_environment = [], secret_file = ''/run/secrets/key''\<rparr>]\<rparr>"

lemma sample_accepted: "validateJob False ''p1'' sample_request = Inr sample_job"
  by code_simp

theorem validated_job_well_formed_witness:
  "validateJob False ''p1'' sample_request = Inr sample_job \<and> job_wf sample_job \<and>
   resolveWorkingDirectory ''/jobs/j/workspace'' (prep_working_directory sample_job) = Some ''/jobs/j/workspace/b''"
proof (intro conjI)
  show "job_wf sample_job" using validated_job_well_formed [OF sample_accepted] by simp
  show "resolveWorkingDirectory ''/jobs/j/workspace'' (prep_working_directory sample_job) = Some ''/jobs/j/workspace/b''"
    by code_simp
qed (rule sample_accepted)

end
