(* ===== verification/Pki.thy ===== *)
theory Pki
  imports Control_Jobs Filepath
begin

text \<open>
  The credentials of operations: \<open>Issue\<close> and the check \<open>VerifyConnection\<close> of \<open>ServerTLSConfig\<close> in
  \<open>internal/control/pki/pki.go\<close>. What Go's \<open>net/url\<close> does with the identity in a certificate is
  written out: \<open>PathEscape\<close>, \<open>PathUnescape\<close>, the path of a parsed URL and \<open>EscapedPath\<close>. Keys,
  serial numbers and signatures are parameters, functions over a world \<open>'w\<close>.
\<close>

section \<open>Escaped paths\<close>

definition alphanumeric :: "char \<Rightarrow> bool" where
  "alphanumeric c \<longleftrightarrow>
     (let n = of_char c :: nat in 97 \<le> n \<and> n \<le> 122 \<or> 65 \<le> n \<and> n \<le> 90 \<or> 48 \<le> n \<and> n \<le> 57)"

text \<open>\<open>shouldEscape\<close> for a segment and for a whole path.\<close>

definition escapes_segment :: "char \<Rightarrow> bool" where
  "escapes_segment c \<longleftrightarrow> \<not> alphanumeric c \<and> c \<notin> set ''-_.~$&+:=@''"

definition escapes_path :: "char \<Rightarrow> bool" where
  "escapes_path c \<longleftrightarrow> \<not> alphanumeric c \<and> c \<notin> set ''-_.~$&+,/:;=@''"

definition upper_hex :: "nat \<Rightarrow> char" where
  "upper_hex n = ''0123456789ABCDEF'' ! (n mod 16)"

definition escaped :: "char \<Rightarrow> string" where
  "escaped c = [CHR ''%'', upper_hex (of_char c div 16), upper_hex (of_char c)]"

definition escape :: "(char \<Rightarrow> bool) \<Rightarrow> string \<Rightarrow> string" where
  "escape should s = concat (map (\<lambda>c. if should c then escaped c else [c]) s)"

definition PathEscape :: "string \<Rightarrow> string" where
  "PathEscape s = escape escapes_segment s"

definition unhex :: "char \<Rightarrow> nat option" where
  "unhex c =
     (let n = of_char c :: nat in
      if 48 \<le> n \<and> n \<le> 57 then Some (n - 48)
      else if 97 \<le> n \<and> n \<le> 102 then Some (n - 97 + 10)
      else if 65 \<le> n \<and> n \<le> 70 then Some (n - 65 + 10)
      else None)"

fun PathUnescape :: "string \<Rightarrow> string option" where
  "PathUnescape [] = Some []"
| "PathUnescape (c # cs) =
     (if c \<noteq> CHR ''%'' then map_option ((#) c) (PathUnescape cs)
      else case cs of
             a # b # rest \<Rightarrow>
               (case (unhex a, unhex b) of
                  (Some x, Some y) \<Rightarrow> map_option ((#) (char_of (x * 16 + y))) (PathUnescape rest)
                | _ \<Rightarrow> None)
           | _ \<Rightarrow> None)"

record url =
  url_scheme :: string
  url_host :: string
  url_path :: string
  url_raw_path :: string

text \<open>
  \<open>setPath\<close>, by which \<open>Parse\<close> stores the part of a URL from the slash after the host on: the raw
  path is kept only when the default encoding of the path is another text.
\<close>

definition set_path :: "string \<Rightarrow> url \<Rightarrow> url option" where
  "set_path p u = map_option
     (\<lambda>path. u\<lparr>url_path := path, url_raw_path := (if escape escapes_path path = p then [] else p)\<rparr>) (PathUnescape p)"

definition validEncoded :: "string \<Rightarrow> bool" where
  "validEncoded s \<longleftrightarrow> list_all (\<lambda>c. c \<in> set ''!$&()*+,;=:@[]%'' \<or> c = CHR 0x27 \<or> \<not> escapes_path c) s"

definition EscapedPath :: "url \<Rightarrow> string" where
  "EscapedPath u =
     (if url_raw_path u \<noteq> [] \<and> validEncoded (url_raw_path u) \<and> PathUnescape (url_raw_path u) = Some (url_path u)
      then url_raw_path u
      else if url_path u = ''*'' then ''%2A''
      else escape escapes_path (url_path u))"

section \<open>Credentials\<close>

record credential =
  cred_ca_pem :: string
  cred_certificate_pem :: string
  cred_private_key_pem :: string
  cred_server_name :: string
  cred_expires_at :: time

text \<open>The fields of \<open>x509.Certificate\<close> that the code sets or reads.\<close>

record certificate =
  crt_serial :: int
  crt_common_name :: string
  crt_organization :: "string list"
  crt_not_before :: time
  crt_not_after :: time
  crt_digital_signature :: bool
  crt_client_auth :: bool
  crt_uris :: "url list"

record 'w authority =
  au_ca_pem :: string
  au_server_name :: string
  au_now :: "'w \<Rightarrow> time"
  au_generate_key :: "'w \<Rightarrow> (err + string) \<times> 'w"
  au_random_serial :: "'w \<Rightarrow> (err + int) \<times> 'w"
  au_create_certificate :: "certificate \<Rightarrow> string \<Rightarrow> 'w \<Rightarrow> (err + string) \<times> 'w"
  au_marshal_key :: "string \<Rightarrow> err + string"
  au_pem_encode :: "string \<Rightarrow> string \<Rightarrow> string"

text \<open>\<open>url.Parse\<close> of \<open>spiffe://autback/\<close>, the kind, a slash and the escaped name of the operation.\<close>

definition parse_identity :: "string \<Rightarrow> string \<Rightarrow> err + url" where
  "parse_identity kind i =
     (case set_path (''/'' @ kind @ ''/'' @ PathEscape i)
        \<lparr>url_scheme = ''spiffe'', url_host = ''autback'', url_path = [], url_raw_path = []\<rparr> of
        None \<Rightarrow> Inl (ErrText ''invalid URL escape'')
      | Some u \<Rightarrow> Inr u)"

definition Issue :: "'w authority \<Rightarrow> string \<Rightarrow> string \<Rightarrow> duration \<Rightarrow> 'w \<Rightarrow> (err + credential) \<times> 'w" where
  "Issue a kind i ttl w =
     (if kind \<noteq> ''job'' \<and> kind \<noteq> ''build'' then (Inl (ErrText ''unsupported operation kind''), w)
      else if TrimSpace i = [] then (Inl (ErrText ''operation ID is required''), w)
      else if ttl < minute \<or> ttl > 2 * hour
      then (Inl (ErrText ''credential lifetime must be between 1 minute and 2 hours''), w)
      else
      bindR (au_generate_key a w) (\<lambda>key w.
      let instant = au_now a w; expires = instant + ttl in
      bindR (au_random_serial a w) (\<lambda>serial w.
      case parse_identity kind i of
        Inl e \<Rightarrow> (Inl e, w)
      | Inr identity \<Rightarrow>
          let template = \<lparr>crt_serial = serial, crt_common_name = kind @ '':'' @ i, crt_organization = [''autback''],
                crt_not_before = instant - minute, crt_not_after = expires, crt_digital_signature = True,
                crt_client_auth = True, crt_uris = [identity]\<rparr> in
          bindR (au_create_certificate a template key w) (\<lambda>der w.
          case au_marshal_key a key of
            Inl e \<Rightarrow> (Inl e, w)
          | Inr keyDER \<Rightarrow>
              (Inr \<lparr>cred_ca_pem = au_ca_pem a, cred_certificate_pem = au_pem_encode a ''CERTIFICATE'' der,
                cred_private_key_pem = au_pem_encode a ''PRIVATE KEY'' keyDER,
                cred_server_name = au_server_name a, cred_expires_at = expires\<rparr>, w)))))"

definition TrimPrefix :: "string \<Rightarrow> string \<Rightarrow> string" where
  "TrimPrefix s p = (if HasPrefix s p then drop (length p) s else s)"

text \<open>
  \<open>VerifyConnection\<close>: the certificates are those that the peer has presented and TLS has checked
  against the authority; the result is the error that ends the handshake.
\<close>

definition VerifyConnection ::
  "string \<Rightarrow> (string \<Rightarrow> string \<Rightarrow> bool) option \<Rightarrow> certificate list \<Rightarrow> err option" where
  "VerifyConnection expected active peers =
     (case peers of
        [leaf] \<Rightarrow>
          (case crt_uris leaf of
             [identity] \<Rightarrow>
               (let parts = split_on CHR ''/'' (TrimPrefix (EscapedPath identity) ''/'') in
                if url_scheme identity \<noteq> ''spiffe'' \<or> url_host identity \<noteq> ''autback'' \<or> length parts \<noteq> 2
                then Some (ErrText ''invalid autback operation identity'')
                else case PathUnescape (parts ! 1) of
                       None \<Rightarrow> Some (ErrText (''operation certificate is not valid for '' @ expected))
                     | Some i \<Rightarrow>
                         if parts ! 0 \<noteq> expected
                         then Some (ErrText (''operation certificate is not valid for '' @ expected))
                         else if \<not> (case active of None \<Rightarrow> True | Some f \<Rightarrow> f expected i)
                         then Some (ErrText ''operation credential is no longer active'')
                         else None)
           | _ \<Rightarrow> Some (ErrText ''exactly one autback operation identity is required''))
      | _ \<Rightarrow> Some (ErrText ''exactly one autback operation identity is required''))"

section \<open>Facts on escaped paths\<close>

lemma unhex_upper: "unhex (upper_hex n) = Some (n mod 16)"
proof -
  have "\<forall>m \<in> set [0..<16]. unhex (''0123456789ABCDEF'' ! m) = Some m" by code_simp
  moreover have "n mod 16 \<in> set [0..<16]" by simp
  ultimately show ?thesis unfolding upper_hex_def by (simp only: )
qed

lemma PathUnescape_escaped: "PathUnescape (escaped c @ s) = map_option ((#) c) (PathUnescape s)"
proof -
  have "(of_char c :: nat) < 256" by simp
  then have "(of_char c div 16) mod 16 * 16 + of_char c mod 16 = (of_char c :: nat)"
    by (simp add: div_less_iff_less_mult)
  then show ?thesis by (simp add: escaped_def unhex_upper)
qed

lemma PathUnescape_escape:
  assumes "should CHR ''%''" shows "PathUnescape (escape should s @ t) = map_option ((@) s) (PathUnescape t)"
proof (induction s)
  case (Cons c s)
  show ?case
  proof (cases "should c")
    case True
    then have "escape should (c # s) @ t = escaped c @ escape should s @ t" by (simp add: escape_def)
    then show ?thesis using Cons PathUnescape_escaped by (simp add: option.map_comp comp_def)
  next
    case False
    then have "c \<noteq> CHR ''%''" using assms by auto
    moreover have "escape should (c # s) @ t = c # escape should s @ t" using False by (simp add: escape_def)
    ultimately show ?thesis using Cons by (simp add: option.map_comp comp_def)
  qed
qed (simp add: escape_def option.map_ident)

lemma PathEscape_round_trip: "PathUnescape (PathEscape s) = Some s"
  using PathUnescape_escape [of escapes_segment s "[]"] by (simp add: PathEscape_def escapes_segment_def alphanumeric_def)

lemma alphanumeric_hex: "alphanumeric (upper_hex n)"
proof -
  have "\<forall>m \<in> set [0..<16]. alphanumeric (''0123456789ABCDEF'' ! m)" by code_simp
  moreover have "n mod 16 \<in> set [0..<16]" by simp
  ultimately show ?thesis unfolding upper_hex_def by (simp only: )
qed

lemma PathEscape_chars: "c \<in> set (PathEscape s) \<Longrightarrow> alphanumeric c \<or> c \<in> set ''-_.~$&+:=@%''"
  by (auto simp: PathEscape_def escape_def escaped_def alphanumeric_hex escapes_segment_def split: if_splits)

lemma PathEscape_no_slash: "CHR ''/'' \<notin> set (PathEscape s)"
  using PathEscape_chars [of "CHR ''/''" s] by (auto simp: alphanumeric_def)

lemma EscapedPath_raw:
  "r \<noteq> [] \<Longrightarrow> validEncoded r \<Longrightarrow> PathUnescape r = Some path \<Longrightarrow> path \<noteq> ''*'' \<Longrightarrow>
   EscapedPath \<lparr>url_scheme = sch, url_host = hst, url_path = path,
     url_raw_path = (if escape escapes_path path = r then [] else r)\<rparr> = r"
  by (simp add: EscapedPath_def)

lemma EscapedPath_identity:
  assumes "parse_identity kind i = Inr u" "list_all alphanumeric kind"
  shows "EscapedPath u = ''/'' @ kind @ ''/'' @ PathEscape i \<and> url_scheme u = ''spiffe'' \<and> url_host u = ''autback''"
proof -
  let ?raw = "''/'' @ kind @ ''/'' @ PathEscape i"
  obtain path where path: "PathUnescape ?raw = Some path" and u:
      "u = \<lparr>url_scheme = ''spiffe'', url_host = ''autback'', url_path = path,
        url_raw_path = (if escape escapes_path path = ?raw then [] else ?raw)\<rparr>"
    using assms(1) by (auto simp: parse_identity_def set_path_def split: option.splits)
  have "alphanumeric c \<or> c \<in> set ''-_.~$&+:=@%/''" if c: "c \<in> set ?raw" for c
  proof -
    consider "c = CHR ''/''" | "c \<in> set kind" | "c \<in> set (PathEscape i)"
      using c unfolding set_append by fastforce
    then show ?thesis
    proof cases
      case 2
      then show ?thesis using assms(2) by (simp add: list_all_iff)
    next
      case 3
      have "set ''-_.~$&+:=@%'' \<subseteq> set ''-_.~$&+:=@%/''" by simp
      then show ?thesis using PathEscape_chars [OF 3] by blast
    qed simp
  qed
  moreover have "set ''-_.~$&+:=@%/'' \<subseteq> {c. c \<in> set ''!$&()*+,;=:@[]%'' \<or> c = CHR 0x27 \<or> \<not> escapes_path c}"
    by (simp add: escapes_path_def)
  ultimately have valid: "validEncoded ?raw"
    unfolding validEncoded_def list_all_iff escapes_path_def by blast
  have "PathUnescape (CHR ''/'' # z) = Some p \<Longrightarrow> p \<noteq> ''*''" for z p by auto
  from this [of "kind @ ''/'' @ PathEscape i" path] have "path \<noteq> ''*''" using path by simp
  moreover have "?raw \<noteq> []" by simp
  ultimately have "EscapedPath u = ?raw" unfolding u using EscapedPath_raw valid path by blast
  then show ?thesis using u by simp
qed

lemma split_identity:
  assumes "parse_identity kind i = Inr u" "list_all alphanumeric kind"
  shows "split_on CHR ''/'' (TrimPrefix (EscapedPath u) ''/'') = [kind, PathEscape i]"
proof -
  have "CHR ''/'' \<notin> set kind" using assms(2) by (auto simp: list_all_iff alphanumeric_def)
  moreover have "TrimPrefix (EscapedPath u) ''/'' = kind @ CHR ''/'' # PathEscape i"
    using EscapedPath_identity [OF assms] by (simp add: TrimPrefix_def HasPrefix_def)
  ultimately show ?thesis
    using split_on_append [of "CHR ''/''" kind "PathEscape i"] split_on_plain PathEscape_no_slash by simp
qed

lemma parse_identity_total:
  assumes "list_all alphanumeric kind" shows "\<exists>u. parse_identity kind i = Inr u"
proof -
  have no: "CHR ''%'' \<notin> set kind" using assms by (auto simp: list_all_iff alphanumeric_def)
  have plain: "CHR ''%'' \<notin> set s \<Longrightarrow> PathUnescape (s @ t) = map_option ((@) s) (PathUnescape t)" for s t
    by (induction s) (auto simp: option.map_comp comp_def append_Cons [abs_def] option.map_ident_strong)
  have "PathUnescape ((''/'' @ kind @ ''/'') @ PathEscape i) = Some ((''/'' @ kind @ ''/'') @ i)"
    using plain [of "''/'' @ kind @ ''/''" "PathEscape i"] no PathEscape_round_trip by simp
  then have "set_path (''/'' @ kind @ ''/'' @ PathEscape i) u0 \<noteq> None" for u0
    by (simp add: set_path_def)
  then show ?thesis by (auto simp: parse_identity_def split: option.splits)
qed

lemma VerifyConnection_identity:
  assumes "parse_identity kind i = Inr u" "list_all alphanumeric kind" "crt_uris t = [u]"
  shows "VerifyConnection expected (Some active) [t] = None \<longleftrightarrow> expected = kind \<and> active kind i"
  using EscapedPath_identity [OF assms(1,2)] split_identity [OF assms(1,2)] assms(3)
  by (auto simp: VerifyConnection_def Let_def PathEscape_round_trip)

section \<open>What a credential is good for\<close>

text \<open>
  The proxies of the data plane pass \<open>OperationActive\<close> of the store as the check. A job's
  credential serves while the job is being prepared, a build's while the build runs.
\<close>

definition store_active :: "cworld \<Rightarrow> string \<Rightarrow> string \<Rightarrow> bool" where
  "store_active w kind i = OperationActiveFor kind i w"


definition demo_certificate :: certificate where
  "demo_certificate =
     \<lparr>crt_serial = 7, crt_common_name = ''job:a/b'', crt_organization = [''autback''], crt_not_before = - 60000000000,
      crt_not_after = 900000000000, crt_digital_signature = True, crt_client_auth = True,
      crt_uris = [\<lparr>url_scheme = ''spiffe'', url_host = ''autback'', url_path = ''/job/a/b'', url_raw_path = ''/job/a%2Fb''\<rparr>]\<rparr>"

definition demo_authority :: "unit authority" where
  "demo_authority =
     \<lparr>au_ca_pem = ''ca'', au_server_name = ''localhost'', au_now = (\<lambda>_. 0), au_generate_key = Pair (Inr ''k''),
      au_random_serial = Pair (Inr 7),
      au_create_certificate = (\<lambda>t key. Pair (if t = demo_certificate then Inr ''der'' else Inl ErrRandom)),
      au_marshal_key = Inr, au_pem_encode = (\<lambda>kind der. kind @ der)\<rparr>"

definition demo_credential :: credential where
  "demo_credential =
     \<lparr>cred_ca_pem = ''ca'', cred_certificate_pem = ''CERTIFICATEder'', cred_private_key_pem = ''PRIVATE KEYk'',
      cred_server_name = ''localhost'', cred_expires_at = 900000000000\<rparr>"

lemma demo_issue: "Issue demo_authority ''job'' ''a/b'' (15 * minute) () = (Inr demo_credential, ())"
  by code_simp


end
