(* ===== verification/Messages.thy ===== *)
theory Messages
  imports Control_Projects Requests Pki
begin

text \<open>
  The messages that the API returns and the functions of
  \<open>internal/control/controlapi/server.go\<close> that build them from the structs of the store. A timestamp
  or a duration of the wire protocol is the time or the duration that it carries; an absent one is
  \<open>None\<close>.
\<close>

definition wrap32 :: "int \<Rightarrow> int" where
  "wrap32 n = (n + 2 ^ 31) mod 2 ^ 32 - 2 ^ 31"

datatype job_status_proto =
    JOB_STATUS_UNSPECIFIED | JOB_STATUS_PREPARING | JOB_STATUS_QUEUED | JOB_STATUS_RUNNING | JOB_STATUS_SUCCEEDED
  | JOB_STATUS_FAILED | JOB_STATUS_CANCELLED | JOB_STATUS_TIMED_OUT | JOB_STATUS_LOST

datatype build_status_proto =
    BUILD_STATUS_QUEUED | BUILD_STATUS_RUNNING | BUILD_STATUS_SUCCEEDED | BUILD_STATUS_FAILED | BUILD_STATUS_CANCELLED

record job_proto =
  jp_id :: string
  jp_project_id :: string
  jp_image :: string
  jp_command :: "string list"
  jp_working_directory :: string
  jp_environment :: "(string \<times> string) list"
  jp_root_digest :: string
  jp_status :: job_status_proto
  jp_timeout :: duration
  jp_created_at :: time
  jp_started_at :: "time option"
  jp_finished_at :: "time option"
  jp_exit_code :: "int option"
  jp_error_message :: string
  jp_cancel_requested :: bool
  jp_worker_id :: string
  jp_caches :: "cache_request list"
  jp_secrets :: "job_secret list"

fun jobStatusProto :: "status \<Rightarrow> job_status_proto" where
  "jobStatusProto StatusPreparing = JOB_STATUS_PREPARING"
| "jobStatusProto StatusQueued = JOB_STATUS_QUEUED"
| "jobStatusProto StatusRunning = JOB_STATUS_RUNNING"
| "jobStatusProto StatusSucceeded = JOB_STATUS_SUCCEEDED"
| "jobStatusProto StatusFailed = JOB_STATUS_FAILED"
| "jobStatusProto StatusCancelled = JOB_STATUS_CANCELLED"
| "jobStatusProto StatusTimedOut = JOB_STATUS_TIMED_OUT"
| "jobStatusProto StatusLost = JOB_STATUS_LOST"

text \<open>\<open>cloneMap\<close> copies the entries of a map.\<close>

definition cloneMap :: "(string \<times> string) list \<Rightarrow> (string \<times> string) list" where
  "cloneMap input = input"

definition jobProto :: "job \<Rightarrow> job_proto" where
  "jobProto job =
     \<lparr>jp_id = job_id job, jp_project_id = job_project_id job, jp_image = job_image job, jp_command = job_command job,
      jp_working_directory = job_working_directory job, jp_environment = cloneMap (job_environment job),
      jp_root_digest = job_root_digest job, jp_status = jobStatusProto (job_status job), jp_timeout = job_timeout job,
      jp_created_at = job_created_at job, jp_started_at = job_started_at job, jp_finished_at = job_finished_at job,
      jp_exit_code = map_option wrap32 (job_exit_code job), jp_error_message = job_error_message job,
      jp_cancel_requested = job_cancel_requested job, jp_worker_id = job_worker_id job,
      jp_caches = map (\<lambda>c. \<lparr>cr_name = cache_name c, cr_target = cache_target c\<rparr>) (job_caches job),
      jp_secrets = map (\<lambda>s. \<lparr>js_name = secret_name s,
        js_target = (if secret_environment s \<noteq> [] then SecretEnvironment (secret_environment s)
          else SecretFile (secret_file s))\<rparr>) (job_secrets job)\<rparr>"

text \<open>The message for \<open>control.Job{}\<close>, whose status is none of the named ones.\<close>

definition zero_job_proto :: job_proto where
  "zero_job_proto =
     \<lparr>jp_id = [], jp_project_id = [], jp_image = [], jp_command = [], jp_working_directory = [], jp_environment = [],
      jp_root_digest = [], jp_status = JOB_STATUS_UNSPECIFIED, jp_timeout = 0, jp_created_at = zero_time,
      jp_started_at = None, jp_finished_at = None, jp_exit_code = None, jp_error_message = [],
      jp_cancel_requested = False, jp_worker_id = [], jp_caches = [], jp_secrets = []\<rparr>"

record build_proto =
  bp_id :: string
  bp_project_id :: string
  bp_status :: build_status_proto
  bp_created_at :: time
  bp_finished_at :: "time option"
  bp_exit_code :: "int option"

fun buildStatusProto :: "build_status \<Rightarrow> build_status_proto" where
  "buildStatusProto BuildQueued = BUILD_STATUS_QUEUED"
| "buildStatusProto BuildRunning = BUILD_STATUS_RUNNING"
| "buildStatusProto BuildSucceeded = BUILD_STATUS_SUCCEEDED"
| "buildStatusProto BuildFailed = BUILD_STATUS_FAILED"
| "buildStatusProto BuildCancelled = BUILD_STATUS_CANCELLED"

definition buildProto :: "build \<Rightarrow> build_proto" where
  "buildProto b =
     \<lparr>bp_id = build_id b, bp_project_id = build_project_id b, bp_status = buildStatusProto (build_status b),
      bp_created_at = build_created_at b, bp_finished_at = build_finished_at b,
      bp_exit_code = map_option wrap32 (build_exit_code b)\<rparr>"

record user_proto =
  up_id :: string
  up_name :: string
  up_admin :: bool
  up_created_at :: time

definition userProto :: "user \<Rightarrow> user_proto" where
  "userProto u = \<lparr>up_id = user_id u, up_name = user_name u, up_admin = user_admin u, up_created_at = user_created_at u\<rparr>"

record external_identity_proto =
  ep_provider :: string
  ep_subject :: string
  ep_login :: string
  ep_user_id :: string
  ep_created_at :: time
  ep_last_authenticated_at :: "time option"

definition externalIdentityProto :: "external_identity \<Rightarrow> external_identity_proto" where
  "externalIdentityProto e =
     \<lparr>ep_provider = ei_provider e, ep_subject = ei_subject e, ep_login = ei_login e, ep_user_id = ei_user_id e,
      ep_created_at = ei_created_at e, ep_last_authenticated_at = ei_last_authenticated_at e\<rparr>"

record project_proto =
  pp_id :: string
  pp_slug :: string
  pp_name :: string
  pp_created_at :: time
  pp_active_image :: string
  pp_previous_image :: string
  pp_allow_image_overrides :: bool

definition projectProto :: "project \<Rightarrow> project_proto" where
  "projectProto p =
     \<lparr>pp_id = project_id p, pp_slug = project_slug p, pp_name = project_name p, pp_created_at = project_created_at p,
      pp_active_image = project_active_image p, pp_previous_image = project_previous_image p,
      pp_allow_image_overrides = project_allow_image_overrides p\<rparr>"

record image_event_proto =
  iep_id :: string
  iep_project_id :: string
  iep_action :: string
  iep_image :: string
  iep_replaced_image :: string
  iep_actor :: string
  iep_created_at :: time

definition projectImageEventProto :: "project_image_event \<Rightarrow> image_event_proto" where
  "projectImageEventProto e =
     \<lparr>iep_id = pie_id e, iep_project_id = pie_project_id e, iep_action = pie_action e, iep_image = pie_image e,
      iep_replaced_image = pie_replaced_image e, iep_actor = pie_actor e, iep_created_at = pie_created_at e\<rparr>"

record trust_proto =
  tp_id :: string
  tp_project_id :: string
  tp_repository_owner_id :: string
  tp_repository_id :: string
  tp_workflow_ref :: string
  tp_ref :: string
  tp_environment :: string
  tp_events :: "string list"
  tp_created_at :: time
  tp_revoked_at :: "time option"

definition trustProto :: "github_trust \<Rightarrow> trust_proto" where
  "trustProto t =
     \<lparr>tp_id = gt_id t, tp_project_id = gt_project_id t, tp_repository_owner_id = gt_repository_owner_id t,
      tp_repository_id = gt_repository_id t, tp_workflow_ref = gt_workflow_ref t, tp_ref = gt_ref t,
      tp_environment = gt_environment t, tp_events = sort (gt_events t), tp_created_at = gt_created_at t,
      tp_revoked_at = gt_revoked_at t\<rparr>"

record token_proto =
  kp_id :: string
  kp_name :: string
  kp_user_id :: string
  kp_created_at :: time
  kp_expires_at :: "time option"
  kp_last_used_at :: "time option"
  kp_revoked_at :: "time option"

definition tokenProto :: "device_token \<Rightarrow> token_proto" where
  "tokenProto t =
     \<lparr>kp_id = dt_id t, kp_name = dt_name t, kp_user_id = dt_user_id t, kp_created_at = dt_created_at t,
      kp_expires_at = dt_expires_at t, kp_last_used_at = dt_last_used_at t, kp_revoked_at = dt_revoked_at t\<rparr>"

record enrollment_proto =
  np_id :: string
  np_user_id :: string
  np_device_name :: string
  np_created_at :: time
  np_expires_at :: time
  np_consumed_at :: "time option"
  np_failed_attempts :: int
  np_max_attempts :: int

definition enrollmentProto :: "enrollment_code \<Rightarrow> enrollment_proto" where
  "enrollmentProto e =
     \<lparr>np_id = ec_id e, np_user_id = ec_user_id e, np_device_name = ec_device_name e, np_created_at = ec_created_at e,
      np_expires_at = ec_expires_at e, np_consumed_at = ec_consumed_at e,
      np_failed_attempts = wrap32 (ec_failed_attempts e), np_max_attempts = wrap32 (ec_max_attempts e)\<rparr>"

record connection_proto =
  cp_endpoint :: string
  cp_instance_name :: string
  cp_server_name :: string
  cp_ca_pem :: string
  cp_certificate_pem :: string
  cp_private_key_pem :: string
  cp_expires_at :: time

definition connectionProto :: "string \<Rightarrow> string \<Rightarrow> credential \<Rightarrow> connection_proto" where
  "connectionProto endpoint inst c =
     \<lparr>cp_endpoint = endpoint, cp_instance_name = inst, cp_server_name = cred_server_name c, cp_ca_pem = cred_ca_pem c,
      cp_certificate_pem = cred_certificate_pem c, cp_private_key_pem = cred_private_key_pem c,
      cp_expires_at = cred_expires_at c\<rparr>"

section \<open>Errors\<close>

definition connectError :: "err \<Rightarrow> err" where
  "connectError e =
     (if err_is e ErrUnauthenticated then ErrConnect CodeUnauthenticated ErrUnauthenticated
      else if err_is e ErrForbidden then ErrConnect CodePermissionDenied ErrForbidden
      else if err_is e ErrNotFound then ErrConnect CodeNotFound ErrNotFound
      else if err_is e ErrAlreadyExists then ErrConnect CodeAlreadyExists ErrAlreadyExists
      else if err_is e ErrIdempotencyConflict then ErrConnect CodeAlreadyExists ErrIdempotencyConflict
      else if err_is e ErrInvalidPageToken then ErrConnect CodeInvalidArgument ErrInvalidPageToken
      else ErrConnect CodeInternal (ErrText ''internal autback error''))"

end
