(* ===== verification/Log_Stream.thy ===== *)
theory Log_Stream
  imports Messages
begin

text \<open>
  The log of a job on its way to the client: the writers \<open>streamWriter\<close> and \<open>offsetWriter\<close> of
  \<open>internal/control/controlapi/server.go\<close> on the server and the loop of \<open>waitServiceJob\<close> in
  \<open>internal/cli/service.go\<close> on the client, which reconnects at the offset it has reached. The
  connection carries messages until it breaks.
\<close>

section \<open>The server's writers\<close>

record log_message =
  lm_data :: string
  lm_next_offset :: int
  lm_terminal_job :: "job_proto option"

text \<open>A connection: what was sent on it, and how many more messages it carries.\<close>

record channel =
  ch_sent :: "log_message list"
  ch_left :: nat

definition Send :: "log_message \<Rightarrow> channel \<Rightarrow> err option \<times> channel" where
  "Send m ch =
     (if ch_left ch = 0 then (Some (ErrConnect CodeUnavailable (ErrText ''connection lost'')), ch)
      else (None, ch\<lparr>ch_sent := ch_sent ch @ [m], ch_left := ch_left ch - 1\<rparr>))"

record log_writer =
  lw_stream :: channel
  lw_offset :: int
  lw_remaining :: int

definition streamWriter_Write :: "string \<Rightarrow> log_writer \<Rightarrow> err option \<times> log_writer" where
  "streamWriter_Write data w =
     (let offset = lw_offset w + int (length data) in
      case Send \<lparr>lm_data = data, lm_next_offset = offset, lm_terminal_job = None\<rparr> (lw_stream w) of
        (Some e, ch) \<Rightarrow> (Some e, w\<lparr>lw_stream := ch\<rparr>)
      | (None, ch) \<Rightarrow> (None, w\<lparr>lw_stream := ch, lw_offset := offset\<rparr>))"

definition offsetWriter_Write :: "string \<Rightarrow> log_writer \<Rightarrow> err option \<times> log_writer" where
  "offsetWriter_Write data w =
     (if int (length data) \<le> lw_remaining w
      then (None, w\<lparr>lw_remaining := lw_remaining w - int (length data)\<rparr>)
      else streamWriter_Write (drop (nat (lw_remaining w)) data) (w\<lparr>lw_remaining := 0\<rparr>))"

text \<open>
  \<open>StreamJobLogs\<close> hands out the \<open>streamWriter\<close> itself for offset 0 and puts an \<open>offsetWriter\<close> in
  front of it otherwise.
\<close>

definition new_log_writer :: "int \<Rightarrow> channel \<Rightarrow> log_writer" where
  "new_log_writer offset ch = \<lparr>lw_stream = ch, lw_offset = offset, lw_remaining = offset\<rparr>"

definition log_write :: "int \<Rightarrow> string \<Rightarrow> log_writer \<Rightarrow> err option \<times> log_writer" where
  "log_write requested data w = (if requested > 0 then offsetWriter_Write data w else streamWriter_Write data w)"

text \<open>Whatever copies the log into the writer stops at the first error of the writer.\<close>

fun write_log :: "int \<Rightarrow> string list \<Rightarrow> log_writer \<Rightarrow> err option \<times> log_writer" where
  "write_log requested [] w = (None, w)"
| "write_log requested (chunk # chunks) w =
     (case log_write requested chunk w of (Some e, w) \<Rightarrow> (Some e, w) | (None, w) \<Rightarrow> write_log requested chunks w)"

section \<open>The client\<close>

record log_client =
  lc_stdout :: string
  lc_offset :: int
  lc_terminal :: "job_proto option"

definition receive :: "log_message \<Rightarrow> log_client \<Rightarrow> log_client" where
  "receive m c =
     (let c = c\<lparr>lc_stdout := lc_stdout c @ lm_data m\<rparr>;
          c = (if lm_next_offset m \<ge> lc_offset c then c\<lparr>lc_offset := lm_next_offset m\<rparr> else c)
      in case lm_terminal_job m of None \<Rightarrow> c | Some job \<Rightarrow> c\<lparr>lc_terminal := Some job\<rparr>)"

text \<open>
  One turn of the loop: a request at the offset reached so far. The server writes \<open>chunks\<close>, the
  connection carries \<open>left\<close> messages, and when the server gets to its end it sends the job, which
  the client takes for final.
\<close>

record attempt =
  at_chunks :: "string list"
  at_left :: nat
  at_job :: "job_proto option"

definition serve_attempt :: "int \<Rightarrow> attempt \<Rightarrow> log_message list" where
  "serve_attempt offset a =
     (case write_log offset (at_chunks a) (new_log_writer offset \<lparr>ch_sent = [], ch_left = at_left a\<rparr>) of
        (Some e, w) \<Rightarrow> ch_sent (lw_stream w)
      | (None, w) \<Rightarrow>
          (case at_job a of
             None \<Rightarrow> ch_sent (lw_stream w)
           | Some job \<Rightarrow>
               ch_sent (snd (Send \<lparr>lm_data = [], lm_next_offset = lw_offset w, lm_terminal_job = Some job\<rparr> (lw_stream w)))))"

fun waitServiceJob :: "attempt list \<Rightarrow> log_client \<Rightarrow> log_client" where
  "waitServiceJob [] c = c"
| "waitServiceJob (a # attempts) c =
     (if lc_terminal c \<noteq> None then c
      else waitServiceJob attempts (fold receive (serve_attempt (lc_offset c) a) c))"

definition new_log_client :: log_client where
  "new_log_client = \<lparr>lc_stdout = [], lc_offset = 0, lc_terminal = None\<rparr>"

section \<open>What arrives\<close>

text \<open>The state of a writer that has been given the first \<open>n\<close> bytes of a log, and what it has sent.\<close>

definition writer_at :: "string \<Rightarrow> int \<Rightarrow> nat \<Rightarrow> log_writer \<Rightarrow> bool" where
  "writer_at log requested n w \<longleftrightarrow>
     0 \<le> lw_remaining w \<and>
     (if int n \<le> requested then lw_offset w = requested \<and> lw_remaining w = requested - int n
      else lw_offset w = int n \<and> lw_remaining w = 0)"

text \<open>The messages on a connection continue the log from the requested offset without a gap.\<close>

fun continues :: "string \<Rightarrow> int \<Rightarrow> log_message list \<Rightarrow> bool" where
  "continues log k [] \<longleftrightarrow> True"
| "continues log k (m # ms) \<longleftrightarrow>
     lm_next_offset m = k + int (length (lm_data m)) \<and>
     lm_data m = take (length (lm_data m)) (drop (nat k) log) \<and> continues log (lm_next_offset m) ms"

definition reached :: "int \<Rightarrow> log_message list \<Rightarrow> int" where
  "reached k ms = (if ms = [] then k else lm_next_offset (last ms))"

lemma continues_append:
  "continues log k (ms @ ns) \<longleftrightarrow> continues log k ms \<and> continues log (reached k ms) ns"
  by (induction ms arbitrary: k) (auto simp: reached_def)

definition sending :: "string \<Rightarrow> int \<Rightarrow> nat \<Rightarrow> log_writer \<Rightarrow> bool" where
  "sending log requested n w \<longleftrightarrow>
     writer_at log requested n w \<and> continues log requested (ch_sent (lw_stream w)) \<and>
     reached requested (ch_sent (lw_stream w)) = lw_offset w"

definition stopped :: "string \<Rightarrow> int \<Rightarrow> log_writer \<Rightarrow> bool" where
  "stopped log requested w \<longleftrightarrow>
     continues log requested (ch_sent (lw_stream w)) \<and> reached requested (ch_sent (lw_stream w)) = lw_offset w"

lemma Send_continues:
  assumes "continues log requested (ch_sent ch)" "reached requested (ch_sent ch) = offset" "0 \<le> offset"
    and "data = take (length data) (drop (nat offset) log)"
    and "Send \<lparr>lm_data = data, lm_next_offset = offset + int (length data), lm_terminal_job = job\<rparr> ch = (e, ch')"
  shows "continues log requested (ch_sent ch')"
    and "reached requested (ch_sent ch') = (if e = None then offset + int (length data) else offset)"
    and "ch_left ch' = (if e = None then ch_left ch - 1 else ch_left ch)" "e = None \<longleftrightarrow> ch_left ch \<noteq> 0"
  using assms by (auto simp: Send_def continues_append reached_def split: if_splits)

lemma streamWriter_step:
  assumes "continues log requested (ch_sent (lw_stream w))" "reached requested (ch_sent (lw_stream w)) = lw_offset w"
    and "0 \<le> lw_offset w" "data = take (length data) (drop (nat (lw_offset w)) log)"
    and "streamWriter_Write data w = (e, w')"
  shows "stopped log requested w' \<and> lw_remaining w' = lw_remaining w \<and>
    lw_offset w' = (if e = None then lw_offset w + int (length data) else lw_offset w) \<and>
    ch_left (lw_stream w') = (if e = None then ch_left (lw_stream w) - 1 else ch_left (lw_stream w)) \<and>
    (e = None \<longleftrightarrow> ch_left (lw_stream w) \<noteq> 0)"
proof -
  obtain e1 ch where send:
    "Send \<lparr>lm_data = data, lm_next_offset = lw_offset w + int (length data), lm_terminal_job = None\<rparr> (lw_stream w) = (e1, ch)"
    by fastforce
  note step = Send_continues [OF assms(1-4) send]
  show ?thesis
    using assms(5) step send by (auto simp: streamWriter_Write_def Let_def stopped_def split: option.splits)
qed

lemma log_write_step:
  assumes "sending log requested n w" "0 \<le> requested" "data = take (length data) (drop n log)"
    and "log_write requested data w = (e, w')"
  shows "stopped log requested w' \<and> (e = None \<longrightarrow> sending log requested (n + length data) w') \<and>
    ch_left (lw_stream w) - 1 \<le> ch_left (lw_stream w') \<and> (ch_left (lw_stream w) \<noteq> 0 \<longrightarrow> e = None)"
proof -
  have inv: "continues log requested (ch_sent (lw_stream w))" "reached requested (ch_sent (lw_stream w)) = lw_offset w"
      "0 \<le> lw_offset w" "lw_offset w = max requested (int n)" "lw_remaining w = max 0 (requested - int n)"
    using assms(1,2) by (auto simp: sending_def writer_at_def split: if_splits)
  show ?thesis
  proof (cases "requested > 0 \<and> int (length data) \<le> lw_remaining w")
    case True
    then have "w' = w\<lparr>lw_remaining := lw_remaining w - int (length data)\<rparr>" "e = None"
      using assms(4) by (auto simp: log_write_def offsetWriter_Write_def)
    moreover have "int n \<le> requested \<and> lw_remaining w = requested - int n \<or>
        requested \<le> int n \<and> lw_remaining w = 0 \<and> data = []"
      using True inv(5) by (cases "int n \<le> requested") auto
    ultimately show ?thesis
      using True inv(1-4) by (auto simp: stopped_def sending_def writer_at_def max_def split: if_splits)
  next
    case False
    let ?k = "nat (lw_remaining w)"
    have "?k \<le> length data" "requested > 0 \<or> ?k = 0" using False inv(5) assms(2) by auto
    have wrote: "streamWriter_Write (drop ?k data) (w\<lparr>lw_remaining := 0\<rparr>) = (e, w')"
    proof (cases "requested > 0")
      case True
      then show ?thesis using False assms(4) by (simp add: log_write_def offsetWriter_Write_def)
    next
      case none: False
      then have "lw_remaining w = 0" using inv(5) assms(2) by simp
      then have same: "w\<lparr>lw_remaining := 0\<rparr> = w" by (cases w) simp
      show ?thesis unfolding same using none assms(4) \<open>lw_remaining w = 0\<close> by (simp add: log_write_def)
    qed
    have pos: "nat (lw_offset w) = n + ?k" using inv(4,5) by (auto simp: max_def)
    have "drop ?k data = take (length data - ?k) (drop ?k (drop n log))"
      using assms(3) by (metis drop_take)
    then have rest: "drop ?k data = take (length (drop ?k data)) (drop (nat (lw_offset w)) log)"
      unfolding length_drop pos drop_drop by (simp add: add.commute)
    have "sending log requested (n + length data) w'" if "e = None" "stopped log requested w'"
        "lw_offset w' = lw_offset w + int (length (drop ?k data))" "lw_remaining w' = 0"
      using that inv(4,5) \<open>?k \<le> length data\<close> by (auto simp: sending_def stopped_def writer_at_def max_def split: if_splits)
    moreover
    define v where "v = w\<lparr>lw_remaining := 0\<rparr>"
    have v: "lw_stream v = lw_stream w" "lw_offset v = lw_offset w" "lw_remaining v = 0" by (simp_all add: v_def)
    note step = streamWriter_step [of log requested v, unfolded v, OF inv(1-3) rest wrote [folded v_def]]
    ultimately show ?thesis by (cases e) simp_all
  qed
qed

lemma write_log_step:
  "sending log requested n w \<Longrightarrow> 0 \<le> requested \<Longrightarrow> prefix (concat chunks) (drop n log) \<Longrightarrow>
   write_log requested chunks w = (e, w') \<Longrightarrow>
   stopped log requested w' \<and> (e = None \<longrightarrow> sending log requested (n + length (concat chunks)) w') \<and>
   (length chunks < ch_left (lw_stream w) \<longrightarrow> e = None \<and> ch_left (lw_stream w') \<noteq> 0)"
proof (induction chunks arbitrary: n w)
  case Nil
  then show ?case by (auto simp: sending_def stopped_def)
next
  case (Cons chunk chunks)
  obtain rest where rest: "drop n log = chunk @ concat chunks @ rest"
    using Cons.prems(3) by (auto simp: prefix_def)
  then have data: "chunk = take (length chunk) (drop n log)" and tail: "prefix (concat chunks) (drop (n + length chunk) log)"
    by (simp_all add: add.commute [of n] drop_drop [symmetric] del: drop_drop)
  obtain e1 w1 where w1: "log_write requested chunk w = (e1, w1)" by fastforce
  note step = log_write_step [OF Cons.prems(1,2) data w1]
  show ?case
  proof (cases e1)
    case None
    then have "write_log requested chunks w1 = (e, w')" using Cons.prems(4) w1 by simp
    from Cons.IH [OF _ Cons.prems(2) tail this] show ?thesis using step None by (auto simp: add.assoc)
  next
    case (Some e2)
    then show ?thesis using Cons.prems(4) w1 step by auto
  qed
qed

lemma serve_attempt_continues:
  assumes "0 \<le> offset" "prefix (concat (at_chunks a)) log"
  shows "continues log offset (serve_attempt offset a)"
    and "concat (at_chunks a) = log \<Longrightarrow> offset \<le> int (length log) \<Longrightarrow> length (at_chunks a) < at_left a \<Longrightarrow>
      reached offset (serve_attempt offset a) = int (length log)"
proof -
  let ?w = "new_log_writer offset \<lparr>ch_sent = [], ch_left = at_left a\<rparr>"
  obtain e w where w: "write_log offset (at_chunks a) ?w = (e, w)" by fastforce
  have "sending log offset 0 ?w"
    using assms(1) by (simp add: sending_def writer_at_def new_log_writer_def reached_def)
  note step = write_log_step [OF this assms(1) _ w, simplified, OF assms(2)]
  have offset: "0 \<le> lw_offset w" if "e = None"
    using step that assms(1) by (auto simp: sending_def writer_at_def split: if_splits)
  define last_message where "last_message job = \<lparr>lm_data = [], lm_next_offset = lw_offset w, lm_terminal_job = Some job\<rparr>" for job
  have fin: "continues log offset (ch_sent (snd (Send (last_message job) (lw_stream w)))) \<and>
      reached offset (ch_sent (snd (Send (last_message job) (lw_stream w)))) = lw_offset w" if "e = None" for job
  proof -
    obtain e1 ch where send: "Send (last_message job) (lw_stream w) = (e1, ch)" by fastforce
    have "continues log offset (ch_sent (lw_stream w))" "reached offset (ch_sent (lw_stream w)) = lw_offset w"
      using step by (simp_all add: stopped_def)
    note sent = Send_continues [OF this offset [OF that], of "[]" "Some job" e1 ch, simplified]
    show ?thesis using sent(1,2) send by (simp add: last_message_def)
  qed
  show "continues log offset (serve_attempt offset a)"
    using step fin w by (auto simp: serve_attempt_def stopped_def last_message_def split: option.splits)
  assume full: "concat (at_chunks a) = log" "offset \<le> int (length log)" "length (at_chunks a) < at_left a"
  then have "e = None" using step by (simp add: new_log_writer_def)
  moreover from this have "lw_offset w = int (length log)"
    using step full by (auto simp: sending_def writer_at_def split: if_splits)
  ultimately show "reached offset (serve_attempt offset a) = int (length log)"
    using step fin w by (auto simp: serve_attempt_def stopped_def last_message_def split: option.splits)
qed

definition in_step :: "string \<Rightarrow> log_client \<Rightarrow> bool" where
  "in_step log c \<longleftrightarrow>
     0 \<le> lc_offset c \<and> lc_offset c \<le> int (length log) \<and> lc_stdout c = take (nat (lc_offset c)) log"

lemma receive_step:
  assumes "in_step log c" "continues log (lc_offset c) ms"
  shows "in_step log (fold receive ms c) \<and> lc_offset (fold receive ms c) = reached (lc_offset c) ms"
  using assms
proof (induction ms arbitrary: c)
  case (Cons m ms)
  let ?n = "length (lm_data m)"
  have off: "lm_next_offset m = lc_offset c + int ?n" and data: "lm_data m = take ?n (drop (nat (lc_offset c)) log)"
    using Cons.prems(2) by simp_all
  have "?n \<le> length (drop (nat (lc_offset c)) log)" using data by (metis length_take min.absorb_iff2 min.commute)
  then have bound: "lc_offset c + int ?n \<le> int (length log)" using Cons.prems(1) by (auto simp: in_step_def)
  have "lc_stdout (receive m c) = take (nat (lc_offset c) + ?n) log"
    using Cons.prems(1) data by (simp add: receive_def Let_def in_step_def take_add split: option.splits)
  moreover have lo: "lc_offset (receive m c) = lm_next_offset m"
    using off by (simp add: receive_def Let_def split: option.splits)
  ultimately have "in_step log (receive m c)"
    using Cons.prems(1) off bound by (simp add: in_step_def nat_add_distrib)
  moreover have "continues log (lc_offset (receive m c)) ms"
    using Cons.prems(2) unfolding continues.simps lo by blast
  ultimately show ?case
    using Cons.IH [of "receive m c"] lo by (auto simp: reached_def)
qed (simp add: reached_def)

lemma waitServiceJob_in_step:
  "in_step log c \<Longrightarrow> \<forall>a \<in> set attempts. prefix (concat (at_chunks a)) log \<Longrightarrow> in_step log (waitServiceJob attempts c)"
proof (induction attempts arbitrary: c)
  case (Cons a attempts)
  then have "continues log (lc_offset c) (serve_attempt (lc_offset c) a)"
    using serve_attempt_continues(1) by (simp add: in_step_def)
  then have "in_step log (fold receive (serve_attempt (lc_offset c) a) c)"
    using receive_step Cons.prems(1) by blast
  then show ?case using Cons by simp
qed simp

lemma waitServiceJob_snoc:
  "waitServiceJob (attempts @ [a]) c =
   (let c1 = waitServiceJob attempts c
    in if lc_terminal c1 \<noteq> None then c1 else fold receive (serve_attempt (lc_offset c1) a) c1)"
  by (induction attempts arbitrary: c) (auto simp: Let_def)


definition broken_attempts :: "attempt list" where
  "broken_attempts =
     [\<lparr>at_chunks = [''ab'', ''cd''], at_left = 1, at_job = None\<rparr>,
      \<lparr>at_chunks = [''a'', ''bc''], at_left = 5, at_job = None\<rparr>]"


end
