(* ===== verification/Server.thy ===== *)
theory Server
  imports Messages Dispatcher Log_Stream
begin

text \<open>
  The handlers of the API, \<open>internal/control/controlapi/server.go\<close>, over the store, the scheduler,
  the dispatcher and the certificate authority. A handler gets the header and the fields of its
  request and a state of the process, and returns an error or a response with the next state.
\<close>

section \<open>Configuration\<close>

record 'w scheduler =
  sc_check :: "'w \<Rightarrow> err option \<times> 'w"
  sc_validate_image :: "string \<Rightarrow> 'w \<Rightarrow> err option \<times> 'w"
  sc_status :: "string \<Rightarrow> 'w \<Rightarrow> (err + remote_job) \<times> 'w"
  sc_logs :: "string \<Rightarrow> 'w \<Rightarrow> (string list \<times> err option) \<times> 'w"
  sc_cancel :: "string \<Rightarrow> 'w \<Rightarrow> err option \<times> 'w"

text \<open>\<open>sc_logs\<close> is \<open>Logs\<close> without following: the pieces that it writes and the error it ends with.\<close>

record 'w dispatch_port =
  dp_run_once :: "'w \<Rightarrow> err option \<times> 'w"
  dp_advance :: "'w \<Rightarrow> 'w"
  dp_release :: "operation_kind \<Rightarrow> string \<Rightarrow> 'w \<Rightarrow> err option \<times> 'w"

text \<open>
  \<open>Config\<close>. \<open>cfg_mac\<close> and \<open>cfg_codec\<close> belong to the store: its pepper and the JSON of its page tokens.
  \<open>cfg_marshal_job\<close> and \<open>cfg_marshal_build\<close> are \<open>json.Marshal\<close> on what \<open>admissionHash\<close> gets,
  \<open>cfg_sha256\<close> the hash, \<open>cfg_invalid_text\<close> the texts of the errors of \<open>validateJob\<close>.
\<close>

record 'r config =
  cfg_mac :: "string \<Rightarrow> string"
  cfg_codec :: cursor_codec
  cfg_scheduler :: "'r system scheduler"
  cfg_dispatcher :: "'r system dispatch_port"
  cfg_authority :: "'r system authority"
  cfg_oidc_verifier :: "(string \<Rightarrow> 'r system \<Rightarrow> (err + github_claims) \<times> 'r system) option"
  cfg_cas_endpoint :: string
  cfg_cas_instance :: string
  cfg_buildkit_endpoint :: string
  cfg_credential_ttl :: duration
  cfg_allow_unpinned_images :: bool
  cfg_capacity_check :: "('r system \<Rightarrow> err option \<times> 'r system) option"
  cfg_required_build_capability :: string
  cfg_required_job_capability :: string
  cfg_ready :: "('r system \<Rightarrow> bool) option"
  cfg_readiness :: "(string \<times> ('r system \<Rightarrow> err option \<times> 'r system) option) list"
  cfg_readiness_probe_timeout :: duration
  cfg_github_directory :: "(string \<Rightarrow> 'r system \<Rightarrow> (err + external_identity) \<times> 'r system) option"
  cfg_marshal_job :: "prepare_job \<Rightarrow> err + string"
  cfg_marshal_build :: "string \<Rightarrow> err + string"
  cfg_sha256 :: "string \<Rightarrow> string"
  cfg_invalid_text :: "invalid \<Rightarrow> string"

text \<open>\<open>New\<close>: the defaults and the checks of the configuration; the store, the scheduler, the dispatcher and the authority are there.\<close>

definition New_server :: "'r config \<Rightarrow> err + 'r config" where
  "New_server c =
     (if cfg_cas_endpoint c = [] \<or> cfg_cas_instance c = [] \<or> cfg_buildkit_endpoint c = []
      then Inl (ErrText ''CAS endpoint, CAS instance, and BuildKit endpoint are required'')
      else
      let c = (if cfg_credential_ttl c = 0 then c\<lparr>cfg_credential_ttl := 15 * minute\<rparr> else c);
          c = (if cfg_readiness_probe_timeout c \<le> 0 then c\<lparr>cfg_readiness_probe_timeout := 500 * millisecond\<rparr> else c)
      in if \<exists>(name, check) \<in> set (cfg_readiness c). TrimSpace name = [] \<or> check = None
         then Inl (ErrText ''readiness dependency name and check are required'')
         else if cfg_credential_ttl c < minute \<or> cfg_credential_ttl c > 2 * hour
         then Inl (ErrText ''credential TTL must be between 1 minute and 2 hours'')
         else Inr c)"

section \<open>Answers\<close>

definition connected :: "(err + 'a) \<times> 'w \<Rightarrow> (err + 'a) \<times> 'w" where
  "connected r = (case r of (Inl e, w) \<Rightarrow> (Inl (connectError e), w) | (Inr x, w) \<Rightarrow> (Inr x, w))"

text \<open>A call of the store whose error the handler answers with \<open>connectError\<close>.\<close>

definition ask :: "(cworld \<Rightarrow> 'a cres) \<Rightarrow> 'r system \<Rightarrow> (err + 'a) \<times> 'r system" where
  "ask f s = connected (on_store f s)"

definition tried :: "(err \<Rightarrow> err) \<Rightarrow> err option \<times> 'w \<Rightarrow> (err + unit) \<times> 'w" where
  "tried f r = (case r of (Some e, w) \<Rightarrow> (Inl (f e), w) | (None, w) \<Rightarrow> (Inr (), w))"

definition refuse :: "code \<Rightarrow> string \<Rightarrow> err" where
  "refuse c text = ErrConnect c (ErrText text)"

section \<open>Health\<close>

text \<open>\<open>GET /readyz\<close>: no text is status 204, a text is status 503 with that body.\<close>

fun probe_dependencies ::
  "(string \<times> ('r system \<Rightarrow> err option \<times> 'r system) option) list \<Rightarrow> 'r system \<Rightarrow> string option \<times> 'r system" where
  "probe_dependencies [] w = (None, w)"
| "probe_dependencies ((name, check) # rest) w =
     (case check of
        None \<Rightarrow> probe_dependencies rest w
      | Some f \<Rightarrow>
          (case f w of
             (Some e, w) \<Rightarrow> (Some (name @ '' unavailable''), w)
           | (None, w) \<Rightarrow> probe_dependencies rest w))"

definition readyz :: "'r config \<Rightarrow> ('r system \<Rightarrow> err option \<times> 'r system) \<Rightarrow> 'r system \<Rightarrow> string option \<times> 'r system" where
  "readyz c ping w =
     (if (case cfg_ready c of None \<Rightarrow> False | Some ready \<Rightarrow> \<not> ready w) then (Some ''control plane is draining'', w)
      else case ping w of
        (Some e, w) \<Rightarrow> (Some ''control store unavailable'', w)
      | (None, w) \<Rightarrow>
          (case sc_check (cfg_scheduler c) w of
             (Some e, w) \<Rightarrow> (Some ''worker unavailable'', w)
           | (None, w) \<Rightarrow>
               (case (case cfg_capacity_check c of None \<Rightarrow> (None, w) | Some check \<Rightarrow> check w) of
                  (Some e, w) \<Rightarrow> (Some ''worker capacity unavailable'', w)
                | (None, w) \<Rightarrow> probe_dependencies (cfg_readiness c) w)))"

definition GetServiceInfo :: "'r config \<Rightarrow> string \<times> string list" where
  "GetServiceInfo c =
     (''0.1.12'',
      [''connect'', ''projects'', ''project-images'', ''project-caches'', ''job-secrets-v1'', ''device-tokens'',
       ''device-enrollment'', ''github-oidc'', ''reapi-cas-mtls'', ''swarm-jobs'', ''durable-fifo-admission'',
       ''durable-job-preparation'', ''buildkit-mtls''] @
      (if cfg_github_directory c = None then [] else [''github-human-auth'', ''public-console'']))"

section \<open>Who calls\<close>

definition bearer :: "header \<Rightarrow> string option" where
  "bearer h =
     (let value = header_get h ''Authorization'' in
      if HasPrefix value ''Bearer '' then
        (let token = drop 7 value in
         if token = [] \<or> (\<exists>c \<in> set token. c \<in> set [CHR '' '', CHR 0x09, CHR 0x0D, CHR 0x0A]) then None else Some token)
      else None)"

definition authenticate :: "'r config \<Rightarrow> header \<Rightarrow> 'r system \<Rightarrow> (err + principal) \<times> 'r system" where
  "authenticate c h w =
     (case bearer h of
        None \<Rightarrow> (Inl (ErrConnect CodeUnauthenticated ErrUnauthenticated), w)
      | Some token \<Rightarrow>
          bindR (ask (Authenticate (cfg_mac c) token) w) (\<lambda>actor w.
          if p_kind actor = PrincipalBrowser then (Inl (ErrConnect CodeUnauthenticated ErrUnauthenticated), w)
          else (Inr actor, w)))"

definition projectConfiguration ::
  "'r config \<Rightarrow> header \<Rightarrow> string \<Rightarrow> 'r system \<Rightarrow> (err + (principal \<times> project)) \<times> 'r system" where
  "projectConfiguration c h selector w =
     bindR (authenticate c h w) (\<lambda>actor w.
     bindR (ask (AuthorizeProject actor selector) w) (\<lambda>project w.
     if \<not> device_admin actor then (Inl (connectError ErrForbidden), w) else (Inr (actor, project), w)))"

definition authorizedJob :: "principal \<Rightarrow> string \<Rightarrow> 'r system \<Rightarrow> (err + job) \<times> 'r system" where
  "authorizedJob actor i w =
     bindR (ask (Job i) w) (\<lambda>job w.
     bindR (ask (AuthorizeProject actor (job_project_id job)) w) (\<lambda>_ w. (Inr job, w)))"

definition authorizedBuild :: "principal \<Rightarrow> string \<Rightarrow> 'r system \<Rightarrow> (err + build) \<times> 'r system" where
  "authorizedBuild actor i w =
     bindR (ask (Build i) w) (\<lambda>build w.
     bindR (ask (AuthorizeProject actor (build_project_id build)) w) (\<lambda>_ w. (Inr build, w)))"

section \<open>Users, identities and projects\<close>

definition Server_CreateUser :: "'r config \<Rightarrow> header \<Rightarrow> string \<Rightarrow> bool \<Rightarrow> 'r system \<Rightarrow> (err + user_proto) \<times> 'r system" where
  "Server_CreateUser c h name admin w =
     bindR (authenticate c h w) (\<lambda>actor w.
     bindR (ask (CreateUser actor name admin) w) (\<lambda>user w.
     bindR (ask (Audit actor [] ''user.create'' (user_id user) []) w) (\<lambda>_ w.
     (Inr (userProto user), w))))"

definition BindGitHubIdentity ::
  "'r config \<Rightarrow> header \<Rightarrow> string \<Rightarrow> string \<Rightarrow> 'r system \<Rightarrow> (err + external_identity_proto) \<times> 'r system" where
  "BindGitHubIdentity c h login userID w =
     bindR (authenticate c h w) (\<lambda>actor w.
     if \<not> device_admin actor then (Inl (connectError ErrForbidden), w)
     else case cfg_github_directory c of
            None \<Rightarrow> (Inl (refuse CodeFailedPrecondition ''GitHub human authentication is not configured''), w)
          | Some resolve \<Rightarrow>
              bindR (mask (refuse CodeInvalidArgument ''resolve GitHub login'') (resolve login w)) (\<lambda>identity w.
              bindR (ask (BindExternalIdentity actor userID identity) w) (\<lambda>identity w.
              bindR (ask (Audit actor [] ''identity.github.bind'' (ei_user_id identity)
                [(''github_id'', ei_subject identity), (''github_login'', ei_login identity)]) w) (\<lambda>_ w.
              (Inr (externalIdentityProto identity), w)))))"

definition RevokeGitHubIdentity :: "'r config \<Rightarrow> header \<Rightarrow> string \<Rightarrow> 'r system \<Rightarrow> (err + unit) \<times> 'r system" where
  "RevokeGitHubIdentity c h userID w =
     bindR (authenticate c h w) (\<lambda>actor w.
     if \<not> device_admin actor then (Inl (connectError ErrForbidden), w)
     else
     bindR (ask (RevokeExternalIdentity actor userID ''github'') w) (\<lambda>_ w.
     ask (Audit actor [] ''identity.github.revoke'' userID []) w))"

definition Server_CreateProject ::
  "'r config \<Rightarrow> header \<Rightarrow> string \<Rightarrow> string \<Rightarrow> 'r system \<Rightarrow> (err + project_proto) \<times> 'r system" where
  "Server_CreateProject c h slug name w =
     bindR (authenticate c h w) (\<lambda>actor w.
     bindR (ask (CreateProject actor slug name) w) (\<lambda>project w.
     bindR (ask (AddProjectMember actor (project_id project) (p_user_id actor)) w) (\<lambda>_ w.
     bindR (ask (Audit actor (project_id project) ''project.create'' (project_id project) []) w) (\<lambda>_ w.
     (Inr (projectProto project), w)))))"

definition Server_ListProjects :: "'r config \<Rightarrow> header \<Rightarrow> 'r system \<Rightarrow> (err + project_proto list) \<times> 'r system" where
  "Server_ListProjects c h w =
     bindR (authenticate c h w) (\<lambda>actor w.
     bindR (ask (ListProjects actor) w) (\<lambda>listed w. (Inr (map projectProto listed), w)))"

definition Server_AddProjectMember ::
  "'r config \<Rightarrow> header \<Rightarrow> string \<Rightarrow> string \<Rightarrow> 'r system \<Rightarrow> (err + unit) \<times> 'r system" where
  "Server_AddProjectMember c h selector userID w =
     bindR (authenticate c h w) (\<lambda>actor w.
     bindR (ask (AuthorizeProject actor selector) w) (\<lambda>project w.
     bindR (ask (AddProjectMember actor (project_id project) userID) w) (\<lambda>_ w.
     ask (Audit actor (project_id project) ''project.member.add'' userID []) w)))"

section \<open>Images\<close>

definition Server_ActivateProjectImage ::
  "'r config \<Rightarrow> header \<Rightarrow> string \<Rightarrow> string \<Rightarrow> 'r system \<Rightarrow> (err + project_proto) \<times> 'r system" where
  "Server_ActivateProjectImage c h selector reference w =
     bindR (projectConfiguration c h selector w) (\<lambda>(actor, project) w.
     if \<not> imageDigestPattern reference
     then (Inl (refuse CodeInvalidArgument ''image must be pinned by sha256 digest''), w)
     else
     bindR (tried (\<lambda>e. ErrConnect CodeUnavailable (ErrWrap ''validate project image'' e))
       (sc_validate_image (cfg_scheduler c) reference w)) (\<lambda>_ w.
     bindR (ask (ActivateProjectImage actor (project_id project) reference) w) (\<lambda>project w.
     bindR (ask (Audit actor (project_id project) ''project.image.activate'' (project_id project)
       [(''image'', project_active_image project), (''replaced_image'', project_previous_image project)]) w) (\<lambda>_ w.
     (Inr (projectProto project), w)))))"

definition Server_RollbackProjectImage ::
  "'r config \<Rightarrow> header \<Rightarrow> string \<Rightarrow> 'r system \<Rightarrow> (err + project_proto) \<times> 'r system" where
  "Server_RollbackProjectImage c h selector w =
     bindR (projectConfiguration c h selector w) (\<lambda>(actor, project) w.
     if project_previous_image project = []
     then (Inl (refuse CodeFailedPrecondition ''project has no previous image''), w)
     else
     bindR (tried (\<lambda>e. ErrConnect CodeUnavailable (ErrWrap ''validate rollback image'' e))
       (sc_validate_image (cfg_scheduler c) (project_previous_image project) w)) (\<lambda>_ w.
     bindR (ask (RollbackProjectImage actor (project_id project)) w) (\<lambda>project w.
     bindR (ask (Audit actor (project_id project) ''project.image.rollback'' (project_id project)
       [(''image'', project_active_image project), (''replaced_image'', project_previous_image project)]) w) (\<lambda>_ w.
     (Inr (projectProto project), w)))))"

definition Server_SetProjectImagePolicy ::
  "'r config \<Rightarrow> header \<Rightarrow> string \<Rightarrow> bool \<Rightarrow> 'r system \<Rightarrow> (err + project_proto) \<times> 'r system" where
  "Server_SetProjectImagePolicy c h selector allow w =
     bindR (projectConfiguration c h selector w) (\<lambda>(actor, project) w.
     bindR (ask (SetProjectImagePolicy actor (project_id project) allow) w) (\<lambda>project w.
     bindR (ask (Audit actor (project_id project) ''project.image.policy'' (project_id project)
       [(''allow_overrides'', if project_allow_image_overrides project then ''true'' else ''false'')]) w) (\<lambda>_ w.
     (Inr (projectProto project), w))))"

definition Server_ListProjectImageHistory ::
  "'r config \<Rightarrow> header \<Rightarrow> string \<Rightarrow> 'r system \<Rightarrow> (err + image_event_proto list) \<times> 'r system" where
  "Server_ListProjectImageHistory c h selector w =
     bindR (authenticate c h w) (\<lambda>actor w.
     bindR (ask (AuthorizeProject actor selector) w) (\<lambda>project w.
     bindR (ask (ListProjectImageHistory (project_id project)) w) (\<lambda>events w.
     (Inr (map projectImageEventProto events), w))))"

section \<open>Jobs\<close>

text \<open>A client without the capability that the server requires.\<close>

definition outdated :: "header \<Rightarrow> string \<Rightarrow> err option" where
  "outdated h required =
     (if required \<noteq> [] \<and> \<not> headerContainsToken h ''Autback-Client-Capabilities'' required then
        (let sent = TrimSpace (header_get h ''Autback-Client-Version'');
             clientVersion = (if sent = [] then ''unknown'' else sent)
         in Some (refuse CodeFailedPrecondition
              (''autback client '' @ clientVersion @ '' does not support '' @ required @ ''; upgrade the autback CLI'')))
      else None)"

definition admissionHash :: "(string \<Rightarrow> string) \<Rightarrow> err + string \<Rightarrow> err + string" where
  "admissionHash sha256 marshalled = map_sum id (\<lambda>payload. hex_encode (sha256 payload)) marshalled"

text \<open>The dispatcher runs now, and again later if it fails.\<close>

definition dispatch_now :: "'r config \<Rightarrow> 'r system \<Rightarrow> err option \<times> 'r system" where
  "dispatch_now c w =
     (case dp_run_once (cfg_dispatcher c) w of
        (Some e, w) \<Rightarrow> (Some e, dp_advance (cfg_dispatcher c) w)
      | (None, w) \<Rightarrow> (None, w))"

definition issue :: "'r config \<Rightarrow> string \<Rightarrow> string \<Rightarrow> 'r system \<Rightarrow> (err + credential) \<times> 'r system" where
  "issue c kind i w = Issue (cfg_authority c) kind i (cfg_credential_ttl c) w"

definition jobPreparationConnection ::
  "'r config \<Rightarrow> job \<Rightarrow> 'r system \<Rightarrow> (err + connection_proto option) \<times> 'r system" where
  "jobPreparationConnection c job w =
     (if job_status job \<noteq> StatusPreparing then (Inr None, w)
      else
      bindR (ask (OperationState OperationJob (job_id job)) w) (\<lambda>state w.
      if state \<noteq> OperationAdmitting then (Inr None, w)
      else
      bindR (connected (issue c ''job'' (job_id job) w)) (\<lambda>credential w.
      (Inr (Some (connectionProto (cfg_cas_endpoint c) (cfg_cas_instance c) credential)), w))))"

definition renew_preparing :: "job \<Rightarrow> 'r system \<Rightarrow> (err + unit) \<times> 'r system" where
  "renew_preparing job w =
     (if job_status job = StatusPreparing then ask (RenewOperationLease OperationJob (job_id job)) w else (Inr (), w))"

definition chosen_image :: "project \<Rightarrow> string \<Rightarrow> err + string" where
  "chosen_image project requested =
     (if requested \<noteq> [] \<and> project_active_image project \<noteq> [] \<and> requested \<noteq> project_active_image project \<and>
         \<not> project_allow_image_overrides project
      then Inl (refuse CodePermissionDenied ''project image overrides are disabled'')
      else let chosen = (if requested = [] then project_active_image project else requested) in
           if chosen = []
           then Inl (refuse CodeFailedPrecondition
             ''project has no active runner image; activate one or pass --image while overrides are enabled'')
           else Inr chosen)"

text \<open>The preparation that the audit log could not record is given up; both errors are ignored.\<close>

definition give_up_job :: "'r config \<Rightarrow> string \<Rightarrow> 'r system \<Rightarrow> 'r system" where
  "give_up_job c i w =
     snd (dp_release (cfg_dispatcher c) OperationJob i
       (snd (on_store (FailJob i ''record job preparation audit'') w)))"

definition audited_preparation ::
  "'r config \<Rightarrow> principal \<Rightarrow> string \<Rightarrow> job \<Rightarrow> bool \<Rightarrow> 'r system \<Rightarrow> (err + unit) \<times> 'r system" where
  "audited_preparation c actor projectID job replayed w =
     (if replayed then (Inr (), w)
      else case on_store (Audit actor projectID ''job.prepare'' (job_id job) [(''image'', job_image job)]) w of
             (Inl e, w) \<Rightarrow> (Inl (connectError e), give_up_job c (job_id job) w)
           | (Inr _, w) \<Rightarrow> (Inr (), w))"

definition PrepareJob ::
  "'r config \<Rightarrow> header \<Rightarrow> prepare_job_request \<Rightarrow> 'r system \<Rightarrow> (err + (job_proto \<times> connection_proto option)) \<times> 'r system" where
  "PrepareJob c h m w =
     bindR (authenticate c h w) (\<lambda>actor w.
     bindR (ask (AuthorizeProject actor (pj_project m)) w) (\<lambda>project w.
     case outdated h (cfg_required_job_capability c) of Some e \<Rightarrow> (Inl e, w) | None \<Rightarrow>
     (case chosen_image project (pj_image m) of Inl e \<Rightarrow> (Inl e, w) | Inr chosen \<Rightarrow>
     (case validateJob (cfg_allow_unpinned_images c) (project_id project) (m\<lparr>pj_image := chosen\<rparr>) of
        Inl e \<Rightarrow> (Inl (refuse CodeInvalidArgument (cfg_invalid_text c e)), w)
      | Inr input \<Rightarrow>
     (case admissionHash (cfg_sha256 c) (cfg_marshal_job c input) of Inl e \<Rightarrow> (Inl (connectError e), w) | Inr requestHash \<Rightarrow>
     bindR (ask (CreatePreparedJob input \<lparr>idem_key = pj_idempotency_key m, idem_request_hash = requestHash\<rparr>) w) (\<lambda>(job, replayed) w.
     bindR (audited_preparation c actor (project_id project) job replayed w) (\<lambda>_ w.
     let w = snd (dispatch_now c w) in
     bindR (ask (Job (job_id job)) w) (\<lambda>job w.
     bindR (renew_preparing job w) (\<lambda>_ w.
     bindR (jobPreparationConnection c job w) (\<lambda>connection w.
     (Inr (jobProto job, connection), w)))))))))))"

definition start_again :: "'r config \<Rightarrow> job \<Rightarrow> string \<Rightarrow> 'r system \<Rightarrow> (err + job_proto) \<times> 'r system" where
  "start_again c job rootDigest w =
     (if job_root_digest job \<noteq> rootDigest
      then (Inl (refuse CodeFailedPrecondition ''job was already started with a different root digest''), w)
      else (Inr (jobProto job), snd (dispatch_now c w)))"

definition start_prepared :: "'r config \<Rightarrow> principal \<Rightarrow> job \<Rightarrow> string \<Rightarrow> 'r system \<Rightarrow> (err + job_proto) \<times> 'r system" where
  "start_prepared c actor job rootDigest w =
     bindR (ask (OperationState OperationJob (job_id job)) w) (\<lambda>state w.
     if state \<noteq> OperationAdmitting
     then (Inl (refuse CodeFailedPrecondition ''job is still waiting for worker capacity''), w)
     else
     bindR (ask (QueueJob (job_id job) rootDigest) w) (\<lambda>job w.
     let (dispatchErr, w) = dispatch_now c w in
     bindR (ask (Job (job_id job)) w) (\<lambda>job w.
     if dispatchErr \<noteq> None \<and> job_status job = StatusFailed
     then (Inl (ErrConnect CodeUnavailable (the dispatchErr)), w)
     else
     bindR (ask (Audit actor (job_project_id job) ''job.start'' (job_id job) [(''root_digest'', job_root_digest job)]) w) (\<lambda>_ w.
     (Inr (jobProto job), w)))))"

definition Server_StartJob :: "'r config \<Rightarrow> header \<Rightarrow> string \<Rightarrow> string \<Rightarrow> 'r system \<Rightarrow> (err + job_proto) \<times> 'r system" where
  "Server_StartJob c h i rootDigest w =
     bindR (authenticate c h w) (\<lambda>actor w.
     bindR (authorizedJob actor i w) (\<lambda>job w.
     if \<not> rootDigestPattern rootDigest
     then (Inl (refuse CodeInvalidArgument ''root digest must use REAPI hash/size form''), w)
     else if job_status job \<noteq> StatusPreparing then start_again c job rootDigest w
     else start_prepared c actor job rootDigest w))"

text \<open>\<open>refreshJob\<close> returns the errors of the store and the scheduler as they are.\<close>

definition refreshJob :: "'r config \<Rightarrow> job \<Rightarrow> 'r system \<Rightarrow> (err + job) \<times> 'r system" where
  "refreshJob c job w =
     (if job_status job = StatusPreparing \<or> Terminal (job_status job) then (Inr job, w)
      else case on_store (OperationState OperationJob (job_id job)) w of
        (r, w) \<Rightarrow>
          if (case r of Inl e \<Rightarrow> err_is e ErrNotFound | Inr state \<Rightarrow> state \<noteq> OperationQueued \<and> state \<noteq> OperationAdmitting)
          then
            bindR (sc_status (cfg_scheduler c) (job_id job) w) (\<lambda>remote w.
            bindR (on_store (SyncJob (job_id job) remote) w) (\<lambda>job w.
            (Inr job, if Terminal (job_status job) then dp_advance (cfg_dispatcher c) w else w)))
          else (map_sum id (\<lambda>_. job) r, w))"

definition GetJob ::
  "'r config \<Rightarrow> header \<Rightarrow> string \<Rightarrow> 'r system \<Rightarrow> (err + (job_proto \<times> connection_proto option)) \<times> 'r system" where
  "GetJob c h i w =
     bindR (authenticate c h w) (\<lambda>actor w.
     bindR (authorizedJob actor i w) (\<lambda>job w.
     bindR (connected (refreshJob c job w)) (\<lambda>job w.
     bindR (renew_preparing job w) (\<lambda>_ w.
     bindR (jobPreparationConnection c job w) (\<lambda>connection w.
     (Inr (jobProto job, connection), w))))))"

fun refresh_all :: "'r config \<Rightarrow> job list \<Rightarrow> 'r system \<Rightarrow> job list \<times> 'r system" where
  "refresh_all c [] w = ([], w)"
| "refresh_all c (job # rest) w =
     (let (r, w) = refreshJob c job w;
          (refreshed, w) = refresh_all c rest w
      in ((case r of Inr j \<Rightarrow> j | Inl _ \<Rightarrow> job) # refreshed, w))"

definition page_size :: "int \<Rightarrow> int \<Rightarrow> int" where
  "page_size pageSize limit = (if pageSize \<noteq> 0 then pageSize else if limit \<noteq> 0 then limit else 20)"

definition Server_ListJobs ::
  "'r config \<Rightarrow> header \<Rightarrow> string \<Rightarrow> int \<Rightarrow> int \<Rightarrow> string \<Rightarrow> 'r system \<Rightarrow> (err + (job_proto list \<times> string)) \<times> 'r system" where
  "Server_ListJobs c h selector pageSize limit pageToken w =
     bindR (authenticate c h w) (\<lambda>actor w.
     bindR (ask (AuthorizeProject actor selector) w) (\<lambda>project w.
     let n = page_size pageSize limit in
     if n < 1 \<or> n > 100 then (Inl (refuse CodeInvalidArgument ''page size must be between 1 and 100''), w)
     else
     bindR (ask (ListJobs (cfg_codec c) (cfg_mac c) (project_id project) n pageToken) w) (\<lambda>page w.
     let (refreshed, w) = refresh_all c (page_jobs page) w
     in (Inr (map jobProto refreshed, page_next_token page), w))))"

text \<open>
  \<open>CancelJob\<close>: when the refresh after the cancellation fails, the variable \<open>job\<close> holds
  \<open>control.Job{}\<close>, here \<open>None\<close>, in all that follows.
\<close>

definition after_cancel :: "'r config \<Rightarrow> job \<Rightarrow> 'r system \<Rightarrow> job option \<times> 'r system" where
  "after_cancel c job w =
     (if job_status job = StatusCancelled then (Some job, w)
      else case refreshJob c job w of (Inr j, w) \<Rightarrow> (Some j, w) | (Inl _, w) \<Rightarrow> (None, w))"

definition release_cancelled :: "'r config \<Rightarrow> bool \<Rightarrow> job option \<Rightarrow> 'r system \<Rightarrow> (err + unit) \<times> 'r system" where
  "release_cancelled c active job w =
     (case job of
        Some j \<Rightarrow>
          if Terminal (job_status j) \<and> \<not> active
          then tried connectError (dp_release (cfg_dispatcher c) OperationJob (job_id j) w)
          else (Inr (), snd (dp_run_once (cfg_dispatcher c) w))
      | None \<Rightarrow> (Inr (), snd (dp_run_once (cfg_dispatcher c) w)))"

definition cancel_job :: "'r config \<Rightarrow> principal \<Rightarrow> bool \<Rightarrow> string \<Rightarrow> 'r system \<Rightarrow> (err + job_proto) \<times> 'r system" where
  "cancel_job c actor active i w =
     bindR (ask (RequestJobCancellation i) w) (\<lambda>job w.
     let (job, w) = after_cancel c job w in
     bindR (release_cancelled c active job w) (\<lambda>_ w.
     bindR (ask (Audit actor (case job of None \<Rightarrow> [] | Some j \<Rightarrow> job_project_id j) ''job.cancel''
       (case job of None \<Rightarrow> [] | Some j \<Rightarrow> job_id j) []) w) (\<lambda>_ w.
     (Inr (case job of None \<Rightarrow> zero_job_proto | Some j \<Rightarrow> jobProto j), w))))"

definition CancelJob :: "'r config \<Rightarrow> header \<Rightarrow> string \<Rightarrow> 'r system \<Rightarrow> (err + job_proto) \<times> 'r system" where
  "CancelJob c h i w =
     bindR (authenticate c h w) (\<lambda>actor w.
     bindR (authorizedJob actor i w) (\<lambda>job w.
     if Terminal (job_status job) then (Inr (jobProto job), w)
     else case on_store (OperationState OperationJob (job_id job)) w of
        (Inl e, w) \<Rightarrow> if \<not> err_is e ErrNotFound then (Inl (connectError e), w) else cancel_job c actor False (job_id job) w
      | (Inr state, w) \<Rightarrow>
          if state = OperationActive then
            bindR (tried (ErrConnect CodeUnavailable) (sc_cancel (cfg_scheduler c) (job_id job) w)) (\<lambda>_ w.
            cancel_job c actor True (job_id job) w)
          else cancel_job c actor False (job_id job) w))"

section \<open>Logs\<close>

text \<open>
  What the two \<open>select\<close> statements of \<open>followJob\<close> see, in order: the timer fires, after others have
  changed the state by a function; the goroutine that follows the log writes a piece, or ends. After
  the last event the context is done.
\<close>

datatype 'w poll = PollTimer "'w \<Rightarrow> 'w" | PollOutput string | PollLogsDone "err option"

fun wait_active :: "'r config \<Rightarrow> job \<Rightarrow> 'r system poll list \<Rightarrow> 'r system \<Rightarrow>
    (err + (job \<times> 'r system poll list option)) \<times> 'r system" where
  "wait_active c job events w =
     (case on_store (OperationState OperationJob (job_id job)) w of
        (r, w) \<Rightarrow>
          if r = Inr OperationActive then (Inr (job, Some events), w)
          else if (case r of Inl e \<Rightarrow> \<not> err_is e ErrNotFound | Inr _ \<Rightarrow> False)
          then (Inl (connectError (case r of Inl e \<Rightarrow> e | Inr _ \<Rightarrow> ErrNotFound)), w)
          else bindR (connected (refreshJob c job w)) (\<lambda>job w.
               if Terminal (job_status job) then (Inr (job, None), w)
               else case events of
                      PollTimer f # events \<Rightarrow> wait_active c job events (f w)
                    | _ \<Rightarrow> (Inl (ErrConnect CodeCanceled (ErrDriver ContextCanceled)), w)))"

fun drain_output :: "int \<Rightarrow> 'w poll list \<Rightarrow> log_writer \<Rightarrow> log_writer" where
  "drain_output requested (PollOutput chunk # events) out = drain_output requested events (snd (log_write requested chunk out))"
| "drain_output requested events out = out"

fun follow_logs :: "'r config \<Rightarrow> int \<Rightarrow> job \<Rightarrow> 'r system poll list \<Rightarrow> log_writer \<Rightarrow> 'r system \<Rightarrow>
    (err + job) \<times> log_writer \<times> 'r system" where
  "follow_logs c requested job [] out w = (Inl (ErrConnect CodeCanceled (ErrDriver ContextCanceled)), out, w)"
| "follow_logs c requested job (PollOutput chunk # events) out w =
     follow_logs c requested job events (snd (log_write requested chunk out)) w"
| "follow_logs c requested job (PollLogsDone (Some e) # events) out w = (Inl (ErrConnect CodeUnavailable e), out, w)"
| "follow_logs c requested job (PollLogsDone None # events) out w =
     (case refreshJob c job w of
        (Inl e, w) \<Rightarrow> (Inl (connectError e), drain_output requested events out, w)
      | (Inr job, w) \<Rightarrow>
          if Terminal (job_status job) then (Inr job, drain_output requested events out, w)
          else follow_logs c requested job events out w)"
| "follow_logs c requested job (PollTimer f # events) out w =
     (case refreshJob c job (f w) of
        (Inl e, w) \<Rightarrow> (Inl (connectError e), drain_output requested events out, w)
      | (Inr job, w) \<Rightarrow>
          if Terminal (job_status job) then (Inr job, drain_output requested events out, w)
          else follow_logs c requested job events out w)"

definition followJob :: "'r config \<Rightarrow> int \<Rightarrow> job \<Rightarrow> 'r system poll list \<Rightarrow> log_writer \<Rightarrow> 'r system \<Rightarrow>
    (err + job) \<times> log_writer \<times> 'r system" where
  "followJob c requested job events out w =
     (case wait_active c job events w of
        (Inl e, w) \<Rightarrow> (Inl e, out, w)
      | (Inr (job, None), w) \<Rightarrow> (Inr job, out, w)
      | (Inr (job, Some events), w) \<Rightarrow> follow_logs c requested job (PollTimer id # events) out w)"

definition finished_logs :: "'r config \<Rightarrow> int \<Rightarrow> job \<Rightarrow> log_writer \<Rightarrow> 'r system \<Rightarrow> (err + job) \<times> log_writer \<times> 'r system" where
  "finished_logs c requested job out w =
     (let ((chunks, schedulerErr), w) = sc_logs (cfg_scheduler c) (job_id job) w;
          (writeErr, out) = write_log requested chunks out
      in case (if writeErr \<noteq> None then writeErr else schedulerErr) of
           Some e \<Rightarrow> if sys_cancelled w then (Inr job, out, w) else (Inl (ErrConnect CodeUnavailable e), out, w)
         | None \<Rightarrow> (Inr job, out, w))"

definition write_logs :: "'r config \<Rightarrow> int \<Rightarrow> job \<Rightarrow> 'r system poll list \<Rightarrow> log_writer \<Rightarrow> 'r system \<Rightarrow>
    (err + job) \<times> log_writer \<times> 'r system" where
  "write_logs c offset job events out w =
     (if job_status job = StatusPreparing then (Inr job, out, w)
      else if Terminal (job_status job) then finished_logs c offset job out w
      else followJob c offset job events out w)"

definition StreamJobLogs :: "'r config \<Rightarrow> header \<Rightarrow> string \<Rightarrow> int \<Rightarrow> 'r system poll list \<Rightarrow> channel \<Rightarrow> 'r system \<Rightarrow>
    err option \<times> channel \<times> 'r system" where
  "StreamJobLogs c h i offset events ch w =
     (if offset < 0 then (Some (refuse CodeInvalidArgument ''log offset cannot be negative''), ch, w)
      else case bindR (authenticate c h w) (\<lambda>actor w. authorizedJob actor i w) of
        (Inl e, w) \<Rightarrow> (Some e, ch, w)
      | (Inr job, w) \<Rightarrow>
          (let out = new_log_writer offset ch;
               (r, out, w) = write_logs c offset job events out w
           in case r of
                Inl e \<Rightarrow> (Some e, lw_stream out, w)
              | Inr job \<Rightarrow>
                  (let (e, ch) = Send \<lparr>lm_data = [], lm_next_offset = (if job_status job \<noteq> StatusPreparing then lw_offset out else offset),
                        lm_terminal_job = Some (jobProto job)\<rparr> (lw_stream out)
                   in (e, ch, w))))"

section \<open>Builds\<close>

definition audited_build ::
  "principal \<Rightarrow> string \<Rightarrow> build \<Rightarrow> bool \<Rightarrow> 'r system \<Rightarrow> (err + unit) \<times> 'r system" where
  "audited_build actor projectID build replayed w =
     (if replayed then (Inr (), w)
      else case on_store (Audit actor projectID ''build.prepare'' (build_id build) []) w of
             (Inl e, w) \<Rightarrow> (Inl (connectError e), snd (on_store (FinishBuild (build_id build) BuildFailed 1) w))
           | (Inr _, w) \<Rightarrow> (Inr (), w))"

definition build_connection :: "'r config \<Rightarrow> build \<Rightarrow> 'r system \<Rightarrow> (err + connection_proto option) \<times> 'r system" where
  "build_connection c build w =
     (if build_status build \<noteq> BuildRunning then (Inr None, w)
      else
      bindR (connected (issue c ''build'' (build_id build) w)) (\<lambda>credential w.
      (Inr (Some (connectionProto (cfg_buildkit_endpoint c) [] credential)), w)))"

definition PrepareBuild ::
  "'r config \<Rightarrow> header \<Rightarrow> string \<Rightarrow> string \<Rightarrow> 'r system \<Rightarrow> (err + (build_proto \<times> connection_proto option)) \<times> 'r system" where
  "PrepareBuild c h selector key w =
     bindR (authenticate c h w) (\<lambda>actor w.
     bindR (ask (AuthorizeProject actor selector) w) (\<lambda>project w.
     if \<not> idempotencyKeyPattern key
     then (Inl (refuse CodeInvalidArgument ''idempotency key must contain 8 to 128 safe characters''), w)
     else
     case outdated h (cfg_required_build_capability c) of Some e \<Rightarrow> (Inl e, w) | None \<Rightarrow>
     (case admissionHash (cfg_sha256 c) (cfg_marshal_build c (project_id project)) of Inl e \<Rightarrow> (Inl (connectError e), w) | Inr requestHash \<Rightarrow>
     bindR (ask (CreateBuild (project_id project) \<lparr>idem_key = key, idem_request_hash = requestHash\<rparr>) w) (\<lambda>(build, replayed) w.
     bindR (audited_build actor (project_id project) build replayed w) (\<lambda>_ w.
     let w = snd (dispatch_now c w) in
     bindR (ask (Build (build_id build)) w) (\<lambda>build w.
     case build_connection c build w of
       (Inl e, w) \<Rightarrow>
         (Inl e, dp_advance (cfg_dispatcher c) (snd (on_store (FinishBuild (build_id build) BuildFailed 1) w)))
     | (Inr connection, w) \<Rightarrow> (Inr (buildProto build, connection), w)))))))"

definition GetBuild ::
  "'r config \<Rightarrow> header \<Rightarrow> string \<Rightarrow> 'r system \<Rightarrow> (err + (build_proto \<times> connection_proto option)) \<times> 'r system" where
  "GetBuild c h i w =
     bindR (authenticate c h w) (\<lambda>actor w.
     bindR (authorizedBuild actor i w) (\<lambda>build w.
     bindR (if build_status build = BuildQueued \<or> build_status build = BuildRunning
            then ask (RenewOperationLease OperationBuild (build_id build)) w else (Inr (), w)) (\<lambda>_ w.
     bindR (build_connection c build w) (\<lambda>connection w.
     (Inr (buildProto build, connection), w)))))"

definition CancelBuild :: "'r config \<Rightarrow> header \<Rightarrow> string \<Rightarrow> 'r system \<Rightarrow> (err + build_proto) \<times> 'r system" where
  "CancelBuild c h i w =
     bindR (authenticate c h w) (\<lambda>actor w.
     bindR (authorizedBuild actor i w) (\<lambda>build w.
     if build_status build \<in> {BuildSucceeded, BuildFailed, BuildCancelled} then (Inr (buildProto build), w)
     else
     bindR (ask (FinishBuild (build_id build) BuildCancelled 130) w) (\<lambda>build w.
     bindR (ask (Audit actor (build_project_id build) ''build.cancel'' (build_id build) []) w) (\<lambda>_ w.
     (Inr (buildProto build), dp_advance (cfg_dispatcher c) w)))))"

definition Server_FinishBuild ::
  "'r config \<Rightarrow> header \<Rightarrow> string \<Rightarrow> bool \<Rightarrow> int \<Rightarrow> 'r system \<Rightarrow> (err + build_proto) \<times> 'r system" where
  "Server_FinishBuild c h i cancelled exitCode w =
     bindR (authenticate c h w) (\<lambda>actor w.
     bindR (authorizedBuild actor i w) (\<lambda>build w.
     if build_status build \<noteq> BuildRunning then (Inl (refuse CodeFailedPrecondition ''build is not running''), w)
     else
     let status = (if cancelled then BuildCancelled else if exitCode \<noteq> 0 then BuildFailed else BuildSucceeded) in
     bindR (ask (FinishBuild (build_id build) status exitCode) w) (\<lambda>build w.
     bindR (ask (Audit actor (build_project_id build) ''build.finish'' (build_id build)
       [(''status'', if cancelled then ''cancelled'' else if exitCode \<noteq> 0 then ''failed'' else ''succeeded'')]) w) (\<lambda>_ w.
     (Inr (buildProto build), dp_advance (cfg_dispatcher c) w)))))"

section \<open>Workflows\<close>

definition ExchangeGitHubOIDC :: "'r config \<Rightarrow> string \<Rightarrow> string \<Rightarrow> 'r system \<Rightarrow> (err + (string \<times> time)) \<times> 'r system" where
  "ExchangeGitHubOIDC c project idToken w =
     (case cfg_oidc_verifier c of
        None \<Rightarrow> (Inl (refuse CodeUnimplemented ''GitHub OIDC is not configured''), w)
      | Some verify \<Rightarrow>
          if project = [] \<or> idToken = [] then (Inl (refuse CodeInvalidArgument ''project and ID token are required''), w)
          else
          bindR (mask (refuse CodeUnauthenticated ''invalid GitHub identity'') (verify idToken w)) (\<lambda>claims w.
          bindR (ask (MatchGitHubTrust project claims) w) (\<lambda>trust w.
          let latest = now (sys_store w) + 15 * minute;
              expires = (if gc_expires_at claims \<noteq> zero_time \<and> gc_expires_at claims < latest then gc_expires_at claims else latest)
          in
          bindR (ask (CreateProjectSession (cfg_mac c) (gt_project_id trust) (gc_subject claims) expires) w) (\<lambda>issued w.
          bindR (ask (Audit \<lparr>p_kind = PrincipalGitHub, p_token_id = [], p_user_id = [], p_project_id = gt_project_id trust,
              p_admin = False, p_subject = gc_subject claims\<rparr> (gt_project_id trust) ''github.exchange'' (gt_id trust)
            [(''repository_id'', gc_repository_id claims)]) w) (\<lambda>_ w.
          (Inr (iat_token issued, iat_expires_at issued), w))))))"

definition Server_CreateGitHubTrust :: "'r config \<Rightarrow> header \<Rightarrow> string \<Rightarrow> string \<Rightarrow> string \<Rightarrow> string \<Rightarrow> string \<Rightarrow> string \<Rightarrow>
    string list \<Rightarrow> 'r system \<Rightarrow> (err + trust_proto) \<times> 'r system" where
  "Server_CreateGitHubTrust c h project ownerID repositoryID workflowRef reference environment events w =
     bindR (authenticate c h w) (\<lambda>actor w.
     bindR (ask (CreateGitHubTrust actor
       \<lparr>gt_id = [], gt_project_id = project, gt_repository_owner_id = ownerID, gt_repository_id = repositoryID,
        gt_workflow_ref = workflowRef, gt_ref = reference, gt_environment = environment, gt_events = events,
        gt_created_at = zero_time, gt_revoked_at = None\<rparr>) w) (\<lambda>trust w.
     bindR (ask (Audit actor (gt_project_id trust) ''github.trust.create'' (gt_id trust) []) w) (\<lambda>_ w.
     (Inr (trustProto trust), w))))"

definition Server_ListGitHubTrusts :: "'r config \<Rightarrow> header \<Rightarrow> string \<Rightarrow> 'r system \<Rightarrow> (err + trust_proto list) \<times> 'r system" where
  "Server_ListGitHubTrusts c h selector w =
     bindR (authenticate c h w) (\<lambda>actor w.
     bindR (ask (ListGitHubTrusts actor selector) w) (\<lambda>listed w. (Inr (map trustProto listed), w)))"

definition Server_RevokeGitHubTrust :: "'r config \<Rightarrow> header \<Rightarrow> string \<Rightarrow> 'r system \<Rightarrow> (err + unit) \<times> 'r system" where
  "Server_RevokeGitHubTrust c h i w =
     bindR (authenticate c h w) (\<lambda>actor w.
     bindR (ask (RevokeGitHubTrust actor i) w) (\<lambda>_ w.
     ask (Audit actor [] ''github.trust.revoke'' i []) w))"

section \<open>Tokens\<close>

definition Server_CreateDeviceToken ::
  "'r config \<Rightarrow> header \<Rightarrow> string \<Rightarrow> string \<Rightarrow> time option \<Rightarrow> 'r system \<Rightarrow> (err + (token_proto \<times> string)) \<times> 'r system" where
  "Server_CreateDeviceToken c h userID name expiresAt w =
     bindR (authenticate c h w) (\<lambda>actor w.
     let expires = (case expiresAt of None \<Rightarrow> zero_time | Some t \<Rightarrow> t) in
     bindR (ask (CreateDeviceToken (cfg_mac c) actor
       \<lparr>cdt_user_id = userID, cdt_name = name, cdt_expires_at = expires\<rparr>) w) (\<lambda>issued w.
     bindR (ask (Audit actor [] ''device-token.create'' (dt_id (idt_metadata issued)) []) w) (\<lambda>_ w.
     (Inr (tokenProto (idt_metadata issued), idt_secret issued), w))))"

definition Server_ListDeviceTokens :: "'r config \<Rightarrow> header \<Rightarrow> 'r system \<Rightarrow> (err + token_proto list) \<times> 'r system" where
  "Server_ListDeviceTokens c h w =
     bindR (authenticate c h w) (\<lambda>actor w.
     bindR (ask (ListDeviceTokens actor) w) (\<lambda>listed w. (Inr (map tokenProto listed), w)))"

definition Server_RevokeDeviceToken :: "'r config \<Rightarrow> header \<Rightarrow> string \<Rightarrow> 'r system \<Rightarrow> (err + unit) \<times> 'r system" where
  "Server_RevokeDeviceToken c h i w =
     bindR (authenticate c h w) (\<lambda>actor w.
     bindR (ask (RevokeDeviceToken actor i) w) (\<lambda>_ w.
     ask (Audit actor [] ''device-token.revoke'' i []) w))"

definition Server_CreateEnrollmentCode ::
  "'r config \<Rightarrow> header \<Rightarrow> string \<Rightarrow> string \<Rightarrow> time option option \<Rightarrow> 'r system \<Rightarrow> (err + (enrollment_proto \<times> string)) \<times> 'r system" where
  "Server_CreateEnrollmentCode c h userID deviceName expiry w =
     bindR (authenticate c h w) (\<lambda>actor w.
     case expiry of
       Some (Some expiresAt) \<Rightarrow>
         if deviceName = [] \<or> length deviceName > 128 \<or> CHR 0x00 \<in> set deviceName
         then (Inl (refuse CodeInvalidArgument ''device name must contain 1 to 128 characters''), w)
         else if expiresAt < now (sys_store w) + minute \<or> expiresAt > now (sys_store w) + 30 * minute
         then (Inl (refuse CodeInvalidArgument ''enrollment expiry must be between 1 and 30 minutes''), w)
         else
         bindR (ask (CreateEnrollmentCode (cfg_mac c) actor userID deviceName expiresAt) w) (\<lambda>issued w.
         bindR (ask (Audit actor [] ''enrollment.create'' (ec_id (iec_metadata issued))
           [(''user_id'', ec_user_id (iec_metadata issued)), (''device_name'', ec_device_name (iec_metadata issued))]) w) (\<lambda>_ w.
         (Inr (enrollmentProto (iec_metadata issued), iec_secret issued), w)))
     | _ \<Rightarrow> (Inl (refuse CodeInvalidArgument ''valid enrollment expiry is required''), w))"

definition Server_ExchangeEnrollmentCode ::
  "'r config \<Rightarrow> string \<Rightarrow> 'r system \<Rightarrow> (err + (token_proto \<times> string)) \<times> 'r system" where
  "Server_ExchangeEnrollmentCode c code w =
     (if length code < 32 \<or> length code > 256 then (Inl (connectError ErrUnauthenticated), w)
      else
      bindR (ask (ExchangeEnrollmentCode (cfg_mac c) code) w) (\<lambda>(result, enrollment) w.
      case result of
        Inl e \<Rightarrow> (Inl (connectError e), w)
      | Inr issued \<Rightarrow>
          bindR (ask (Audit \<lparr>p_kind = PrincipalDevice, p_token_id = dt_id (idt_metadata issued),
              p_user_id = dt_user_id (idt_metadata issued), p_project_id = [], p_admin = False, p_subject = []\<rparr> []
            ''enrollment.exchange'' (ec_id enrollment) [(''device_token_id'', dt_id (idt_metadata issued))]) w) (\<lambda>_ w.
          (Inr (tokenProto (idt_metadata issued), idt_secret issued), w))))"

section \<open>The service\<close>

datatype api_request =
    CreateUserRequest string bool
  | BindGitHubIdentityRequest string string
  | RevokeGitHubIdentityRequest string
  | CreateProjectRequest string string
  | ListProjectsRequest
  | AddProjectMemberRequest string string
  | ActivateProjectImageRequest string string
  | RollbackProjectImageRequest string
  | SetProjectImagePolicyRequest string bool
  | ListProjectImageHistoryRequest string
  | PrepareJobRequest prepare_job_request
  | StartJobRequest string string
  | GetJobRequest string
  | ListJobsRequest string int int string
  | CancelJobRequest string
  | PrepareBuildRequest string string
  | GetBuildRequest string
  | CancelBuildRequest string
  | FinishBuildRequest string bool int
  | ExchangeGitHubOIDCRequest string string
  | CreateGitHubTrustRequest string string string string string string "string list"
  | ListGitHubTrustsRequest string
  | RevokeGitHubTrustRequest string
  | CreateDeviceTokenRequest string string "time option"
  | ListDeviceTokensRequest
  | RevokeDeviceTokenRequest string
  | CreateEnrollmentCodeRequest string string "time option option"
  | ExchangeEnrollmentCodeRequest string

datatype api_response =
    EmptyResponse
  | UserResponse user_proto
  | IdentityResponse external_identity_proto
  | ProjectResponse project_proto
  | ProjectsResponse "project_proto list"
  | ImageEventsResponse "image_event_proto list"
  | JobResponse job_proto
  | JobConnectionResponse job_proto "connection_proto option"
  | JobsResponse "job_proto list" string
  | BuildResponse build_proto
  | BuildConnectionResponse build_proto "connection_proto option"
  | SessionResponse string time
  | TrustResponse trust_proto
  | TrustsResponse "trust_proto list"
  | TokenResponse token_proto string
  | TokensResponse "token_proto list"
  | EnrollmentResponse enrollment_proto string

definition responds :: "('a \<Rightarrow> api_response) \<Rightarrow> (err + 'a) \<times> 'w \<Rightarrow> (err + api_response) \<times> 'w" where
  "responds f r = bindR r (\<lambda>x w. (Inr (f x), w))"

text \<open>The handler behind each method of \<open>ControlService\<close>, but \<open>GetServiceInfo\<close> and the stream of logs.\<close>

fun serve :: "'r config \<Rightarrow> header \<Rightarrow> api_request \<Rightarrow> 'r system \<Rightarrow> (err + api_response) \<times> 'r system" where
  "serve c h (CreateUserRequest n a) w = responds UserResponse (Server_CreateUser c h n a w)"
| "serve c h (BindGitHubIdentityRequest l u) w = responds IdentityResponse (BindGitHubIdentity c h l u w)"
| "serve c h (RevokeGitHubIdentityRequest u) w = responds (\<lambda>_. EmptyResponse) (RevokeGitHubIdentity c h u w)"
| "serve c h (CreateProjectRequest s n) w = responds ProjectResponse (Server_CreateProject c h s n w)"
| "serve c h ListProjectsRequest w = responds ProjectsResponse (Server_ListProjects c h w)"
| "serve c h (AddProjectMemberRequest p u) w = responds (\<lambda>_. EmptyResponse) (Server_AddProjectMember c h p u w)"
| "serve c h (ActivateProjectImageRequest p i) w = responds ProjectResponse (Server_ActivateProjectImage c h p i w)"
| "serve c h (RollbackProjectImageRequest p) w = responds ProjectResponse (Server_RollbackProjectImage c h p w)"
| "serve c h (SetProjectImagePolicyRequest p a) w = responds ProjectResponse (Server_SetProjectImagePolicy c h p a w)"
| "serve c h (ListProjectImageHistoryRequest p) w = responds ImageEventsResponse (Server_ListProjectImageHistory c h p w)"
| "serve c h (PrepareJobRequest m) w = responds (\<lambda>(j, k). JobConnectionResponse j k) (PrepareJob c h m w)"
| "serve c h (StartJobRequest i d) w = responds JobResponse (Server_StartJob c h i d w)"
| "serve c h (GetJobRequest i) w = responds (\<lambda>(j, k). JobConnectionResponse j k) (GetJob c h i w)"
| "serve c h (ListJobsRequest p n l t) w = responds (\<lambda>(js, t). JobsResponse js t) (Server_ListJobs c h p n l t w)"
| "serve c h (CancelJobRequest i) w = responds JobResponse (CancelJob c h i w)"
| "serve c h (PrepareBuildRequest p k) w = responds (\<lambda>(b, k). BuildConnectionResponse b k) (PrepareBuild c h p k w)"
| "serve c h (GetBuildRequest i) w = responds (\<lambda>(b, k). BuildConnectionResponse b k) (GetBuild c h i w)"
| "serve c h (CancelBuildRequest i) w = responds BuildResponse (CancelBuild c h i w)"
| "serve c h (FinishBuildRequest i k x) w = responds BuildResponse (Server_FinishBuild c h i k x w)"
| "serve c h (ExchangeGitHubOIDCRequest p t) w = responds (\<lambda>(t, e). SessionResponse t e) (ExchangeGitHubOIDC c p t w)"
| "serve c h (CreateGitHubTrustRequest p o1 r f g e vs) w = responds TrustResponse (Server_CreateGitHubTrust c h p o1 r f g e vs w)"
| "serve c h (ListGitHubTrustsRequest p) w = responds TrustsResponse (Server_ListGitHubTrusts c h p w)"
| "serve c h (RevokeGitHubTrustRequest i) w = responds (\<lambda>_. EmptyResponse) (Server_RevokeGitHubTrust c h i w)"
| "serve c h (CreateDeviceTokenRequest u n e) w = responds (\<lambda>(t, s). TokenResponse t s) (Server_CreateDeviceToken c h u n e w)"
| "serve c h ListDeviceTokensRequest w = responds TokensResponse (Server_ListDeviceTokens c h w)"
| "serve c h (RevokeDeviceTokenRequest i) w = responds (\<lambda>_. EmptyResponse) (Server_RevokeDeviceToken c h i w)"
| "serve c h (CreateEnrollmentCodeRequest u d e) w = responds (\<lambda>(x, s). EnrollmentResponse x s) (Server_CreateEnrollmentCode c h u d e w)"
| "serve c h (ExchangeEnrollmentCodeRequest k) w = responds (\<lambda>(t, s). TokenResponse t s) (Server_ExchangeEnrollmentCode c k w)"

end
