(* ===== verification/Swarm.thy ===== *)
theory Swarm
  imports Engine Server Auth_Steps
begin

text \<open>
  The scheduler, \<open>internal/control/swarmscheduler/scheduler.go\<close>: a job of the control plane becomes a
  specification for the client of the engine, which \<open>Engine\<close> turns into a service and back into
  the state of the job.
\<close>

section \<open>The scheduler\<close>

text \<open>\<open>sw_ReadLog\<close>: opening \<open>job.log\<close> and copying it, the pieces and the error at the end.\<close>

record 'w swarm_config =
  sw_Engine :: "'w engine"
  sw_Files :: "'w file_system"
  sw_ReadLog :: "string \<Rightarrow> 'w \<Rightarrow> (err + (string list \<times> err option)) \<times> 'w"
  sw_ctx_err :: "'w \<Rightarrow> err option"
  sw_CASAddress :: string
  sw_CASInstance :: string
  sw_JobsRoot :: string
  sw_EntrypointHostPath :: string
  sw_CacheRoot :: string
  sw_HostUID :: string
  sw_HostGID :: string
  sw_Resources :: resource_envelope

definition safeComponent :: "string \<Rightarrow> bool" where
  "safeComponent value \<longleftrightarrow> value \<noteq> [] \<and> value \<noteq> ''.'' \<and> value \<noteq> ''..'' \<and> Base value = value"

fun make_caches :: "'w file_system \<Rightarrow> string \<Rightarrow> string \<Rightarrow> cache_mount list \<Rightarrow> 'w \<Rightarrow> err option \<times> 'w" where
  "make_caches fs root projectID [] w = (None, w)"
| "make_caches fs root projectID (cache # caches) w =
     (if \<not> safeComponent (cache_name cache) then (Some (ErrText ''cache name is not a safe path component''), w)
      else let directory = Join [root, projectID, cache_name cache] in
        case fs_MkdirAll fs directory w of
          (Some e, w) \<Rightarrow> (Some e, w)
        | (None, w) \<Rightarrow>
            (case fs_Chmod fs directory w of
               (Some e, w) \<Rightarrow> (Some e, w)
             | (None, w) \<Rightarrow>
                 (case fs_Chtimes fs directory w of
                    (Some e, w) \<Rightarrow> (Some e, w)
                  | (None, w) \<Rightarrow> make_caches fs root projectID caches w)))"

definition prepareCacheDirectories :: "'w file_system \<Rightarrow> string \<Rightarrow> string \<Rightarrow> cache_mount list \<Rightarrow> 'w \<Rightarrow> err option \<times> 'w" where
  "prepareCacheDirectories fs root projectID caches w =
     (if caches = [] then (None, w)
      else if root = [] \<or> \<not> safeComponent projectID
      then (Some (ErrText ''cache root and safe project ID are required''), w)
      else make_caches fs root projectID caches w)"

fun secret_mounts :: "string \<Rightarrow> string \<Rightarrow> nat \<Rightarrow> secret_binding list \<Rightarrow> swarm_secret list" where
  "secret_mounts jobsRoot i index [] = []"
| "secret_mounts jobsRoot i index (secret # secrets) =
     (if secret_file secret \<noteq> []
      then [\<lparr>sw_secret_source = Join [jobsRoot, i, ''secrets'', ValueFile index (secret_name secret)],
             sw_secret_target = secret_file secret\<rparr>]
      else []) @ secret_mounts jobsRoot i (Suc index) secrets"

definition specForJob :: "'w swarm_config \<Rightarrow> job \<Rightarrow> spec" where
  "specForJob config job =
     \<lparr>sp_ID = job_id job, sp_Image = job_image job, sp_CASAddress = sw_CASAddress config, sp_CASInstance = sw_CASInstance config,
      sp_RootDigest = job_root_digest job, sp_JobsRoot = sw_JobsRoot config, sp_Command = job_command job,
      sp_WorkingDirectory = job_working_directory job, sp_Environment = job_environment job,
      sp_EntrypointHostPath = sw_EntrypointHostPath config, sp_Timeout = job_timeout job, sp_CacheRoot = sw_CacheRoot config,
      sp_ProjectID = job_project_id job,
      sp_Caches = map (\<lambda>cache. \<lparr>sw_cache_name = cache_name cache, sw_cache_target = cache_target cache\<rparr>) (job_caches job),
      sp_Secrets = secret_mounts (sw_JobsRoot config) (job_id job) 0 (job_secrets job), sp_HasSecrets = job_secrets job \<noteq> [],
      sp_HostUID = sw_HostUID config, sp_HostGID = sw_HostGID config, sp_Resources = sw_Resources config\<rparr>"

definition Scheduler_Create :: "'w swarm_config \<Rightarrow> job \<Rightarrow> 'w \<Rightarrow> err option \<times> 'w" where
  "Scheduler_Create config job w =
     (case Envelope_Validate (sw_Resources config) of
        Some e \<Rightarrow> (Some e, w)
      | None \<Rightarrow>
          (case prepareCacheDirectories (sw_Files config) (sw_CacheRoot config) (job_project_id job) (job_caches job) w of
             (Some e, w) \<Rightarrow> (Some e, w)
           | (None, w) \<Rightarrow> (let (r, w) = Client_Create (sw_Engine config) (specForJob config job) w in (error_of r, w))))"

definition Scheduler_Logs :: "'w swarm_config \<Rightarrow> string \<Rightarrow> bool \<Rightarrow> 'w \<Rightarrow> (string list \<times> err option) \<times> 'w" where
  "Scheduler_Logs config i follow w =
     (if \<not> follow then
        (case sw_ReadLog config (Join [sw_JobsRoot config, i, ''job.log'']) w of
           (Inr copied, w) \<Rightarrow> (copied, w)
         | (Inl e, w) \<Rightarrow>
             if \<not> err_is e os_ErrNotExist then (([], Some e), w)
             else Client_Logs (sw_Engine config) (sw_ctx_err config) i follow w)
      else Client_Logs (sw_Engine config) (sw_ctx_err config) i follow w)"

text \<open>\<open>Check\<close>, \<open>ValidateImage\<close>, \<open>Status\<close>, \<open>Cancel\<close>, \<open>ManagedJobs\<close> and \<open>Remove\<close> pass the call on to the client.\<close>

definition swarm_scheduler :: "'w swarm_config \<Rightarrow> 'w scheduler" where
  "swarm_scheduler config =
     \<lparr>sc_check = Client_Check (sw_Engine config), sc_validate_image = Client_ValidateImage (sw_Engine config),
      sc_status = Client_Status (sw_Engine config), sc_logs = \<lambda>i. Scheduler_Logs config i False,
      sc_cancel = Client_Cancel (sw_Engine config)\<rparr>"

section \<open>The state that a service reports\<close>

lemma runtimeTaskStatus_not_preparing [simp]: "runtimeTaskStatus state code cancelled \<noteq> StatusPreparing"
  by (simp add: runtimeTaskStatus_def)

lemma observed_not_preparing: "r_status (observed_job i service container tasks) \<noteq> StatusPreparing"
  by (simp add: observed_job_def job_with_task_def job_without_tasks_def Let_def split: list.split)

lemma service_status_not_preparing: "service_status en service i w = (Inr job, v) \<Longrightarrow> r_status job \<noteq> StatusPreparing"
  by (auto simp: service_status_def bindR_def Let_def observed_not_preparing split: option.splits prod.splits sum.splits)

lemma Client_Status_not_preparing: "Client_Status en i w = (Inr job, v) \<Longrightarrow> r_status job \<noteq> StatusPreparing"
  by (auto simp: Client_Status_def bindR_def split: prod.splits sum.splits dest: service_status_not_preparing)

text \<open>
  What the reconciler learns about a job from its service: the parts that the service carries in its
  labels and arguments, by the last task and the cancellation.
\<close>

definition carries :: "job \<Rightarrow> remote_job \<Rightarrow> bool" where
  "carries job r \<longleftrightarrow> r_id r = job_id job \<and> r_project_id r = job_project_id job \<and> r_image r = job_image job \<and>
     r_command r = job_command job \<and> r_root_digest r = job_root_digest job \<and> r_timeout_seconds r = Seconds (job_timeout job)"

lemma label_names [simp]:
  "managedLabel = ''autback.managed''" "cancelledLabel = ''autback.cancelled''"
  by (simp_all add: managedLabel_def cancelledLabel_def)

lemma FormatInt_Seconds:
  assumes "0 \<le> d" "d < 2 ^ 63" shows "Atoi (FormatInt (Seconds d)) = Some (Seconds d)" "0 \<le> Seconds d" "FormatInt (Seconds d) \<noteq> []"
proof -
  have s: "Seconds d = d div second" using assms(1) by (cases "d = 0") (simp_all add: Seconds_def second_def millisecond_def)
  have "d div second \<le> d" using assms(1) by (simp add: second_def millisecond_def div_le_dividend zdiv_mono2 [of d 1])
  then have "int (nat (Seconds d)) < 2 ^ 63" "0 \<le> Seconds d" using s assms by (simp_all add: second_def millisecond_def)
  then show "Atoi (FormatInt (Seconds d)) = Some (Seconds d)" "0 \<le> Seconds d" "FormatInt (Seconds d) \<noteq> []"
    using Atoi_digits [of "nat (Seconds d)"] by (simp_all add: FormatInt_def)
qed

text \<open>The newest task of a service.\<close>

definition newest :: "task list \<Rightarrow> task option" where
  "newest tasks = (case sort_key (\<lambda>t. - tk_created_at t) tasks of [] \<Rightarrow> None | t # ts \<Rightarrow> Some t)"

lemma newest_is_newest: "newest tasks = Some t \<Longrightarrow> t \<in> set tasks \<and> (\<forall>u \<in> set tasks. tk_created_at u \<le> tk_created_at t)"
proof -
  assume "newest tasks = Some t"
  then obtain ts where ts: "sort_key (\<lambda>t. - tk_created_at t) tasks = t # ts" by (auto simp: newest_def split: list.splits)
  then have "set tasks = insert t (set ts)" by (metis list.simps(15) set_sort)
  moreover have "\<forall>u \<in> set ts. tk_created_at u \<le> tk_created_at t"
    using sorted_sort_key [of "\<lambda>t. - tk_created_at t" tasks] ts by auto
  ultimately show ?thesis by auto
qed

lemma observed_cases:
  "observed_job i service container tasks =
     (case newest tasks of None \<Rightarrow> job_without_tasks i service container
      | Some t \<Rightarrow> job_with_task (job_without_tasks i service container) t)"
  by (simp add: observed_job_def newest_def split: list.split)

lemma job_with_task_carries [simp]: "carries job (job_with_task r t) = carries job r"
  by (simp add: job_with_task_def carries_def Let_def)

lemma succeeded_iff:
  "r_status (job_with_task r t) = StatusSucceeded \<longleftrightarrow> \<not> r_cancel_requested r \<and> tk_state t = ''complete'' \<and> tk_exit_code t = Some 0"
proof -
  have "Terminal (runtimeTaskStatus ''complete'' 1 False)" by (simp add: runtimeTaskStatus_def)
  then show ?thesis
    by (auto simp: job_with_task_def Let_def runtimeTaskStatus_def task_exit_code_def split: option.splits)
qed

lemma spec_is_sound:
  assumes "job_id job \<noteq> []" "job_project_id job \<noteq> []" "job_image job \<noteq> []" "job_root_digest job \<noteq> []"
    "0 \<le> job_timeout job" "job_timeout job < 2 ^ 63" "sv_id service \<noteq> []"
    and spec: "sv_spec service = serviceSpec (specForJob config job) \<or> sv_spec service = cancelled_spec (serviceSpec (specForJob config job))"
  shows "service_error (job_id job) service = None \<and> (\<exists>container. ss_container (sv_spec service) = Some container \<and>
     carries job (job_without_tasks (job_id job) service container)) \<and> ss_name (sv_spec service) = job_id job"
proof -
  let ?ls = "spec_labels (specForJob config job)"
  have ls: "ss_labels (sv_spec service) = ?ls \<or> ss_labels (sv_spec service) = (cancelledLabel, ''true'') # ?ls"
    using spec by (auto simp: serviceSpec_def cancelled_spec_def spec_labels_def)
  then have labels: "label (ss_labels (sv_spec service)) key = label ?ls key" if "key \<in> set required_labels" for key
    using that by (auto simp: label_def required_labels_def)
  have own: "label ?ls managedLabel = ''true''" "label ?ls ''autback.project'' = job_project_id job" "label ?ls ''autback.job'' = job_id job"
    "label ?ls ''autback.image'' = b64_encode (job_image job)" "label ?ls ''autback.timeout_seconds'' = FormatInt (Seconds (job_timeout job))"
    "label ?ls ''autback.root_digest'' = job_root_digest job"
    by (simp_all add: label_def spec_labels_def specForJob_def encodeLabel_def)
  have keys: "managedLabel \<in> set required_labels" "''autback.project'' \<in> set required_labels" "''autback.job'' \<in> set required_labels"
    "''autback.image'' \<in> set required_labels" "''autback.timeout_seconds'' \<in> set required_labels" "''autback.root_digest'' \<in> set required_labels"
    by (simp_all add: required_labels_def)
  note found = labels [OF keys(1)] labels [OF keys(2)] labels [OF keys(3)] labels [OF keys(4)] labels [OF keys(5)] labels [OF keys(6)]
  note seconds = FormatInt_Seconds [OF assms(5,6)]
  have "find (\<lambda>key. label (ss_labels (sv_spec service)) key = []) required_labels = None"
    unfolding required_labels_def using found own assms(1-4) seconds(3) b64_nonempty by simp
  then have "service_error (job_id job) service = None"
    using found own seconds assms(7) by (simp add: service_error_def Let_def)
  moreover have "ss_name (sv_spec service) = job_id job" using spec by (auto simp: serviceSpec_def cancelled_spec_def specForJob_def)
  moreover have "\<exists>container. ss_container (sv_spec service) = Some container \<and> co_args container = job_command job"
    using spec by (auto simp: serviceSpec_def cancelled_spec_def specForJob_def)
  ultimately show ?thesis
    using found own seconds(1) by (auto simp: carries_def job_without_tasks_def Let_def decodeLabel_def b64_round_trip)
qed

section \<open>Properties\<close>

text \<open>
  C?: a service reports the job it was created for. For a started job, the service that the scheduler
  creates, before and after its cancellation, is accepted by the status check, and what the check
  reports carries the identifier, project, image, command, root digest and timeout of the job, is
  never in preparation, is cancelled if the service was, and is a success only when the newest task
  of a service that was not cancelled completed with a container status and exit code 0; without
  tasks the job is queued. Every finished task leaves an exit code and a finish time.
\<close>

theorem service_reports_job:
  assumes job: "job_id job \<noteq> []" "job_project_id job \<noteq> []" "job_image job \<noteq> []" "job_root_digest job \<noteq> []"
      "0 \<le> job_timeout job" "job_timeout job < 2 ^ 63"
    and service: "sv_id service \<noteq> []"
      "sv_spec service = (if cancelled then cancelled_spec else id) (serviceSpec (specForJob config job))"
    and tasks: "en_TaskList en (sv_id service) w = (Inr tasks, v)"
  shows "\<exists>r. service_status en service i w = (Inr r, v) \<and> carries job r \<and> r_status r \<noteq> StatusPreparing \<and>
    r_cancel_requested r = cancelled \<and> (cancelled \<longrightarrow> r_status r = StatusCancelled) \<and>
    (case newest tasks of
       None \<Rightarrow> \<not> cancelled \<longrightarrow> r_status r = StatusQueued
     | Some t \<Rightarrow>
         (r_status r = StatusSucceeded \<longleftrightarrow> \<not> cancelled \<and> tk_state t = ''complete'' \<and> tk_exit_code t = Some 0) \<and>
         (Terminal (r_status r) \<longrightarrow> r_exit_code r \<noteq> None \<and> r_finished_at r \<noteq> None))"
proof -
  have spec: "sv_spec service = serviceSpec (specForJob config job) \<or> sv_spec service = cancelled_spec (serviceSpec (specForJob config job))"
    using service(2) by (cases cancelled) simp_all
  obtain container where c: "service_error (job_id job) service = None" "ss_container (sv_spec service) = Some container"
      "carries job (job_without_tasks (job_id job) service container)" "ss_name (sv_spec service) = job_id job"
    using spec_is_sound [OF job service(1) spec] by blast
  let ?r = "observed_job (job_id job) service container tasks" and ?base = "job_without_tasks (job_id job) service container"
  have "label (ss_labels (sv_spec service)) cancelledLabel = (if cancelled then ''true'' else [])"
    using service(2) by (simp add: label_def serviceSpec_def cancelled_spec_def spec_labels_def)
  then have r0: "r_cancel_requested ?base = cancelled" "r_status ?base = (if cancelled then StatusCancelled else StatusQueued)"
    by (simp_all add: job_without_tasks_def Let_def)
  have "service_status en service i w = (Inr ?r, v)"
    using c(1,2,4) tasks job(1) by (simp add: service_status_def fallback_def wrap_error_def)
  moreover have "carries job ?r" using c(3) by (simp add: observed_cases split: option.split)
  moreover have "r_cancel_requested ?r = cancelled \<and> (cancelled \<longrightarrow> r_status ?r = StatusCancelled)"
    using r0 by (simp add: observed_cases job_with_task_def Let_def runtimeTaskStatus_def split: option.split)
  moreover have "case newest tasks of None \<Rightarrow> \<not> cancelled \<longrightarrow> r_status ?r = StatusQueued
     | Some t \<Rightarrow> (r_status ?r = StatusSucceeded \<longleftrightarrow> \<not> cancelled \<and> tk_state t = ''complete'' \<and> tk_exit_code t = Some 0) \<and>
         (Terminal (r_status ?r) \<longrightarrow> r_exit_code ?r \<noteq> None \<and> r_finished_at ?r \<noteq> None)"
  proof (cases "newest tasks")
    case (Some t)
    then show ?thesis using succeeded_iff [of ?base t] r0(1) by (simp add: observed_cases) (simp add: job_with_task_def Let_def)
  qed (simp add: observed_cases r0)
  ultimately show ?thesis using observed_not_preparing by blast
qed

definition started_job :: job where
  "started_job = (scanJob (queued_job_row ''j1''))\<lparr>job_project_id := ''p1'', job_image := ''img'', job_command := [''go'', ''test''],
     job_root_digest := ''abc/1'', job_timeout := minute\<rparr>"

definition demo_envelope :: resource_envelope where
  "demo_envelope = \<lparr>CPULimitNano = 2, CPUReservationNano = 1, MemoryLimitBytes = 2, MemoryReservationBytes = 1, PIDsLimit = 9\<rparr>"

definition done_task :: task where
  "done_task = \<lparr>tk_node_id = ''n'', tk_created_at = 4, tk_updated_at = 5, tk_state = ''complete'', tk_timestamp = 6, tk_err = [],
     tk_exit_code = Some 0\<rparr>"

text \<open>An engine that lists the tasks of its world.\<close>

definition demo_engine :: "('w \<Rightarrow> task list) \<Rightarrow> 'w engine" where
  "demo_engine tasks =
     \<lparr>en_ClientVersion = \<lambda>_. ''1.51'', en_Info = \<lambda>w. (Inr ''active'', w), en_ServiceCreate = \<lambda>_ w. (Inr ''s1'', w),
      en_ServiceInspect = \<lambda>_ w. (Inl (ErrEngine EngineNotFound), w), en_ServiceList = \<lambda>_ w. (Inr [], w), en_TaskList = \<lambda>_ w. (Inr (tasks w), w),
      en_ServiceUpdate = \<lambda>_ _ _ w. (None, w), en_ServiceRemove = \<lambda>_ w. (None, w), en_ServiceLogs = \<lambda>_ _ w. (Inr ([], None), w),
      en_ImagePull = \<lambda>_ w. (None, w), en_ImageInspect = \<lambda>_ w. (Inr ''sha256:0'', w), en_ContainerList = \<lambda>w. (Inr [], w),
      en_NetworkList = \<lambda>w. (Inr [], w), en_VolumeList = \<lambda>w. (Inr [], w), en_ContainerRemove = \<lambda>_ w. (None, w),
      en_NetworkRemove = \<lambda>_ w. (None, w), en_VolumeRemove = \<lambda>_ w. (None, w), en_ContainerPrune = \<lambda>_ w. (None, w),
      en_NetworkPrune = \<lambda>_ w. (None, w), en_VolumePrune = \<lambda>_ w. (None, w), en_ImagePrune = \<lambda>_ w. (None, w),
      en_ImageList = \<lambda>w. (Inr [], w), en_ImageRemove = \<lambda>_ w. (None, w)\<rparr>"

definition demo_files :: "'w file_system" where
  "demo_files =
     \<lparr>fs_MkdirAll = \<lambda>_ w. (None, w), fs_MkdirTemp = \<lambda>_ _ w. (Inl os_ErrExist, w), fs_Chmod = \<lambda>_ w. (None, w), fs_Chtimes = \<lambda>_ w. (None, w),
      fs_WriteFile = \<lambda>_ _ w. (None, w), fs_Create = \<lambda>_ _ w. (None, w), fs_ReadFile = \<lambda>_ w. (Inl os_ErrNotExist, w),
      fs_RemoveAll = \<lambda>_ w. (None, w), fs_Rename = \<lambda>_ _ w. (None, w), fs_OpenRoot = \<lambda>_ w. (None, w), fs_Open = \<lambda>_ _ w. (Inl os_ErrNotExist, w)\<rparr>"

definition demo_swarm :: "task list swarm_config" where
  "demo_swarm =
     \<lparr>sw_Engine = demo_engine id, sw_Files = demo_files, sw_ReadLog = \<lambda>_ w. (Inl os_ErrNotExist, w), sw_ctx_err = \<lambda>_. None,
      sw_CASAddress = ''cas:1'', sw_CASInstance = [], sw_JobsRoot = ''/jobs'', sw_EntrypointHostPath = [], sw_CacheRoot = ''/cache'',
      sw_HostUID = ''0'', sw_HostGID = ''0'', sw_Resources = demo_envelope\<rparr>"

definition demo_service :: service where
  "demo_service = \<lparr>sv_id = ''s1'', sv_version = 1, sv_created_at = 1, sv_updated_at = 2, sv_spec = serviceSpec (specForJob demo_swarm started_job)\<rparr>"

theorem service_reports_job_witness:
  "\<exists>r. service_status (demo_engine id) demo_service ''s1'' [done_task] = (Inr r, [done_task]) \<and> r_status r = StatusSucceeded \<and>
     r_command r = [''go'', ''test''] \<and> r_timeout_seconds r = 60"
proof -
  have job: "job_id started_job \<noteq> []" "job_project_id started_job \<noteq> []" "job_image started_job \<noteq> []" "job_root_digest started_job \<noteq> []"
    "0 \<le> job_timeout started_job" "job_timeout started_job < 2 ^ 63" "sv_id demo_service \<noteq> []"
    "sv_spec demo_service = (if False then cancelled_spec else id) (serviceSpec (specForJob demo_swarm started_job))"
    by (simp_all add: started_job_def queued_job_row_def scanJob_def demo_service_def minute_def second_def millisecond_def)
  have tasks: "en_TaskList (demo_engine id) (sv_id demo_service) [done_task] = (Inr [done_task], [done_task])" by (simp add: demo_engine_def)
  have "newest [done_task] = Some done_task" by (simp add: newest_def)
  then show ?thesis
    using service_reports_job [OF job tasks, of "''s1''"]
    by (auto simp: done_task_def carries_def started_job_def Seconds_def minute_def second_def millisecond_def)
qed

end
