(* ===== verification/Turns.thy ===== *)
theory Turns
  imports Auth_Properties Swarm
begin

text \<open>
  The discipline of \<open>Store_Steps\<close> is what the components keep: the calls that the dispatcher, the
  capacity controller and the lifecycle hooks make in one turn leave the store sound, which is to say
  consistent and with the keys of its tables intact.
\<close>

section \<open>Sound stores\<close>

definition sound_store :: "cworld \<Rightarrow> bool" where
  "sound_store w \<longleftrightarrow> consistent (db w) \<and> auth_inv (db w)"

abbreviation sound :: "'r system \<Rightarrow> bool" where
  "sound s \<equiv> sound_store (sys_store s)"

lemma same_operations_consistent: "same_operations d d' \<Longrightarrow> consistent d' = consistent d"
  by (simp add: same_operations_def consistent_def links_ok_def linked_def queue_inv_def jobs_ok_def builds_ok_def)

lemma call_sound: "sound_store w \<Longrightarrow> disciplined c (db w) \<Longrightarrow> sound_store (run_call c w)"
  unfolding sound_store_def
  using protocol_step_consistent protocol_step.call service_step_auth service_step.operation protocol_step_store_step
  by blast

lemma auth_sound: "sound_store w \<Longrightarrow> sound_store (run_auth mac c w)"
  unfolding sound_store_def using same_operations_consistent run_auth_operations run_auth_inv by blast

definition same_work :: "database \<Rightarrow> database \<Rightarrow> bool" where
  "same_work d d' \<longleftrightarrow> jobs d' = jobs d \<and> builds d' = builds d \<and> queue d' = queue d \<and> next_sequence d' = next_sequence d"

lemma same_work_consistent: "same_work d d' \<Longrightarrow> consistent d' = consistent d"
  by (simp add: same_work_def consistent_def links_ok_def linked_def queue_inv_def jobs_ok_def builds_ok_def)

text \<open>The rows of a job; by the keys of the table there is at most one.\<close>

definition job_is :: "(status \<Rightarrow> bool) \<Rightarrow> string \<Rightarrow> cworld \<Rightarrow> bool" where
  "job_is P i w \<longleftrightarrow> (\<forall>r \<in> set (jobs (db w)). j_id r = i \<longrightarrow> P (j_status r))"

lemma job_is_mono: "job_is P i w \<Longrightarrow> (\<And>s. P s \<Longrightarrow> Q s) \<Longrightarrow> job_is Q i w"
  by (auto simp: job_is_def)

lemma job_is_same: "same_work (db w) (db v) \<Longrightarrow> job_is P i v = job_is P i w"
  by (simp add: job_is_def same_work_def)

lemma sound_storeD:
  assumes "sound_store w"
  shows "consistent (db w)" "auth_inv (db w)" "queue_inv (db w)" "distinct (map j_id (jobs (db w)))" "jobs_ok (db w)"
  using assms by (simp_all add: sound_store_def consistent_def links_ok_def linked_def)

lemma sound_same_db: "sound_store w \<Longrightarrow> db v = db w \<Longrightarrow> sound_store v"
  by (simp add: sound_store_def)

lemma Job_post:
  assumes "sound_store w"
  shows "post (\<lambda>j v. db v = db w \<and> job_id j = i \<and> job_is (\<lambda>s. s = job_status j) i v) (\<lambda>_ v. db v = db w) (Job i w)"
  using sound_storeD(4) [OF assms] unfolding Job_def
  by (intro wp) (auto simp: job_is_def scanJob_def find_Some_iff distinct_map inj_on_def dest!: nth_mem)

lemma Job_reads:
  assumes "Job i w = (Inr j, v)" "sound_store w"
  shows "db v = db w \<and> job_id j = i \<and> job_is (\<lambda>s. s = job_status j) i v"
  using Job_post [OF assms(2), of i] assms(1) by simp

section \<open>The calls, one by one\<close>

text \<open>A call of the store keeps the store sound.\<close>

definition store_keeps :: "(cworld \<Rightarrow> 'a cres) \<Rightarrow> bool" where
  "store_keeps f \<longleftrightarrow> (\<forall>w. sound_store w \<longrightarrow> sound_store (snd (f w)))"

named_theorems kept_calls

lemma store_keeps_call: "(\<And>w. run_call c w = snd (f w)) \<Longrightarrow> (\<And>d. disciplined c d) \<Longrightarrow> store_keeps f"
  unfolding store_keeps_def using call_sound by metis

lemma store_keeps_auth: "(\<And>w. run_auth mac c w = snd (f w)) \<Longrightarrow> store_keeps f"
  unfolding store_keeps_def using auth_sound by metis

lemma store_keeps_read: "(\<And>w. post (\<lambda>_ v. db v = db w) (\<lambda>_ v. db v = db w) (f w)) \<Longrightarrow> store_keeps f"
  unfolding store_keeps_def
proof (intro allI impI)
  fix w assume read: "\<And>w. post (\<lambda>_ v. db v = db w) (\<lambda>_ v. db v = db w) (f w)" and w: "sound_store w"
  obtain r v where "f w = (r, v)" by force
  then show "sound_store (snd (f w))" using read [of w] sound_same_db [OF w] by (cases r) simp_all
qed

lemma calls_keep [kept_calls]:
  "store_keeps AcquireNextOperation" "store_keeps ClaimOperationCleanup" "store_keeps (RecordOperationCleanupFailure k i m)"
  "store_keeps (CompleteOperationCleanup k i)" "store_keeps (RenewOperationLease k i)" "store_keeps (CreatePreparedJob p idem)"
  "store_keeps (QueueJob i dig)" "store_keeps (RequestJobCancellation i)" "store_keeps (FailJob i m)" "store_keeps (CreateBuild q idem)"
  "store_keeps (FinishBuild i st x)" "store_keeps (EmergencyStopActiveOperation m)" "store_keeps (SaveResourceBaseline k i rs)"
  by (rule store_keeps_call [of CallAcquire] store_keeps_call [of CallClaim] store_keeps_call [of "CallRecordFailure k i m"]
      store_keeps_call [of "CallComplete k i"] store_keeps_call [of "CallRenew k i"] store_keeps_call [of "CallPrepareJob p idem"]
      store_keeps_call [of "CallQueueJob i dig"] store_keeps_call [of "CallCancelJob i"] store_keeps_call [of "CallFailJob i m"]
      store_keeps_call [of "CallCreateBuild q idem"] store_keeps_call [of "CallFinishBuild i st x"] store_keeps_call [of "CallEmergency m"]
      store_keeps_call [of "CallSaveBaseline k i rs"]; (simp; fail))+

lemma auths_keep [kept_calls]:
  "store_keeps (Authenticate mac token)" "store_keeps (CreateUser p name admin)" "store_keeps (BindExternalIdentity p u identity)"
  "store_keeps (RevokeExternalIdentity p u provider)" "store_keeps (CreateDeviceToken mac p input)"
  "store_keeps (CreateEnrollmentCode mac p u n t)" "store_keeps (ExchangeEnrollmentCode mac code)" "store_keeps (RevokeDeviceToken p i)"
  "store_keeps (CreateProjectSession mac i subject t)" "store_keeps (CreateProject p slug name)" "store_keeps (AddProjectMember p i u)"
  "store_keeps (ActivateProjectImage p i ref)" "store_keeps (RollbackProjectImage p i)" "store_keeps (SetProjectImagePolicy p i allow)"
  "store_keeps (CreateGitHubTrust p trust)" "store_keeps (RevokeGitHubTrust p i)" "store_keeps (Audit p i action target metadata)"
  by (rule store_keeps_auth [of mac "AuthAuthenticate token"] store_keeps_auth [of mac "AuthCreateUser p name admin"]
      store_keeps_auth [of mac "AuthBindIdentity p u identity"] store_keeps_auth [of mac "AuthRevokeIdentity p u provider"]
      store_keeps_auth [of mac "AuthCreateDeviceToken p input"] store_keeps_auth [of mac "AuthCreateEnrollment p u n t"]
      store_keeps_auth [of mac "AuthExchangeEnrollment code"] store_keeps_auth [of mac "AuthRevokeDeviceToken p i"]
      store_keeps_auth [of mac "AuthCreateProjectSession i subject t"] store_keeps_auth [of mac "AuthCreateProject p slug name"]
      store_keeps_auth [of mac "AuthAddMember p i u"] store_keeps_auth [of mac "AuthActivateImage p i ref"]
      store_keeps_auth [of mac "AuthRollbackImage p i"] store_keeps_auth [of mac "AuthImagePolicy p i allow"]
      store_keeps_auth [of mac "AuthCreateTrust p trust"] store_keeps_auth [of mac "AuthRevokeTrust p i"]
      store_keeps_auth [of mac "AuthAudit p i action target metadata"]; (simp; fail))+

lemma reads_keep [kept_calls]:
  "store_keeps (AuthorizeProject p selector)" "store_keeps (Job i)" "store_keeps (Build i)" "store_keeps (OperationState k i)"
  "store_keeps (ListProjects p)" "store_keeps (ListProjectImageHistory i)" "store_keeps (ListJobs codec mac i n token)"
  "store_keeps (MatchGitHubTrust i claims)" "store_keeps (ListGitHubTrusts p selector)" "store_keeps (ListDeviceTokens p)"
  "store_keeps (ResourceBaseline k i)" "store_keeps WorkerBusy" "store_keeps (TerminalJobIDsBefore t)" "store_keeps CapacityImagePolicies"
  unfolding AuthorizeProject_def project_of_def Job_def Build_def OperationState_def ListProjects_def ListProjectImageHistory_def ListJobs_def
    MatchGitHubTrust_def ListGitHubTrusts_def ListDeviceTokens_def ResourceBaseline_def WorkerBusy_def TerminalJobIDsBefore_def
    CapacityImagePolicies_def Let_def
  by (rule store_keeps_read; intro wp; simp)+

lemma secret_access_keeps [kept_calls]: "store_keeps (RecordSecretAccess i job name)"
  unfolding store_keeps_def RecordSecretAccess_def using auths_keep(17) by (simp add: store_keeps_def)

section \<open>Turns\<close>

definition kept :: "'a \<times> 'r system \<Rightarrow> bool" where
  "kept r \<longleftrightarrow> sound (snd r)"

named_theorems kept_intros

lemma kept_pair [kept_intros]: "sound s \<Longrightarrow> kept (x, s)"
  by (simp add: kept_def)

lemma kept_bind [kept_intros]:
  "kept r \<Longrightarrow> (\<And>x s. r = (Inr x, s) \<Longrightarrow> sound s \<Longrightarrow> kept (k x s)) \<Longrightarrow> kept (bindR r k)"
  by (cases r) (auto simp: kept_def bindR_def split: sum.splits)

lemma kept_on_store: "store_keeps f \<Longrightarrow> sound s \<Longrightarrow> kept (on_store f s)"
  by (simp add: kept_def on_store_def store_keeps_def split: prod.splits) (metis snd_conv)

lemma kept_connected: "kept r \<Longrightarrow> kept (connected r)"
  by (cases r) (simp add: kept_def connected_def split: sum.splits)

lemma kept_ask [kept_intros]: "sound s \<Longrightarrow> store_keeps f \<Longrightarrow> kept (ask f s)"
  by (simp add: ask_def kept_connected kept_on_store)

lemma kept_if [kept_intros]: "(b \<Longrightarrow> kept r) \<Longrightarrow> (\<not> b \<Longrightarrow> kept q) \<Longrightarrow> kept (if b then r else q)"
  by simp

lemma kept_case_option [kept_intros]:
  "(x = None \<Longrightarrow> kept r) \<Longrightarrow> (\<And>y. x = Some y \<Longrightarrow> kept (q y)) \<Longrightarrow> kept (case x of None \<Rightarrow> r | Some y \<Rightarrow> q y)"
  by (cases x) simp_all

lemma kept_case_sum [kept_intros]:
  "(\<And>e. x = Inl e \<Longrightarrow> kept (r e)) \<Longrightarrow> (\<And>y. x = Inr y \<Longrightarrow> kept (q y)) \<Longrightarrow> kept (case x of Inl e \<Rightarrow> r e | Inr y \<Rightarrow> q y)"
  by (cases x) simp_all

lemma kept_let [kept_intros]: "(\<And>y. y = x \<Longrightarrow> kept (r y)) \<Longrightarrow> kept (Let x r)"
  by simp

text \<open>What keeps away from jobs, builds and the queue.\<close>

definition tame :: "('r system \<Rightarrow> 'a \<times> 'r system) \<Rightarrow> bool" where
  "tame f \<longleftrightarrow> (\<forall>s. sound s \<longrightarrow> sound (snd (f s)) \<and> same_work (db (sys_store s)) (db (sys_store (snd (f s)))))"

lemma tameD: "tame f \<Longrightarrow> sound s \<Longrightarrow> f s = (x, t) \<Longrightarrow> sound t \<and> same_work (db (sys_store s)) (db (sys_store t))"
  unfolding tame_def by (metis snd_conv)

lemma tame_keeps: "tame f \<Longrightarrow> sound s \<Longrightarrow> kept (f s)"
  by (simp add: tame_def kept_def)

lemma same_work_refl [simp]: "same_work d d"
  by (simp add: same_work_def)

lemma same_work_trans: "same_work d e \<Longrightarrow> same_work e f \<Longrightarrow> same_work d f"
  by (simp add: same_work_def)

lemma tame_on_machine: "tame (on_machine f)"
  by (simp add: tame_def)

lemma tame_same_store: "(\<And>s. sys_store (snd (f s)) = sys_store s) \<Longrightarrow> tame f"
  by (simp add: tame_def)

lemma tame_on_store:
  assumes "store_keeps f" "\<And>w. post (\<lambda>_ v. same_work (db w) (db v)) (\<lambda>_ v. same_work (db w) (db v)) (f w)"
  shows "tame (on_store f :: 'r system \<Rightarrow> _)"
  unfolding tame_def
proof (intro allI impI)
  fix s :: "'r system"
  assume "sound s"
  obtain r v where "f (sys_store s) = (r, v)" by force
  then show "sound (snd (on_store f s)) \<and> same_work (db (sys_store s)) (db (sys_store (snd (on_store f s))))"
    using assms(2) [of "sys_store s"] assms(1) \<open>sound s\<close> by (cases r) (auto simp: on_store_def store_keeps_def dest!: spec [of _ "sys_store s"])
qed

section \<open>The dispatcher\<close>

definition sound_dispatcher :: "'r system dispatcher \<Rightarrow> bool" where
  "sound_dispatcher d \<longleftrightarrow> di_store d = sqlite_dispatch \<and> (\<forall>j. tame (di_create d j)) \<and> (\<forall>i. tame (di_cancel d i)) \<and>
     (\<forall>op. tame (prepare d op)) \<and> (\<forall>s. sys_store (di_wake d s) = sys_store s) \<and>
     (\<forall>adm run. di_capacity d = Some adm \<longrightarrow> keeps sound run \<longrightarrow> keeps sound (adm run))"

lemma sqlite_dispatch_simps [simp]:
  "ds_cleanup sqlite_dispatch = sqlite_cleanup" "acquire_next sqlite_dispatch = on_store AcquireNextOperation"
  "requeue_admitting sqlite_dispatch k i = on_store (RequeueAdmittingOperation k i)"
  "activate sqlite_dispatch k i = on_store (ActivateOperation k i)" "read_job sqlite_dispatch i = on_store (Job i)"
  "fail_job sqlite_dispatch i m = on_store (FailJob i m)" "begin_cleanup sqlite_cleanup k i = on_store (BeginOperationCleanup k i)"
  by (simp_all add: sqlite_dispatch_def sqlite_cleanup_def)

lemma on_store_eq: "on_store f s = (r, t) \<Longrightarrow> f (sys_store s) = (r, sys_store t)"
  by (auto simp: on_store_def split: prod.splits)

lemma on_store_sound:
  assumes "on_store f s = (r, t)" "sound_store (snd (f (sys_store s)))" shows "sound t"
  using assms by (auto simp: on_store_def split: prod.splits)

lemma on_store_call:
  assumes "on_store f s = (r, t)" "sound s" "run_call c (sys_store s) = snd (f (sys_store s))" "disciplined c (db (sys_store s))"
  shows "sound t"
  using on_store_sound [OF assms(1)] call_sound [OF assms(2,4)] assms(3) by simp

lemma on_store_keeps: "on_store f s = (r, t) \<Longrightarrow> store_keeps f \<Longrightarrow> sound s \<Longrightarrow> sound t"
  using kept_on_store [of f s] by (simp add: kept_def)

abbreviation sys_job_is :: "(status \<Rightarrow> bool) \<Rightarrow> string \<Rightarrow> 'r system \<Rightarrow> bool" where
  "sys_job_is P i s \<equiv> job_is P i (sys_store s)"

lemma terminal_job_disciplined: "job_is Terminal i w \<Longrightarrow> disciplined (CallBegin OperationJob i) (db w)"
  by (simp add: job_is_def)

lemma job_agrees_row:
  assumes "sound_store w" "r \<in> set (jobs (db w))"
  shows "\<exists>st. op_states w (OperationJob, j_id r) = Some st \<and> job_agrees (j_status r) st"
proof -
  have "(OperationJob, j_id r) \<in> q_key ` set (queue (db w))"
    using sound_storeD(1) [OF assms(1)] assms(2) by (auto simp: consistent_def links_ok_def linked_def)
  then obtain q where q: "q \<in> set (queue (db w))" "q_key q = (OperationJob, j_id r)" by auto
  then have "op_states w (OperationJob, j_id r) = Some (q_state q)" using states_of_row [OF sound_storeD(3) [OF assms(1)] q(1)] by simp
  moreover have "job_agrees (j_status r) (q_state q)"
    using sound_storeD(5) [OF assms(1)] assms(2) q by (auto simp: jobs_ok_def agree_def is_op_key)
  ultimately show ?thesis by blast
qed

lemma job_is_terminal:
  assumes "sound_store w" "op_states w (OperationJob, i) \<notin> Some ` {OperationQueued, OperationAdmitting, OperationActive}"
  shows "job_is Terminal i w"
  unfolding job_is_def
proof (intro ballI impI)
  fix r assume "r \<in> set (jobs (db w))" "j_id r = i"
  then obtain st where "op_states w (OperationJob, i) = Some st" "job_agrees (j_status r) st" using job_agrees_row [OF assms(1)] by blast
  then show "Terminal (j_status r)" using assms(2) by (cases "j_status r") auto
qed

lemma FailJob_terminal:
  assumes "sound_store w" "FailJob i m w = (Inr j, v)" shows "job_is Terminal i v"
proof (rule job_is_terminal)
  show "sound_store v" using calls_keep(9) [of i m] assms unfolding store_keeps_def by (metis snd_conv)
  show "op_states v (OperationJob, i) \<notin> Some ` {OperationQueued, OperationAdmitting, OperationActive}"
    using FailJob_spec [OF sound_storeD(3) [OF assms(1)], of i m] assms(2) by (auto simp: failed_states_def split: if_splits)
qed

lemma Acquire_not_running:
  assumes "sound_store w" "AcquireNextOperation w = (Inr (Some op), v)" "op_kind op = OperationJob"
  shows "job_is (\<lambda>s. s \<noteq> StatusRunning) (op_id op) v"
proof -
  obtain ks where "waiting (lease_of (queue (db w))) = (OperationJob, op_id op) # ks" "jobs (db v) = jobs (db w)"
    using AcquireNextOperation_spec [OF sound_storeD(3) [OF assms(1)]] assms(2,3) by auto
  then have "(OperationJob, op_id op) \<in> set (waiting (lease_of (queue (db w))))" by simp
  then obtain q where "q \<in> set (queue (db w))" "q_key q = (OperationJob, op_id op)" "q_state q = OperationQueued"
    by (auto simp: lease_of_def)
  then have "op_states w (OperationJob, op_id op) = Some OperationQueued" using states_of_row [OF sound_storeD(3) [OF assms(1)]] by metis
  then show ?thesis using job_agrees_row [OF assms(1)] \<open>jobs (db v) = jobs (db w)\<close> by (fastforce simp: job_is_def)
qed

lemma Coordinator_Request_kept:
  assumes "sound s" "sys_job_is Terminal i s" "\<And>s. sys_store (wake s) = sys_store s"
  shows "kept (Coordinator_Request sqlite_cleanup wake OperationJob i s)"
proof -
  obtain r t where r: "on_store (BeginOperationCleanup OperationJob i) s = (r, t)" by force
  have "sound t" using on_store_call [OF r assms(1), of "CallBegin OperationJob i"] terminal_job_disciplined [OF assms(2)] by simp
  then show ?thesis using r assms(3) by (cases r) (simp_all add: Coordinator_Request_def kept_def)
qed

lemma sound_dispatcherD:
  assumes "sound_dispatcher d"
  shows "di_store d = sqlite_dispatch" "tame (di_create d j)" "tame (di_cancel d i)" "tame (prepare d op)"
    "sys_store (di_wake d s) = sys_store s" "di_capacity d = Some adm \<Longrightarrow> keeps sound run \<Longrightarrow> keeps sound (adm run)"
  using assms by (simp_all add: sound_dispatcher_def)

lemma Release_kept:
  assumes "sound_dispatcher d" "sound s" "sys_job_is Terminal i s" shows "kept (Release d OperationJob i s)"
  using assms Coordinator_Request_kept [OF assms(2,3)] by (simp add: Release_def sound_dispatcher_def)

lemma fail_admission_kept:
  assumes d: "sound_dispatcher d" and s: "sound s" shows "kept (fail_admission d operation a e s)"
proof -
  note st = sound_dispatcherD [OF d]
  obtain r t where r: "on_store (FailJob (op_id operation) (di_text d e)) s = (r, t)" by force
  have t: "sound t" using on_store_keeps [OF r calls_keep(9) s] .
  show ?thesis
  proof (cases r)
    case (Inr j)
    then have "sys_job_is Terminal (op_id operation) t"
      using r FailJob_terminal [OF s, of "op_id operation" "di_text d e" j "sys_store t"] by (auto simp: on_store_def split: prod.splits)
    then have "kept (Coordinator_Request sqlite_cleanup (di_wake d) OperationJob (op_id operation) t)"
      using Coordinator_Request_kept [OF t] st(5) by blast
    then show ?thesis using r Inr st(1)
      by (cases "Coordinator_Request sqlite_cleanup (di_wake d) OperationJob (op_id operation) t") (simp add: fail_admission_def kept_def)
  qed (use r t st(1) in \<open>simp add: fail_admission_def kept_def\<close>)
qed

lemma activate_kept:
  assumes "sound s" "op_kind operation = OperationJob \<Longrightarrow> sys_job_is (\<lambda>st. st \<noteq> StatusPreparing) (op_id operation) s"
    "on_store (ActivateOperation (op_kind operation) (op_id operation)) s = (r, t)"
  shows "sound t"
  using on_store_call [OF assms(3,1), of "CallActivate (op_kind operation) (op_id operation)"] assms(2)
  by (cases "op_kind operation") (simp_all add: job_is_def)

lemma requeue_kept:
  assumes "sound s" "op_kind operation = OperationJob \<Longrightarrow> sys_job_is (\<lambda>st. st \<noteq> StatusRunning) (op_id operation) s"
    "on_store (RequeueAdmittingOperation (op_kind operation) (op_id operation)) s = (r, t)"
  shows "sound t"
  using on_store_call [OF assms(3,1), of "CallRequeue (op_kind operation) (op_id operation)"] assms(2)
  by (cases "op_kind operation") (simp_all add: job_is_def)

lemma start_job_kept:
  assumes d: "sound_dispatcher d" and s: "sound s"
    and job: "op_kind operation = OperationJob" "sys_job_is (\<lambda>st. st \<noteq> StatusPreparing) (op_id operation) s"
  shows "kept (start_job d operation job s)"
proof -
  note st = sound_dispatcherD [OF d]
  obtain e t where e: "di_create d job s = (e, t)" by force
  have t: "sound t" "sys_job_is (\<lambda>st. st \<noteq> StatusPreparing) (op_id operation) t"
    using tameD [OF st(2) s e] job(2) job_is_same by blast+
  obtain r u where r: "on_store (ActivateOperation OperationJob (op_id operation)) t = (r, u)" by force
  have u: "sound u" using activate_kept [of t operation r u] t r job(1) by simp
  obtain q v where q: "on_store (Job (op_id operation)) u = (q, v)" by force
  have v: "sound v" using on_store_keeps [OF q reads_keep(2) u] .
  have "kept (di_cancel d (op_id operation) v)" by (rule tame_keeps [OF st(3) v])
  then show ?thesis
    using e r q t(1) u v job(1) fail_admission_kept [OF d t(1), of operation]
    by (cases "di_cancel d (op_id operation) v") (auto simp: st(1) start_job_def kept_def split: option.splits sum.splits)
qed

lemma admit_kept:
  assumes d: "sound_dispatcher d" and s: "sound s"
    and job: "case job of None \<Rightarrow> op_kind operation = OperationBuild
        | Some j \<Rightarrow> op_kind operation = OperationJob \<and> sys_job_is (\<lambda>st. st \<noteq> StatusPreparing \<and> st \<noteq> StatusRunning) (op_id operation) s"
  shows "kept (admit d operation job s)"
proof -
  note st = sound_dispatcherD [OF d]
  obtain e t where e: "prepare d operation s = (e, t)" by force
  have t: "sound t" "same_work (db (sys_store s)) (db (sys_store t))" using tameD [OF st(4) s e] by blast+
  have ready: "sys_job_is (\<lambda>st. st \<noteq> StatusPreparing \<and> st \<noteq> StatusRunning) (op_id operation) t" if "op_kind operation = OperationJob"
    using job that job_is_same [OF t(2)] by (cases job) auto
  obtain r u where r: "on_store (RequeueAdmittingOperation (op_kind operation) (op_id operation)) t = (r, u)" by force
  have u: "sound u" by (rule requeue_kept [OF t(1) _ r]) (rule job_is_mono [OF ready]; simp)
  obtain q v where q: "on_store (ActivateOperation (op_kind operation) (op_id operation)) t = (q, v)" by force
  have v: "sound v" by (rule activate_kept [OF t(1) _ q]) (rule job_is_mono [OF ready]; simp)
  have "kept (start_job d operation j t)" if "job = Some j" for j
  proof (rule start_job_kept [OF d t(1)])
    show kind: "op_kind operation = OperationJob" using job that by simp
    show "sys_job_is (\<lambda>st. st \<noteq> StatusPreparing) (op_id operation) t" by (rule job_is_mono [OF ready [OF kind]]) simp
  qed
  then show ?thesis
    using e r q u v fail_admission_kept [OF d t(1), of operation]
    by (cases e; cases job; cases r; cases q) (simp_all add: st(1) admit_def kept_def)
qed

lemma runOnce_kept:
  assumes d: "sound_dispatcher (d :: 'r system dispatcher)" shows "keeps sound (runOnce d)"
  unfolding keeps_def
proof (intro allI impI)
  fix s :: "'r system"
  assume s: "sound s"
  note st = sound_dispatcherD [OF d]
  obtain r t where r: "on_store AcquireNextOperation s = (r, t)" by force
  have t: "sound t" using on_store_keeps [OF r calls_keep(1) s] .
  have "kept (runOnce d s)"
  proof (cases "\<exists>op. r = Inr (Some op) \<and> op_kind op = OperationJob")
    case True
    then obtain op where op: "r = Inr (Some op)" "op_kind op = OperationJob" by blast
    then have idle: "sys_job_is (\<lambda>st. st \<noteq> StatusRunning) (op_id op) t"
      using Acquire_not_running [OF s] on_store_eq [OF r] by simp
    obtain q u where q: "on_store (Job (op_id op)) t = (q, u)" by force
    have u: "sound u" using on_store_keeps [OF q reads_keep(2) t] .
    have "kept (admit d op (Some j) u)" if "q = Inr j" "job_status j \<noteq> StatusPreparing" for j
    proof -
      have "sys_job_is (\<lambda>st. st = job_status j) (op_id op) u" "db (sys_store u) = db (sys_store t)"
        using Job_reads [OF on_store_eq [OF q [unfolded that(1)]] t] by simp_all
      then have "sys_job_is (\<lambda>st. st \<noteq> StatusPreparing \<and> st \<noteq> StatusRunning) (op_id op) u"
        using idle that(2) by (auto simp: job_is_def)
      then show ?thesis using admit_kept [OF d u] op(2) by simp
    qed
    then show ?thesis using s r op q u by (cases q) (simp_all add: st(1) runOnce_def kept_def)
  next
    case False
    have "kept (admit d op None t)" if "r = Inr (Some op)" for op
      using admit_kept [OF d t, of op None] that False by (cases "op_kind op") auto
    then show ?thesis using s t r False
      by (cases r; cases "\<exists>op. r = Inr (Some op)") (auto simp: st(1) runOnce_def kept_def)
  qed
  then show "sound (snd (runOnce d s))" by (simp add: kept_def)
qed

lemma Dispatcher_RunOnce_kept: "sound_dispatcher d \<Longrightarrow> keeps sound (Dispatcher_RunOnce d)"
  using runOnce_kept [of d] by (auto simp: Dispatcher_RunOnce_def sound_dispatcher_def keeps_def split: option.split)

end
