(* ===== verification/Hooks.thy ===== *)
theory Hooks
  imports Turns
begin

text \<open>
  What the parts below the dispatcher keep: the preparation and the cleanup of an operation, the
  capacity controller and the emergency stop keep every predicate that their own calls keep; on the
  store of the control plane they keep it sound.
\<close>

section \<open>The hooks of an operation\<close>

text \<open>Sound, and the work is that of a given database.\<close>

definition steady :: "database \<Rightarrow> 'r system \<Rightarrow> bool" where
  "steady d s \<longleftrightarrow> sound s \<and> same_work d (db (sys_store s))"

lemma tame_steady: "tame f \<longleftrightarrow> (\<forall>d. keeps (steady d) f)"
proof
  assume "tame f"
  then show "\<forall>d. keeps (steady d) f" unfolding tame_def keeps_def steady_def using same_work_trans by blast
next
  assume "\<forall>d. keeps (steady d) f"
  then show "tame f" unfolding tame_def keeps_def steady_def using same_work_refl by blast
qed

lemma keepsI: "(\<And>s. P s \<Longrightarrow> P (snd (f s))) \<Longrightarrow> keeps P f"
  by (simp add: keeps_def)

definition manager_keeps :: "('w \<Rightarrow> bool) \<Rightarrow> 'w resource_manager \<Rightarrow> bool" where
  "manager_keeps P m \<longleftrightarrow>
     (\<forall>st. rm_store m = Some st \<longrightarrow> (\<forall>k i. keeps P (get_baseline st k i)) \<and> (\<forall>k i rs. keeps P (save_baseline st k i rs))) \<and>
     (\<forall>rt. rm_runtime m = Some rt \<longrightarrow> keeps P (Inventory rt) \<and> (\<forall>i. keeps P (RemoveService rt i)) \<and> (\<forall>i. keeps P (RemoveContainer rt i)) \<and>
        (\<forall>i. keeps P (RemoveNetwork rt i)) \<and> (\<forall>i. keeps P (RemoveVolume rt i))) \<and>
     (\<forall>t. keeps P (rm_wait m t))"

lemma rm_Prepare_keeps:
  assumes "manager_keeps P m" shows "keeps P (rm_Prepare m operation)"
proof (rule keepsI)
  fix w assume w: "P w"
  show "P (snd (rm_Prepare m operation w))"
  proof (cases "rm_validate m")
    case (Inr sr)
    then obtain st rt where sr: "sr = (st, rt)" "rm_store m = Some st" "rm_runtime m = Some rt"
      by (auto simp: rm_validate_def split: option.splits)
    let ?k = "op_kind operation" and ?i = "op_id operation"
    obtain r u where r: "get_baseline st ?k ?i w = (r, u)" by force
    obtain q v where q: "Inventory rt u = (q, v)" by force
    have u: "P u" using keepsD [of P "get_baseline st ?k ?i" w r u] w r assms sr by (simp add: manager_keeps_def)
    have v: "P v" using keepsD [of P "Inventory rt" u q v] u q assms sr by (simp add: manager_keeps_def)
    have "P (snd (save_baseline st ?k ?i rs v))" for rs
      using assms sr v by (simp add: manager_keeps_def keeps_def)
    then show ?thesis using Inr sr r q u v
      by (auto simp: rm_Prepare_def split: sum.splits prod.splits) (metis snd_conv)+
  qed (simp add: rm_Prepare_def w)
qed

lemma remove_each_keeps: "(\<And>i. keeps P (f i)) \<Longrightarrow> P w \<Longrightarrow> P (snd (remove_each what f ids w))"
proof (induction ids arbitrary: w)
  case (Cons i ids)
  obtain e v where e: "f i w = (e, v)" by force
  have "P v" using keepsD [of P "f i" w e v] e Cons.prems by blast
  then show ?case using Cons.IH [OF Cons.prems(1), of v] e by (auto split: prod.splits)
qed simp

lemma rm_Cleanup_keeps:
  assumes "manager_keeps P m" shows "keeps P (rm_Cleanup m operation)"
proof (rule keepsI)
  fix w assume w: "P w"
  show "P (snd (rm_Cleanup m operation w))"
  proof (cases "rm_validate m")
    case (Inr sr)
    then obtain st rt where sr: "sr = (st, rt)" "rm_store m = Some st" "rm_runtime m = Some rt"
      by (auto simp: rm_validate_def split: option.splits)
    note keep = assms [unfolded manager_keeps_def]
    let ?k = "op_kind operation" and ?i = "op_id operation"
    obtain r u where r: "get_baseline st ?k ?i w = (r, u)" by force
    have u: "P u" using keepsD [of P "get_baseline st ?k ?i" w r u] w r keep sr by simp
    obtain e v where e: "(if ?k = OperationJob then rm_wait m (rm_grace m) u else (None, u)) = (e, v)" by force
    have v: "P v" using keepsD [of P "rm_wait m (rm_grace m)" u e v] keep u e by (auto split: if_splits)
    obtain q x where q: "Inventory rt v = (q, x)" by force
    have x: "P x" using keepsD [of P "Inventory rt" v q x] v q keep sr by simp
    show ?thesis
    proof (cases "\<exists>baseline current. r = Inr baseline \<and> e = None \<and> q = Inr current")
      case True
      then obtain baseline current where ok: "r = Inr baseline" "e = None" "q = Inr current" by blast
      let ?owned = "difference current baseline"
      obtain es1 w1 where w1: "remove_each ''service'' (RemoveService rt) (rs_services ?owned) x = (es1, w1)" by force
      obtain es2 w2 where w2: "remove_each ''container'' (RemoveContainer rt) (rs_containers ?owned) w1 = (es2, w2)" by force
      obtain es3 w3 where w3: "remove_each ''network'' (RemoveNetwork rt) (rs_networks ?owned) w2 = (es3, w3)" by force
      obtain es4 w4 where w4: "remove_each ''volume'' (RemoveVolume rt) (rs_volumes ?owned) w3 = (es4, w4)" by force
      obtain rem w5 where w5: "Inventory rt w4 = (rem, w5)" by force
      have "P w1" using remove_each_keeps [of P "RemoveService rt"] keep sr x w1 by (metis snd_conv)
      then have "P w2" using remove_each_keeps [of P "RemoveContainer rt"] keep sr w2 by (metis snd_conv)
      then have "P w3" using remove_each_keeps [of P "RemoveNetwork rt"] keep sr w3 by (metis snd_conv)
      then have "P w4" using remove_each_keeps [of P "RemoveVolume rt"] keep sr w4 by (metis snd_conv)
      then have "P w5" using keepsD [of P "Inventory rt" w4 rem w5] w5 keep sr by blast
      then show ?thesis using Inr sr r e q ok w1 w2 w3 w4 w5 by (simp add: rm_Cleanup_def)
    next
      case False
      then show ?thesis using Inr sr r e q u v x by (auto simp: rm_Cleanup_def split: sum.splits option.splits)
    qed
  qed (simp add: rm_Cleanup_def w)
qed

lemma Lifecycle_Prepare_keeps: "(\<And>f op. Some f \<in> set fs \<Longrightarrow> keeps P (f op)) \<Longrightarrow> keeps P (Lifecycle_Prepare fs operation)"
proof (rule keepsI)
  fix w assume "\<And>f op. Some f \<in> set fs \<Longrightarrow> keeps P (f op)" "P w"
  then show "P (snd (Lifecycle_Prepare fs operation w))"
  proof (induction fs operation w rule: Lifecycle_Prepare.induct)
    case (3 f fs operation w)
    obtain e v where e: "f operation w = (e, v)" by force
    have "P v" using keepsD [of P "f operation" w e v] e "3.prems" by simp
    then show ?case using 3 e by (cases e) simp_all
  qed simp_all
qed

lemma Lifecycle_Cleanup_keeps: "(\<And>f op. Some f \<in> set fs \<Longrightarrow> keeps P (f op)) \<Longrightarrow> keeps P (Lifecycle_Cleanup fs operation)"
proof (rule keepsI)
  fix w assume "\<And>f op. Some f \<in> set fs \<Longrightarrow> keeps P (f op)" "P w"
  then have "P (snd (cleanup_errors fs operation w))"
  proof (induction fs operation w rule: cleanup_errors.induct)
    case (3 f fs operation w)
    obtain e v where e: "f operation w = (e, v)" by force
    have "P v" using keepsD [of P "f operation" w e v] e "3.prems" by simp
    then show ?case using 3 e by (auto split: prod.splits)
  qed simp_all
  then show "P (snd (Lifecycle_Cleanup fs operation w))" by (cases "cleanup_errors fs operation w") (simp add: Lifecycle_Cleanup_def)
qed

definition files_keep :: "('w \<Rightarrow> bool) \<Rightarrow> 'w file_system \<Rightarrow> bool" where
  "files_keep P fs \<longleftrightarrow> (\<forall>p. keeps P (fs_MkdirAll fs p)) \<and> (\<forall>d p. keeps P (fs_MkdirTemp fs d p)) \<and> (\<forall>p. keeps P (fs_Chmod fs p)) \<and>
     (\<forall>p. keeps P (fs_Chtimes fs p)) \<and> (\<forall>p c. keeps P (fs_WriteFile fs p c)) \<and> (\<forall>p. keeps P (fs_RemoveAll fs p)) \<and>
     (\<forall>p r. keeps P (fs_Rename fs p r)) \<and> (\<forall>p. keeps P (fs_OpenRoot fs p)) \<and> (\<forall>r p. keeps P (fs_Open fs r p))"

lemma files_keepD:
  assumes "files_keep P fs" "P w"
  shows "fs_MkdirAll fs p w = (e, v) \<Longrightarrow> P v" "fs_MkdirTemp fs p c w = (rs, v) \<Longrightarrow> P v" "fs_Chmod fs p w = (e, v) \<Longrightarrow> P v"
    "fs_Chtimes fs p w = (e, v) \<Longrightarrow> P v" "fs_WriteFile fs p c w = (e, v) \<Longrightarrow> P v" "fs_RemoveAll fs p w = (e, v) \<Longrightarrow> P v"
    "fs_Rename fs p c w = (e, v) \<Longrightarrow> P v" "fs_OpenRoot fs p w = (e, v) \<Longrightarrow> P v" "fs_Open fs p c w = (ro, v) \<Longrightarrow> P v"
  using assms unfolding files_keep_def keeps_def by (metis snd_conv)+

definition secrets_keep :: "('w \<Rightarrow> bool) \<Rightarrow> 'w secret_manager \<Rightarrow> bool" where
  "secrets_keep P m \<longleftrightarrow> files_keep P (sm_Files m) \<and> (\<forall>f i. sm_Store m = Some f \<longrightarrow> keeps P (f i)) \<and>
     (\<forall>f p n. sm_Resolver m = Some f \<longrightarrow> keeps P (f p n)) \<and> (\<forall>f p i n. sm_Access m = Some f \<longrightarrow> keeps P (f p i n))"

lemma Resolve_keeps:
  assumes "files_keep P fs" shows "keeps P (Resolve fs root project name)"
proof (rule keepsI)
  fix w assume w: "P w"
  obtain e u where e: "fs_OpenRoot fs root w = (e, u)" by force
  obtain r v where r: "fs_Open fs root (Join [project, name]) u = (r, v)" by force
  have u: "P u" using files_keepD(8) [OF assms w e] .
  have v: "P v" using files_keepD(9) [OF assms u r] .
  show "P (snd (Resolve fs root project name w))"
    using e r u v w by (auto simp: Resolve_def split: option.splits sum.splits if_splits)
qed

lemma materialize_one_keeps:
  assumes m: "secrets_keep P m" "sm_Resolver m = Some resolve" and w: "P w"
  shows "P (snd (materialize_one m resolve job t i b w))"
proof -
  note k = m(1) [unfolded secrets_keep_def]
  obtain r u where r: "resolve (job_project_id job) (secret_name b) w = (r, u)" by force
  have u: "P u" using keepsD [of P "resolve (job_project_id job) (secret_name b)" w r u] k m(2) w r by blast
  obtain e v where e: "fs_WriteFile (sm_Files m) (Join [t, ValueFile i (secret_name b)]) (projr r) u = (e, v)" by force
  have v: "P v" using files_keepD(5) [OF conjunct1 [OF k] u e] .
  obtain a x where a: "record_access m job (secret_name b) v = (a, x)" by force
  have "P (snd (record_access m job (secret_name b) v))"
    using k v by (auto simp: record_access_def keeps_def split: option.split)
  then have x: "P x" using a by simp
  show ?thesis
    using r e a u v x by (cases r; cases e; cases a) (simp_all add: materialize_one_def Let_def)
qed

lemma materialize_keeps:
  assumes "secrets_keep P m" "sm_Resolver m = Some resolve"
  shows "P w \<Longrightarrow> P (snd (materialize m resolve job t i bs w))"
proof (induction bs arbitrary: i w)
  case (Cons b bs)
  obtain r u where r: "materialize_one m resolve job t i b w = (r, u)" by force
  have u: "P u" using materialize_one_keeps [OF assms Cons.prems, of job t i b] r by simp
  obtain q v where q: "materialize m resolve job t (Suc i) bs u = (q, v)" by force
  have "P v" using Cons.IH [OF u, of "Suc i"] q by simp
  then show ?case using r q u by (cases r; cases q) simp_all
qed simp

lemma publish_keeps:
  assumes k: "files_keep P (sm_Files m)" and w: "P w" shows "P (snd (publish m jd t payload w))"
proof -
  obtain e u where e: "fs_WriteFile (sm_Files m) (Join [t, manifestName]) payload w = (e, u)" by force
  have u: "P u" using files_keepD(5) [OF k w e] .
  obtain f v where f: "fs_RemoveAll (sm_Files m) (Join [jd, ''secrets'']) u = (f, v)" by force
  have v: "P v" using files_keepD(6) [OF k u f] .
  obtain g x where g: "fs_Rename (sm_Files m) t (Join [jd, ''secrets'']) v = (g, x)" by force
  have x: "P x" using files_keepD(7) [OF k v g] .
  show ?thesis using e f g u v x by (cases e; cases f; cases g) (simp_all add: publish_def Let_def)
qed

lemma sm_Prepare_keeps:
  assumes m: "secrets_keep P m" shows "keeps P (sm_Prepare m operation)"
proof (rule keepsI)
  fix w assume w: "P w"
  note k = m [unfolded secrets_keep_def]
  have files: "files_keep P (sm_Files m)" using k by blast
  show "P (snd (sm_Prepare m operation w))"
  proof (cases "op_kind operation \<noteq> OperationJob \<or> sm_Store m = None \<or> sm_Resolver m = None \<or> sm_JobsRoot m = []")
    case True
    then show ?thesis using w by (auto simp: sm_Prepare_def split: option.split)
  next
    case False
    then obtain read resolve where ok: "op_kind operation = OperationJob" "sm_Store m = Some read" "sm_Resolver m = Some resolve" "sm_JobsRoot m \<noteq> []"
      by auto
    obtain r u where r: "read (op_id operation) w = (r, u)" by force
    have u: "P u" using keepsD [of P "read (op_id operation)" w r u] k ok(2) w r by blast
    let ?jd = "Join [sm_JobsRoot m, job_id (projr r)]"
    obtain e v where e: "fs_MkdirAll (sm_Files m) ?jd u = (e, v)" by force
    have v: "P v" using files_keepD(1) [OF files u e] .
    obtain t x where t: "fs_MkdirTemp (sm_Files m) ?jd ''.secrets-'' v = (t, x)" by force
    have x: "P x" using files_keepD(2) [OF files v t] .
    obtain c y where c: "fs_Chmod (sm_Files m) (projr t) x = (c, y)" by force
    have y: "P y" using files_keepD(3) [OF files x c] .
    obtain q z where q: "materialize m resolve (projr r) (projr t) 0 (job_secrets (projr r)) y = (q, z)" by force
    have z: "P z" using materialize_keeps [OF m ok(3) y] q by (metis snd_conv)
    have "P (snd (fill m resolve (projr r) ?jd (projr t) x))"
      using c q y z publish_keeps [OF files z] by (cases c; cases q) (simp_all add: fill_def split: sum.split)
    then obtain f a where f: "fill m resolve (projr r) ?jd (projr t) x = (f, a)" "P a" by (metis prod.collapse)
    obtain g b where g: "fs_RemoveAll (sm_Files m) (projr t) a = (g, b)" by force
    have "P b" using files_keepD(6) [OF files f(2) g] .
    then show ?thesis
      using ok r e t f g u v x by (cases r; cases e; cases t) (simp_all add: sm_Prepare_def Let_def)
  qed
qed

lemma sm_Cleanup_keeps: "secrets_keep P m \<Longrightarrow> keeps P (sm_Cleanup m operation)"
  by (rule keepsI) (auto simp: sm_Cleanup_def secrets_keep_def files_keep_def keeps_def)

section \<open>The capacity controller\<close>

definition backend_keeps :: "('w \<Rightarrow> bool) \<Rightarrow> 'w backend \<Rightarrow> bool" where
  "backend_keeps P be \<longleftrightarrow> keeps P (Lock be) \<and> (\<forall>w. P w \<longrightarrow> P (Unlock be w)) \<and> keeps P (Snapshot be) \<and> keeps P (Busy be) \<and>
     (\<forall>q. keeps P (Reclaim be q)) \<and> keeps P (Emergency be)"

lemma backend_keepsD:
  assumes "backend_keeps P be" "P w"
  shows "Lock be w = (rl, v) \<Longrightarrow> P v" "P (Unlock be w)" "Snapshot be w = (rs, v) \<Longrightarrow> P v" "Busy be w = (rb, v) \<Longrightarrow> P v"
    "Reclaim be q w = (rr, v) \<Longrightarrow> P v" "Emergency be w = (e, v) \<Longrightarrow> P v"
  using assms unfolding backend_keeps_def keeps_def by (metis snd_conv)+

lemma make_idle_keeps:
  assumes be: "backend_keeps P be" and w: "P w" shows "P (snd (make_idle be hard status w))"
proof -
  obtain r u where r: "Busy be w = (r, u)" by force
  have u: "P u" using backend_keepsD(4) [OF be w r] .
  obtain e v where e: "Emergency be u = (e, v)" by force
  have v: "P v" using backend_keepsD(6) [OF be u e] .
  obtain q x where q: "Busy be v = (q, x)" by force
  have x: "P x" using backend_keepsD(4) [OF be v q] .
  show ?thesis using r e q u v x by (cases r; cases e; cases q) (simp_all add: make_idle_def Let_def)
qed

lemma last_resort_keeps:
  assumes be: "backend_keeps P be" and w: "P w" shows "P (snd (last_resort be p trigger t before status w))"
proof -
  obtain e u where e: "Emergency be w = (e, u)" by force
  have u: "P u" using backend_keepsD(6) [OF be w e] .
  obtain report err v where r: "Reclaim be (reclaim_request_of p trigger True t before) u = ((report, err), v)" by (metis surj_pair)
  have v: "P v" using backend_keepsD(5) [OF be u r] .
  obtain q x where q: "Snapshot be v = (q, x)" by force
  have x: "P x" using backend_keepsD(3) [OF be v q] .
  show ?thesis using e r q w u v x by (cases e; cases q) (simp_all add: last_resort_def Let_def)
qed

lemma complete_world [simp]: "snd (snd (complete clock r (c, w))) = w"
  by (simp add: complete_def Let_def)

lemma sweep_keeps:
  assumes be: "backend_keeps P be" and w: "P w"
  shows "P (snd (snd (sweep be clock trigger needs pressure t before status (c, w))))"
proof -
  note resort = last_resort_keeps [OF be]
  obtain report err v where r: "Reclaim be (reclaim_request_of (c_policy c) trigger pressure t before) w = ((report, err), v)" by (metis surj_pair)
  have v: "P v" using backend_keepsD(5) [OF be w r] .
  obtain q x where q: "Snapshot be v = (q, x)" by force
  have x: "P x" using backend_keepsD(3) [OF be v q] .
  have finish: "P (snd (snd (let (status, w) = last_resort be p trigger t before st y in complete clock (verdict p t status) (c, w))))"
    if "P y" for p st y
    using resort [OF that, of p trigger t before st] by (cases "last_resort be p trigger t before st y") simp
  show ?thesis
    using r q v x finish [OF w, of "c_policy c" status] finish [OF x, of "c_policy c"]
    by (cases needs; cases err; cases q) (simp_all add: sweep_def Let_def)
qed

lemma runLocked_keeps:
  assumes be: "backend_keeps P be" and w: "P w" shows "P (snd (snd (runLocked be clock trigger (c, w))))"
proof -
  have after: "P (snd (snd (after_idle be clock tr pressure t before status (c, y))))" if "P y" for tr pressure t before status y
    using sweep_keeps [OF be that] that by (simp add: after_idle_def Let_def)
  obtain r u where r: "Snapshot be w = (r, u)" by force
  have u: "P u" using backend_keepsD(3) [OF be w r] .
  show ?thesis
  proof (cases r)
    case (Inr before)
    let ?hard = "hard_pressure (c_policy c) before" and ?st = "first_status trigger (Thresholds (c_policy c) (TotalBytes before)) before"
    obtain q v where q: "make_idle be ?hard ?st u = (q, v)" by force
    have v: "P v" using make_idle_keeps [OF be u, of ?hard ?st] q by simp
    then show ?thesis using r Inr u q after [OF u] after [OF v] by (cases q) (simp_all add: runLocked_def Let_def)
  qed (use r u in \<open>simp add: runLocked_def\<close>)
qed

lemma Admit_keeps:
  assumes be: "backend_keeps P be" and run: "keeps P run" and w: "P w"
  shows "P (snd (snd (Admit be clock run (c, w))))"
proof -
  obtain r u where r: "Lock be w = (r, u)" by force
  have u: "P u" using backend_keepsD(1) [OF be w r] .
  obtain st e c' v where v: "runLocked be clock TriggerAdmission (c, u) = ((st, e), (c', v))" by (metis surj_pair)
  have pv: "P v" using runLocked_keeps [OF be u, of clock TriggerAdmission c] v by simp
  obtain f x where f: "run v = (f, x)" by force
  have x: "P x" using keepsD [OF run pv f] .
  show ?thesis
    using r v f u backend_keepsD(2) [OF be pv] backend_keepsD(2) [OF be x] by (cases r; cases e) (simp_all add: Admit_def)
qed

section \<open>Emergencies on the store\<close>

lemma emergency_release_sound: "sound s \<Longrightarrow> emergency_release operation s = (e, t) \<Longrightarrow> sound t"
  using on_store_keeps [OF _ calls_keep(4)]
  by (auto simp: emergency_release_def split: prod.splits sum.splits)

lemma emergency_clean_sound:
  assumes s: "sound s" and cleaner: "\<forall>clean op. cleaner = Some clean \<longrightarrow> keeps sound (clean op)"
  shows "sound (snd (emergency_clean cleaner operation s))"
proof -
  obtain r t where r: "on_store ClaimOperationCleanup s = (r, t)" by force
  have t: "sound t" using on_store_keeps [OF r calls_keep(2) s] .
  have release: "sound (snd (emergency_release operation u))" if "sound u" for u
    using emergency_release_sound [OF that, of operation] by (metis prod.collapse)
  show ?thesis
  proof (cases "\<exists>claimed. r = Inr (Some claimed) \<and> op_kind claimed = op_kind operation \<and> op_id claimed = op_id operation")
    case False
    then have "snd (emergency_clean cleaner operation s) = t"
      using r by (cases r; cases "projr r") (simp_all add: emergency_clean_def)
    then show ?thesis using t by simp
  next
    case True
    then obtain claimed where c: "r = Inr (Some claimed)" "op_kind claimed = op_kind operation" "op_id claimed = op_id operation" by blast
    show ?thesis
    proof (cases cleaner)
      case None
      then show ?thesis using r c release [OF t] by (simp add: emergency_clean_def)
    next
      case (Some clean)
      obtain e u where e: "clean claimed t = (e, u)" by force
      have "sound u" using keepsD [of sound "clean claimed" t e u] cleaner Some t e by blast
      then show ?thesis using Some r c e release by (cases e) (simp_all add: emergency_clean_def)
    qed
  qed
qed

lemma emergency_stop_sound:
  assumes cleaner: "\<forall>clean op. cleaner = Some clean \<longrightarrow> keeps sound (clean op)"
  shows "keeps sound (emergency_stop (m :: 'r machine) cleaner)"
proof (rule keepsI)
  fix s :: "'r system"
  assume s: "sound s"
  obtain r t where r: "on_store (EmergencyStopActiveOperation ''worker capacity exhausted'') s = (r, t)" by force
  have t: "sound t" using on_store_keeps [OF r calls_keep(12) s] .
  have "sound (snd (emergency_clean cleaner op (stop_job m op t)))" for op
    by (rule emergency_clean_sound [OF _ cleaner]) (simp_all add: t)
  then show "sound (snd (emergency_stop m cleaner s))"
    using r t by (cases r; cases "projr r") (simp_all add: emergency_stop_def)
qed

lemma autback_backend_sound:
  assumes "\<forall>clean op. cleaner = Some clean \<longrightarrow> keeps sound (clean op)"
  shows "backend_keeps sound (host_backend (autback_host (m :: 'r machine) cleaner dry jr cr))"
proof -
  let ?h = "autback_host m cleaner dry jr cr"
  have "keeps sound (Host_Reclaim ?h q)" for q
  proof (rule keepsI)
    fix s :: "'r system"
    assume "sound s"
    then show "sound (snd (Host_Reclaim ?h q s))"
      using Host_Reclaim_keeps [OF autback_host_keeps_db [of "db (sys_store s)" m cleaner dry jr cr] refl, of q] sound_same_db by metis
  qed
  moreover have "keeps sound (Host_Snapshot ?h)" by (rule keepsI) (metis Host_Snapshot_world prod.collapse)
  moreover have "keeps sound (Host_Busy ?h)"
    using kept_on_store [OF reads_keep(12)] by (auto simp: Host_Busy_def autback_host_def sqlite_capacity_def keeps_def kept_def)
  moreover have "keeps sound (Host_Emergency ?h)"
    using emergency_stop_sound [OF assms, of m] by (auto simp: Host_Emergency_def autback_host_def keeps_def)
  ultimately show ?thesis by (simp add: backend_keeps_def host_backend_def autback_host_def keeps_def)
qed

end
