(* ===== verification/Assembly.thy ===== *)
theory Assembly
  imports Hooks
begin

text \<open>
  The server as the function \<open>run\<close> of \<open>cmd/autback-server/main.go\<close> assembles it: the scheduler over the
  container engine, the resource and secret managers as the lifecycle of an operation, the capacity
  controller, the dispatcher over all of them, and the configuration of the API. Everything below
  the store is a \<open>platform\<close>, functions on a state that holds the capacity controller first.
\<close>

section \<open>The platform\<close>

definition on_engine :: "'r engine \<Rightarrow> 'r system engine" where
  "on_engine en =
     \<lparr>en_ClientVersion = \<lambda>s. en_ClientVersion en (sys_runtime s), en_Info = on_machine (en_Info en),
      en_ServiceCreate = \<lambda>x. on_machine (en_ServiceCreate en x), en_ServiceInspect = \<lambda>i. on_machine (en_ServiceInspect en i),
      en_ServiceList = \<lambda>f. on_machine (en_ServiceList en f), en_TaskList = \<lambda>i. on_machine (en_TaskList en i),
      en_ServiceUpdate = \<lambda>i v x. on_machine (en_ServiceUpdate en i v x), en_ServiceRemove = \<lambda>i. on_machine (en_ServiceRemove en i),
      en_ServiceLogs = \<lambda>i b. on_machine (en_ServiceLogs en i b), en_ImagePull = \<lambda>i. on_machine (en_ImagePull en i),
      en_ImageInspect = \<lambda>i. on_machine (en_ImageInspect en i), en_ContainerList = on_machine (en_ContainerList en),
      en_NetworkList = on_machine (en_NetworkList en), en_VolumeList = on_machine (en_VolumeList en),
      en_ContainerRemove = \<lambda>i. on_machine (en_ContainerRemove en i), en_NetworkRemove = \<lambda>i. on_machine (en_NetworkRemove en i),
      en_VolumeRemove = \<lambda>i. on_machine (en_VolumeRemove en i), en_ContainerPrune = \<lambda>f. on_machine (en_ContainerPrune en f),
      en_NetworkPrune = \<lambda>f. on_machine (en_NetworkPrune en f), en_VolumePrune = \<lambda>f. on_machine (en_VolumePrune en f),
      en_ImagePrune = \<lambda>f. on_machine (en_ImagePrune en f), en_ImageList = on_machine (en_ImageList en),
      en_ImageRemove = \<lambda>i. on_machine (en_ImageRemove en i)\<rparr>"

definition on_authority :: "'r authority \<Rightarrow> 'r system authority" where
  "on_authority a =
     \<lparr>au_ca_pem = au_ca_pem a, au_server_name = au_server_name a, au_now = \<lambda>s. au_now a (sys_runtime s),
      au_generate_key = on_machine (au_generate_key a), au_random_serial = on_machine (au_random_serial a),
      au_create_certificate = \<lambda>t k. on_machine (au_create_certificate a t k), au_marshal_key = au_marshal_key a,
      au_pem_encode = au_pem_encode a\<rparr>"

text \<open>
  \<open>pf_host\<close> has the file system, the clock and the build cache of the capacity host; its container
  runtime and its scheduler are the client of \<open>pf_engine\<close>. \<open>pf_wake\<close> and \<open>pf_advance\<close> are the wakeups of
  the two goroutines, \<open>pf_draining\<close> the flag of the dispatcher.
\<close>

record 'x platform =
  pf_engine :: "(controller \<times> 'x) engine"
  pf_files :: "(controller \<times> 'x) file_system"
  pf_read_log :: "string \<Rightarrow> controller \<times> 'x \<Rightarrow> (err + (string list \<times> err option)) \<times> (controller \<times> 'x)"
  pf_host :: "(controller \<times> 'x) machine"
  pf_wait :: "duration \<Rightarrow> controller \<times> 'x \<Rightarrow> err option \<times> (controller \<times> 'x)"
  pf_authority :: "(controller \<times> 'x) authority"
  pf_verifier :: "(string \<Rightarrow> controller \<times> 'x \<Rightarrow> (err + github_claims) \<times> (controller \<times> 'x)) option"
  pf_directory :: "(string \<Rightarrow> controller \<times> 'x \<Rightarrow> (err + external_identity) \<times> (controller \<times> 'x)) option"
  pf_wake :: "controller \<times> 'x \<Rightarrow> controller \<times> 'x"
  pf_advance :: "controller \<times> 'x \<Rightarrow> controller \<times> 'x"
  pf_draining :: "controller \<times> 'x \<Rightarrow> bool"
  pf_marshal :: "manifest_binding list \<Rightarrow> err + string"
  pf_text :: "err \<Rightarrow> string"

record settings =
  se_JobsRoot :: string
  se_SecretRoot :: string
  se_CacheRoot :: string
  se_CASInternal :: string
  se_CASInstance :: string
  se_Entrypoint :: string
  se_HostUID :: string
  se_HostGID :: string
  se_Resources :: resource_envelope
  se_CleanupGrace :: duration
  se_CleanupTimeout :: duration
  se_DryRun :: bool
  se_ServiceRetention :: duration
  se_AdmissionGrace :: duration
  se_BuildLeaseTimeout :: duration
  se_PreparationLeaseTimeout :: duration

type_synonym 'x server = "(controller \<times> 'x) system"

section \<open>The parts\<close>

definition autback_scheduler :: "'x platform \<Rightarrow> settings \<Rightarrow> 'x server swarm_config" where
  "autback_scheduler pf se =
     \<lparr>sw_Engine = on_engine (pf_engine pf), sw_Files = on_files (pf_files pf), sw_ReadLog = \<lambda>p. on_machine (pf_read_log pf p),
      sw_ctx_err = \<lambda>s. (if sys_cancelled s then Some (ErrDriver ContextCanceled) else None),
      sw_CASAddress = se_CASInternal se, sw_CASInstance = se_CASInstance se, sw_JobsRoot = se_JobsRoot se,
      sw_EntrypointHostPath = se_Entrypoint se, sw_CacheRoot = se_CacheRoot se, sw_HostUID = se_HostUID se, sw_HostGID = se_HostGID se,
      sw_Resources = se_Resources se\<rparr>"

definition autback_resources :: "'x platform \<Rightarrow> settings \<Rightarrow> 'x server resource_manager" where
  "autback_resources pf se = NewResourceManager
     \<lparr>rm_store = Some sqlite_baselines, rm_runtime = Some (docker_resources (on_engine (pf_engine pf))),
      rm_grace = se_CleanupGrace se, rm_timeout = se_CleanupTimeout se, rm_wait = \<lambda>t. on_machine (pf_wait pf t)\<rparr>"

definition autback_secret_manager :: "'x platform \<Rightarrow> settings \<Rightarrow> 'x server secret_manager" where
  "autback_secret_manager pf se = autback_secrets (pf_files pf) (se_JobsRoot se) (se_SecretRoot se) (pf_marshal pf)"

definition autback_prepare :: "'x platform \<Rightarrow> settings \<Rightarrow> 'x server hook" where
  "autback_prepare pf se =
     Lifecycle_Prepare [Some (rm_Prepare (autback_resources pf se)), Some (sm_Prepare (autback_secret_manager pf se))]"

definition autback_cleanup :: "'x platform \<Rightarrow> settings \<Rightarrow> 'x server hook" where
  "autback_cleanup pf se =
     Lifecycle_Cleanup [Some (sm_Cleanup (autback_secret_manager pf se)), Some (rm_Cleanup (autback_resources pf se))]"

definition autback_machine :: "'x platform \<Rightarrow> (controller \<times> 'x) machine" where
  "autback_machine pf = (pf_host pf)\<lparr>m_runtime := Some (docker_capacity (pf_engine pf)),
     m_Cancel := Client_Cancel (pf_engine pf), m_Remove := Client_Remove (pf_engine pf)\<rparr>"

definition autback_backend :: "'x platform \<Rightarrow> settings \<Rightarrow> 'x server backend" where
  "autback_backend pf se =
     host_backend (autback_host (autback_machine pf) (Some (autback_cleanup pf se)) (se_DryRun se) (se_JobsRoot se) (se_CacheRoot se))"

text \<open>\<open>Admit\<close> of the capacity controller, whose own state is the first part of the platform's.\<close>

definition autback_admission ::
  "'x platform \<Rightarrow> settings \<Rightarrow> ('x server \<Rightarrow> err option \<times> 'x server) \<Rightarrow> 'x server \<Rightarrow> err option \<times> 'x server" where
  "autback_admission pf se run s =
     (let (e, (c, s)) = Admit (autback_backend pf se) (\<lambda>s. m_clock (pf_host pf) (sys_runtime s)) run (fst (sys_runtime s), s)
      in (e, s\<lparr>sys_runtime := (c, snd (sys_runtime s))\<rparr>))"

definition autback_dispatcher :: "'x platform \<Rightarrow> settings \<Rightarrow> 'x server dispatcher" where
  "autback_dispatcher pf se =
     \<lparr>di_store = sqlite_dispatch, di_create = Scheduler_Create (autback_scheduler pf se),
      di_cancel = Client_Cancel (on_engine (pf_engine pf)), di_capacity = Some (autback_admission pf se),
      di_preparer = Some (autback_prepare pf se), di_wake = \<lambda>s. s\<lparr>sys_runtime := pf_wake pf (sys_runtime s)\<rparr>,
      di_draining = \<lambda>s. pf_draining pf (sys_runtime s), di_cancelled = sys_cancelled, di_text = pf_text pf\<rparr>"

definition autback_coordinator :: "'x platform \<Rightarrow> settings \<Rightarrow> 'x server coordinator" where
  "autback_coordinator pf se =
     \<lparr>co_store = sqlite_cleanup, co_cleaner = autback_cleanup pf se, co_cancelled = sys_cancelled, co_text = pf_text pf,
      co_completed = \<lambda>operation s. s\<lparr>sys_runtime := pf_advance pf (sys_runtime s)\<rparr>\<rparr>"

definition autback_reconciler :: "'x platform \<Rightarrow> settings \<Rightarrow> 'x server reconciler" where
  "autback_reconciler pf se = New_reconciler
     \<lparr>rc_store = sqlite_reconcile, rc_managed = ListResults (on_engine (pf_engine pf)), rc_remove = Client_Remove (on_engine (pf_engine pf)),
      rc_release = Some (Release (autback_dispatcher pf se)), rc_retention = se_ServiceRetention se, rc_grace = se_AdmissionGrace se,
      rc_build_lease = se_BuildLeaseTimeout se, rc_preparation_lease = se_PreparationLeaseTimeout se,
      rc_now = \<lambda>s. m_clock (pf_host pf) (sys_runtime s)\<rparr>"

text \<open>\<open>Maintain\<close> of the capacity controller, at the start and on the two tickers of \<open>runCapacityController\<close>.\<close>

definition autback_maintain :: "'x platform \<Rightarrow> settings \<Rightarrow> trigger \<Rightarrow> 'x server \<Rightarrow> (capacity_status option \<times> err option) \<times> 'x server" where
  "autback_maintain pf se trigger s =
     (let (r, (c, s)) = Maintain (autback_backend pf se) (\<lambda>s. m_clock (pf_host pf) (sys_runtime s)) trigger (fst (sys_runtime s), s)
      in (r, s\<lparr>sys_runtime := (c, snd (sys_runtime s))\<rparr>))"

definition autback_config :: "(controller \<times> 'x) config \<Rightarrow> 'x platform \<Rightarrow> settings \<Rightarrow> (controller \<times> 'x) config" where
  "autback_config base pf se =
     base\<lparr>cfg_scheduler := swarm_scheduler (autback_scheduler pf se),
       cfg_dispatcher :=
         \<lparr>dp_run_once = Dispatcher_RunOnce (autback_dispatcher pf se),
          dp_advance = \<lambda>s. s\<lparr>sys_runtime := pf_advance pf (sys_runtime s)\<rparr>,
          dp_release = Release (autback_dispatcher pf se)\<rparr>,
       cfg_authority := on_authority (pf_authority pf),
       cfg_oidc_verifier := map_option (\<lambda>f token. on_machine (f token)) (pf_verifier pf),
       cfg_github_directory := map_option (\<lambda>f login. on_machine (f login)) (pf_directory pf),
       cfg_capacity_check := Some (\<lambda>s. Check (autback_backend pf se) (fst (sys_runtime s)) s),
       cfg_required_job_capability := ''durable-job-preparation'', cfg_required_build_capability := ''build-lease-heartbeat''\<rparr>"

section \<open>The parts keep the store sound\<close>

text \<open>A call that leaves the store as it is.\<close>

definition below :: "('r system \<Rightarrow> 'a \<times> 'r system) \<Rightarrow> bool" where
  "below f \<longleftrightarrow> (\<forall>s. sys_store (snd (f s)) = sys_store s)"

lemma belowD: "below f \<Longrightarrow> f s = (x, t) \<Longrightarrow> sys_store t = sys_store s"
  unfolding below_def by (metis snd_conv)

lemma below_on_machine [simp]: "below (on_machine f)"
  by (simp add: below_def)

lemma below_tame: "below f \<Longrightarrow> tame f"
  by (simp add: below_def tame_def)

lemma below_keeps: "below f \<Longrightarrow> keeps (\<lambda>s. P (sys_store s)) f"
  by (simp add: below_def keeps_def)

lemmas split_calls = prod.splits sum.splits option.splits if_splits

lemma on_engine_simps [simp]:
  "en_Info (on_engine en) = on_machine (en_Info en)" "en_ServiceCreate (on_engine en) x = on_machine (en_ServiceCreate en x)"
  "en_ServiceInspect (on_engine en) i = on_machine (en_ServiceInspect en i)" "en_ServiceList (on_engine en) f = on_machine (en_ServiceList en f)"
  "en_TaskList (on_engine en) i = on_machine (en_TaskList en i)" "en_ServiceUpdate (on_engine en) i v x = on_machine (en_ServiceUpdate en i v x)"
  "en_ServiceRemove (on_engine en) i = on_machine (en_ServiceRemove en i)" "en_ServiceLogs (on_engine en) i b = on_machine (en_ServiceLogs en i b)"
  "en_ImagePull (on_engine en) i = on_machine (en_ImagePull en i)" "en_ImageInspect (on_engine en) i = on_machine (en_ImageInspect en i)"
  "en_ContainerList (on_engine en) = on_machine (en_ContainerList en)" "en_NetworkList (on_engine en) = on_machine (en_NetworkList en)"
  "en_VolumeList (on_engine en) = on_machine (en_VolumeList en)" "en_ContainerRemove (on_engine en) i = on_machine (en_ContainerRemove en i)"
  "en_NetworkRemove (on_engine en) i = on_machine (en_NetworkRemove en i)" "en_VolumeRemove (on_engine en) i = on_machine (en_VolumeRemove en i)"
  by (simp_all add: on_engine_def)

lemma on_files_simps [simp]:
  "fs_MkdirAll (on_files fs) p = on_machine (fs_MkdirAll fs p)" "fs_Chmod (on_files fs) p = on_machine (fs_Chmod fs p)"
  "fs_Chtimes (on_files fs) p = on_machine (fs_Chtimes fs p)"
  by (simp_all add: on_files_def)

lemma wrap_error_below: "below f \<Longrightarrow> below (\<lambda>s. wrap_error what (f s))"
  unfolding below_def wrap_error_def by (auto split: split_calls) (metis snd_conv)+

lemma classifyRemoval_below: "below f \<Longrightarrow> below (\<lambda>s. classifyRemoval kind i (f s))"
  unfolding below_def classifyRemoval_def by (auto split: split_calls) (metis snd_conv)+

lemma bind_below: "below f \<Longrightarrow> (\<And>x. below (k x)) \<Longrightarrow> below (\<lambda>s. bindR (f s) k)"
  unfolding below_def bindR_def by (auto split: split_calls) (metis snd_conv)+

lemma client_below:
  "below (Client_Check (on_engine en))" "below (Client_ValidateImage (on_engine en) i)" "below (Client_Create (on_engine en) x)"
  "below (service_status (on_engine en) service i)" "below (Client_Status (on_engine en) i)" "below (Client_Logs (on_engine en) ctx i b)"
  "below (Client_Inventory (on_engine en))"
proof -
  show "below (Client_Check (on_engine en))" "below (Client_ValidateImage (on_engine en) i)" "below (Client_Logs (on_engine en) ctx i b)"
    unfolding below_def Client_Check_def Client_ValidateImage_def Client_Logs_def
    by (auto split: split_calls dest!: on_machine_same)
  show "below (Client_Create (on_engine en) x)"
    unfolding below_def Client_Create_def wrap_error_def by (auto split: split_calls dest!: on_machine_same)
  show status: "below (service_status (on_engine en) service i)" for service
    unfolding below_def service_status_def wrap_error_def bindR_def Let_def by (auto split: split_calls dest!: on_machine_same)
  show "below (Client_Status (on_engine en) i)"
    unfolding Client_Status_def by (intro bind_below wrap_error_below status) simp
  show "below (Client_Inventory (on_engine en))"
    unfolding Client_Inventory_def by (intro bind_below wrap_error_below) (simp_all, simp add: below_def)
qed

lemma cancel_turn_below: "below (cancel_turn (on_engine en) i final)"
  unfolding below_def cancel_turn_def by (auto split: split_calls dest!: on_machine_same)

lemma Client_Cancel_below: "below (Client_Cancel (on_engine en) i)"
proof -
  have "below (cancel_loop (on_engine en) i n)" for n
  proof (induction n)
    case (Suc n)
    show ?case unfolding below_def
    proof
      fix s :: "'a system"
      obtain r t where r: "cancel_turn (on_engine en) i (n = 0) s = (r, t)" by force
      then show "sys_store (snd (cancel_loop (on_engine en) i (Suc n) s)) = sys_store s"
        using belowD [OF cancel_turn_below r] Suc.IH by (cases r) (simp_all add: below_def)
    qed
  qed (simp add: below_def)
  then show ?thesis unfolding Client_Cancel_def below_def by simp
qed

lemma make_caches_below: "below (make_caches (on_files fs) root p caches)"
proof -
  have "sys_store (snd (make_caches (on_files fs) root p caches s)) = sys_store s" for s :: "'a system"
    by (induction caches arbitrary: s) (auto simp: Let_def split: split_calls dest!: on_machine_same)
  then show ?thesis by (simp add: below_def)
qed

lemma Scheduler_below:
  "below (Scheduler_Create (autback_scheduler pf se) job)" "below (Scheduler_Logs (autback_scheduler pf se) i b)"
proof -
  let ?en = "on_engine (pf_engine pf)" and ?fs = "on_files (pf_files pf)"
  have caches: "below (prepareCacheDirectories ?fs root p cs)" for root p cs
    using make_caches_below [of "pf_files pf" root p cs] by (simp add: prepareCacheDirectories_def below_def)
  show "below (Scheduler_Create (autback_scheduler pf se) job)"
    unfolding below_def Scheduler_Create_def autback_scheduler_def
    by (auto split: split_calls dest!: belowD [OF caches] belowD [OF client_below(3)])
  show "below (Scheduler_Logs (autback_scheduler pf se) i b)"
    using client_below(6) [of "pf_engine pf"] unfolding below_def Scheduler_Logs_def autback_scheduler_def
    by (auto split: split_calls dest!: on_machine_same)
qed

section \<open>The hooks and the dispatcher\<close>

lemma below_steady: "below f \<Longrightarrow> keeps (steady d) f"
  by (simp add: below_def keeps_def steady_def)

lemma files_steady: "files_keep (steady d) (on_files fs)"
  by (simp add: files_keep_def on_files_def below_steady)

lemma baselines_tame: "tame (get_baseline sqlite_baselines k i)" "tame (save_baseline sqlite_baselines k i rs)"
  unfolding sqlite_baselines_def baseline_store.simps
proof -
  show "tame (on_store (ResourceBaseline k i) :: 'r system \<Rightarrow> _)"
    by (rule tame_on_store [OF reads_keep(11)], unfold ResourceBaseline_def, intro wp) auto
  show "tame (on_store (SaveResourceBaseline k i rs) :: 'r system \<Rightarrow> _)"
    by (rule tame_on_store [OF calls_keep(13)], unfold SaveResourceBaseline_def, intro wp) (auto simp: same_work_def)
qed

lemma accesses_tame: "tame (on_store (Job i))" "tame (on_store (RecordSecretAccess p i n))"
proof -
  show "tame (on_store (Job i) :: 'r system \<Rightarrow> _)"
    by (rule tame_on_store [OF reads_keep(2)], unfold Job_def, intro wp) auto
  show "tame (on_store (RecordSecretAccess p i n) :: 'r system \<Rightarrow> _)"
    by (rule tame_on_store [OF secret_access_keeps], unfold RecordSecretAccess_def Audit_def, intro wp)
       (auto simp: same_work_def insert_audit_def)
qed

lemmas baselines_steady = baselines_tame [unfolded tame_steady, rule_format]

lemmas accesses_steady = accesses_tame [unfolded tame_steady, rule_format]

lemma resources_steady: "manager_keeps (steady d) (autback_resources pf se)"
  by (auto simp: manager_keeps_def autback_resources_def NewResourceManager_def docker_resources_def Let_def
      intro!: below_steady classifyRemoval_below client_below(7) baselines_steady)

lemma secrets_steady: "secrets_keep (steady d) (autback_secret_manager pf se)"
  by (auto simp: secrets_keep_def autback_secret_manager_def autback_secrets_def files_steady
      intro!: accesses_steady Resolve_keeps)

lemma hooks_tame: "tame (autback_prepare pf se operation)" "tame (autback_cleanup pf se operation)"
  unfolding tame_steady autback_prepare_def autback_cleanup_def
  by (auto intro!: Lifecycle_Prepare_keeps Lifecycle_Cleanup_keeps rm_Prepare_keeps rm_Cleanup_keeps sm_Prepare_keeps sm_Cleanup_keeps
      resources_steady secrets_steady)

lemma backend_sound: "backend_keeps sound (autback_backend pf se)"
  unfolding autback_backend_def
  using hooks_tame(2) [of pf se] by (intro autback_backend_sound) (auto simp: tame_def keeps_def)

lemma admission_sound:
  assumes "keeps sound turn" shows "keeps sound (autback_admission pf se turn)"
proof (rule keepsI)
  fix s :: "'a server" assume s: "sound s"
  let ?r = "Admit (autback_backend pf se) (\<lambda>s. m_clock (pf_host pf) (sys_runtime s)) turn (fst (sys_runtime s), s)"
  have "sound (snd (snd ?r))" by (rule Admit_keeps [OF backend_sound assms s])
  then show "sound (snd (autback_admission pf se turn s))" by (auto simp: autback_admission_def split: prod.splits)
qed

lemma prepare_hook: "prepare (autback_dispatcher pf se) = autback_prepare pf se"
  by (simp add: fun_eq_iff prepare_def autback_dispatcher_def)

lemma dispatcher_sound: "sound_dispatcher (autback_dispatcher pf se)"
  unfolding sound_dispatcher_def prepare_hook
  using below_tame [OF Scheduler_below(1)] below_tame [OF Client_Cancel_below] hooks_tame(1) [of pf se] admission_sound [of _ pf se]
  by (auto simp: autback_dispatcher_def)

lemma coordinator_sound: "keeps sound (Coordinator_RunOnce (autback_coordinator pf se))"
proof (rule keepsI)
  fix s :: "'a server" assume s: "sound s"
  let ?co = "autback_coordinator pf se"
  obtain r t where r: "on_store ClaimOperationCleanup s = (r, t)" by force
  have t: "sound t" using on_store_keeps [OF r calls_keep(2) s] .
  have step: "sound (snd (Coordinator_RunOnce ?co s))" if op: "r = Inr (Some operation)" for operation
  proof -
    let ?k = "op_kind operation" and ?i = "op_id operation"
    obtain e u where e: "autback_cleanup pf se operation t = (e, u)" by force
    have u: "sound u" using tameD [OF hooks_tame(2) t e] by blast
    have calls: "sound (snd (on_store (RecordOperationCleanupFailure ?k ?i m) u))" "sound (snd (on_store (CompleteOperationCleanup ?k ?i) u))" for m
      using kept_on_store [OF calls_keep(3) u] kept_on_store [OF calls_keep(4) u] by (simp_all add: kept_def)
    show ?thesis using r op e u calls
      by (auto simp: Coordinator_RunOnce_def autback_coordinator_def sqlite_cleanup_def Let_def split: option.splits prod.splits sum.splits)
         (metis snd_conv)+
  qed
  show "sound (snd (Coordinator_RunOnce ?co s))"
  proof (cases "\<exists>operation. r = Inr (Some operation)")
    case False
    then show ?thesis using r t by (cases r) (auto simp: Coordinator_RunOnce_def autback_coordinator_def sqlite_cleanup_def split: option.splits)
  qed (use step in blast)
qed

lemma run_capacity_keeps:
  assumes be: "backend_keeps P be" and w: "P w" shows "P (snd (snd (run_capacity be clock trigger (c, w))))"
proof -
  obtain r u where r: "Lock be w = (r, u)" by force
  have u: "P u" using backend_keepsD(1) [OF be w r] .
  obtain st c' v where v: "runLocked be clock trigger (c, u) = (st, (c', v))" by (metis surj_pair)
  have "P v" using runLocked_keeps [OF be u, of clock trigger c] v by simp
  then show ?thesis using r u v backend_keepsD(2) [OF be] by (cases r) (simp_all add: run_capacity_def)
qed

lemma maintain_sound: "keeps sound (autback_maintain pf se trigger)"
proof (rule keepsI)
  fix s :: "'a server" assume "sound s"
  then have "sound (snd (snd (Maintain (autback_backend pf se) (\<lambda>s. m_clock (pf_host pf) (sys_runtime s)) trigger (fst (sys_runtime s), s))))"
    unfolding Maintain_def by (rule run_capacity_keeps [OF backend_sound])
  then show "sound (snd (autback_maintain pf se trigger s))" by (auto simp: autback_maintain_def split: prod.splits)
qed

end
