(* ===== verification/Server_Properties.thy ===== *)
theory Server_Properties
  imports Assembly Project_Properties
begin

text \<open>
  The API over the assembled server. What the handlers rely on is a contract of the configuration,
  which the configuration of the process meets; under it every request leaves the store sound.
\<close>

section \<open>Rules for handlers\<close>

declare wait_active.simps [simp del]

lemma kept_case_result [kept_intros]:
  "kept r \<Longrightarrow> (\<And>x s. r = (x, s) \<Longrightarrow> sound s \<Longrightarrow> kept (f x s)) \<Longrightarrow> kept (case r of (x, s) \<Rightarrow> f x s)"
  by (cases r) (simp add: kept_def)

lemma kept_case_pair [kept_intros]: "(\<And>a b. x = (a, b) \<Longrightarrow> kept (f a b s)) \<Longrightarrow> kept ((case x of (a, b) \<Rightarrow> f a b) s)"
  by (cases x) simp

lemma kept_tried [kept_intros]: "kept r \<Longrightarrow> kept (tried f r)"
  by (cases r) (auto simp: kept_def tried_def split: option.splits)

lemma kept_mask [kept_intros]: "kept r \<Longrightarrow> kept (mask e r)"
  by (cases r) (auto simp: kept_def mask_def split: sum.splits)

lemma kept_responds [kept_intros]: "kept r \<Longrightarrow> kept (responds f r)"
  by (cases r) (auto simp: kept_def responds_def bindR_def split: sum.splits)

lemma kept_below: "below f \<Longrightarrow> sound s \<Longrightarrow> kept (f s)"
  by (simp add: below_def kept_def)

lemma kept_sound: "kept r \<Longrightarrow> r = (x, s) \<Longrightarrow> sound s"
  by (simp add: kept_def)

lemmas kept_rules = kept_intros kept_connected kept_on_store kept_calls

text \<open>The job that a call returns is the one of the row.\<close>

lemma Job_same: "Job i w = (r, v) \<Longrightarrow> db v = db w"
  using post_mono by (auto simp: Job_def query_def bindR_def stmt_def split: list.splits option.splits sum.splits prod.splits)

lemma Job_reads_after:
  assumes "Job i w = (Inr j, v)" "sound_store v" shows "job_id j = i \<and> job_is (\<lambda>s. s = job_status j) i v"
  using Job_reads [OF assms(1)] sound_same_db [OF assms(2)] Job_same [OF assms(1)] by simp

lemma bind_Inr: "bindR r k = (Inr y, v) \<longleftrightarrow> (\<exists>x u. r = (Inr x, u) \<and> k x u = (Inr y, v))"
  by (cases r) (auto simp: bindR_def split: sum.splits)

lemma job_calls_read:
  assumes "sound_store v"
  shows "SyncJob i remote w = (Inr j, v) \<Longrightarrow> job_id j = i \<and> job_is (\<lambda>s. s = job_status j) i v"
    "RequestJobCancellation i w = (Inr j, v) \<Longrightarrow> job_id j = i \<and> job_is (\<lambda>s. s = job_status j) i v"
  using Job_reads_after [OF _ assms] by (auto simp: SyncJob_def RequestJobCancellation_def bind_Inr)

text \<open>What the queue says of a job that the scheduler may be asked for.\<close>

lemma OperationState_reads:
  assumes "queue_inv (db w)" "OperationState k i w = (r, v)"
  shows "db v = db w"
    "(case r of Inl e \<Rightarrow> err_is e ErrNotFound | Inr state \<Rightarrow> state \<noteq> OperationQueued) \<Longrightarrow> op_states w (k, i) \<noteq> Some OperationQueued"
proof -
  have "post (\<lambda>state v. db v = db w \<and> op_states w (k, i) = Some state)
      (\<lambda>e v. db v = db w \<and> (err_is e ErrNotFound \<longrightarrow> op_states w (k, i) = None)) (OperationState k i w)"
    unfolding OperationState_def by (intro wp_core) (use find_is_op_state [OF assms(1), of k i] in auto)
  then show "db v = db w"
    "(case r of Inl e \<Rightarrow> err_is e ErrNotFound | Inr state \<Rightarrow> state \<noteq> OperationQueued) \<Longrightarrow> op_states w (k, i) \<noteq> Some OperationQueued"
    using assms(2) by (cases r; simp)+
qed

lemma SyncJob_keeps:
  assumes w: "sound_store w" and "op_states w (OperationJob, i) \<noteq> Some OperationQueued" "r_status remote \<noteq> StatusPreparing"
  shows "sound_store (snd (SyncJob i remote w))"
proof -
  have "\<forall>q \<in> set (queue (db w)). is_op OperationJob i q \<longrightarrow> q_state q \<noteq> OperationQueued"
    using assms(2) states_of_row [OF sound_storeD(3) [OF w]] by (force simp: is_op_key)
  then show ?thesis using call_sound [OF w, of "CallSyncJob i remote"] assms(3) by simp
qed

text \<open>A job as the caller has it is the job of the row.\<close>

definition tells :: "string \<Rightarrow> job \<Rightarrow> 'r system \<Rightarrow> bool" where
  "tells i j s \<longleftrightarrow> job_id j = i \<and> sys_job_is (\<lambda>st. st = job_status j) i s"

section \<open>A driver without faults\<close>

text \<open>Once the driver has no faults to come, it has none after any call.\<close>

definition calm :: "'a \<times> cworld \<Rightarrow> bool" where
  "calm r \<longleftrightarrow> faults (snd r) = []"

named_theorems calm_intros

lemma calm_pair [calm_intros]: "faults w = [] \<Longrightarrow> calm (x, w)"
  by (simp add: calm_def)

lemma calm_bind [calm_intros]: "calm r \<Longrightarrow> (\<And>x w. faults w = [] \<Longrightarrow> calm (k x w)) \<Longrightarrow> calm (bindR r k)"
  by (cases r) (auto simp: calm_def bindR_def split: sum.splits)

lemma calm_mask [calm_intros]: "calm r \<Longrightarrow> calm (mask e r)" "calm q \<Longrightarrow> calm (attempt q)"
  by (cases r) (auto simp: calm_def mask_def attempt_def split: sum.splits)

lemma calm_statements [calm_intros]:
  "faults w = [] \<Longrightarrow> calm (query f w)" "faults w = [] \<Longrightarrow> calm (exec u w)" "faults w = [] \<Longrightarrow> calm (randomID p w)"
  by (auto simp: calm_def query_def exec_def stmt_def bindR_def randomID_def rand_read_def split: sum.splits prod.splits)

lemma calm_in_tx [calm_intros]: "faults w = [] \<Longrightarrow> (\<And>w. faults w = [] \<Longrightarrow> calm (body w)) \<Longrightarrow> calm (in_tx body w)"
proof -
  assume w: "faults w = []" and body: "\<And>w. faults w = [] \<Longrightarrow> calm (body w)"
  obtain r v where r: "body w = (r, v)" by force
  then have "faults v = []" using body [OF w] by (simp add: calm_def)
  then show "calm (in_tx body w)" using w r
    by (cases r) (auto simp: in_tx_def stmt_def bindR_def calm_def split: tx_end.splits)
qed

lemma calm_branch [calm_intros]:
  "(b \<Longrightarrow> calm r) \<Longrightarrow> (\<not> b \<Longrightarrow> calm q) \<Longrightarrow> calm (if b then r else q)"
  "calm r \<Longrightarrow> (\<And>y. calm (f y)) \<Longrightarrow> calm (case x of None \<Rightarrow> r | Some y \<Rightarrow> f y)"
  "(\<And>a b. calm (g a b)) \<Longrightarrow> calm (case z of (a, b) \<Rightarrow> g a b)"
  by (auto split: option.splits prod.splits)

lemma calm_calls:
  assumes "faults w = []"
  shows "calm (Authenticate mac token w)" "calm (AuthorizeProject actor selector w)" "calm (CreatePreparedJob input idem w)"
  using assms unfolding Authenticate_def AuthorizeProject_def project_of_def CreatePreparedJob_def Let_def
  by (intro calm_intros; simp)+

lemma calm_Audit: "faults w = [] \<Longrightarrow> \<exists>v. Audit actor i action target metadata w = (Inr (), v)"
  by (simp add: Audit_def exec_def stmt_def bindR_def insert_audit_def)

lemma calm_ask: "ask f s = (Inr x, t) \<Longrightarrow> calm (f (sys_store s)) \<Longrightarrow> faults (sys_store t) = []"
  by (auto simp: ask_def connected_def on_store_def calm_def split: prod.splits sum.splits)

section \<open>The contract of the configuration\<close>

text \<open>The stream of the logs, while others change the state between two looks at it.\<close>

definition others_sound :: "'r system poll list \<Rightarrow> bool" where
  "others_sound events \<longleftrightarrow> (\<forall>f s. PollTimer f \<in> set events \<longrightarrow> sound s \<longrightarrow> sound (f s))"

locale sound_config =
  fixes c :: "'r config"
  assumes image_below: "below (sc_validate_image (cfg_scheduler c) img)"
    and status_below: "below (sc_status (cfg_scheduler c) i)"
    and status_started: "sc_status (cfg_scheduler c) i s = (Inr remote, t) \<Longrightarrow> r_status remote \<noteq> StatusPreparing"
    and logs_below: "below (sc_logs (cfg_scheduler c) i)"
    and cancel_below: "below (sc_cancel (cfg_scheduler c) i)"
    and issue_below: "below (issue c kind i)"
    and verify_below: "cfg_oidc_verifier c = Some verify \<Longrightarrow> below (verify token)"
    and directory_below: "cfg_github_directory c = Some resolve \<Longrightarrow> below (resolve login)"
    and turn_sound: "keeps sound (dp_run_once (cfg_dispatcher c))"
    and advance_same: "sys_store (dp_advance (cfg_dispatcher c) s) = sys_store s"
    and release_sound: "sound s \<Longrightarrow> sys_job_is Terminal i s \<Longrightarrow> kept (dp_release (cfg_dispatcher c) OperationJob i s)"
begin

lemmas scheduler_kept = kept_below [OF image_below] kept_below [OF status_below] kept_below [OF cancel_below]
  kept_below [OF issue_below]

lemma run_once_kept: "sound s \<Longrightarrow> kept (dp_run_once (cfg_dispatcher c) s)"
  using turn_sound by (simp add: keeps_def kept_def)

lemma dispatch_now_kept: "sound s \<Longrightarrow> kept (dispatch_now c s)"
  using run_once_kept [of s] advance_same by (auto simp: dispatch_now_def kept_def split: prod.splits option.splits)

lemma authenticate_kept: "sound s \<Longrightarrow> kept (authenticate c h s)"
  unfolding authenticate_def by (intro kept_rules | assumption)+

lemma authorizedJob_kept: "sound s \<Longrightarrow> kept (authorizedJob actor i s)"
  unfolding authorizedJob_def by (intro kept_rules | assumption)+

lemma authorizedBuild_kept: "sound s \<Longrightarrow> kept (authorizedBuild actor i s)"
  unfolding authorizedBuild_def by (intro kept_rules | assumption)+

lemma projectConfiguration_kept: "sound s \<Longrightarrow> kept (projectConfiguration c h selector s)"
  unfolding projectConfiguration_def by (intro kept_rules authenticate_kept | assumption)+

lemmas callers_kept = authenticate_kept authorizedJob_kept authorizedBuild_kept projectConfiguration_kept

lemma people_kept:
  "sound s \<Longrightarrow> kept (Server_CreateUser c h name admin s)" "sound s \<Longrightarrow> kept (BindGitHubIdentity c h login u s)" "sound s \<Longrightarrow> kept (RevokeGitHubIdentity c h u s)"
    "sound s \<Longrightarrow> kept (Server_CreateProject c h slug name s)" "sound s \<Longrightarrow> kept (Server_ListProjects c h s)" "sound s \<Longrightarrow> kept (Server_AddProjectMember c h selector u s)"
  unfolding Server_CreateUser_def BindGitHubIdentity_def RevokeGitHubIdentity_def Server_CreateProject_def Server_ListProjects_def
    Server_AddProjectMember_def
  by (intro kept_rules callers_kept | assumption | rule kept_below [OF directory_below], assumption+)+

lemma images_kept:
  "sound s \<Longrightarrow> kept (Server_ActivateProjectImage c h selector reference s)" "sound s \<Longrightarrow> kept (Server_RollbackProjectImage c h selector s)"
    "sound s \<Longrightarrow> kept (Server_SetProjectImagePolicy c h selector allow s)" "sound s \<Longrightarrow> kept (Server_ListProjectImageHistory c h selector s)"
  unfolding Server_ActivateProjectImage_def Server_RollbackProjectImage_def Server_SetProjectImagePolicy_def
    Server_ListProjectImageHistory_def
  by (intro kept_rules callers_kept scheduler_kept | assumption)+

lemma tokens_kept:
  "sound s \<Longrightarrow> kept (ExchangeGitHubOIDC c project token s)" "sound s \<Longrightarrow> kept (Server_CreateGitHubTrust c h project a1 a2 a3 a4 a5 events s)"
    "sound s \<Longrightarrow> kept (Server_ListGitHubTrusts c h selector s)" "sound s \<Longrightarrow> kept (Server_RevokeGitHubTrust c h i s)"
    "sound s \<Longrightarrow> kept (Server_CreateDeviceToken c h u name expiresAt s)" "sound s \<Longrightarrow> kept (Server_ListDeviceTokens c h s)"
    "sound s \<Longrightarrow> kept (Server_RevokeDeviceToken c h i s)" "sound s \<Longrightarrow> kept (Server_CreateEnrollmentCode c h u name expiry s)"
    "sound s \<Longrightarrow> kept (Server_ExchangeEnrollmentCode c code s)"
  unfolding ExchangeGitHubOIDC_def Server_CreateGitHubTrust_def Server_ListGitHubTrusts_def Server_RevokeGitHubTrust_def
    Server_CreateDeviceToken_def Server_ListDeviceTokens_def Server_RevokeDeviceToken_def Server_CreateEnrollmentCode_def
    Server_ExchangeEnrollmentCode_def
  by (intro kept_rules callers_kept | assumption | rule kept_below [OF verify_below], assumption+)+

lemma synced_step:
  assumes u: "sound u" and queue: "op_states (sys_store u) (OperationJob, i) \<noteq> Some OperationQueued"
    and r: "bindR (sc_status (cfg_scheduler c) i u) (\<lambda>remote w. bindR (on_store (SyncJob i remote) w) (\<lambda>job w.
      (Inr job, if Terminal (job_status job) then dp_advance (cfg_dispatcher c) w else w))) = (r, t)"
  shows "sound t \<and> (\<forall>j. r = Inr j \<longrightarrow> tells i j t)"
proof -
  obtain a x where a: "sc_status (cfg_scheduler c) i u = (a, x)" by force
  have same: "sys_store x = sys_store u" using belowD [OF status_below a] .
  show ?thesis
  proof (cases a)
    case (Inr remote)
    obtain b y where b: "on_store (SyncJob i remote) x = (b, y)" by force
    have "r_status remote \<noteq> StatusPreparing" using status_started a Inr by blast
    then have y: "sound y" using on_store_sound [OF b] SyncJob_keeps [OF u queue] same by simp
    have "tells i j y" if "b = Inr j" for j
      using job_calls_read(1) [OF y on_store_eq [OF b [unfolded that]]] by (simp add: tells_def)
    then show ?thesis using r a Inr b y advance_same by (cases b) (auto simp: bindR_def tells_def)
  qed (use r a u same in \<open>auto simp: bindR_def\<close>)
qed

lemma refreshJob_step:
  assumes s: "sound s" and r: "refreshJob c job s = (r, t)"
  shows "sound t \<and> (\<forall>j. r = Inr j \<longrightarrow> tells (job_id job) job s \<longrightarrow> tells (job_id job) j t)"
proof -
  obtain q u where q: "on_store (OperationState OperationJob (job_id job)) s = (q, u)" by force
  note read = OperationState_reads [OF sound_storeD(3) [OF s] on_store_eq [OF q]]
  have u: "sound u" "tells (job_id job) job s \<Longrightarrow> tells (job_id job) job u"
    using read(1) s by (simp_all add: sound_store_def job_is_def tells_def)
  have states: "op_states (sys_store u) = op_states (sys_store s)" using read(1) by simp
  let ?asks = "case q of Inl e \<Rightarrow> err_is e ErrNotFound | Inr state \<Rightarrow> state \<noteq> OperationQueued \<and> state \<noteq> OperationAdmitting"
  show ?thesis
  proof (cases "job_status job = StatusPreparing \<or> Terminal (job_status job)")
    case False
    show ?thesis
    proof (cases ?asks)
      case True
      then have "op_states (sys_store u) (OperationJob, job_id job) \<noteq> Some OperationQueued"
        unfolding states by (intro read(2)) (auto split: sum.splits)
      then show ?thesis using synced_step [OF u(1)] r q True False by (simp add: refreshJob_def)
    next
      case asks: False
      then show ?thesis using False r q u by (cases q) (auto simp: refreshJob_def)
    qed
  qed (use r s in \<open>auto simp: refreshJob_def\<close>)
qed

lemma refreshJob_kept: "sound s \<Longrightarrow> kept (refreshJob c job s)"
  using refreshJob_step by (metis kept_def prod.collapse)

lemma refresh_all_kept: "sound s \<Longrightarrow> kept (refresh_all c js s)"
proof (induction js arbitrary: s)
  case (Cons j js)
  obtain r t where r: "refreshJob c j s = (r, t)" by force
  then show ?case using Cons.IH [of t] refreshJob_step [OF Cons.prems r]
    by (cases "refresh_all c js t") (simp add: kept_def)
qed (simp add: kept_def)

lemma renew_preparing_kept: "sound s \<Longrightarrow> kept (renew_preparing job s)"
  unfolding renew_preparing_def by (intro kept_rules | assumption)+

lemma connections_kept: "sound s \<Longrightarrow> kept (jobPreparationConnection c job s)" "sound s \<Longrightarrow> kept (build_connection c b s)"
  unfolding jobPreparationConnection_def build_connection_def by (intro kept_rules scheduler_kept | assumption)+

lemma dispatch_now_sound: "sound s \<Longrightarrow> sound (snd (dispatch_now c s))"
  using dispatch_now_kept by (simp add: kept_def)

lemmas handlers_kept = callers_kept refreshJob_kept refresh_all_kept renew_preparing_kept connections_kept dispatch_now_kept
  dispatch_now_sound

lemma jobs_kept:
  "sound s \<Longrightarrow> kept (GetJob c h i s)" "sound s \<Longrightarrow> kept (Server_ListJobs c h selector n k token s)"
  "sound s \<Longrightarrow> kept (Server_StartJob c h i rootDigest s)"
  unfolding GetJob_def Server_ListJobs_def Server_StartJob_def start_prepared_def start_again_def Let_def
  by (intro kept_rules handlers_kept | assumption)+

lemma release_cancelled_kept:
  assumes s: "sound s" and j: "\<forall>j. job = Some j \<longrightarrow> tells i j s" shows "kept (release_cancelled c active job s)"
proof (cases job)
  case (Some j)
  then have "kept (dp_release (cfg_dispatcher c) OperationJob (job_id j) s)" if "Terminal (job_status j)"
    using release_sound [OF s, of "job_id j"] that j job_is_mono [of "\<lambda>st. st = job_status j"] by (auto simp: tells_def)
  then show ?thesis using run_once_kept [OF s] Some by (auto simp: release_cancelled_def intro: kept_tried) (simp add: kept_def)+
qed (use run_once_kept [OF s] in \<open>simp add: release_cancelled_def kept_def\<close>)

lemma after_cancel_step:
  assumes s: "sound s" and job: "tells i job s" and r: "after_cancel c job s = (job', t)"
  shows "sound t \<and> (\<forall>j. job' = Some j \<longrightarrow> tells i j t)"
proof -
  obtain q u where q: "refreshJob c job s = (q, u)" by force
  have "sound u" "q = Inr j \<Longrightarrow> tells i j u" for j
    using refreshJob_step [OF s q] job by (auto simp: tells_def)
  then show ?thesis using r q s job by (cases q) (auto simp: after_cancel_def split: if_splits)
qed

lemma cancel_job_kept:
  assumes s: "sound s" shows "kept (cancel_job c actor active i s)"
  unfolding cancel_job_def
proof (rule kept_bind)
  show "kept (ask (RequestJobCancellation i) s)" by (intro kept_rules s)
  fix job t
  assume r: "ask (RequestJobCancellation i) s = (Inr job, t)" and t: "sound t"
  have "on_store (RequestJobCancellation i) s = (Inr job, t)" using r by (auto simp: ask_def connected_def split: prod.splits sum.splits)
  then have job: "tells i job t" using job_calls_read(2) [OF t] on_store_eq by (force simp: tells_def)
  obtain job' u where u: "after_cancel c job t = (job', u)" by force
  then have v: "sound u" "\<forall>j. job' = Some j \<longrightarrow> tells i j u" using after_cancel_step [OF t job] by blast+
  show "kept (let (job, w) = after_cancel c job t in
     bindR (release_cancelled c active job w) (\<lambda>_ w.
     bindR (ask (Audit actor (case job of None \<Rightarrow> [] | Some j \<Rightarrow> job_project_id j) ''job.cancel''
       (case job of None \<Rightarrow> [] | Some j \<Rightarrow> job_id j) []) w) (\<lambda>_ w.
     (Inr (case job of None \<Rightarrow> zero_job_proto | Some j \<Rightarrow> jobProto j), w))))"
    unfolding u Let_def prod.case by (intro kept_rules release_cancelled_kept [OF v] | assumption)+
qed

lemma CancelJob_kept: "sound s \<Longrightarrow> kept (CancelJob c h i s)"
  unfolding CancelJob_def by (intro kept_rules handlers_kept scheduler_kept cancel_job_kept | assumption)+

lemma advance_sound: "sound s \<Longrightarrow> sound (dp_advance (cfg_dispatcher c) s)"
  using advance_same by simp

lemma FinishBuild_sound: "sound s \<Longrightarrow> sound (snd (on_store (FinishBuild i st x) s))"
  using kept_on_store [OF calls_keep(11)] by (simp add: kept_def)

lemma builds_kept:
  "sound s \<Longrightarrow> kept (PrepareBuild c h selector key s)" "sound s \<Longrightarrow> kept (GetBuild c h i s)" "sound s \<Longrightarrow> kept (CancelBuild c h i s)"
  "sound s \<Longrightarrow> kept (Server_FinishBuild c h i cancelled exitCode s)"
  unfolding PrepareBuild_def GetBuild_def CancelBuild_def Server_FinishBuild_def audited_build_def Let_def
  by (intro kept_rules handlers_kept scheduler_kept FinishBuild_sound advance_sound | assumption)+

lemma authenticate_calm: "authenticate c h s = (Inr actor, t) \<Longrightarrow> faults (sys_store s) = [] \<Longrightarrow> faults (sys_store t) = []"
  by (auto simp: authenticate_def bind_Inr split: option.splits if_splits dest!: calm_ask intro: calm_calls)

lemma audited_preparation_kept: "sound s \<Longrightarrow> faults (sys_store s) = [] \<Longrightarrow> kept (audited_preparation c actor i job replayed s)"
  using calm_Audit [of "sys_store s" actor i "''job.prepare''" "job_id job" "[(''image'', job_image job)]"]
    kept_on_store [OF auths_keep(17), of s actor i "''job.prepare''" "job_id job" "[(''image'', job_image job)]"]
  by (auto simp: audited_preparation_def kept_def on_store_def split: prod.splits sum.splits)

lemma PrepareJob_kept: "sound s \<Longrightarrow> faults (sys_store s) = [] \<Longrightarrow> kept (PrepareJob c h m s)"
  unfolding PrepareJob_def Let_def
  by (intro kept_rules handlers_kept audited_preparation_kept
      | assumption | erule authenticate_calm | erule calm_ask | rule calm_calls)+

text \<open>Every request.\<close>

lemma serve_kept:
  assumes "sound s" "\<forall>m. request = PrepareJobRequest m \<longrightarrow> faults (sys_store s) = []"
  shows "kept (serve c h request s)"
  using assms
  by (cases request)
     (simp_all add: kept_responds people_kept images_kept tokens_kept jobs_kept CancelJob_kept builds_kept PrepareJob_kept)

lemma wait_active_kept: "others_sound events \<Longrightarrow> sound s \<Longrightarrow> kept (wait_active c job events s)"
proof (induction events arbitrary: job s)
  case Nil
  show ?case by (subst wait_active.simps) (intro kept_rules refreshJob_kept Nil | simp)+
next
  case (Cons e events)
  have step: "kept (case e of PollTimer f \<Rightarrow> wait_active c j events (f t) | _ \<Rightarrow> (Inl (ErrConnect CodeCanceled (ErrDriver ContextCanceled)), t))"
    if "sound t" for j t
    using Cons that by (cases e) (auto simp: others_sound_def kept_def)
  show ?case
    by (subst wait_active.simps, unfold list.case) (intro kept_rules refreshJob_kept Cons.prems(2) step | assumption)+
qed

lemma follow_logs_sound:
  "others_sound events \<Longrightarrow> sound s \<Longrightarrow> sound (snd (snd (follow_logs c requested job events out s)))"
proof (induction events arbitrary: job out s)
  case (Cons e events)
  have rest: "others_sound events" using Cons.prems by (auto simp: others_sound_def)
  have look: "sound (snd (snd (case refreshJob c job t of (Inl e, w) \<Rightarrow> (Inl (connectError e), drain_output requested events out, w)
      | (Inr job, w) \<Rightarrow> if Terminal (job_status job) then (Inr job, drain_output requested events out, w)
          else follow_logs c requested job events out w)))" if t: "sound t" for t
  proof -
    obtain r u where r: "refreshJob c job t = (r, u)" by force
    then show ?thesis using refreshJob_step [OF t r] Cons.IH [OF rest] by (cases r) auto
  qed
  show ?case
  proof (cases e)
    case (PollTimer f)
    then show ?thesis using look [of "f s"] Cons.prems by (auto simp: others_sound_def)
  next
    case (PollLogsDone x)
    then show ?thesis using look Cons.prems by (cases x) simp_all
  qed (use Cons.IH [OF rest] Cons.prems in simp)
qed simp

lemma wait_active_events: "wait_active c job events s = (Inr (j, Some es), t) \<Longrightarrow> set es \<subseteq> set events"
proof (induction events arbitrary: job s)
  case Nil
  then show ?case by (subst (asm) wait_active.simps) (auto simp: bind_Inr split: prod.splits if_splits)
next
  case (Cons e events)
  show ?case using Cons.prems
    by (subst (asm) wait_active.simps) (auto simp: bind_Inr split: prod.splits if_splits poll.splits dest!: Cons.IH)
qed

lemma followJob_sound:
  assumes events: "others_sound events" and s: "sound s" shows "sound (snd (snd (followJob c requested job events out s)))"
proof -
  obtain r t where r: "wait_active c job events s = (r, t)" by force
  have t: "sound t" using wait_active_kept [OF events s, of job] r by (simp add: kept_def)
  have "sound (snd (snd (follow_logs c requested j (PollTimer id # es) out t)))" if "r = Inr (j, Some es)" for j es
  proof (rule follow_logs_sound [OF _ t])
    show "others_sound (PollTimer id # es)" using wait_active_events [OF r [unfolded that]] events by (auto simp: others_sound_def)
  qed
  then show ?thesis using r t unfolding followJob_def
    by (cases r) (auto simp del: follow_logs.simps split: option.splits)
qed

lemma finished_logs_sound:
  assumes "sound s" shows "sound (snd (snd (finished_logs c requested job out s)))"
proof -
  obtain chunks e t where r: "sc_logs (cfg_scheduler c) (job_id job) s = ((chunks, e), t)" by (metis surj_pair)
  obtain f out' where f: "write_log requested chunks out = (f, out')" by force
  have "sound t" using belowD [OF logs_below r] assms by simp
  then show ?thesis using r f by (simp add: finished_logs_def split: option.split)
qed

lemma write_logs_sound:
  "others_sound events \<Longrightarrow> sound s \<Longrightarrow> sound (snd (snd (write_logs c offset job events out s)))"
  by (simp add: write_logs_def followJob_sound finished_logs_sound)

lemma StreamJobLogs_sound:
  assumes events: "others_sound events" and s: "sound s"
  shows "sound (snd (snd (StreamJobLogs c h i offset events ch s)))"
proof -
  let ?r = "bindR (authenticate c h s) (\<lambda>actor w. authorizedJob actor i w)"
  obtain r t where r: "?r = (r, t)" by force
  have "kept ?r" by (intro kept_rules callers_kept s | assumption)+
  then have t: "sound t" using r by (simp add: kept_def)
  show ?thesis
  proof (cases r)
    case (Inr job)
    obtain x out u where x: "write_logs c offset job events (new_log_writer offset ch) t = (x, out, u)" by (metis surj_pair)
    then have "sound u" using write_logs_sound [OF events t, of offset job "new_log_writer offset ch"] by simp
    then show ?thesis using s r Inr x by (cases x) (simp_all add: StreamJobLogs_def Let_def split: prod.split)
  qed (use s r t in \<open>simp add: StreamJobLogs_def\<close>)
qed

end

section \<open>The configuration of the process\<close>

lemma on_authority_simps [simp]:
  "au_generate_key (on_authority a) = on_machine (au_generate_key a)" "au_random_serial (on_authority a) = on_machine (au_random_serial a)"
  "au_create_certificate (on_authority a) t k = on_machine (au_create_certificate a t k)"
  by (simp_all add: on_authority_def)

definition stays :: "cworld \<Rightarrow> 'a \<times> 'r system \<Rightarrow> bool" where
  "stays w r \<longleftrightarrow> sys_store (snd r) = w"

lemma stays_intros:
  "sys_store s = w \<Longrightarrow> stays w (x, s)" "sys_store s = w \<Longrightarrow> stays w (on_machine f s)"
  "stays w r \<Longrightarrow> (\<And>x s. sys_store s = w \<Longrightarrow> stays w (k x s)) \<Longrightarrow> stays w (bindR r k)"
  "stays w q \<Longrightarrow> stays w q' \<Longrightarrow> stays w (if b then q else q')"
  "(\<And>e. stays w (g e)) \<Longrightarrow> (\<And>y. stays w (h y)) \<Longrightarrow> stays w (case z of Inl e \<Rightarrow> g e | Inr y \<Rightarrow> h y)"
  "(\<And>y. stays w (l y)) \<Longrightarrow> stays w (Let v l)"
  by (auto simp: stays_def bindR_def split: prod.splits sum.splits)

lemma Issue_below: "below (Issue (on_authority a) kind i ttl)"
proof -
  have "stays (sys_store s) (Issue (on_authority a) kind i ttl s)" for s :: "'a system"
    unfolding Issue_def on_authority_simps by (intro stays_intros) simp_all
  then show ?thesis by (simp add: below_def stays_def)
qed

interpretation autback: sound_config "autback_config base pf se" for base pf se
proof
  let ?c = "autback_config base pf se"
  have parts: "cfg_scheduler ?c = swarm_scheduler (autback_scheduler pf se)" "cfg_authority ?c = on_authority (pf_authority pf)"
    by (simp_all add: autback_config_def)
  have engine: "sw_Engine (autback_scheduler pf se) = on_engine (pf_engine pf)" by (simp add: autback_scheduler_def)
  show "below (sc_validate_image (cfg_scheduler ?c) img)" "below (sc_status (cfg_scheduler ?c) i)" "below (sc_cancel (cfg_scheduler ?c) i)" for img i
    unfolding parts swarm_scheduler_def scheduler.simps engine by (rule client_below Client_Cancel_below)+
  show "below (sc_logs (cfg_scheduler ?c) i)" for i
    unfolding parts swarm_scheduler_def scheduler.simps by (rule Scheduler_below)
  show "sc_status (cfg_scheduler ?c) i s = (Inr remote, t) \<Longrightarrow> r_status remote \<noteq> StatusPreparing" for i s remote t
    unfolding parts swarm_scheduler_def scheduler.simps by (rule Client_Status_not_preparing)
  show "below (issue ?c kind i)" for kind i
    using Issue_below unfolding below_def issue_def parts by blast
  show "below (verify token)" if "cfg_oidc_verifier ?c = Some verify" for verify token
    using that by (auto simp: autback_config_def)
  show "below (resolve login)" if "cfg_github_directory ?c = Some resolve" for resolve login
    using that by (auto simp: autback_config_def)
  show "keeps sound (dp_run_once (cfg_dispatcher ?c))"
    using Dispatcher_RunOnce_kept [OF dispatcher_sound] by (simp add: autback_config_def)
  show "sys_store (dp_advance (cfg_dispatcher ?c) s) = sys_store s" for s by (simp add: autback_config_def)
  show "kept (dp_release (cfg_dispatcher ?c) OperationJob i s)" if "sound s" "sys_job_is Terminal i s" for s i
    using Release_kept [OF dispatcher_sound that] by (simp add: autback_config_def)
qed

section \<open>The server in its environment\<close>

text \<open>
  The steps of the process: a request of a client, a turn of the dispatcher, of the cleanup
  coordinator and of the capacity controller; meanwhile the engine, the file system, the clock and the
  SQL driver do as they like, but leave the database alone. The one request with a premise is the
  preparation of a job, which must not meet a fault of the driver: when it cannot record the audit
  event, it releases the operation even if it could not fail the job.
\<close>

inductive server_step :: "(controller \<times> 'x) config \<Rightarrow> 'x platform \<Rightarrow> settings \<Rightarrow> 'x server \<Rightarrow> 'x server \<Rightarrow> bool"
  for base pf se where
  request: "(\<forall>m. request = PrepareJobRequest m \<longrightarrow> faults (sys_store s) = []) \<Longrightarrow>
    server_step base pf se s (snd (serve (autback_config base pf se) h request s))"
| dispatch: "server_step base pf se s (snd (Dispatcher_RunOnce (autback_dispatcher pf se) s))"
| cleanup: "server_step base pf se s (snd (Coordinator_RunOnce (autback_coordinator pf se) s))"
| maintain: "server_step base pf se s (snd (autback_maintain pf se trigger s))"
| environment: "db (sys_store t) = db (sys_store s) \<Longrightarrow> server_step base pf se s t"

lemma server_step_sound: "server_step base pf se s t \<Longrightarrow> sound s \<Longrightarrow> sound t"
proof (induction rule: server_step.induct)
  case (request request s h)
  then show ?case using autback.serve_kept [of s request base pf se h] by (simp add: kept_def)
next
  case (dispatch s)
  then show ?case using Dispatcher_RunOnce_kept [OF dispatcher_sound, of pf se] by (simp add: keeps_def)
next
  case (cleanup s)
  then show ?case using coordinator_sound [of pf se] by (simp add: keeps_def)
next
  case (maintain s trigger)
  then show ?case using maintain_sound [of pf se trigger] by (simp add: keeps_def)
next
  case (environment t s)
  then show ?case by (simp add: sound_store_def)
qed

section \<open>Who is refused\<close>

text \<open>A caller whose header carries no token that the store knows as live.\<close>

definition stranger :: "(string \<Rightarrow> string) \<Rightarrow> header \<Rightarrow> cworld \<Rightarrow> bool" where
  "stranger mac h w \<longleftrightarrow>
     (\<forall>token kind i r. bearer h = Some token \<longrightarrow> parseToken token = Some (kind, i) \<longrightarrow> r \<in> set (tokens (db w)) \<longrightarrow> t_id r = i \<longrightarrow>
        token_live (now w) kind r \<longrightarrow> digest mac token \<noteq> t_digest r)"

text \<open>The requests that need no token: those that bring an identity token or an enrollment code instead.\<close>

fun exchange :: "api_request \<Rightarrow> bool" where
  "exchange (ExchangeGitHubOIDCRequest _ _) = True"
| "exchange (ExchangeEnrollmentCodeRequest _) = True"
| "exchange _ = False"

lemma stranger_refused:
  assumes "stranger (cfg_mac c) h (sys_store s)"
  obtains t where "authenticate c h s = (Inl (ErrConnect CodeUnauthenticated ErrUnauthenticated), t)"
    "db (sys_store t) = db (sys_store s)" "sys_runtime t = sys_runtime s"
proof (cases "bearer h")
  case (Some token)
  let ?w = "sys_store s"
  have post: "post (\<lambda>_ _. False) (\<lambda>e v. e = ErrUnauthenticated \<and> db v = db ?w) (Authenticate (cfg_mac c) token ?w)"
  proof (cases "parseToken token")
    case ki: (Some ki)
    obtain kind i where "ki = (kind, i)" by force
    then have "\<not> token_live (now ?w) kind r \<or> digest (cfg_mac c) token \<noteq> t_digest r"
      if "find (\<lambda>r. t_id r = i) (tokens (db ?w)) = Some r" for r
      using assms Some ki find_SomeD [OF that] by (auto simp: stranger_def)
    then show ?thesis unfolding Authenticate_def ki \<open>ki = (kind, i)\<close> option.case prod.case by (intro wp) auto
  qed (simp add: Authenticate_def)
  obtain r v where "Authenticate (cfg_mac c) token ?w = (r, v)" by force
  then have "authenticate c h s = (Inl (ErrConnect CodeUnauthenticated ErrUnauthenticated), s\<lparr>sys_store := v\<rparr>)" "db v = db ?w"
    using post Some by (cases r; simp add: authenticate_def ask_def connected_def on_store_def bindR_def connectError_def)+
  then show thesis using that [of "s\<lparr>sys_store := v\<rparr>"] by simp
qed (use that in \<open>simp add: authenticate_def\<close>)

lemma refused_everywhere:
  assumes "authenticate c h s = (Inl e, t)" "\<not> exchange request" shows "serve c h request s = (Inl e, t)"
  using assms
  by (cases request)
     (simp_all add: responds_def Server_CreateUser_def BindGitHubIdentity_def RevokeGitHubIdentity_def Server_CreateProject_def
       Server_ListProjects_def Server_AddProjectMember_def Server_ActivateProjectImage_def Server_RollbackProjectImage_def
       Server_SetProjectImagePolicy_def Server_ListProjectImageHistory_def PrepareJob_def Server_StartJob_def GetJob_def Server_ListJobs_def
       CancelJob_def PrepareBuild_def GetBuild_def CancelBuild_def Server_FinishBuild_def Server_CreateGitHubTrust_def
       Server_ListGitHubTrusts_def Server_RevokeGitHubTrust_def Server_CreateDeviceToken_def Server_ListDeviceTokens_def
       Server_RevokeDeviceToken_def Server_CreateEnrollmentCode_def projectConfiguration_def)

text \<open>The project that a request is about: the one it names, or the one of its job or build.\<close>

fun selected :: "database \<Rightarrow> api_request \<Rightarrow> string option" where
  "selected d (AddProjectMemberRequest p _) = Some p"
| "selected d (ActivateProjectImageRequest p _) = Some p"
| "selected d (RollbackProjectImageRequest p) = Some p"
| "selected d (SetProjectImagePolicyRequest p _) = Some p"
| "selected d (ListProjectImageHistoryRequest p) = Some p"
| "selected d (PrepareJobRequest m) = Some (pj_project m)"
| "selected d (StartJobRequest i _) = map_option j_project_id (find (\<lambda>r. j_id r = i) (jobs d))"
| "selected d (GetJobRequest i) = map_option j_project_id (find (\<lambda>r. j_id r = i) (jobs d))"
| "selected d (ListJobsRequest p _ _ _) = Some p"
| "selected d (CancelJobRequest i) = map_option j_project_id (find (\<lambda>r. j_id r = i) (jobs d))"
| "selected d (PrepareBuildRequest p _) = Some p"
| "selected d (GetBuildRequest i) = map_option b_project_id (find (\<lambda>r. b_id r = i) (builds d))"
| "selected d (CancelBuildRequest i) = map_option b_project_id (find (\<lambda>r. b_id r = i) (builds d))"
| "selected d (FinishBuildRequest i _ _) = map_option b_project_id (find (\<lambda>r. b_id r = i) (builds d))"
| "selected d (CreateGitHubTrustRequest p _ _ _ _ _ _) = Some p"
| "selected d (ListGitHubTrustsRequest p) = Some p"
| "selected d _ = None"

definition reaches :: "database \<Rightarrow> principal \<Rightarrow> string \<Rightarrow> bool" where
  "reaches d actor selector \<longleftrightarrow>
     (\<exists>p \<in> set (projects d). (pr_id p = selector \<or> pr_slug p = selector) \<and> may_access d actor p)"

definition refused_at :: "'r system \<Rightarrow> (err + 'a) \<times> 'r system \<Rightarrow> bool" where
  "refused_at t r \<longleftrightarrow> (\<exists>e u. r = (Inl e, u) \<and> db (sys_store u) = db (sys_store t) \<and> sys_runtime u = sys_runtime t)"

lemma refused_bind: "refused_at t r \<Longrightarrow> refused_at t (bindR r k)"
  by (auto simp: refused_at_def)

lemma refused_responds: "refused_at t r \<Longrightarrow> refused_at t (responds f r)"
  by (simp add: responds_def refused_bind)

lemma refused_ask:
  assumes "post (\<lambda>_ _. False) (\<lambda>_ v. db v = db (sys_store t)) (f (sys_store t))" shows "refused_at t (ask f t)"
proof -
  obtain r v where "f (sys_store t) = (r, v)" by force
  then show ?thesis using assms by (cases r) (auto simp: ask_def connected_def on_store_def refused_at_def)
qed

lemma AuthorizeProject_refused:
  assumes "\<not> reaches (db w) actor selector" shows "post (\<lambda>_ _. False) (\<lambda>_ v. db v = db w) (AuthorizeProject actor selector w)"
proof -
  have "\<not> may_access (db w) actor p" if "find (\<lambda>r. pr_id r = selector \<or> pr_slug r = selector) (projects (db w)) = Some p" for p
    using assms find_SomeD [OF that] by (auto simp: reaches_def)
  then show ?thesis unfolding AuthorizeProject_def project_of_def
    by (intro wp) (auto simp: may_access_def scanProject_def split: if_splits)
qed

lemma project_calls_refused:
  assumes "\<not> reaches (db (sys_store t)) actor selector"
  shows "refused_at t (ask (AuthorizeProject actor selector) t)" "refused_at t (ask (ListGitHubTrusts actor selector) t)"
    "gt_project_id trust = selector \<Longrightarrow> refused_at t (ask (CreateGitHubTrust actor trust) t)"
proof -
  note refused = AuthorizeProject_refused [OF assms]
  show "refused_at t (ask (AuthorizeProject actor selector) t)" by (rule refused_ask) (rule refused)
  show "refused_at t (ask (ListGitHubTrusts actor selector) t)"
    by (rule refused_ask, unfold ListGitHubTrusts_def, rule post_bindR, rule post_mono [OF refused]) auto
  show "refused_at t (ask (CreateGitHubTrust actor trust) t)" if "gt_project_id trust = selector"
    by (rule refused_ask, unfold CreateGitHubTrust_def that, rule post_if, simp, rule post_bindR, rule post_mono [OF refused]) auto
qed

lemma refused_read:
  assumes "post (\<lambda>x v. db v = db (sys_store t) \<and> P x) (\<lambda>_ v. db v = db (sys_store t)) (f (sys_store t))"
    and "\<And>x u. db (sys_store u) = db (sys_store t) \<Longrightarrow> P x \<Longrightarrow> refused_at u (k x u)"
  shows "refused_at t (bindR (ask f t) k)"
proof -
  obtain r v where r: "f (sys_store t) = (r, v)" by force
  show ?thesis
  proof (cases r)
    case (Inr x)
    then have "refused_at (t\<lparr>sys_store := v\<rparr>) (k x (t\<lparr>sys_store := v\<rparr>))" "db v = db (sys_store t)" using assms r by simp_all
    then show ?thesis using r Inr by (simp add: ask_def connected_def on_store_def refused_at_def)
  qed (use assms(1) r in \<open>auto simp: ask_def connected_def on_store_def refused_at_def\<close>)
qed

lemma authorizedJob_refused:
  assumes "\<forall>r. find (\<lambda>r. j_id r = i) (jobs (db (sys_store t))) = Some r \<longrightarrow> \<not> reaches (db (sys_store t)) actor (j_project_id r)"
  shows "refused_at t (authorizedJob actor i t)"
  unfolding authorizedJob_def
proof (rule refused_read [where P = "\<lambda>j. \<not> reaches (db (sys_store t)) actor (job_project_id j)"])
  show "post (\<lambda>j v. db v = db (sys_store t) \<and> \<not> reaches (db (sys_store t)) actor (job_project_id j)) (\<lambda>_ v. db v = db (sys_store t))
      (Job i (sys_store t))"
    unfolding Job_def by (intro wp) (use assms in \<open>auto simp: scanJob_def\<close>)
qed (simp add: refused_bind project_calls_refused(1))

lemma authorizedBuild_refused:
  assumes "\<forall>r. find (\<lambda>r. b_id r = i) (builds (db (sys_store t))) = Some r \<longrightarrow> \<not> reaches (db (sys_store t)) actor (b_project_id r)"
  shows "refused_at t (authorizedBuild actor i t)"
  unfolding authorizedBuild_def
proof (rule refused_read [where P = "\<lambda>b. \<not> reaches (db (sys_store t)) actor (build_project_id b)"])
  show "post (\<lambda>b v. db v = db (sys_store t) \<and> \<not> reaches (db (sys_store t)) actor (build_project_id b)) (\<lambda>_ v. db v = db (sys_store t))
      (Build i (sys_store t))"
    unfolding Build_def by (intro wp) (use assms in \<open>auto simp: scanBuild_def\<close>)
qed (simp add: refused_bind project_calls_refused(1))

lemma outsider_refused:
  assumes "authenticate c h s = (Inr actor, t)" "selected (db (sys_store t)) request = Some selector"
    and "\<not> reaches (db (sys_store t)) actor selector"
  shows "refused_at t (serve c h request s)"
  using assms
  by (cases request)
     (auto simp: Server_AddProjectMember_def Server_ActivateProjectImage_def Server_RollbackProjectImage_def
         Server_SetProjectImagePolicy_def Server_ListProjectImageHistory_def PrepareJob_def Server_StartJob_def GetJob_def Server_ListJobs_def
         CancelJob_def PrepareBuild_def GetBuild_def CancelBuild_def Server_FinishBuild_def Server_CreateGitHubTrust_def
         Server_ListGitHubTrusts_def projectConfiguration_def intro!: refused_responds refused_bind project_calls_refused authorizedJob_refused authorizedBuild_refused)

section \<open>Properties\<close>

text \<open>
  C?: the server keeps its store consistent. Whatever requests come, from whoever, between the turns
  of the dispatcher, of the cleanup and of the capacity controller, and whatever the engine, the file
  system, the clock and the driver do: at most one operation owns the worker, every job and build has
  its one row in the queue, the states of both agree, and the keys of users, tokens and projects hold.
\<close>

theorem server_keeps_consistency:
  assumes "(server_step base pf se)\<^sup>*\<^sup>* s t" "consistent (db (sys_store s))" "auth_inv (db (sys_store s))"
  shows "consistent (db (sys_store t)) \<and> auth_inv (db (sys_store t))"
proof -
  have "sound t" using assms(1)
  proof (induction rule: rtranclp_induct)
    case base
    show ?case using assms(2,3) by (simp add: sound_store_def)
  qed (rule server_step_sound)
  then show ?thesis by (simp add: sound_store_def)
qed

text \<open>
  C?: strangers are refused. A request without a token that the store knows as live, whether the
  header has none, an unknown, revoked or expired one, or one with another secret, is answered with
  the code for a missing authentication, whatever the driver does, and changes neither the database
  nor anything outside; the two exchanges of other credentials are the only exceptions.
\<close>

theorem strangers_refused:
  assumes "stranger (cfg_mac c) h (sys_store s)" "\<not> exchange request"
  shows "\<exists>t. serve c h request s = (Inl (ErrConnect CodeUnauthenticated ErrUnauthenticated), t) \<and>
    db (sys_store t) = db (sys_store s) \<and> sys_runtime t = sys_runtime s"
  using stranger_refused [OF assms(1)] refused_everywhere [OF _ assms(2)] by metis

text \<open>
  C?: projects are closed to outsiders. A request about a project, or about a job or build of one, by
  an authenticated caller who has no access to any project that the identifier selects, is answered
  with an error, whatever the driver does, and after the authentication nothing changes: not the
  database, and nothing outside.
\<close>

theorem outsiders_refused:
  assumes "authenticate c h s = (Inr actor, t)" "selected (db (sys_store t)) request = Some selector"
    and "\<not> reaches (db (sys_store t)) actor selector"
  shows "\<exists>e u. serve c h request s = (Inl e, u) \<and> db (sys_store u) = db (sys_store t) \<and> sys_runtime u = sys_runtime t"
  using outsider_refused [OF assms] unfolding refused_at_def .

section \<open>A small server\<close>

definition demo_platform :: "task list platform" where
  "demo_platform =
     \<lparr>pf_engine = demo_engine snd, pf_files = demo_files, pf_read_log = \<lambda>_ x. (Inl os_ErrNotExist, x),
      pf_host =
        \<lparr>m_stats = \<lambda>_. \<lparr>sf_Blocks = 0, sf_Bavail = 0, sf_Bsize = 0, sf_Files = 0, sf_Ffree = 0\<rparr>, m_fails = \<lambda>_. None, m_clock = \<lambda>_. 7,
         m_runtime = None, m_BuildCache = None, m_ReadDir = \<lambda>_ _. Inr [], m_WalkDir = \<lambda>_ _. [], m_RemoveAll = \<lambda>_ x. (None, x),
         m_Flock = \<lambda>x. (Inr (), x), m_Funlock = id, m_Cancel = \<lambda>_ x. (None, x), m_Remove = \<lambda>_ x. (None, x)\<rparr>,
      pf_wait = \<lambda>_ x. (None, x),
      pf_authority =
        \<lparr>au_ca_pem = ''ca'', au_server_name = ''autback'', au_now = \<lambda>_. 7, au_generate_key = \<lambda>x. (Inr ''key'', x),
         au_random_serial = \<lambda>x. (Inr 1, x), au_create_certificate = \<lambda>_ _ x. (Inr ''der'', x), au_marshal_key = Inr, au_pem_encode = (@)\<rparr>,
      pf_verifier = None, pf_directory = None, pf_wake = id, pf_advance = id, pf_draining = \<lambda>_. False, pf_marshal = \<lambda>_. Inr [],
      pf_text = \<lambda>_. []\<rparr>"

definition demo_settings :: settings where
  "demo_settings =
     \<lparr>se_JobsRoot = ''/jobs'', se_SecretRoot = ''/secrets'', se_CacheRoot = ''/cache'', se_CASInternal = ''cas:1'', se_CASInstance = ''autback'',
      se_Entrypoint = ''/entrypoint'', se_HostUID = ''0'', se_HostGID = ''0'', se_Resources = demo_envelope, se_CleanupGrace = 0,
      se_CleanupTimeout = 0, se_DryRun = False, se_ServiceRetention = 0, se_AdmissionGrace = 0, se_BuildLeaseTimeout = 0,
      se_PreparationLeaseTimeout = 0\<rparr>"

definition demo_base :: "(controller \<times> task list) config" where
  "demo_base =
     \<lparr>cfg_mac = \<lambda>_. ''x'', cfg_codec = \<lparr>marshal_cursor = \<lambda>_. [], unmarshal_cursor = \<lambda>_. None\<rparr>,
      cfg_scheduler = swarm_scheduler (autback_scheduler demo_platform demo_settings),
      cfg_dispatcher = \<lparr>dp_run_once = \<lambda>s. (None, s), dp_advance = id, dp_release = \<lambda>_ _ s. (None, s)\<rparr>,
      cfg_authority = on_authority (pf_authority demo_platform), cfg_oidc_verifier = None, cfg_cas_endpoint = ''cas'',
      cfg_cas_instance = ''autback'', cfg_buildkit_endpoint = ''buildkit'', cfg_credential_ttl = 15 * minute,
      cfg_allow_unpinned_images = False, cfg_capacity_check = None, cfg_required_build_capability = [], cfg_required_job_capability = [],
      cfg_ready = None, cfg_readiness = [], cfg_readiness_probe_timeout = 0, cfg_github_directory = None,
      cfg_marshal_job = \<lambda>_. Inr [], cfg_marshal_build = Inr, cfg_sha256 = id, cfg_invalid_text = \<lambda>_. []\<rparr>"

abbreviation demo_config :: "(controller \<times> task list) config" where
  "demo_config \<equiv> autback_config demo_base demo_platform demo_settings"

text \<open>Two projects, a job of the first one in preparation, and a workflow with a session for the second one.\<close>

definition guest_token :: token_row where
  "guest_token = new_token_row ''g'' PrincipalGitHub None (Some ''q'') [] ''repo'' (hex_encode ''x'') 1 None"

definition demo_server :: "driver_err option list \<Rightarrow> task list server" where
  "demo_server fs =
     \<lparr>sys_store = \<lparr>db = (db demo_projects)\<lparr>tokens := [guest_token], jobs := [(queued_job_row ''a'')\<lparr>j_status := StatusPreparing\<rparr>],
          queue := [queued_row 1 OperationJob ''a'' OperationQueued 1 None], next_sequence := 2\<rparr>,
        faults = fs, now = 4, entropy = []\<rparr>,
      sys_runtime = (New DefaultPolicy, []), sys_cancelled = False\<rparr>"

definition guest_header :: header where
  "guest_header n = (if n = ''Authorization'' then [''Bearer autback_gh_g_x''] else [])"

lemma demo_server_sound: "consistent (db (sys_store (demo_server fs)))" "auth_inv (db (sys_store (demo_server fs)))"
  by (simp_all add: demo_server_def demo_projects_def demo_auth_def empty_database_def consistent_def links_ok_def linked_def queue_inv_def
      queue_ok_def row_simps q_reserved_def q_key_def jobs_ok_def builds_ok_def agree_def is_op_def queued_job_row_def auth_inv_def
      demo_project_def new_project_row_def demo_user_def guest_token_def new_token_row_def)

theorem server_keeps_consistency_witness:
  "consistent (db (sys_store (snd (serve demo_config guest_header (CancelJobRequest ''a'') (demo_server [None, Some DriverFailed])))))"
proof -
  let ?s = "demo_server [None, Some DriverFailed]"
  have "(server_step demo_base demo_platform demo_settings)\<^sup>*\<^sup>* ?s (snd (serve demo_config guest_header (CancelJobRequest ''a'') ?s))"
    by (rule r_into_rtranclp, rule server_step.request) simp
  then show ?thesis using server_keeps_consistency [OF _ demo_server_sound] by blast
qed

theorem strangers_refused_witness:
  "\<exists>t. serve demo_config (\<lambda>_. []) (CancelJobRequest ''a'') (demo_server [Some DriverFailed]) =
     (Inl (ErrConnect CodeUnauthenticated ErrUnauthenticated), t) \<and> db (sys_store t) = db (sys_store (demo_server [Some DriverFailed]))"
proof -
  have "stranger (cfg_mac demo_config) (\<lambda>_. []) (sys_store (demo_server [Some DriverFailed]))"
    by (simp add: stranger_def bearer_def header_get_def)
  then show ?thesis using strangers_refused [of demo_config "\<lambda>_. []" "demo_server [Some DriverFailed]" "CancelJobRequest ''a''"] by auto
qed

theorem outsiders_refused_witness:
  "\<exists>e. fst (serve demo_config guest_header (CancelJobRequest ''a'') (demo_server [])) = Inl e"
proof -
  let ?s = "demo_server []" and ?actor = "\<lparr>p_kind = PrincipalGitHub, p_token_id = ''g'', p_user_id = [], p_project_id = ''q'', p_admin = False, p_subject = ''repo''\<rparr>"
  have parse: "parseToken ''autback_gh_g_x'' = Some (PrincipalGitHub, ''g'')" by code_simp
  have "bearer guest_header = Some ''autback_gh_g_x''" by code_simp
  then obtain t where t: "authenticate demo_config guest_header ?s = (Inr ?actor, t)"
      "projects (db (sys_store t)) = projects (db demo_projects)" "jobs (db (sys_store t)) = [(queued_job_row ''a'')\<lparr>j_status := StatusPreparing\<rparr>]"
    using parse
    by (simp add: authenticate_def ask_def on_store_def connected_def Authenticate_def demo_server_def autback_config_def demo_base_def
        guest_token_def new_token_row_def token_live_def digest_def demo_projects_def demo_auth_def query_def exec_def stmt_def mask_def
        attempt_def update_tokens_def coalesce_def Let_def)
  have "selected (db (sys_store t)) (CancelJobRequest ''a'') = Some ''p''" using t(3) by (simp add: queued_job_row_def)
  moreover have "\<not> reaches (db (sys_store t)) ?actor ''p''"
    using t(2) by (simp add: reaches_def demo_projects_def demo_project_def new_project_row_def may_access_def)
  ultimately show ?thesis using outsiders_refused [OF t(1)] by fastforce
qed

text \<open>
  Why the preparation of a job needs a driver without faults: when the audit event is not recorded
  and the job cannot be failed either, the operation is released all the same, and the job stays in
  preparation without one.
\<close>

lemma given_up_job_still_preparing:
  "let s = give_up_job demo_config ''a'' (demo_server [Some DriverFailed])
   in map j_status (jobs (db (sys_store s))) = [StatusPreparing] \<and>
      map q_state (queue (db (sys_store s))) = [OperationTerminalizing] \<and> \<not> consistent (db (sys_store s))"
  by (simp add: give_up_job_def autback_config_def autback_dispatcher_def Release_def Coordinator_Request_def on_store_def FailJob_def
      demo_server_def in_tx_def stmt_def exec_def BeginOperationCleanup_def update_queue_def row_simps is_op_def queued_row_def q_reserved_def
      consistent_def jobs_ok_def agree_def queued_job_row_def demo_projects_def demo_auth_def Let_def)

text \<open>
  Why the reconciler is not one of the steps: it gives up a preparation by its identifier alone. If
  the job has started since the list of stale preparations was read, its operation is released while
  the job is running.
\<close>

definition started_server :: "task list server" where
  "started_server = (demo_server [])\<lparr>sys_store := (sys_store (demo_server []))\<lparr>
     db := (db (sys_store (demo_server [])))\<lparr>jobs := [(queued_job_row ''a'')\<lparr>j_status := StatusRunning\<rparr>],
       queue := [queued_row 1 OperationJob ''a'' OperationActive 1 (Some 2)]\<rparr>\<rparr>\<rparr>"

lemma late_cancellation_releases_running_job:
  "let s = snd (cancel_stale (autback_reconciler demo_platform demo_settings) (scanJob (queued_job_row ''a'')) started_server)
   in map j_status (jobs (db (sys_store s))) = [StatusRunning] \<and>
      map q_state (queue (db (sys_store s))) = [OperationTerminalizing] \<and> \<not> consistent (db (sys_store s))"
  by (simp add: cancel_stale_def release_op_def autback_reconciler_def New_reconciler_def sqlite_reconcile_def RequestJobCancellation_def
      update_jobs_def Job_def query_def scanJob_def started_server_def autback_dispatcher_def Release_def Coordinator_Request_def on_store_def
      demo_server_def in_tx_def stmt_def exec_def BeginOperationCleanup_def update_queue_def row_simps is_op_def queued_row_def q_reserved_def
      consistent_def jobs_ok_def agree_def queued_job_row_def demo_projects_def demo_auth_def Let_def)

end
