(* ===== verification/Spec2Isabelle.thy ===== *)
theory Spec2Isabelle
  imports Store_Properties Reconciler Project_Properties Job_Pages Redact Retry Capacity_System Server_Properties
begin

text \<open>
  A verification development for autback, a service that runs the jobs and image builds of its
  projects on one worker.
\<close>

section \<open>The store as a whole\<close>

text \<open>
  A run of the control plane: the calls that the components make on operations, in the discipline
  they follow, interleaved with any calls on users, tokens and projects.
\<close>

inductive system_reachable :: "(string \<Rightarrow> string) \<Rightarrow> database \<Rightarrow> bool" for mac where
  start: "fresh d \<Longrightarrow> auth_inv d \<Longrightarrow> system_reachable mac d"
| operation: "system_reachable mac d \<Longrightarrow> protocol_step d d' \<Longrightarrow> system_reachable mac d'"
| auth: "system_reachable mac (db w) \<Longrightarrow> system_reachable mac (db (run_auth mac c w))"

lemma fresh_consistent: "fresh d \<Longrightarrow> consistent d"
  by (rule protocol_reachable_consistent) (rule protocol_reachable.start)



end
